(* ===== verification/Prelude.thy ===== *)
theory Prelude
  imports Main "HOL-Library.Word"
begin

text \<open>
  Shared ground of the development: the machine types of the C++ sources, the result type of
  fallible operations, the standard-library algorithms the sources call (\<open>std::search\<close>,
  bounds-checked span access) and the generic list lemmas that the component theories use.

  A C++ \<open>std::vector<uint8_t>\<close>, \<open>std::span\<close> or \<open>boost::circular_buffer<uint8_t>\<close> is the list
  of its bytes; an iterator into it is its distance from \<open>begin()\<close>, so \<open>end()\<close> is the length.
\<close>

named_theorems wire_simps \<open>unfolding rules of the wire-level constants\<close>
named_theorems decode_defs \<open>definitions of the payload decoders\<close>

type_synonym u8 = "8 word"
type_synonym u16 = "16 word"
type_synonym u32 = "32 word"
type_synonym bytes = "u8 list"

section \<open>Error codes\<close>

text \<open>
  The two error enumerations of \<open>core/errors\<close>. A \<open>boost::system::error_code\<close> compares by value
  and category, so one datatype with a constructor per code is exactly its equality.
\<close>

datatype error_code =
    DataAvailableToProcess
  | WaitingForMoreData
  | InvalidPacketFormat
  | UnknownFailure
  | ChecksumFailure
  | OverlappingPackets
  | Error_InvalidMessageData
  | Error_CannotFindGenerator
  | Error_UnknownMessageType
  | Error_GeneratorFailed
  | Error_FailedToSerialize
  | Error_FailedToDeserialize

type_synonym 'a expected = "error_code + 'a"

section \<open>Span access\<close>

text \<open>
  Reading \<open>span[i]\<close> past the end is undefined behaviour in C++. The decoders therefore run in a
  result type that keeps the two ways of not succeeding apart: \<open>TooShort\<close> is the decoder's own
  \<open>return false\<close>, \<open>OutOfRange\<close> is an access outside the span.
\<close>

datatype decode_failure = TooShort | OutOfRange

type_synonym 'a decoded = "decode_failure + 'a"

definition rd :: "bytes \<Rightarrow> nat \<Rightarrow> (u8 \<Rightarrow> 'a decoded) \<Rightarrow> 'a decoded" where
  "rd bs i k = (if i < length bs then k (bs ! i) else Inl OutOfRange)"

definition subspan :: "bytes \<Rightarrow> nat \<Rightarrow> nat \<Rightarrow> (bytes \<Rightarrow> 'a decoded) \<Rightarrow> 'a decoded" where
  "subspan bs i n k = (if i + n \<le> length bs then k (take n (drop i bs)) else Inl OutOfRange)"

lemma rd_in [simp]: "i < length bs \<Longrightarrow> rd bs i k = k (bs ! i)"
  by (simp add: rd_def)

lemma subspan_in [simp]: "i + n \<le> length bs \<Longrightarrow> subspan bs i n k = k (take n (drop i bs))"
  by (simp add: subspan_def)

text \<open>
  \<open>in_span\<close> says that a decoding step did not read outside its span; the rules below push it
  through the reading combinators, each under the bound the code has checked.
\<close>

definition in_span :: "'a decoded \<Rightarrow> bool" where
  "in_span r \<longleftrightarrow> r \<noteq> Inl OutOfRange"

lemma in_span_simps [simp]: "in_span (Inr x)" "in_span (Inl TooShort)"
  by (simp_all add: in_span_def)

lemma in_span_rd: "i < length bs \<Longrightarrow> (\<And>b. in_span (k b)) \<Longrightarrow> in_span (rd bs i k)"
  by simp

lemma in_span_subspan:
  "i + n \<le> length bs \<Longrightarrow> (\<And>s. length s = n \<Longrightarrow> in_span (k s)) \<Longrightarrow> in_span (subspan bs i n k)"
  by simp

lemma case_sum_in_span:
  "in_span r \<Longrightarrow> (\<And>x. in_span (f x)) \<Longrightarrow> in_span (case r of Inl e \<Rightarrow> Inl e | Inr x \<Rightarrow> f x)"
  by (cases r) (auto simp: in_span_def)

section \<open>std::search\<close>

text \<open>
  \<open>std::search(first, last, pat)\<close> on a non-empty pattern: the offset of the first occurrence, or
  the length of the range (\<open>last\<close>) when there is none.
\<close>

fun search_pos :: "'a list \<Rightarrow> 'a list \<Rightarrow> nat" where
  "search_pos pat [] = 0"
| "search_pos pat (x # xs) =
     (if take (length pat) (x # xs) = pat then 0 else Suc (search_pos pat xs))"

lemma search_pos_le [simp]: "search_pos pat xs \<le> length xs"
  by (induction xs) auto

lemma search_pos_match:
  "search_pos pat xs < length xs \<Longrightarrow> take (length pat) (drop (search_pos pat xs) xs) = pat"
  by (induction xs) auto

lemma search_pos_fits:
  assumes "search_pos pat xs < length xs"
  shows "search_pos pat xs + length pat \<le> length xs"
proof -
  have "length (take (length pat) (drop (search_pos pat xs) xs)) = length pat"
    using search_pos_match [OF assms] by simp
  then show ?thesis using assms by simp
qed

lemma search_pos_first:
  "i < search_pos pat xs \<Longrightarrow> take (length pat) (drop i xs) \<noteq> pat"
proof (induction xs arbitrary: i)
  case Nil
  then show ?case by simp
next
  case (Cons x xs)
  then show ?case by (cases i) (auto split: if_splits)
qed

text \<open>How the search proceeds over a prefix in which the pattern does not start.\<close>

lemma search_pos_skip:
  "(\<And>i. i < length ys \<Longrightarrow> take (length pat) (drop i (ys @ zs)) \<noteq> pat) \<Longrightarrow>
   search_pos pat (ys @ zs) = length ys + search_pos pat zs"
proof (induction ys)
  case Nil
  then show ?case by simp
next
  case (Cons y ys)
  have "take (length pat) (drop 0 ((y # ys) @ zs)) \<noteq> pat"
    by (rule Cons.prems) simp
  moreover have "search_pos pat (ys @ zs) = length ys + search_pos pat zs"
  proof (rule Cons.IH)
    fix i assume "i < length ys"
    then show "take (length pat) (drop i (ys @ zs)) \<noteq> pat"
      using Cons.prems [of "Suc i"] by simp
  qed
  ultimately show ?case by simp
qed

text \<open>A match found in a prefix stays the first one when bytes follow.\<close>

lemma search_pos_append:
  "search_pos pat xs < length xs \<Longrightarrow> search_pos pat (xs @ ys) = search_pos pat xs"
proof (induction xs)
  case Nil
  then show ?case by simp
next
  case (Cons x xs)
  have fits: "take (length pat) ((x # xs) @ ys) = take (length pat) (x # xs)"
    if "length pat \<le> length (x # xs)"
    using that by (simp only: take_append) simp
  show ?case
  proof (cases "take (length pat) (x # xs) = pat")
    case True
    then have "length (take (length pat) (x # xs)) = length pat" by simp
    then have "length pat \<le> length (x # xs)" by simp
    with True fits show ?thesis by simp
  next
    case False
    with Cons.prems have pos: "search_pos pat xs < length xs" by simp
    then have "length pat \<le> length (x # xs)" using search_pos_fits [OF pos] by simp
    with False fits Cons.IH [OF pos] show ?thesis by simp
  qed
qed

text \<open>The searches of the framing code are for two-byte sequences.\<close>

lemma take2_eq: "take (length [a, b]) xs = [a, b] \<longleftrightarrow> (\<exists>zs. xs = a # b # zs)"
  by (cases xs rule: remdups_adj.cases) auto

fun adjacent :: "'a \<Rightarrow> 'a \<Rightarrow> 'a list \<Rightarrow> bool" where
  "adjacent a b (x # y # ys) \<longleftrightarrow> (x = a \<and> y = b) \<or> adjacent a b (y # ys)"
| "adjacent a b _ \<longleftrightarrow> False"

lemma search_pos_adjacent:
  "\<not> adjacent a b (ys @ [a]) \<Longrightarrow> a \<noteq> b \<Longrightarrow> search_pos [a, b] (ys @ a # b # zs) = length ys"
proof (induction ys)
  case Nil
  then show ?case by simp
next
  case (Cons y ys)
  then show ?case by (cases ys) auto
qed

lemma search_pos_not_adjacent:
  "\<not> adjacent a b xs \<Longrightarrow> search_pos [a, b] xs = length xs"
proof (induction xs)
  case Nil
  then show ?case by simp
next
  case (Cons x xs)
  then show ?case by (cases xs) auto
qed

lemma adjacent_snoc:
  "adjacent a b (ys @ [z]) \<longleftrightarrow> adjacent a b ys \<or> (ys \<noteq> [] \<and> last ys = a \<and> z = b)"
proof (induction ys)
  case Nil
  then show ?case by simp
next
  case (Cons y ys)
  then show ?case by (cases ys) auto
qed

lemma adjacent_Cons:
  "adjacent a b (x # xs) \<longleftrightarrow> (\<exists>zs. xs = b # zs \<and> x = a) \<or> adjacent a b xs"
  by (cases xs) auto

section \<open>Lists\<close>

lemma nth_append_first: "i < length xs \<Longrightarrow> (xs @ ys) ! i = xs ! i"
  by (simp add: nth_append)

lemma sum_list_update_word:
  fixes xs :: "'a::len word list"
  shows "i < length xs \<Longrightarrow> sum_list (xs[i := b]) = sum_list xs - xs ! i + b"
proof (induction xs arbitrary: i)
  case Nil
  then show ?case by simp
next
  case (Cons x xs)
  then show ?case by (cases i) (simp_all add: algebra_simps)
qed

section \<open>Characters\<close>

text \<open>
  The character functions of \<open>cctype\<close> in the C locale. A \<open>std::string\<close> is the list of its
  characters, and \<open>s.find(p) != npos\<close> is \<open>occurs p s\<close>: an empty pattern occurs everywhere.
\<close>

definition toupper :: "char \<Rightarrow> char" where
  "toupper c = (let n = of_char c :: nat in if 97 \<le> n \<and> n \<le> 122 then char_of (n - 32) else c)"

definition tolower :: "char \<Rightarrow> char" where
  "tolower c = (let n = of_char c :: nat in if 65 \<le> n \<and> n \<le> 90 then char_of (n + 32) else c)"

definition isalnum :: "char \<Rightarrow> bool" where
  "isalnum c = (let n = of_char c :: nat in
     (48 \<le> n \<and> n \<le> 57) \<or> (65 \<le> n \<and> n \<le> 90) \<or> (97 \<le> n \<and> n \<le> 122))"

definition isspace :: "char \<Rightarrow> bool" where
  "isspace c = (let n = of_char c :: nat in n = 32 \<or> (9 \<le> n \<and> n \<le> 13))"

definition blank_or_tab :: "char \<Rightarrow> bool" where
  "blank_or_tab c \<longleftrightarrow> c = CHR '' '' \<or> c = CHR 0x09"

definition trim_with :: "(char \<Rightarrow> bool) \<Rightarrow> string \<Rightarrow> string" where
  "trim_with p s = rev (dropWhile p (rev (dropWhile p s)))"

text \<open>The pieces of a text between the separators; a separator at either end leaves an empty piece.\<close>

fun split_on :: "(char \<Rightarrow> bool) \<Rightarrow> string \<Rightarrow> string list" where
  "split_on p [] = [[]]"
| "split_on p (c # s) =
     (case split_on p s of
        [] \<Rightarrow> [[c]]
      | piece # pieces \<Rightarrow> if p c then [] # piece # pieces else (c # piece) # pieces)"

definition TrimWhitespace :: "string \<Rightarrow> string" where
  "TrimWhitespace s = trim_with isspace s"

definition EqualsCaseInsensitive :: "string \<Rightarrow> string \<Rightarrow> bool" where
  "EqualsCaseInsensitive a b \<longleftrightarrow> map tolower a = map tolower b"

definition starts_with :: "string \<Rightarrow> string \<Rightarrow> bool" where
  "starts_with prefix s \<longleftrightarrow> take (length prefix) s = prefix"

fun occurs :: "string \<Rightarrow> string \<Rightarrow> bool" where
  "occurs pat [] \<longleftrightarrow> pat = []"
| "occurs pat (x # xs) \<longleftrightarrow> take (length pat) (x # xs) = pat \<or> occurs pat xs"

lemma occurs_iff: "occurs pat s \<longleftrightarrow> (\<exists>us vs. s = us @ pat @ vs)"
proof (induction s)
  case Nil
  then show ?case by simp
next
  case (Cons x xs)
  have start: "take (length pat) (x # xs) = pat \<longleftrightarrow> (\<exists>vs. x # xs = pat @ vs)"
    by (metis append_eq_conv_conj append_take_drop_id)
  have "(\<exists>us vs. x # xs = us @ pat @ vs) \<longleftrightarrow>
      (\<exists>vs. x # xs = pat @ vs) \<or> (\<exists>us vs. xs = us @ pat @ vs)" (is "?l \<longleftrightarrow> ?r")
  proof
    assume ?l
    then obtain us vs where "x # xs = us @ pat @ vs" by blast
    then show ?r by (cases us) auto
  next
    assume ?r
    then show ?l by (metis append_Cons append_Nil)
  qed
  then show ?case using start Cons by simp
qed

section \<open>Ordered maps\<close>

text \<open>
  A \<open>std::map\<close> is the list of its entries in the order of the keys, which is the order a loop visits
  them in. \<open>put\<close> is \<open>m[k] = v\<close>, \<open>remove\<close> is \<open>erase(k)\<close>, and \<open>map_of\<close> is the lookup.
\<close>

fun put :: "'k::linorder \<Rightarrow> 'v \<Rightarrow> ('k \<times> 'v) list \<Rightarrow> ('k \<times> 'v) list" where
  "put k v [] = [(k, v)]"
| "put k v ((k', v') # m) =
     (if k < k' then (k, v) # (k', v') # m
      else if k = k' then (k, v) # m
      else (k', v') # put k v m)"

definition erase :: "'k \<Rightarrow> ('k \<times> 'v) list \<Rightarrow> ('k \<times> 'v) list" where
  "erase k m = filter (\<lambda>e. fst e \<noteq> k) m"

definition ordered :: "('k::linorder \<times> 'v) list \<Rightarrow> bool" where
  "ordered m \<longleftrightarrow> sorted_wrt (<) (map fst m)"

lemma put_keys: "set (map fst (put k v m)) = insert k (set (map fst m))"
  by (induction k v m rule: put.induct) auto

lemma ordered_put: "ordered m \<Longrightarrow> ordered (put k v m)"
proof (induction k v m rule: put.induct)
  case (2 k v k' v' m)
  then show ?case using put_keys [of k v m] by (auto simp: ordered_def)
qed (simp add: ordered_def)

lemma ordered_erase: "ordered m \<Longrightarrow> ordered (erase k m)"
  by (induction m) (auto simp: ordered_def erase_def)

lemma ordered_Nil [simp]: "ordered []"
  by (simp add: ordered_def)

lemma lookup_put: "ordered m \<Longrightarrow> map_of (put k v m) = (map_of m)(k \<mapsto> v)"
  by (induction k v m rule: put.induct) (auto simp: ordered_def fun_eq_iff)

lemma lookup_erase: "map_of (erase k m) = (map_of m)(k := None)"
  by (induction m) (auto simp: erase_def fun_eq_iff)

section \<open>Word casts\<close>

lemma ucast_add_narrow:
  fixes x y :: "'a::len word"
  assumes "LENGTH('b::len) \<le> LENGTH('a)"
  shows "(ucast (x + y) :: 'b word) = ucast x + ucast y"
  using assms by transfer (metis min.absorb1 take_bit_add take_bit_take_bit)

lemma ucast_ucast_wide:
  fixes x :: "'b::len word"
  assumes "LENGTH('b::len) \<le> LENGTH('a::len)"
  shows "(ucast (ucast x :: 'a word) :: 'b word) = x"
  using assms by transfer (simp add: min_def)

lemma ucast_mask_narrow:
  fixes x :: "'a::len word"
  shows "(ucast (and x (mask LENGTH('b))) :: 'b::len word) = ucast x"
  by (simp flip: take_bit_eq_mask) (transfer, simp add: min.commute)

text \<open>Splitting a 16-bit value into bytes and putting it together again, high byte first.\<close>

lemma u16_from_bytes:
  fixes w :: u16
  shows "or (push_bit 8 (ucast (ucast (drop_bit 8 w) :: u8))) (ucast (ucast w :: u8)) = w"
  by (rule bit_word_eqI) (auto simp: bit_simps not_less)

lemma u32_from_bytes:
  fixes w :: u32
  shows "or (push_bit 24 (ucast (ucast (drop_bit 24 w) :: u8)))
     (or (push_bit 16 (ucast (ucast (drop_bit 16 w) :: u8)))
       (or (push_bit 8 (ucast (ucast (drop_bit 8 w) :: u8))) (ucast (ucast w :: u8)))) = w"
proof (rule bit_word_eqI)
  fix n
  assume "n < LENGTH(32)"
  then show "bit (or (push_bit 24 (ucast (ucast (drop_bit 24 w) :: u8)))
     (or (push_bit 16 (ucast (ucast (drop_bit 16 w) :: u8)))
       (or (push_bit 8 (ucast (ucast (drop_bit 8 w) :: u8))) (ucast (ucast w :: u8)))) :: u32) n
     = bit w n"
    by (cases "n < 8"; cases "n < 16"; cases "n < 24") (auto simp: bit_simps)
qed

end
