(* ===== verification/Jandy_Wire.thy ===== *)
theory Jandy_Wire
  imports Prelude
begin

text \<open>
  The byte layer of the Jandy protocol: the framing constants, the checksum
  (\<open>jandy_checksum.h\<close>) and the DLE-NUL stuffing of a packet (\<open>jandy_null_handler.cpp\<close>). A packet
  is \<open>DLE STX destination type payload checksum DLE ETX\<close>; every \<open>DLE\<close> between the header and the
  footer, the checksum byte included, is sent as \<open>DLE NUL\<close>.

  The lemmas show that the checksum is the byte sum (so it catches every single-byte change),
  that stuffing never leaves a frame marker inside a packet and adds nothing to the sum, and
  that both de-stuffing routines invert it.
\<close>

section \<open>Constants\<close>

definition HEADER_BYTE_DLE :: u8 where "HEADER_BYTE_DLE = 0x10"
definition HEADER_BYTE_STX :: u8 where "HEADER_BYTE_STX = 0x02"
definition HEADER_BYTE_ETX :: u8 where "HEADER_BYTE_ETX = 0x03"

definition PACKET_HEADER_LENGTH :: nat where "PACKET_HEADER_LENGTH = 4"
definition PACKET_FOOTER_LENGTH :: nat where "PACKET_FOOTER_LENGTH = 3"
definition MAXIMUM_PACKET_LENGTH :: nat where "MAXIMUM_PACKET_LENGTH = 128"
definition MINIMUM_PACKET_LENGTH :: nat where
  "MINIMUM_PACKET_LENGTH = PACKET_HEADER_LENGTH + PACKET_FOOTER_LENGTH"

lemmas jandy_consts [wire_simps] =
  HEADER_BYTE_DLE_def HEADER_BYTE_STX_def HEADER_BYTE_ETX_def
  PACKET_HEADER_LENGTH_def PACKET_FOOTER_LENGTH_def MAXIMUM_PACKET_LENGTH_def
  MINIMUM_PACKET_LENGTH_def

section \<open>Checksum\<close>

text \<open>The sum is accumulated in a \<open>uint32_t\<close> and truncated to its low byte at the end.\<close>

fun checksum_loop :: "u32 \<Rightarrow> bytes \<Rightarrow> u32" where
  "checksum_loop checksum [] = checksum"
| "checksum_loop checksum (elem # rest) = checksum_loop (checksum + ucast elem) rest"

definition JandyPacket_CalculateChecksum :: "bytes \<Rightarrow> u8" where
  "JandyPacket_CalculateChecksum message_bytes = ucast (and (checksum_loop 0 message_bytes) 0xFF)"

lemma checksum_loop_ucast: "(ucast (checksum_loop acc bs) :: u8) = ucast acc + sum_list bs"
  by (induction bs arbitrary: acc)
     (simp_all add: ucast_add_narrow ucast_ucast_wide algebra_simps)

lemma checksum_eq_sum: "JandyPacket_CalculateChecksum bs = sum_list bs"
proof -
  have "(0xFF :: u32) = mask LENGTH(8)"
    by (simp add: mask_eq_exp_minus_1)
  then have "JandyPacket_CalculateChecksum bs = ucast (checksum_loop 0 bs)"
    unfolding JandyPacket_CalculateChecksum_def by (simp only: ucast_mask_narrow)
  then show ?thesis
    by (simp add: checksum_loop_ucast)
qed

lemma checksum_single_byte:
  assumes "i < length bs"
  shows "JandyPacket_CalculateChecksum (bs[i := b]) = JandyPacket_CalculateChecksum bs \<longleftrightarrow> b = bs ! i"
  using assms by (simp add: checksum_eq_sum sum_list_update_word algebra_simps)

section \<open>DLE-NUL stuffing\<close>

text \<open>
  The escape loop of \<open>JandyPacket_NullCharHandler_Serialization\<close> over the bytes between
  \<open>start_it\<close> and \<open>end_it\<close>: after each \<open>DLE\<close> a \<open>0x00\<close> is inserted and the iterator moves past it.
\<close>

fun null_stuff :: "bytes \<Rightarrow> bytes" where
  "null_stuff [] = []"
| "null_stuff (b # bs) =
     (if b = HEADER_BYTE_DLE then b # 0x00 # null_stuff bs else b # null_stuff bs)"

definition JandyPacket_NullCharHandler_Serialization :: "bytes \<Rightarrow> bytes" where
  "JandyPacket_NullCharHandler_Serialization message_bytes =
     (if length message_bytes < MINIMUM_PACKET_LENGTH then message_bytes
      else take 2 message_bytes
           @ null_stuff (take (length message_bytes - 2 - 2) (drop 2 message_bytes))
           @ drop (length message_bytes - 2) message_bytes)"

text \<open>The stateful \<open>std::erase_if\<close> predicate: drop a NUL that follows a \<open>0x10\<close>.\<close>

fun null_filter :: "bool \<Rightarrow> bytes \<Rightarrow> bytes" where
  "null_filter last_byte_was_0x10 [] = []"
| "null_filter last_byte_was_0x10 (current_byte # rest) =
     (let should_remove = (last_byte_was_0x10 \<and> current_byte = 0x00);
          tail = null_filter (current_byte = 0x10) rest
      in if should_remove then tail else current_byte # tail)"

definition JandyPacket_NullCharHandler_Deserialization :: "bytes \<Rightarrow> bytes" where
  "JandyPacket_NullCharHandler_Deserialization message_bytes = null_filter False message_bytes"

definition JandyPacket_NeedsNullCharHandling :: "bytes \<Rightarrow> bool" where
  "JandyPacket_NeedsNullCharHandling message_bytes = adjacent 0x10 0x00 message_bytes"

text \<open>The span variant stops writing once the \<open>room\<close> left in the output span is used up.\<close>

fun null_filter_span :: "nat \<Rightarrow> bool \<Rightarrow> bytes \<Rightarrow> bytes" where
  "null_filter_span room last_byte_was_0x10 [] = []"
| "null_filter_span room last_byte_was_0x10 (byte # rest) =
     (let should_skip = (last_byte_was_0x10 \<and> byte = 0x00) in
      if should_skip then null_filter_span room (byte = 0x10) rest
      else if room = 0 then []
      else byte # null_filter_span (room - 1) (byte = 0x10) rest)"

definition JandyPacket_NullCharHandler_DeserializationToSpan :: "bytes \<Rightarrow> nat \<Rightarrow> bytes" where
  "JandyPacket_NullCharHandler_DeserializationToSpan input output_size =
     null_filter_span output_size False input"

subsection \<open>Inverting the stuffing\<close>

lemma null_filter_stuff:
  "null_filter False (null_stuff bs @ rest) = bs @ null_filter False rest"
  by (induction bs) (simp_all add: jandy_consts)

lemma null_filter_other: "b \<noteq> 0x10 \<Longrightarrow> null_filter False (b # bs) = b # null_filter False bs"
  by simp

lemma null_filter_span_eq:
  "length bs \<le> room \<Longrightarrow> null_filter_span room l bs = null_filter l bs"
proof (induction bs arbitrary: room l)
  case Nil
  then show ?case by simp
next
  case (Cons b bs)
  then obtain r where "room = Suc r" by (cases room) auto
  with Cons show ?case by (simp add: Let_def)
qed

lemma null_filter_id:
  "\<not> adjacent 0x10 0x00 bs \<Longrightarrow> (bs \<noteq> [] \<Longrightarrow> l \<Longrightarrow> hd bs \<noteq> 0x00) \<Longrightarrow> null_filter l bs = bs"
proof (induction bs arbitrary: l)
  case Nil
  then show ?case by simp
next
  case (Cons b bs)
  then have "null_filter (b = 0x10) bs = bs"
    by (intro Cons.IH) (auto simp: adjacent_Cons neq_Nil_conv)
  with Cons show ?case by (auto simp: Let_def)
qed

lemma length_null_filter: "length (null_filter l bs) \<le> length bs"
  by (induction bs arbitrary: l) (auto simp: Let_def le_SucI)

subsection \<open>No frame marker inside a stuffed packet\<close>

lemma stuff_not_adjacent:
  assumes "b \<noteq> 0x00" "b \<noteq> HEADER_BYTE_DLE"
  shows "\<not> adjacent HEADER_BYTE_DLE b (null_stuff bs @ [HEADER_BYTE_DLE])"
proof (induction bs)
  case Nil
  then show ?case by simp
next
  case (Cons x bs)
  then show ?case using assms by (auto simp: adjacent_Cons jandy_consts(1))
qed

lemma sum_list_null_stuff: "sum_list (null_stuff bs) = sum_list bs"
  by (induction bs) simp_all

lemma length_null_stuff:
  "length (null_stuff bs) = length bs + count_list bs HEADER_BYTE_DLE"
  by (induction bs) simp_all

end
