(* ===== verification/Jandy_Ids.thy ===== *)
theory Jandy_Ids
  imports Jandy_Wire
begin

text \<open>
  The identifier spaces of the Jandy bus: the message ids (\<open>jandy_message_ids.h\<close>), the device
  classes and their addresses (\<open>jandy_device_types.h/.cpp\<close>) and the auxillary ids. An enumeration is
  a datatype with its \<open>enum_integer\<close> function and, for \<open>magic_enum::enum_cast\<close>, the lookup in the
  table of its values (the build sets the reflected range to 0..255, so every value is listed).
\<close>

section \<open>Message ids\<close>

datatype JandyMessageIds =
    Probe | Ack | Status | Message | MessageLong
  | Heater_Request | Heater_Status
  | RSSA_DevStatus | RSSA_DevReady
  | AQUARITE_Percent | AQUARITE_GetId | AQUARITE_SetPercent | AQUARITE_PPM
  | PDA_Highlight | PDA_Clear | PDA_ShiftLines | PDA_HighlightChars
  | EPUMP_Status | EPUMP_RPM | EPUMP_Watts
  | Light_Status
  | Chemlink_Response
  | IAQ_PageStart | IAQ_PageButton | IAQ_PageMessage | IAQ_TableMessage | IAQ_PageSubMessage
  | IAQ_PageEnd | IAQ_StartUp | IAQ_MessageLong | IAQ_TitleMessage | IAQ_Poll
  | IAQ_ControlReady | IAQ_PageContinue | IAQ_MainStatus | IAQ_OneTouchStatus | IAQ_AuxStatus
  | IAQ_Heartbeat | IAQ_CommandReady | IAQ_DeviceId
  | DisplayUpdate
  | Unknown_PDA_1B | Unknown_ReadyControl | Unknown

definition JandyMessageIds_values :: "(JandyMessageIds \<times> u8) list" where
  "JandyMessageIds_values =
    [(Probe, 0x00), (Ack, 0x01), (Status, 0x02), (Message, 0x03), (MessageLong, 0x04),
     (Heater_Request, 0x0C), (Heater_Status, 0x0D),
     (RSSA_DevStatus, 0x13), (RSSA_DevReady, 0x07),
     (AQUARITE_Percent, 0x11), (AQUARITE_GetId, 0x14), (AQUARITE_SetPercent, 0x15),
     (AQUARITE_PPM, 0x16),
     (PDA_Highlight, 0x08), (PDA_Clear, 0x09), (PDA_ShiftLines, 0x0F), (PDA_HighlightChars, 0x10),
     (EPUMP_Status, 0x1F), (EPUMP_RPM, 0x44), (EPUMP_Watts, 0x45),
     (Light_Status, 0x19), (Chemlink_Response, 0x21),
     (IAQ_PageStart, 0x23), (IAQ_PageButton, 0x24), (IAQ_PageMessage, 0x25),
     (IAQ_TableMessage, 0x26), (IAQ_PageSubMessage, 0x27), (IAQ_PageEnd, 0x28),
     (IAQ_StartUp, 0x29), (IAQ_MessageLong, 0x2C), (IAQ_TitleMessage, 0x2D), (IAQ_Poll, 0x30),
     (IAQ_ControlReady, 0x31), (IAQ_PageContinue, 0x40), (IAQ_MainStatus, 0x70),
     (IAQ_OneTouchStatus, 0x71), (IAQ_AuxStatus, 0x72), (IAQ_Heartbeat, 0x53),
     (IAQ_CommandReady, 0x73), (IAQ_DeviceId, 0x51), (DisplayUpdate, 0x05),
     (Unknown_PDA_1B, 0x1B), (Unknown_ReadyControl, 0x80), (Unknown, 0xFF)]"

text \<open>\<open>enum_integer\<close> reads a table from left to right, \<open>enum_cast\<close> from right to left.\<close>

definition enum_integer :: "('e \<times> u8) list \<Rightarrow> 'e \<Rightarrow> u8" where
  "enum_integer values e = (case map_of values e of Some b \<Rightarrow> b | None \<Rightarrow> 0)"

definition enum_cast :: "('e \<times> u8) list \<Rightarrow> u8 \<Rightarrow> 'e option" where
  "enum_cast values b = map_of (map (\<lambda>(e, v). (v, e)) values) b"

definition value_or :: "'a option \<Rightarrow> 'a \<Rightarrow> 'a" where
  "value_or v d = (case v of Some x \<Rightarrow> x | None \<Rightarrow> d)"

lemma value_or_simps [simp]: "value_or (Some x) d = x" "value_or None d = d"
  by (simp_all add: value_or_def)

lemma enum_cast_integer:
  assumes "distinct (map snd values)" "map_of values e = Some b"
  shows "enum_cast values (enum_integer values e) = Some e"
proof -
  from assms(2) have "(e, b) \<in> set values" by (rule map_of_SomeD)
  then have "(b, e) \<in> set (map (\<lambda>(e, v). (v, e)) values)" by force
  moreover have "distinct (map fst (map (\<lambda>(e, v). (v, e)) values))"
    using assms(1) by (simp add: comp_def case_prod_unfold)
  ultimately show ?thesis
    using assms(2) by (simp add: enum_cast_def enum_integer_def map_of_is_SomeI)
qed

definition message_id_integer :: "JandyMessageIds \<Rightarrow> u8" where
  "message_id_integer = enum_integer JandyMessageIds_values"

definition message_id_cast :: "u8 \<Rightarrow> JandyMessageIds option" where
  "message_id_cast = enum_cast JandyMessageIds_values"

lemma message_ids_distinct: "distinct (map snd JandyMessageIds_values)"
  by (simp add: JandyMessageIds_values_def)

lemma message_ids_total: "map_of JandyMessageIds_values i \<noteq> None"
  by (cases i) (simp_all add: JandyMessageIds_values_def)

lemma message_id_cast_integer [simp]: "message_id_cast (message_id_integer i) = Some i"
  unfolding message_id_cast_def message_id_integer_def
  using enum_cast_integer [OF message_ids_distinct] message_ids_total [of i] by blast

section \<open>Device classes\<close>

datatype DeviceClasses =
    AqualinkMaster | RS_Keypad | DualSpaSwitch | SpaRemote | OneTouch | LX_Heater
  | AqualinkTouch | IAQ | SerialAdapter | JXi_Heater | HeatPump | SWG_Aquarite | PC_Dock | PDA
  | Pentair_Pump | Jandy_ePump | Chemlink | RemotePowerCenter | Chem_Analyzer | Jandy_ePump_Ext
  | Jandy_Light | UnknownDevice

definition KnownDeviceIdsList :: "(DeviceClasses \<times> u8 list) list" where
  "KnownDeviceIdsList =
    [(AqualinkMaster, [0x00, 0x01, 0x02, 0x03]),
     (RS_Keypad, [0x08, 0x09, 0x0A, 0x0B]),
     (DualSpaSwitch, [0x10, 0x11, 0x12, 0x13]),
     (SpaRemote, [0x20, 0x21, 0x22, 0x23]),
     (OneTouch, [0x40, 0x41, 0x42, 0x43]),
     (LX_Heater, [0x38, 0x39, 0x3A, 0x3B]),
     (AqualinkTouch, [0x30, 0x31, 0x32, 0x33]),
     (IAQ, [0xA0, 0xA1, 0xA2, 0xA3]),
     (SerialAdapter, [0x48, 0x49]),
     (JXi_Heater, [0x68, 0x69, 0x6A, 0x6B]),
     (HeatPump, [0x70, 0x71, 0x72, 0x73]),
     (SWG_Aquarite, [0x50, 0x51, 0x52, 0x53]),
     (PC_Dock, [0x58, 0x59, 0x5A, 0x5B]),
     (PDA, [0x60, 0x61, 0x62, 0x63]),
     (RemotePowerCenter, [0x28, 0x29, 0x2A, 0x2B]),
     (Jandy_ePump, [0x78, 0x79, 0x7A, 0x7B]),
     (Chemlink, [0x80, 0x81, 0x82, 0x83]),
     (Chem_Analyzer, [0x84, 0x85, 0x86, 0x87]),
     (Jandy_ePump_Ext, [0xE0, 0xE1, 0xE2, 0xE3]),
     (Jandy_Light, [0xF0, 0xF1, 0xF2, 0xF3, 0xF4]),
     (UnknownDevice, [0xFF])]"

fun find_class :: "(DeviceClasses \<times> u8 list) list \<Rightarrow> u8 \<Rightarrow> DeviceClasses" where
  "find_class [] device_id = UnknownDevice"
| "find_class ((cls, ids) # rest) device_id =
     (if device_id \<in> set ids then cls else find_class rest device_id)"

definition JandyDeviceType_Class :: "u8 \<Rightarrow> DeviceClasses" where
  "JandyDeviceType_Class device_id = find_class KnownDeviceIdsList device_id"

definition InstanceAddressesForClass :: "DeviceClasses \<Rightarrow> u8 list" where
  "InstanceAddressesForClass device_class =
     (case map_of KnownDeviceIdsList device_class of Some ids \<Rightarrow> ids | None \<Rightarrow> [])"

lemma find_class_address:
  assumes "distinct (concat (map snd tbl))" "distinct (map fst tbl)" "cls \<noteq> UnknownDevice"
  shows "find_class tbl d = cls \<longleftrightarrow> (\<exists>ids. map_of tbl cls = Some ids \<and> d \<in> set ids)"
  using assms
proof (induction tbl)
  case Nil
  then show ?case by simp
next
  case (Cons entry tbl)
  obtain c ids where entry: "entry = (c, ids)" by (cases entry)
  show ?case
  proof (cases "d \<in> set ids")
    case True
    have "d \<notin> set ids'" if "map_of tbl cls = Some ids'" for ids'
      using Cons.prems(1) True map_of_SomeD [OF that] entry by force
    with True entry show ?thesis by auto
  next
    case False
    have "map_of tbl cls = None" if "c = cls"
      using Cons.prems(2) entry that by (auto simp: map_of_eq_None_iff)
    with False Cons entry show ?thesis by auto
  qed
qed

lemma device_table_distinct: "distinct (concat (map snd KnownDeviceIdsList))"
  "distinct (map fst KnownDeviceIdsList)"
  by (simp_all add: KnownDeviceIdsList_def)

section \<open>Auxillary ids\<close>

datatype JandyAuxillaryIds =
    Aux_1 | Aux_2 | Aux_3 | Aux_4 | Aux_5 | Aux_6 | Aux_7
  | Aux_B1 | Aux_B2 | Aux_B3 | Aux_B4 | Aux_B5 | Aux_B6 | Aux_B7 | Aux_B8
  | Aux_C1 | Aux_C2 | Aux_C3 | Aux_C4 | Aux_C5 | Aux_C6 | Aux_C7 | Aux_C8
  | Aux_D1 | Aux_D2 | Aux_D3 | Aux_D4 | Aux_D5 | Aux_D6 | Aux_D7 | Aux_D8
  | ExtraAux

definition JandyAuxillaryIds_values :: "(JandyAuxillaryIds \<times> u8) list" where
  "JandyAuxillaryIds_values =
    [(Aux_1, 0x01), (Aux_2, 0x02), (Aux_3, 0x03), (Aux_4, 0x04), (Aux_5, 0x05), (Aux_6, 0x06),
     (Aux_7, 0x07),
     (Aux_B1, 0x08), (Aux_B2, 0x09), (Aux_B3, 0x0A), (Aux_B4, 0x0B), (Aux_B5, 0x0C),
     (Aux_B6, 0x0D), (Aux_B7, 0x0E), (Aux_B8, 0x0F),
     (Aux_C1, 0x10), (Aux_C2, 0x11), (Aux_C3, 0x12), (Aux_C4, 0x13), (Aux_C5, 0x14),
     (Aux_C6, 0x15), (Aux_C7, 0x16), (Aux_C8, 0x17),
     (Aux_D1, 0x18), (Aux_D2, 0x19), (Aux_D3, 0x1A), (Aux_D4, 0x1B), (Aux_D5, 0x1C),
     (Aux_D6, 0x1D), (Aux_D7, 0x1E), (Aux_D8, 0x1F),
     (ExtraAux, 0x00)]"

lemma aux_ids_distinct: "distinct (map snd JandyAuxillaryIds_values)"
  by (simp add: JandyAuxillaryIds_values_def)

lemma aux_ids_total: "map_of JandyAuxillaryIds_values i \<noteq> None"
  by (cases i) (simp_all add: JandyAuxillaryIds_values_def)

lemma aux_id_cast_integer [simp]:
  "enum_cast JandyAuxillaryIds_values (enum_integer JandyAuxillaryIds_values i) = Some i"
  using enum_cast_integer [OF aux_ids_distinct] aux_ids_total [of i] by blast

end
