(* ===== verification/Jandy_Payloads.thy ===== *)
theory Jandy_Payloads
  imports Jandy_Ids
begin

text \<open>
  The payload of every Jandy message type: the shared text helpers
  (\<open>jandy_message_text_helpers.h\<close>), the enumerations the payload bytes are cast to, and one
  constructor per message class with the members the class adds to \<open>JandyMessage\<close>. Text is the
  byte content of the \<open>std::string\<close>. The payload-free IAQ classes share one constructor.

  The lemmas show that the text helpers produce printable ASCII only and never longer than the
  bytes they read.
\<close>

section \<open>Text helpers\<close>

definition SanitisePrintableAsciiByte :: "u8 \<Rightarrow> u8" where
  "SanitisePrintableAsciiByte byte = (if 0x20 \<le> byte \<and> byte \<le> 0x7E then byte else 0x3F)"

definition AppendSanitisedAscii :: "bytes \<Rightarrow> bytes \<Rightarrow> bytes" where
  "AppendSanitisedAscii out bs = out @ map SanitisePrintableAsciiByte bs"

definition ExtractTrailingAsciiPayload :: "bytes \<Rightarrow> nat \<Rightarrow> (bytes \<Rightarrow> 'a decoded) \<Rightarrow> 'a decoded" where
  "ExtractTrailingAsciiPayload message_bytes start_index k =
     (if length message_bytes \<le> start_index + PACKET_FOOTER_LENGTH then k []
      else subspan message_bytes start_index
             (length message_bytes - start_index - PACKET_FOOTER_LENGTH)
             (\<lambda>payload. k (AppendSanitisedAscii [] payload)))"

definition non_printable :: "u8 \<Rightarrow> bool" where
  "non_printable b \<longleftrightarrow> b < 0x20 \<or> 0x7E < b"

text \<open>The \<open>while\<close> loop that walks \<open>visible_end\<close> back over the trailing pad bytes.\<close>

fun visible_end_loop :: "bytes \<Rightarrow> nat \<Rightarrow> nat" where
  "visible_end_loop payload 0 = 0"
| "visible_end_loop payload (Suc n) =
     (if non_printable (payload ! n) then visible_end_loop payload n else Suc n)"

definition display_byte :: "u8 \<Rightarrow> u8" where
  "display_byte byte = (if byte = 0x00 then 0x20 else SanitisePrintableAsciiByte byte)"

definition ExtractTrailingDisplayLine :: "bytes \<Rightarrow> nat \<Rightarrow> (bytes \<Rightarrow> 'a decoded) \<Rightarrow> 'a decoded" where
  "ExtractTrailingDisplayLine message_bytes start_index k =
     (if length message_bytes \<le> start_index + PACKET_FOOTER_LENGTH then k []
      else subspan message_bytes start_index
             (length message_bytes - start_index - PACKET_FOOTER_LENGTH)
             (\<lambda>payload. let visible_end = visible_end_loop payload (length payload)
                        in k (map display_byte (take visible_end payload))))"

definition RequireIndex :: "bytes \<Rightarrow> nat \<Rightarrow> 'a decoded \<Rightarrow> 'a decoded" where
  "RequireIndex message_bytes required_index k =
     (if required_index < length message_bytes then k else Inl TooShort)"

definition ReadU16LE :: "bytes \<Rightarrow> nat \<Rightarrow> (u16 \<Rightarrow> 'a decoded) \<Rightarrow> 'a decoded" where
  "ReadU16LE message_bytes low_index k =
     rd message_bytes low_index (\<lambda>low. rd message_bytes (low_index + 1) (\<lambda>high.
       k (or (push_bit 8 (ucast high)) (ucast low))))"

section \<open>Payload types\<close>

datatype ComboModes = Combo_Pool | Combo_Spa | Combo_Unknown
datatype AuxillaryStatuses = Aux_On | Aux_Off | Aux_Enabled | Aux_Pending | Aux_Unknown
datatype PumpStatuses = Pump_Off | Pump_Running | Pump_NotInstalled | Pump_Unknown
datatype HeaterStatuses =
  Heater_Off | Heater_Heating | Heater_Enabled | Heater_NotInstalled | Heater_Unknown

definition ComboModes_values :: "(ComboModes \<times> u8) list" where
  "ComboModes_values = [(Combo_Pool, 0x00), (Combo_Spa, 0x01), (Combo_Unknown, 0x02)]"
definition AuxillaryStatuses_values :: "(AuxillaryStatuses \<times> u8) list" where
  "AuxillaryStatuses_values =
    [(Aux_On, 0x00), (Aux_Off, 0x01), (Aux_Enabled, 0x02), (Aux_Pending, 0x03), (Aux_Unknown, 0x04)]"
definition PumpStatuses_values :: "(PumpStatuses \<times> u8) list" where
  "PumpStatuses_values =
    [(Pump_Off, 0x00), (Pump_Running, 0x01), (Pump_NotInstalled, 0x02), (Pump_Unknown, 0x03)]"
definition HeaterStatuses_values :: "(HeaterStatuses \<times> u8) list" where
  "HeaterStatuses_values =
    [(Heater_Off, 0x00), (Heater_Heating, 0x01), (Heater_Enabled, 0x04),
     (Heater_NotInstalled, 0x05), (Heater_Unknown, 0x06)]"

record status_payload =
  RawPayload :: bytes
  Mode :: ComboModes
  FilterPump :: PumpStatuses
  Aux1 :: AuxillaryStatuses
  Aux2 :: AuxillaryStatuses
  Aux3 :: AuxillaryStatuses
  Aux4 :: AuxillaryStatuses
  Aux5 :: AuxillaryStatuses
  Aux6 :: AuxillaryStatuses
  Aux7 :: AuxillaryStatuses
  PoolHeater :: HeaterStatuses
  SolarHeater :: HeaterStatuses
  SpaHeater :: HeaterStatuses

datatype PanelDataTypes = PanelRevision | PanelType | PanelData_Unknown

definition PanelDataTypes_values :: "(PanelDataTypes \<times> u8) list" where
  "PanelDataTypes_values = [(PanelRevision, 0x01), (PanelType, 0x02), (PanelData_Unknown, 0xFF)]"

datatype AquariteStatuses =
    Swg_On | Swg_TurningOff | Swg_Off | Warning_NoFlow | Warning_LowSalt | Warning_HighSalt
  | Warning_HighCurrent | Warning_CleanCell | Warning_LowVoltage | Warning_LowTemperature
  | Error_CheckPCB | GeneralFault | Swg_Unknown

definition AquariteStatuses_values :: "(AquariteStatuses \<times> u8) list" where
  "AquariteStatuses_values =
    [(Swg_On, 0x00), (Warning_NoFlow, 0x01), (Warning_LowSalt, 0x02), (Warning_HighSalt, 0x04),
     (Warning_CleanCell, 0x08), (Swg_TurningOff, 0x09), (Warning_HighCurrent, 0x10),
     (Warning_LowVoltage, 0x20), (Warning_LowTemperature, 0x40), (Error_CheckPCB, 0x80),
     (GeneralFault, 0xFD), (Swg_Unknown, 0xFE), (Swg_Off, 0xFF)]"

datatype ChemlinkDataTag = Chem_ORP | Chem_pH | Chem_pHFeeder | Chem_ORPFeeder | Chem_Unknown

definition ChemlinkDataTag_values :: "(ChemlinkDataTag \<times> u8) list" where
  "ChemlinkDataTag_values =
    [(Chem_ORP, 0x02), (Chem_pH, 0x03), (Chem_pHFeeder, 0x08), (Chem_ORPFeeder, 0x18),
     (Chem_Unknown, 0xFF)]"

datatype HeaterOperatingModes =
    HOM_Off | HeatPumpPoolEnabled | HeatPumpSpaEnabled | HeatPumpHeatingPool | HeatPumpHeatingSpa
  | PoolEnabled | SpaEnabled | HeatingPool | HeatingSpa | Chiller | HOM_Unknown

definition HeaterOperatingModes_values :: "(HeaterOperatingModes \<times> u8) list" where
  "HeaterOperatingModes_values =
    [(HOM_Off, 0x00), (HeatPumpPoolEnabled, 0x01), (HeatPumpSpaEnabled, 0x02),
     (HeatPumpHeatingPool, 0x09), (HeatPumpHeatingSpa, 0x0A), (PoolEnabled, 0x11),
     (SpaEnabled, 0x12), (HeatingPool, 0x19), (HeatingSpa, 0x1A), (Chiller, 0x29),
     (HOM_Unknown, 0xFF)]"

datatype HeaterStates =
  HS_Off | HS_Heating | HeatPumpOff | HeatPumpHeating | HeatPumpCooling | HS_Unknown

definition HeaterStates_values :: "(HeaterStates \<times> u8) list" where
  "HeaterStates_values =
    [(HS_Off, 0x00), (HS_Heating, 0x08), (HeatPumpOff, 0x40), (HeatPumpHeating, 0x48),
     (HeatPumpCooling, 0x68), (HS_Unknown, 0xFF)]"

datatype HeaterErrors = HE_None | SensorFault | AuxMonitor | HighLimit | HE_Unknown

definition HeaterErrors_values :: "(HeaterErrors \<times> u8) list" where
  "HeaterErrors_values =
    [(HE_None, 0x00), (SensorFault, 0x02), (AuxMonitor, 0x08), (HighLimit, 0x10),
     (HE_Unknown, 0xFF)]"

datatype LightStates = Light_Off | Light_On | Light_Unknown

definition LightStates_values :: "(LightStates \<times> u8) list" where
  "LightStates_values = [(Light_Off, 0x00), (Light_On, 0x01), (Light_Unknown, 0xFF)]"

datatype ButtonStatuses =
  Button_Off | Button_On | Button_Enabled | Button_EnabledStandby | Button_Unknown

definition ButtonStatuses_values :: "(ButtonStatuses \<times> u8) list" where
  "ButtonStatuses_values =
    [(Button_Off, 0x00), (Button_On, 0x01), (Button_Enabled, 0x02),
     (Button_EnabledStandby, 0x03), (Button_Unknown, 0xFF)]"

datatype ButtonTypes =
    BT_None | Generic | Cooling | Waterfall | Fountain | Heating | HeatingAndCooling | Light
  | Filtration | SolarHeating | DeckJet | HeaterGreen | BT_Unknown

definition ButtonTypes_values :: "(ButtonTypes \<times> u8) list" where
  "ButtonTypes_values =
    [(BT_None, 0x00), (Generic, 0x01), (Cooling, 0x02), (Waterfall, 0x03), (Fountain, 0x04),
     (Heating, 0x05), (HeatingAndCooling, 0x06), (Light, 0x07), (Filtration, 0x08),
     (SolarHeating, 0x09), (DeckJet, 0x0A), (HeaterGreen, 0x0B), (BT_Unknown, 0xFF)]"

record AuxDeviceInfo =
  device_index :: u8
  is_on :: bool
  aux_type :: u8
  aux_name :: bytes

text \<open>
  A temperature of a status frame is its raw 16-bit reading with the scale the decoder applies
  (tenths of a degree in the legacy layout, whole degrees in the current one).
\<close>

datatype celsius = DeciCelsius u16 | WholeCelsius u16

record main_status =
  DeviceIds :: bytes
  PumpOn :: bool
  SpaMode :: bool
  PoolTemp :: "celsius option"
  SpaTemp :: "celsius option"
  AirTemp :: "celsius option"
  PoolSetpoint :: "celsius option"
  SpaSetpoint :: "celsius option"
  HeaterSetpoint :: "celsius option"
  PoolHeaterStatus :: HeaterStatuses
  SpaHeaterStatus :: HeaterStatuses
  SolarHeaterStatus :: HeaterStatuses

text \<open>
  The serial adapter's status types. Every enumerator of \<open>SerialAdapter_ConfigControlCommands\<close> has
  the value \<open>0xFF\<close>, so the enumeration has one value.
\<close>

datatype SerialAdapter_ConfigControlCommands = ConfigControl
datatype SerialAdapter_SystemConfigurationStatuses = MODEL | OPTIONS | OPMODE | VBAT | LEDS
datatype SerialAdapter_SCS_OpModes = Op_Auto | Op_Service | Op_Timeout | Op_Unknown
datatype SerialAdapter_SystemPumpCommands = PUMPLO | PUMP | CLEANR | SPILLOVER | SPA
datatype SerialAdapter_SystemTemperatureCommands =
    UNITS | POOLHT | POOLHT2 | SPAHT | SOLHT | POOLSP | POOLSP2 | SPASP | POOLTMP | SPATMP
  | AIRTMP | SOLTMP
datatype SerialAdapter_UnknownCommands = ErrorOccurred | UnknownCommand
datatype JandyAuxillaryStatuses = JAux_Off | JAux_On | JAux_Unknown
datatype TemperatureUnits = Fahrenheit | Celsius

definition SerialAdapter_ConfigControlCommands_values ::
    "(SerialAdapter_ConfigControlCommands \<times> u8) list" where
  "SerialAdapter_ConfigControlCommands_values = [(ConfigControl, 0xFF)]"
definition SerialAdapter_SystemConfigurationStatuses_values ::
    "(SerialAdapter_SystemConfigurationStatuses \<times> u8) list" where
  "SerialAdapter_SystemConfigurationStatuses_values =
    [(MODEL, 0x00), (OPTIONS, 0x01), (OPMODE, 0x0D), (VBAT, 0x0E), (LEDS, 0xFF)]"
definition SerialAdapter_SCS_OpModes_values :: "(SerialAdapter_SCS_OpModes \<times> u8) list" where
  "SerialAdapter_SCS_OpModes_values =
    [(Op_Auto, 0x00), (Op_Service, 0x01), (Op_Timeout, 0x02), (Op_Unknown, 0xFF)]"
definition SerialAdapter_SystemPumpCommands_values ::
    "(SerialAdapter_SystemPumpCommands \<times> u8) list" where
  "SerialAdapter_SystemPumpCommands_values =
    [(PUMPLO, 0x0D), (PUMP, 0x0C), (CLEANR, 0x10), (SPILLOVER, 0x0F), (SPA, 0x0E)]"
definition SerialAdapter_SystemTemperatureCommands_values ::
    "(SerialAdapter_SystemTemperatureCommands \<times> u8) list" where
  "SerialAdapter_SystemTemperatureCommands_values =
    [(UNITS, 0x0A), (POOLHT, 0x11), (POOLHT2, 0x12), (SPAHT, 0x13), (SOLHT, 0x14),
     (POOLSP, 0x05), (POOLSP2, 0x06), (SPASP, 0x07), (POOLTMP, 0x08), (SPATMP, 0x0B),
     (AIRTMP, 0x09), (SOLTMP, 0x0C)]"
definition SerialAdapter_UnknownCommands_values ::
    "(SerialAdapter_UnknownCommands \<times> u8) list" where
  "SerialAdapter_UnknownCommands_values = [(ErrorOccurred, 0x02), (UnknownCommand, 0xFF)]"
definition JandyAuxillaryStatuses_values :: "(JandyAuxillaryStatuses \<times> u8) list" where
  "JandyAuxillaryStatuses_values = [(JAux_Off, 0x00), (JAux_On, 0x01), (JAux_Unknown, 0xFF)]"

datatype SerialAdapter_StatusTypes =
    Monostate
  | ST_ConfigControl SerialAdapter_ConfigControlCommands
  | ST_SystemConfiguration SerialAdapter_SystemConfigurationStatuses
  | ST_SystemPump SerialAdapter_SystemPumpCommands
  | ST_SystemTemperature SerialAdapter_SystemTemperatureCommands
  | ST_Auxillary JandyAuxillaryIds
  | ST_Unknown SerialAdapter_UnknownCommands

record SerialAdapter_SCS_Options =
  HasCleaner :: bool
  TwoSpeedPump :: bool
  HasSpillover :: bool
  HeaterCoolDownDisabled :: bool
  ServiceCalibrationMode :: bool
  SpareAuxOnWithFilterPumpAndSpa :: bool
  CommonHeaterForSpaAndPool :: bool
  ExtraDelayForHeatPump :: bool

text \<open>The decoded value of a status frame; each constructor is one member that becomes set.\<close>

datatype dev_status_value =
    DS_Nothing
  | DS_ModelType u16
  | DS_OpMode SerialAdapter_SCS_OpModes
  | DS_Options SerialAdapter_SCS_Options
  | DS_Battery bool nat
  | DS_TemperatureUnits TemperatureUnits
  | DS_PoolSetPointOne u8
  | DS_PoolSetPointTwo u8
  | DS_PoolHeaterTwoEnabled bool
  | DS_SpaSetPoint u8
  | DS_AirTemperature u8
  | DS_PoolTemperature u8
  | DS_SolarTemperature u8
  | DS_SpaTemperature u8
  | DS_AuxState JandyAuxillaryIds JandyAuxillaryStatuses

datatype jandy_payload =
    P_Ack u8 u8
  | P_Status status_payload
  | P_Probe
  | P_Message bytes
  | P_MessageLong u8 bytes
  | P_DisplayUpdate
  | P_Unknown bytes
  | P_EPumpStatus u8
  | P_EPumpRPM u16
  | P_EPumpWatts u16
  | P_ChemlinkResponse ChemlinkDataTag u16
  | P_HeaterRequest HeaterOperatingModes u8 u8 u8
  | P_HeaterStatus HeaterStates HeaterErrors
  | P_LightStatus LightStates u8
  | P_AquariteGetId PanelDataTypes
  | P_AquaritePercent u8
  | P_AquariteSetPercent u8
  | P_AquaritePPM u16 AquariteStatuses "AquariteStatuses list"
  | P_IaqAuxStatus bytes "AuxDeviceInfo list"
  | P_IaqDeviceId bytes
  | P_IaqMainStatus bytes main_status
  | P_IaqOneTouchStatus bytes
  | P_IaqPageButton u8 ButtonStatuses ButtonTypes bytes
  | P_IaqPageMessage u8 bytes
  | P_IaqPageStart u8
  | P_IaqTableMessage u8 u8 bytes
  | P_IaqTitleMessage bytes
  | P_IaqSignal
  | P_IaqControlData bytes
  | P_PdaClear
  | P_PdaHighlight u8
  | P_PdaHighlightChars u8 u8 u8
  | P_PdaShiftLines u8 u8 "8 word"
  | P_RssaDevReady
  | P_RssaDevStatus SerialAdapter_StatusTypes dev_status_value

section \<open>Text is printable\<close>

definition printable :: "u8 \<Rightarrow> bool" where
  "printable b \<longleftrightarrow> 0x20 \<le> b \<and> b \<le> 0x7E"

lemma printable_sanitise [simp]: "printable (SanitisePrintableAsciiByte b)"
  by (simp add: printable_def SanitisePrintableAsciiByte_def)

lemma printable_display [simp]: "printable (display_byte b)"
  by (simp add: display_byte_def printable_def SanitisePrintableAsciiByte_def)

lemma printable_append_sanitised [simp]:
  "list_all printable (AppendSanitisedAscii out bs) \<longleftrightarrow> list_all printable out"
  by (auto simp: AppendSanitisedAscii_def list_all_iff)

lemma visible_end_le: "visible_end_loop payload n \<le> n"
  by (induction n) (auto simp: le_SucI)

lemma visible_end_last:
  "visible_end_loop payload n = Suc m \<Longrightarrow> printable (payload ! m)"
  by (induction n) (auto simp: non_printable_def printable_def not_less split: if_splits)

end
