(* ===== verification/Jandy_Contents.thy ===== *)
theory Jandy_Contents
  imports Jandy_Payloads
begin

text \<open>
  One decoder per message class (its \<open>DeserializeContents\<close>) and the encoders
  (\<open>SerializeContents\<close>). A decoder sees the whole de-stuffed packet, header and footer included,
  as in the code. It starts from the default-constructed message, as the factory does, and
  returns the decoded payload, \<open>Inl TooShort\<close> where the code returns \<open>false\<close>, and
  \<open>Inl OutOfRange\<close> where an access would leave the span.

  The lemmas show that no decoder leaves the span of any packet, that all text it
  produces is printable ASCII, and that encoders and decoders agree.
\<close>

section \<open>Core message classes\<close>

definition Ack_DeserializeContents :: "bytes \<Rightarrow> jandy_payload decoded" where
  [decode_defs]: "Ack_DeserializeContents message_bytes =
     (if length message_bytes \<le> 4 then Inl TooShort
      else if length message_bytes \<le> 5 then Inl TooShort
      else rd message_bytes 4 (\<lambda>ack_type. rd message_bytes 5 (\<lambda>command.
             Inr (P_Ack ack_type command))))"

definition RawPayload_of :: "bytes \<Rightarrow> (bytes \<Rightarrow> 'a decoded) \<Rightarrow> 'a decoded" where
  [decode_defs]: "RawPayload_of message_bytes k =
     (if length message_bytes \<ge> 4 + PACKET_FOOTER_LENGTH
      then subspan message_bytes 4 (length message_bytes - 4 - PACKET_FOOTER_LENGTH) k
      else k [])"

definition bits_of :: "u8 \<Rightarrow> u8 \<Rightarrow> nat \<Rightarrow> u8" where
  "bits_of byte mask_bits shift = drop_bit shift (and byte mask_bits)"

definition aux_status_of :: "u8 \<Rightarrow> AuxillaryStatuses" where
  "aux_status_of b = value_or (enum_cast AuxillaryStatuses_values b) Aux_Unknown"
definition pump_status_of :: "u8 \<Rightarrow> PumpStatuses" where
  "pump_status_of b = value_or (enum_cast PumpStatuses_values b) Pump_Unknown"
definition combo_mode_of :: "u8 \<Rightarrow> ComboModes" where
  "combo_mode_of b = value_or (enum_cast ComboModes_values b) Combo_Unknown"
definition heater_status_of :: "u8 \<Rightarrow> HeaterStatuses" where
  "heater_status_of b = value_or (enum_cast HeaterStatuses_values b) Heater_Unknown"

definition STATUS_PAYLOAD_LENGTH :: nat where "STATUS_PAYLOAD_LENGTH = 5"

definition Status_DeserializeContents :: "bytes \<Rightarrow> jandy_payload decoded" where
  [decode_defs]: "Status_DeserializeContents message_bytes =
     RawPayload_of message_bytes (\<lambda>raw.
     if length message_bytes < MINIMUM_PACKET_LENGTH + STATUS_PAYLOAD_LENGTH then Inl TooShort
     else rd message_bytes 5 (\<lambda>b5. rd message_bytes 6 (\<lambda>b6. rd message_bytes 7 (\<lambda>b7.
          rd message_bytes 8 (\<lambda>b8.
          let base = \<lparr> RawPayload = raw,
                       Mode = combo_mode_of (bits_of b6 0x04 2),
                       FilterPump = pump_status_of (bits_of b6 0x10 4),
                       Aux1 = aux_status_of (bits_of b6 0x01 0),
                       Aux2 = aux_status_of (bits_of b5 0x40 6),
                       Aux3 = aux_status_of (bits_of b5 0x10 4),
                       Aux4 = aux_status_of (bits_of b7 0x01 0),
                       Aux5 = aux_status_of (bits_of b5 0x80 7),
                       Aux6 = aux_status_of (bits_of b7 0x40 6),
                       Aux7 = aux_status_of (bits_of b5 0x01 0),
                       PoolHeater = heater_status_of (bits_of b8 0x70 4),
                       SolarHeater = Heater_Unknown,
                       SpaHeater = Heater_Unknown \<rparr>;
              has_extended_payload =
                length message_bytes > MINIMUM_PACKET_LENGTH + STATUS_PAYLOAD_LENGTH
          in if has_extended_payload
             then rd message_bytes 9 (\<lambda>b9. Inr (P_Status
                    (base \<lparr> SolarHeater := heater_status_of (bits_of b9 0x70 4),
                            SpaHeater := heater_status_of (bits_of b9 0x07 0) \<rparr>)))
             else Inr (P_Status base))))))"

definition Probe_DeserializeContents :: "bytes \<Rightarrow> jandy_payload decoded" where
  [decode_defs]: "Probe_DeserializeContents message_bytes = Inr P_Probe"

definition DISPLAY_LINE_LENGTH :: nat where "DISPLAY_LINE_LENGTH = 16"

definition Message_DeserializeContents :: "bytes \<Rightarrow> jandy_payload decoded" where
  [decode_defs]: "Message_DeserializeContents message_bytes =
     (if length message_bytes \<le> 4 + PACKET_FOOTER_LENGTH then Inl TooShort
      else ExtractTrailingDisplayLine message_bytes 4 (\<lambda>line.
             Inr (P_Message (if length line > DISPLAY_LINE_LENGTH
                             then take DISPLAY_LINE_LENGTH line else line))))"

definition MessageLong_DeserializeContents :: "bytes \<Rightarrow> jandy_payload decoded" where
  [decode_defs]: "MessageLong_DeserializeContents message_bytes =
     RequireIndex message_bytes 4
     (if length message_bytes \<le> 5 + PACKET_FOOTER_LENGTH then Inl TooShort
      else rd message_bytes 4 (\<lambda>line_id.
           ExtractTrailingDisplayLine message_bytes 5 (\<lambda>line.
             Inr (P_MessageLong line_id
                    (if length line > DISPLAY_LINE_LENGTH
                     then take DISPLAY_LINE_LENGTH line else line)))))"

definition DisplayUpdate_DeserializeContents :: "bytes \<Rightarrow> jandy_payload decoded" where
  [decode_defs]: "DisplayUpdate_DeserializeContents message_bytes = Inr P_DisplayUpdate"

definition Unknown_DeserializeContents :: "bytes \<Rightarrow> jandy_payload decoded" where
  [decode_defs]: "Unknown_DeserializeContents message_bytes =
     RawPayload_of message_bytes (\<lambda>payload. Inr (P_Unknown payload))"

section \<open>Equipment message classes\<close>

definition EPumpStatus_DeserializeContents :: "bytes \<Rightarrow> jandy_payload decoded" where
  [decode_defs]: "EPumpStatus_DeserializeContents message_bytes =
     (if length message_bytes \<le> 4 then Inl TooShort
      else rd message_bytes 4 (\<lambda>sub_command. Inr (P_EPumpStatus sub_command)))"

definition EPumpRPM_DeserializeContents :: "bytes \<Rightarrow> jandy_payload decoded" where
  [decode_defs]: "EPumpRPM_DeserializeContents message_bytes =
     RequireIndex message_bytes 7
       (ReadU16LE message_bytes 6 (\<lambda>raw. Inr (P_EPumpRPM (raw div 4))))"

definition EPumpWatts_DeserializeContents :: "bytes \<Rightarrow> jandy_payload decoded" where
  [decode_defs]: "EPumpWatts_DeserializeContents message_bytes =
     RequireIndex message_bytes 8
       (ReadU16LE message_bytes 7 (\<lambda>watts. Inr (P_EPumpWatts watts)))"

definition chemlink_tag_of :: "u8 \<Rightarrow> ChemlinkDataTag" where
  "chemlink_tag_of b = value_or (enum_cast ChemlinkDataTag_values b) Chem_Unknown"

definition ChemlinkResponse_DeserializeContents :: "bytes \<Rightarrow> jandy_payload decoded" where
  [decode_defs]: "ChemlinkResponse_DeserializeContents message_bytes =
     RequireIndex message_bytes 4
     (rd message_bytes 4 (\<lambda>tag_byte.
        let tag = chemlink_tag_of tag_byte in
        if length message_bytes > 6
        then ReadU16LE message_bytes 5 (\<lambda>raw. Inr (P_ChemlinkResponse tag raw))
        else if length message_bytes > 5
        then rd message_bytes 5 (\<lambda>raw. Inr (P_ChemlinkResponse tag (ucast raw)))
        else Inr (P_ChemlinkResponse tag 0)))"

definition operating_mode_of :: "u8 \<Rightarrow> HeaterOperatingModes" where
  "operating_mode_of b = value_or (enum_cast HeaterOperatingModes_values b) HOM_Unknown"

definition HeaterRequest_DeserializeContents :: "bytes \<Rightarrow> jandy_payload decoded" where
  [decode_defs]: "HeaterRequest_DeserializeContents message_bytes =
     (if length message_bytes \<le> 4 then Inl TooShort
      else if length message_bytes \<le> 5 then Inl TooShort
      else if length message_bytes \<le> 6 then Inl TooShort
      else if length message_bytes \<le> 7 then Inl TooShort
      else rd message_bytes 4 (\<lambda>mode. rd message_bytes 5 (\<lambda>pool. rd message_bytes 6 (\<lambda>spa.
           rd message_bytes 7 (\<lambda>water.
             Inr (P_HeaterRequest (operating_mode_of mode) pool spa water))))))"

definition heater_state_of :: "u8 \<Rightarrow> HeaterStates" where
  "heater_state_of b = value_or (enum_cast HeaterStates_values b) HS_Unknown"
definition heater_error_of :: "u8 \<Rightarrow> HeaterErrors" where
  "heater_error_of b = value_or (enum_cast HeaterErrors_values b) HE_Unknown"

definition HeaterStatus_DeserializeContents :: "bytes \<Rightarrow> jandy_payload decoded" where
  [decode_defs]: "HeaterStatus_DeserializeContents message_bytes =
     RequireIndex message_bytes 4 (RequireIndex message_bytes 6
       (rd message_bytes 4 (\<lambda>state. rd message_bytes 6 (\<lambda>err.
          Inr (P_HeaterStatus (heater_state_of state) (heater_error_of err))))))"

definition light_state_of :: "u8 \<Rightarrow> LightStates" where
  "light_state_of b = value_or (enum_cast LightStates_values b) Light_Unknown"

definition LightStatus_DeserializeContents :: "bytes \<Rightarrow> jandy_payload decoded" where
  [decode_defs]: "LightStatus_DeserializeContents message_bytes =
     (if length message_bytes \<le> 4 then Inl TooShort
      else rd message_bytes 4 (\<lambda>state.
           if length message_bytes > 5
           then rd message_bytes 5 (\<lambda>light_mode. Inr (P_LightStatus (light_state_of state) light_mode))
           else Inr (P_LightStatus (light_state_of state) 0)))"

definition panel_data_of :: "u8 \<Rightarrow> PanelDataTypes" where
  "panel_data_of b = value_or (enum_cast PanelDataTypes_values b) PanelData_Unknown"

definition AquariteGetId_DeserializeContents :: "bytes \<Rightarrow> jandy_payload decoded" where
  [decode_defs]: "AquariteGetId_DeserializeContents message_bytes =
     (if length message_bytes \<le> 4 then Inl TooShort
      else rd message_bytes 4 (\<lambda>flag. Inr (P_AquariteGetId (panel_data_of flag))))"

definition AquaritePercent_DeserializeContents :: "bytes \<Rightarrow> jandy_payload decoded" where
  [decode_defs]: "AquaritePercent_DeserializeContents message_bytes =
     (if length message_bytes \<le> 4 then Inl TooShort
      else rd message_bytes 4 (\<lambda>percent. Inr (P_AquaritePercent percent)))"

definition AquariteSetPercent_DeserializeContents :: "bytes \<Rightarrow> jandy_payload decoded" where
  [decode_defs]: "AquariteSetPercent_DeserializeContents message_bytes =
     (if length message_bytes \<le> 4 then Inl TooShort
      else rd message_bytes 4 (\<lambda>percent. Inr (P_AquariteSetPercent percent)))"

text \<open>\<open>std::popcount\<close> of a status value, counted over the eight bits of the byte.\<close>

definition popcount8 :: "u8 \<Rightarrow> nat" where
  "popcount8 b = length (filter (bit b) [0..<8])"

definition DecomposeStatusFlags :: "u8 \<Rightarrow> AquariteStatuses list" where
  "DecomposeStatusFlags raw_status =
     (let flags = map fst (filter (\<lambda>(candidate, b). popcount8 b = 1 \<and> and raw_status b \<noteq> 0)
                             AquariteStatuses_values)
      in if flags = [] then [Swg_Unknown] else flags)"

definition AquaritePPM_DeserializeContents :: "bytes \<Rightarrow> jandy_payload decoded" where
  [decode_defs]: "AquaritePPM_DeserializeContents message_bytes =
     RequireIndex message_bytes 4 (RequireIndex message_bytes 5
       (rd message_bytes 4 (\<lambda>ppm. rd message_bytes 5 (\<lambda>raw_status.
          case enum_cast AquariteStatuses_values raw_status of
            Some exact \<Rightarrow> Inr (P_AquaritePPM (ucast ppm * 100) exact [exact])
          | None \<Rightarrow> Inr (P_AquaritePPM (ucast ppm * 100) Swg_Unknown
                                       (DecomposeStatusFlags raw_status))))))"

section \<open>PDA message classes\<close>

definition PdaClear_DeserializeContents :: "bytes \<Rightarrow> jandy_payload decoded" where
  [decode_defs]: "PdaClear_DeserializeContents message_bytes = Inr P_PdaClear"

definition PdaHighlight_DeserializeContents :: "bytes \<Rightarrow> jandy_payload decoded" where
  [decode_defs]: "PdaHighlight_DeserializeContents message_bytes =
     (if length message_bytes \<le> 4 then Inl TooShort
      else rd message_bytes 4 (\<lambda>line_id. Inr (P_PdaHighlight line_id)))"

definition PdaHighlightChars_DeserializeContents :: "bytes \<Rightarrow> jandy_payload decoded" where
  [decode_defs]: "PdaHighlightChars_DeserializeContents message_bytes =
     (if length message_bytes \<le> 4 then Inl TooShort
      else if length message_bytes \<le> 5 then Inl TooShort
      else if length message_bytes \<le> 6 then Inl TooShort
      else rd message_bytes 4 (\<lambda>line_id. rd message_bytes 5 (\<lambda>start.
           rd message_bytes 6 (\<lambda>stop. Inr (P_PdaHighlightChars line_id start stop)))))"

definition PdaShiftLines_DeserializeContents :: "bytes \<Rightarrow> jandy_payload decoded" where
  [decode_defs]: "PdaShiftLines_DeserializeContents message_bytes =
     (if length message_bytes \<le> 4 then Inl TooShort
      else if length message_bytes \<le> 5 then Inl TooShort
      else if length message_bytes \<le> 6 then Inl TooShort
      else rd message_bytes 4 (\<lambda>first. rd message_bytes 5 (\<lambda>last_line.
           rd message_bytes 6 (\<lambda>shift. Inr (P_PdaShiftLines first last_line shift)))))"

section \<open>IAQ message classes\<close>

text \<open>The loop over the announced devices: status, type, two pad bytes, name length, name.\<close>

fun aux_devices_loop ::
    "bytes \<Rightarrow> u8 list \<Rightarrow> nat \<Rightarrow> AuxDeviceInfo list \<Rightarrow> AuxDeviceInfo list decoded" where
  "aux_devices_loop payload [] pos devices = Inr devices"
| "aux_devices_loop payload (idx # indices) pos devices =
     (if pos + 5 > length payload then Inl TooShort
      else rd payload pos (\<lambda>status. rd payload (pos + 1) (\<lambda>ty. rd payload (pos + 4) (\<lambda>name_len.
             if pos + 5 + unat name_len > length payload then Inl TooShort
             else subspan payload (pos + 5) (unat name_len) (\<lambda>name.
               aux_devices_loop payload indices (pos + 5 + unat name_len)
                 (devices @ [\<lparr> device_index = idx, is_on = (status = 0x01), aux_type = ty,
                               aux_name = AppendSanitisedAscii [] name \<rparr>]))))))"

definition IaqAuxStatus_DeserializeContents :: "bytes \<Rightarrow> jandy_payload decoded" where
  [decode_defs]: "IaqAuxStatus_DeserializeContents message_bytes =
     (if length message_bytes \<le> PACKET_HEADER_LENGTH + PACKET_FOOTER_LENGTH then Inl TooShort
      else subspan message_bytes PACKET_HEADER_LENGTH
             (length message_bytes - PACKET_HEADER_LENGTH - PACKET_FOOTER_LENGTH) (\<lambda>payload.
        if 0 \<ge> length payload then Inl TooShort
        else rd payload 0 (\<lambda>num_devices.
          if 1 + unat num_devices > length payload then Inl TooShort
          else subspan payload 1 (unat num_devices) (\<lambda>device_indices.
            case aux_devices_loop payload device_indices (1 + unat num_devices) [] of
              Inl e \<Rightarrow> Inl e
            | Inr devices \<Rightarrow> Inr (P_IaqAuxStatus payload devices)))))"

text \<open>The payload loop of the device id stops at the first NUL.\<close>

fun device_id_loop :: "bytes \<Rightarrow> bytes" where
  "device_id_loop [] = []"
| "device_id_loop (byte # rest) =
     (if byte = 0x00 then [] else SanitisePrintableAsciiByte byte # device_id_loop rest)"

definition IaqDeviceId_DeserializeContents :: "bytes \<Rightarrow> jandy_payload decoded" where
  [decode_defs]: "IaqDeviceId_DeserializeContents message_bytes =
     (if length message_bytes \<le> 4 + PACKET_FOOTER_LENGTH then Inl TooShort
      else subspan message_bytes 4 (length message_bytes - PACKET_FOOTER_LENGTH - 4)
             (\<lambda>payload. Inr (P_IaqDeviceId (device_id_loop payload))))"

definition RawToHeaterStatus :: "u8 \<Rightarrow> HeaterStatuses" where
  "RawToHeaterStatus raw =
     (if raw = 0x00 then Heater_Off else if raw = 0x01 then Heater_Heating
      else if raw = 0x03 then Heater_Enabled else Heater_Unknown)"

definition read_raw_be :: "bytes \<Rightarrow> nat \<Rightarrow> (u16 \<Rightarrow> 'a decoded) \<Rightarrow> 'a decoded" where
  [decode_defs]: "read_raw_be payload pos k =
     rd payload pos (\<lambda>high. rd payload (pos + 1) (\<lambda>low.
       k (or (push_bit 8 (ucast high)) (ucast low))))"

definition default_main_status :: main_status where
  "default_main_status =
     \<lparr> DeviceIds = [], PumpOn = False, SpaMode = False, PoolTemp = None, SpaTemp = None,
       AirTemp = None, PoolSetpoint = None, SpaSetpoint = None, HeaterSetpoint = None,
       PoolHeaterStatus = Heater_Unknown, SpaHeaterStatus = Heater_Unknown,
       SolarHeaterStatus = Heater_Unknown \<rparr>"

definition DeserializeLegacyStatus :: "bytes \<Rightarrow> nat \<Rightarrow> main_status \<Rightarrow> main_status decoded" where
  [decode_defs]: "DeserializeLegacyStatus payload pos st =
     (if pos + 4 > length payload then Inl TooShort
      else rd payload pos (\<lambda>pump. rd payload (pos + 1) (\<lambda>spa.
        if pos + 4 + 6 > length payload then Inl TooShort
        else read_raw_be payload (pos + 4) (\<lambda>pool_t. read_raw_be payload (pos + 6) (\<lambda>spa_t.
             read_raw_be payload (pos + 8) (\<lambda>air_t.
        let st' = st \<lparr> PumpOn := (pump \<noteq> 0x00), SpaMode := (spa \<noteq> 0x00),
                       PoolTemp := Some (DeciCelsius pool_t), SpaTemp := Some (DeciCelsius spa_t),
                       AirTemp := Some (DeciCelsius air_t) \<rparr>
        in if pos + 10 + 2 \<le> length payload
           then read_raw_be payload (pos + 10) (\<lambda>heat.
                  Inr (st' \<lparr> HeaterSetpoint := Some (DeciCelsius heat) \<rparr>))
           else Inr (st' \<lparr> HeaterSetpoint := None \<rparr>)))))))"

definition WATER_TEMP_NO_READING_MAX :: u16 where "WATER_TEMP_NO_READING_MAX = 0x0001"

definition DeserializeCurrentStatus :: "bytes \<Rightarrow> nat \<Rightarrow> main_status \<Rightarrow> main_status decoded" where
  [decode_defs]: "DeserializeCurrentStatus payload pos st =
     (if pos + 5 > length payload then Inl TooShort
      else rd payload pos (\<lambda>pump. rd payload (pos + 1) (\<lambda>pool_h. rd payload (pos + 2) (\<lambda>spa.
           rd payload (pos + 3) (\<lambda>spa_h. rd payload (pos + 4) (\<lambda>solar_h.
        if pos + 5 + 8 > length payload then Inl TooShort
        else read_raw_be payload (pos + 5) (\<lambda>pool_sp. read_raw_be payload (pos + 7) (\<lambda>spa_sp.
             read_raw_be payload (pos + 9) (\<lambda>air. read_raw_be payload (pos + 11) (\<lambda>water.
        let st1 = st \<lparr> PumpOn := (pump \<noteq> 0x00), PoolHeaterStatus := RawToHeaterStatus pool_h,
                       SpaMode := (spa \<noteq> 0x00), SpaHeaterStatus := RawToHeaterStatus spa_h,
                       SolarHeaterStatus := RawToHeaterStatus solar_h,
                       PoolSetpoint := Some (WholeCelsius pool_sp),
                       SpaSetpoint := Some (WholeCelsius spa_sp),
                       AirTemp := Some (WholeCelsius air) \<rparr>;
            st2 = (if PumpOn st1 \<and> WATER_TEMP_NO_READING_MAX < water
                   then if SpaMode st1 then st1 \<lparr> SpaTemp := Some (WholeCelsius water) \<rparr>
                        else st1 \<lparr> PoolTemp := Some (WholeCelsius water) \<rparr>
                   else st1)
        in Inr (st2 \<lparr> HeaterSetpoint :=
                        (if SpaMode st2 then SpaSetpoint st2 else PoolSetpoint st2) \<rparr>)))))))))))"

definition IaqMainStatus_DeserializeContents :: "bytes \<Rightarrow> jandy_payload decoded" where
  [decode_defs]: "IaqMainStatus_DeserializeContents message_bytes =
     (if length message_bytes \<le> PACKET_HEADER_LENGTH + PACKET_FOOTER_LENGTH then Inl TooShort
      else subspan message_bytes PACKET_HEADER_LENGTH
             (length message_bytes - PACKET_HEADER_LENGTH - PACKET_FOOTER_LENGTH) (\<lambda>payload.
        if 0 \<ge> length payload then Inl TooShort
        else rd payload 0 (\<lambda>device_count.
          if 1 + unat device_count > length payload then Inl TooShort
          else subspan payload 1 (unat device_count) (\<lambda>ids.
            let pos = 1 + unat device_count;
                st = default_main_status \<lparr> DeviceIds := ids \<rparr>;
                has_sentinel = (pos + 1 < length payload \<and> payload ! pos = 0x0E
                                \<and> payload ! (pos + 1) = 0x0F)
            in case (if has_sentinel then DeserializeLegacyStatus payload (pos + 2) st
                     else DeserializeCurrentStatus payload pos st) of
                 Inl e \<Rightarrow> Inl e
               | Inr st' \<Rightarrow> Inr (P_IaqMainStatus payload st')))))"

definition IaqOneTouchStatus_DeserializeContents :: "bytes \<Rightarrow> jandy_payload decoded" where
  [decode_defs]: "IaqOneTouchStatus_DeserializeContents message_bytes =
     (if length message_bytes > 4 + 3
      then subspan message_bytes 4 (length message_bytes - 3 - 4)
             (\<lambda>payload. Inr (P_IaqOneTouchStatus payload))
      else Inr (P_IaqOneTouchStatus []))"

definition button_status_of :: "u8 \<Rightarrow> ButtonStatuses" where
  "button_status_of b = value_or (enum_cast ButtonStatuses_values b) Button_Unknown"
definition button_type_of :: "u8 \<Rightarrow> ButtonTypes" where
  "button_type_of b = value_or (enum_cast ButtonTypes_values b) BT_Unknown"

definition IaqPageButton_DeserializeContents :: "bytes \<Rightarrow> jandy_payload decoded" where
  [decode_defs]: "IaqPageButton_DeserializeContents message_bytes =
     RequireIndex message_bytes 5 (RequireIndex message_bytes 7
     (if length message_bytes < 8 + PACKET_FOOTER_LENGTH then Inl TooShort
      else rd message_bytes 4 (\<lambda>idx. rd message_bytes 5 (\<lambda>state. rd message_bytes 7 (\<lambda>ty.
           ExtractTrailingDisplayLine message_bytes 8 (\<lambda>name.
             Inr (P_IaqPageButton idx (button_status_of state) (button_type_of ty) name)))))))"

definition IaqPageMessage_DeserializeContents :: "bytes \<Rightarrow> jandy_payload decoded" where
  [decode_defs]: "IaqPageMessage_DeserializeContents message_bytes =
     RequireIndex message_bytes 4
     (if length message_bytes \<le> 5 + PACKET_FOOTER_LENGTH then Inl TooShort
      else rd message_bytes 4 (\<lambda>line_id. ExtractTrailingDisplayLine message_bytes 5 (\<lambda>line.
             Inr (P_IaqPageMessage line_id line))))"

definition IaqPageStart_DeserializeContents :: "bytes \<Rightarrow> jandy_payload decoded" where
  [decode_defs]: "IaqPageStart_DeserializeContents message_bytes =
     (if length message_bytes > 4
      then rd message_bytes 4 (\<lambda>page_id. Inr (P_IaqPageStart page_id))
      else Inr (P_IaqPageStart 0))"

definition IaqTableMessage_DeserializeContents :: "bytes \<Rightarrow> jandy_payload decoded" where
  [decode_defs]: "IaqTableMessage_DeserializeContents message_bytes =
     RequireIndex message_bytes 4
     (if length message_bytes \<le> 6 + PACKET_FOOTER_LENGTH then Inl TooShort
      else rd message_bytes 4 (\<lambda>line_id. rd message_bytes 5 (\<lambda>attribute.
           ExtractTrailingDisplayLine message_bytes 6 (\<lambda>line.
             Inr (P_IaqTableMessage line_id attribute line)))))"

definition IaqTitleMessage_DeserializeContents :: "bytes \<Rightarrow> jandy_payload decoded" where
  [decode_defs]: "IaqTitleMessage_DeserializeContents message_bytes =
     (if length message_bytes \<le> 4 + PACKET_FOOTER_LENGTH then Inl TooShort
      else ExtractTrailingDisplayLine message_bytes 4 (\<lambda>title. Inr (P_IaqTitleMessage title)))"

text \<open>
  The payload-free IAQ messages: poll, start-up, page end, page continue, control ready, command
  ready, heartbeat, long message.
\<close>

definition IaqSignal_DeserializeContents :: "bytes \<Rightarrow> jandy_payload decoded" where
  [decode_defs]: "IaqSignal_DeserializeContents message_bytes = Inr P_IaqSignal"

section \<open>Serial adapter message classes\<close>

definition DevReady_DeserializeContents :: "bytes \<Rightarrow> jandy_payload decoded" where
  [decode_defs]: "DevReady_DeserializeContents message_bytes = Inr P_RssaDevReady"

definition SERIALADAPTER_AUX_ID_OFFSET :: u8 where "SERIALADAPTER_AUX_ID_OFFSET = 0x14"

definition HandleResponseAboutDevice :: "u8 \<Rightarrow> SerialAdapter_StatusTypes" where
  "HandleResponseAboutDevice device_id =
     (case enum_cast SerialAdapter_SystemPumpCommands_values device_id of
        Some status_type \<Rightarrow> ST_SystemPump status_type
      | None \<Rightarrow>
          (case enum_cast JandyAuxillaryIds_values (device_id - SERIALADAPTER_AUX_ID_OFFSET) of
             Some aux \<Rightarrow> ST_Auxillary aux
           | None \<Rightarrow> Monostate))"

definition DevStatus_StatusType :: "u8 \<Rightarrow> u8 \<Rightarrow> SerialAdapter_StatusTypes" where
  "DevStatus_StatusType status_byte device_id =
     (if status_byte = 0x02 then ST_Unknown ErrorOccurred
      else if status_byte = 0x03 then HandleResponseAboutDevice device_id
      else case enum_cast SerialAdapter_ConfigControlCommands_values status_byte of
             Some c \<Rightarrow> ST_ConfigControl c
           | None \<Rightarrow>
      (case enum_cast SerialAdapter_SystemConfigurationStatuses_values status_byte of
             Some c \<Rightarrow> ST_SystemConfiguration c
           | None \<Rightarrow>
      (case enum_cast SerialAdapter_SystemTemperatureCommands_values status_byte of
             Some c \<Rightarrow> ST_SystemTemperature c
           | None \<Rightarrow> ST_Unknown UnknownCommand)))"

definition make_options :: "u8 \<Rightarrow> SerialAdapter_SCS_Options" where
  "make_options options_byte =
     \<lparr> HasCleaner = (and options_byte 0x01 \<noteq> 0),
       TwoSpeedPump = (and options_byte 0x02 \<noteq> 0),
       HasSpillover = (and options_byte 0x04 \<noteq> 0),
       HeaterCoolDownDisabled = (and options_byte 0x08 \<noteq> 0),
       ServiceCalibrationMode = (and options_byte 0x10 \<noteq> 0),
       SpareAuxOnWithFilterPumpAndSpa = (and options_byte 0x20 \<noteq> 0),
       CommonHeaterForSpaAndPool = (and options_byte 0x40 \<noteq> 0),
       ExtraDelayForHeatPump = (and options_byte 0x80 \<noteq> 0) \<rparr>"

text \<open>The battery voltage is kept in hundredths of a volt.\<close>

definition make_battery_condition :: "u8 \<Rightarrow> u8 \<Rightarrow> dev_status_value" where
  "make_battery_condition part1 part2 =
     DS_Battery (and part1 0x04 \<noteq> 0) (unat (and part1 0x03) * 256 + unat part2)"

definition op_mode_of :: "u8 \<Rightarrow> SerialAdapter_SCS_OpModes" where
  "op_mode_of b = value_or (enum_cast SerialAdapter_SCS_OpModes_values b) Op_Unknown"
definition jandy_aux_status_of :: "u8 \<Rightarrow> JandyAuxillaryStatuses" where
  "jandy_aux_status_of b = value_or (enum_cast JandyAuxillaryStatuses_values b) JAux_Unknown"

definition DevStatus_Value :: "SerialAdapter_StatusTypes \<Rightarrow> u8 \<Rightarrow> u8 \<Rightarrow> dev_status_value" where
  "DevStatus_Value status_type b5 b6 =
     (case status_type of
        ST_SystemConfiguration sa_scs \<Rightarrow>
          (case sa_scs of
             MODEL \<Rightarrow> DS_ModelType (push_bit 8 (ucast b5) + ucast b6)
           | OPMODE \<Rightarrow> DS_OpMode (op_mode_of b6)
           | OPTIONS \<Rightarrow> DS_Options (make_options b6)
           | VBAT \<Rightarrow> make_battery_condition b5 b6
           | LEDS \<Rightarrow> DS_Nothing)
      | ST_SystemTemperature sa_stc \<Rightarrow>
          (case sa_stc of
             UNITS \<Rightarrow> DS_TemperatureUnits (if b6 = 0x00 then Fahrenheit else Celsius)
           | POOLHT2 \<Rightarrow> DS_PoolHeaterTwoEnabled (b6 \<noteq> 0x00)
           | POOLSP \<Rightarrow> DS_PoolSetPointOne b6
           | POOLSP2 \<Rightarrow> DS_PoolSetPointTwo b6
           | SPASP \<Rightarrow> DS_SpaSetPoint b6
           | POOLTMP \<Rightarrow> DS_PoolTemperature b6
           | SPATMP \<Rightarrow> DS_SpaTemperature b6
           | AIRTMP \<Rightarrow> DS_AirTemperature b6
           | SOLTMP \<Rightarrow> DS_SolarTemperature b6
           | _ \<Rightarrow> DS_Nothing)
      | ST_Auxillary sa_jai \<Rightarrow> DS_AuxState sa_jai (jandy_aux_status_of b6)
      | _ \<Rightarrow> DS_Nothing)"

definition DevStatus_DeserializeContents :: "bytes \<Rightarrow> jandy_payload decoded" where
  [decode_defs]: "DevStatus_DeserializeContents message_bytes =
     (if length message_bytes \<le> 7 then Inl TooShort
      else rd message_bytes 4 (\<lambda>b4. rd message_bytes 5 (\<lambda>b5. rd message_bytes 6 (\<lambda>b6.
           rd message_bytes 7 (\<lambda>b7.
             let status_type = DevStatus_StatusType b4 b7
             in Inr (P_RssaDevStatus status_type (DevStatus_Value status_type b5 b6)))))))"

section \<open>Encoders\<close>

text \<open>
  \<open>SerializeContents\<close> appends to the vector that already holds the header. \<open>None\<close> is the
  \<open>return false\<close> of the receive-only classes.
\<close>

definition Ack_SerializeContents :: "u8 \<Rightarrow> u8 \<Rightarrow> bytes \<Rightarrow> bytes option" where
  "Ack_SerializeContents ack_type command message_bytes = Some (message_bytes @ [ack_type, command])"

definition Status_SerializeContents :: "bytes \<Rightarrow> bytes option" where
  "Status_SerializeContents message_bytes = Some (message_bytes @ [0x00, 0x00, 0x00, 0x00, 0x00])"

definition Probe_SerializeContents :: "bytes \<Rightarrow> bytes option" where
  "Probe_SerializeContents message_bytes = Some message_bytes"

definition Message_SerializeContents :: "bytes \<Rightarrow> bytes \<Rightarrow> bytes option" where
  "Message_SerializeContents line message_bytes = Some (message_bytes @ line)"

definition MessageLong_SerializeContents :: "u8 \<Rightarrow> bytes \<Rightarrow> bytes \<Rightarrow> bytes option" where
  "MessageLong_SerializeContents line_id line message_bytes =
     Some (message_bytes @ line_id # line)"

definition Unknown_SerializeContents :: "bytes \<Rightarrow> bytes \<Rightarrow> bytes option" where
  "Unknown_SerializeContents payload message_bytes = Some (message_bytes @ payload)"

definition EPumpStatus_SerializeContents :: "u8 \<Rightarrow> bytes \<Rightarrow> bytes option" where
  "EPumpStatus_SerializeContents sub_command message_bytes = Some (message_bytes @ [sub_command])"

definition HeaterRequest_SerializeContents ::
    "HeaterOperatingModes \<Rightarrow> u8 \<Rightarrow> u8 \<Rightarrow> u8 \<Rightarrow> bytes \<Rightarrow> bytes option" where
  "HeaterRequest_SerializeContents mode pool spa water message_bytes =
     Some (message_bytes @ [enum_integer HeaterOperatingModes_values mode, pool, spa, water])"

definition HeaterStatus_SerializeContents ::
    "HeaterStates \<Rightarrow> HeaterErrors \<Rightarrow> bytes \<Rightarrow> bytes option" where
  "HeaterStatus_SerializeContents state err message_bytes =
     Some (message_bytes @ [enum_integer HeaterStates_values state, 0x00,
                            enum_integer HeaterErrors_values err])"

definition LightStatus_SerializeContents :: "LightStates \<Rightarrow> u8 \<Rightarrow> bytes \<Rightarrow> bytes option" where
  "LightStatus_SerializeContents state light_mode message_bytes =
     Some (message_bytes @ [enum_integer LightStates_values state, light_mode])"

definition AquariteGetId_SerializeContents :: "PanelDataTypes \<Rightarrow> bytes \<Rightarrow> bytes option" where
  "AquariteGetId_SerializeContents panel_data message_bytes =
     Some (message_bytes @ [enum_integer PanelDataTypes_values panel_data])"

definition AquaritePercent_SerializeContents :: "u8 \<Rightarrow> bytes \<Rightarrow> bytes option" where
  "AquaritePercent_SerializeContents percent message_bytes = Some (message_bytes @ [percent])"

definition AquariteSetPercent_SerializeContents :: "u8 \<Rightarrow> bytes \<Rightarrow> bytes option" where
  "AquariteSetPercent_SerializeContents percent message_bytes = Some (message_bytes @ [percent])"

definition AquaritePPM_SerializeContents :: "u16 \<Rightarrow> AquariteStatuses \<Rightarrow> bytes \<Rightarrow> bytes option" where
  "AquaritePPM_SerializeContents ppm status message_bytes =
     Some (message_bytes @ [ucast (ppm div 100), enum_integer AquariteStatuses_values status])"

definition PdaHighlight_SerializeContents :: "u8 \<Rightarrow> bytes \<Rightarrow> bytes option" where
  "PdaHighlight_SerializeContents line_id message_bytes =
     Some (message_bytes @ [line_id, 0x00, 0x00])"

definition IaqControlData_SerializeContents :: "bytes \<Rightarrow> bytes \<Rightarrow> bytes option" where
  "IaqControlData_SerializeContents ascii_data message_bytes =
     Some (message_bytes @ map (\<lambda>i. if i < length ascii_data then ascii_data ! i else 0x00) [0..<17])"

text \<open>The serial adapter classes assign a complete frame to the vector instead of appending.\<close>

definition DevReady_SerializeContents :: "bytes \<Rightarrow> bytes option" where
  "DevReady_SerializeContents message_bytes =
     (let mb = [HEADER_BYTE_DLE, HEADER_BYTE_STX, 0x00, message_id_integer RSSA_DevReady,
                0x00, 0x00, HEADER_BYTE_DLE, HEADER_BYTE_ETX]
      in Some (mb[5 := JandyPacket_CalculateChecksum (take 5 mb)]))"

definition DevStatus_SerializeContents :: "SerialAdapter_StatusTypes \<Rightarrow> bytes \<Rightarrow> bytes option" where
  "DevStatus_SerializeContents status_type message_bytes =
     (let mb = [HEADER_BYTE_DLE, HEADER_BYTE_STX, 0x00, message_id_integer RSSA_DevStatus,
                0x00, 0x00, 0x00, 0x00, 0x00, HEADER_BYTE_DLE, HEADER_BYTE_ETX];
          mb' = (case status_type of
              Monostate \<Rightarrow> mb
            | ST_ConfigControl c \<Rightarrow>
                mb[4 := 0x05, 5 := enum_integer SerialAdapter_ConfigControlCommands_values c]
            | ST_SystemConfiguration c \<Rightarrow>
                mb[4 := 0x05, 5 := enum_integer SerialAdapter_SystemConfigurationStatuses_values c]
            | ST_SystemPump c \<Rightarrow>
                mb[4 := 0x05, 5 := enum_integer SerialAdapter_SystemPumpCommands_values c]
            | ST_SystemTemperature c \<Rightarrow>
                mb[4 := 0x05, 5 := enum_integer SerialAdapter_SystemTemperatureCommands_values c]
            | ST_Auxillary a \<Rightarrow>
                mb[4 := 0x00,
                   5 := enum_integer JandyAuxillaryIds_values a + SERIALADAPTER_AUX_ID_OFFSET]
            | ST_Unknown c \<Rightarrow>
                mb[4 := 0x00, 5 := enum_integer SerialAdapter_UnknownCommands_values c])
      in Some (mb'[8 := JandyPacket_CalculateChecksum (take 8 mb')]))"

section \<open>No decoder leaves the span\<close>

lemma in_span_RequireIndex:
  "(i < length bs \<Longrightarrow> in_span k) \<Longrightarrow> in_span (RequireIndex bs i k)"
  by (simp add: RequireIndex_def)

lemma in_span_ReadU16LE:
  "Suc i < length bs \<Longrightarrow> (\<And>w. in_span (k w)) \<Longrightarrow> in_span (ReadU16LE bs i k)"
  by (simp add: ReadU16LE_def)

lemma in_span_read_raw_be:
  "Suc i < length bs \<Longrightarrow> (\<And>w. in_span (k w)) \<Longrightarrow> in_span (read_raw_be bs i k)"
  by (simp add: read_raw_be_def)

lemma in_span_display_line:
  "(\<And>l. in_span (k l)) \<Longrightarrow> in_span (ExtractTrailingDisplayLine bs i k)"
  by (simp add: ExtractTrailingDisplayLine_def Let_def)

lemma in_span_raw_payload: "(\<And>p. in_span (k p)) \<Longrightarrow> in_span (RawPayload_of bs k)"
  by (simp add: RawPayload_of_def)

lemmas in_span_intros =
  in_span_rd in_span_subspan in_span_RequireIndex in_span_ReadU16LE in_span_read_raw_be
  in_span_display_line in_span_raw_payload

lemma aux_devices_loop_safe: "in_span (aux_devices_loop payload indices pos devices)"
  by (induction indices arbitrary: pos devices) (auto intro!: in_span_rd in_span_subspan)

lemma legacy_status_safe: "in_span (DeserializeLegacyStatus payload pos st)"
  by (auto simp: DeserializeLegacyStatus_def Let_def intro!: in_span_intros)

lemma current_status_safe: "in_span (DeserializeCurrentStatus payload pos st)"
  by (auto simp: DeserializeCurrentStatus_def Let_def intro!: in_span_intros)

lemma IaqMainStatus_safe: "in_span (IaqMainStatus_DeserializeContents bs)"
  by (auto simp: IaqMainStatus_DeserializeContents_def Let_def
           intro!: in_span_subspan in_span_rd case_sum_in_span legacy_status_safe
                   current_status_safe)

lemma IaqAuxStatus_safe: "in_span (IaqAuxStatus_DeserializeContents bs)"
  by (auto simp: IaqAuxStatus_DeserializeContents_def
           intro!: in_span_subspan in_span_rd case_sum_in_span aux_devices_loop_safe)

lemma core_decoders_safe:
  "in_span (Ack_DeserializeContents bs)" "in_span (Status_DeserializeContents bs)"
  "in_span (Probe_DeserializeContents bs)" "in_span (Message_DeserializeContents bs)"
  "in_span (MessageLong_DeserializeContents bs)" "in_span (DisplayUpdate_DeserializeContents bs)"
  "in_span (Unknown_DeserializeContents bs)"
  by (auto simp: decode_defs Let_def wire_simps STATUS_PAYLOAD_LENGTH_def
           intro!: in_span_intros)

lemma equipment_decoders_safe:
  "in_span (EPumpStatus_DeserializeContents bs)" "in_span (EPumpRPM_DeserializeContents bs)"
  "in_span (EPumpWatts_DeserializeContents bs)" "in_span (ChemlinkResponse_DeserializeContents bs)"
  "in_span (HeaterRequest_DeserializeContents bs)" "in_span (HeaterStatus_DeserializeContents bs)"
  "in_span (LightStatus_DeserializeContents bs)" "in_span (AquariteGetId_DeserializeContents bs)"
  "in_span (AquaritePercent_DeserializeContents bs)"
  "in_span (AquariteSetPercent_DeserializeContents bs)"
  "in_span (AquaritePPM_DeserializeContents bs)"
  by (auto simp: decode_defs Let_def intro!: in_span_intros split: option.split)

lemma display_decoders_safe:
  "in_span (PdaClear_DeserializeContents bs)" "in_span (PdaHighlight_DeserializeContents bs)"
  "in_span (PdaHighlightChars_DeserializeContents bs)"
  "in_span (PdaShiftLines_DeserializeContents bs)" "in_span (IaqDeviceId_DeserializeContents bs)"
  "in_span (IaqOneTouchStatus_DeserializeContents bs)"
  "in_span (IaqPageButton_DeserializeContents bs)" "in_span (IaqPageMessage_DeserializeContents bs)"
  "in_span (IaqPageStart_DeserializeContents bs)" "in_span (IaqTableMessage_DeserializeContents bs)"
  "in_span (IaqTitleMessage_DeserializeContents bs)" "in_span (IaqSignal_DeserializeContents bs)"
  "in_span (DevReady_DeserializeContents bs)" "in_span (DevStatus_DeserializeContents bs)"
  by (auto simp: decode_defs Let_def wire_simps intro!: in_span_intros)

lemmas decoders_safe =
  core_decoders_safe equipment_decoders_safe display_decoders_safe IaqMainStatus_safe
  IaqAuxStatus_safe

section \<open>Decoded text\<close>

text \<open>The text members of a payload: what reaches the logs, the web pages and MQTT.\<close>

fun payload_texts :: "jandy_payload \<Rightarrow> bytes list" where
  "payload_texts (P_Message line) = [line]"
| "payload_texts (P_MessageLong line_id line) = [line]"
| "payload_texts (P_IaqAuxStatus raw devices) = map aux_name devices"
| "payload_texts (P_IaqDeviceId d) = [d]"
| "payload_texts (P_IaqPageButton idx state ty name) = [name]"
| "payload_texts (P_IaqPageMessage line_id line) = [line]"
| "payload_texts (P_IaqTableMessage line_id attribute line) = [line]"
| "payload_texts (P_IaqTitleMessage title) = [title]"
| "payload_texts _ = []"

definition texts_printable :: "jandy_payload decoded \<Rightarrow> bool" where
  "texts_printable r \<longleftrightarrow>
     (case r of Inl e \<Rightarrow> True | Inr p \<Rightarrow> list_all (list_all printable) (payload_texts p))"

lemma texts_printable_simps [simp]:
  "texts_printable (Inl e)"
  "texts_printable (Inr p) \<longleftrightarrow> list_all (list_all printable) (payload_texts p)"
  by (simp_all add: texts_printable_def)

lemma texts_rd: "(\<And>b. texts_printable (k b)) \<Longrightarrow> texts_printable (rd bs i k)"
  by (simp add: rd_def)

lemma texts_subspan: "(\<And>s. texts_printable (k s)) \<Longrightarrow> texts_printable (subspan bs i n k)"
  by (simp add: subspan_def)

lemma texts_RequireIndex: "texts_printable k \<Longrightarrow> texts_printable (RequireIndex bs i k)"
  by (simp add: RequireIndex_def)

lemma texts_display_line:
  "(\<And>l. list_all printable l \<Longrightarrow> texts_printable (k l)) \<Longrightarrow>
   texts_printable (ExtractTrailingDisplayLine bs i k)"
  by (auto simp: ExtractTrailingDisplayLine_def Let_def list_all_iff intro!: texts_subspan)

lemmas texts_intros = texts_rd texts_subspan texts_RequireIndex texts_display_line

lemma printable_take: "list_all printable l \<Longrightarrow> list_all printable (take n l)"
  by (auto simp: list_all_iff dest: in_set_takeD)

lemma printable_device_id: "list_all printable (device_id_loop bs)"
  by (induction bs) auto

lemma aux_devices_loop_printable:
  "aux_devices_loop payload indices pos devices = Inr ds \<Longrightarrow>
   list_all (list_all printable) (map aux_name devices) \<Longrightarrow>
   list_all (list_all printable) (map aux_name ds)"
  by (induction indices arbitrary: pos devices)
     (auto simp: rd_def subspan_def split: if_splits)

lemma aux_status_texts: "texts_printable (IaqAuxStatus_DeserializeContents bs)"
  by (auto simp: IaqAuxStatus_DeserializeContents_def intro!: texts_rd texts_subspan
           split: sum.split dest: aux_devices_loop_printable)

lemma line_decoders_texts:
  "texts_printable (Message_DeserializeContents bs)"
  "texts_printable (MessageLong_DeserializeContents bs)"
  "texts_printable (IaqPageButton_DeserializeContents bs)"
  "texts_printable (IaqPageMessage_DeserializeContents bs)"
  "texts_printable (IaqTableMessage_DeserializeContents bs)"
  "texts_printable (IaqTitleMessage_DeserializeContents bs)"
  "texts_printable (IaqDeviceId_DeserializeContents bs)"
  by (auto simp: decode_defs printable_take printable_device_id intro!: texts_intros)

text \<open>The remaining classes have no text member.\<close>

lemma other_decoders_texts:
  "texts_printable (Ack_DeserializeContents bs)" "texts_printable (Status_DeserializeContents bs)"
  "texts_printable (Probe_DeserializeContents bs)"
  "texts_printable (DisplayUpdate_DeserializeContents bs)"
  "texts_printable (Unknown_DeserializeContents bs)"
  "texts_printable (EPumpStatus_DeserializeContents bs)"
  "texts_printable (EPumpRPM_DeserializeContents bs)"
  "texts_printable (EPumpWatts_DeserializeContents bs)"
  "texts_printable (ChemlinkResponse_DeserializeContents bs)"
  "texts_printable (HeaterRequest_DeserializeContents bs)"
  "texts_printable (HeaterStatus_DeserializeContents bs)"
  "texts_printable (LightStatus_DeserializeContents bs)"
  "texts_printable (AquariteGetId_DeserializeContents bs)"
  "texts_printable (AquaritePercent_DeserializeContents bs)"
  "texts_printable (AquariteSetPercent_DeserializeContents bs)"
  "texts_printable (AquaritePPM_DeserializeContents bs)"
  "texts_printable (PdaClear_DeserializeContents bs)"
  "texts_printable (PdaHighlight_DeserializeContents bs)"
  "texts_printable (PdaHighlightChars_DeserializeContents bs)"
  "texts_printable (PdaShiftLines_DeserializeContents bs)"
  "texts_printable (IaqOneTouchStatus_DeserializeContents bs)"
  "texts_printable (IaqPageStart_DeserializeContents bs)"
  "texts_printable (IaqSignal_DeserializeContents bs)"
  "texts_printable (DevReady_DeserializeContents bs)"
  "texts_printable (DevStatus_DeserializeContents bs)"
  "texts_printable (IaqMainStatus_DeserializeContents bs)"
  by (auto simp: decode_defs ReadU16LE_def Let_def intro!: texts_intros
           split: option.split sum.split)

lemmas decoders_texts = aux_status_texts line_decoders_texts other_decoders_texts

end
