(* ===== verification/Jandy_Message.thy ===== *)
theory Jandy_Message
  imports Jandy_Contents
begin

text \<open>
  A whole Jandy message: the envelope of \<open>jandy_message.cpp\<close> (\<open>Serialize\<close>, \<open>Deserialize\<close> and the
  three packet checks), the virtual dispatch to the per-class contents, and the factory of
  \<open>jandy_message_factory.h\<close> with its registration table.

  A class is named by the id its constructor passes to \<open>JandyMessage\<close>; the registration table maps
  each message id to the class it creates.

  The lemmas show that a serialised packet de-stuffs to its raw form, passes the framing and checksum
  checks, and decodes to the message it came from.
\<close>

section \<open>Messages\<close>

record jandy_message =
  m_Id :: JandyMessageIds
  m_Destination :: u8
  m_RawId :: u8
  m_MessageLength :: u8
  m_ChecksumValue :: u8
  m_Payload :: jandy_payload

section \<open>Virtual dispatch\<close>

definition SerializeContents :: "jandy_payload \<Rightarrow> bytes \<Rightarrow> bytes option" where
  "SerializeContents payload message_bytes =
     (case payload of
        P_Ack ack_type command \<Rightarrow> Ack_SerializeContents ack_type command message_bytes
      | P_Status st \<Rightarrow> Status_SerializeContents message_bytes
      | P_Probe \<Rightarrow> Probe_SerializeContents message_bytes
      | P_Message line \<Rightarrow> Message_SerializeContents line message_bytes
      | P_MessageLong line_id line \<Rightarrow> MessageLong_SerializeContents line_id line message_bytes
      | P_Unknown p \<Rightarrow> Unknown_SerializeContents p message_bytes
      | P_EPumpStatus sub \<Rightarrow> EPumpStatus_SerializeContents sub message_bytes
      | P_HeaterRequest mode pool spa water \<Rightarrow>
          HeaterRequest_SerializeContents mode pool spa water message_bytes
      | P_HeaterStatus state err \<Rightarrow> HeaterStatus_SerializeContents state err message_bytes
      | P_LightStatus state light_mode \<Rightarrow> LightStatus_SerializeContents state light_mode message_bytes
      | P_AquariteGetId d \<Rightarrow> AquariteGetId_SerializeContents d message_bytes
      | P_AquaritePercent percent \<Rightarrow> AquaritePercent_SerializeContents percent message_bytes
      | P_AquariteSetPercent percent \<Rightarrow> AquariteSetPercent_SerializeContents percent message_bytes
      | P_AquaritePPM ppm status flags \<Rightarrow> AquaritePPM_SerializeContents ppm status message_bytes
      | P_PdaHighlight line_id \<Rightarrow> PdaHighlight_SerializeContents line_id message_bytes
      | P_IaqControlData ascii_data \<Rightarrow> IaqControlData_SerializeContents ascii_data message_bytes
      | P_RssaDevReady \<Rightarrow> DevReady_SerializeContents message_bytes
      | P_RssaDevStatus status_type v \<Rightarrow> DevStatus_SerializeContents status_type message_bytes
      | _ \<Rightarrow> None)"

definition DeserializeContents :: "JandyMessageIds \<Rightarrow> bytes \<Rightarrow> jandy_payload decoded" where
  "DeserializeContents cls =
     (case cls of
        Probe \<Rightarrow> Probe_DeserializeContents
      | Ack \<Rightarrow> Ack_DeserializeContents
      | Status \<Rightarrow> Status_DeserializeContents
      | Message \<Rightarrow> Message_DeserializeContents
      | MessageLong \<Rightarrow> MessageLong_DeserializeContents
      | Heater_Request \<Rightarrow> HeaterRequest_DeserializeContents
      | Heater_Status \<Rightarrow> HeaterStatus_DeserializeContents
      | RSSA_DevStatus \<Rightarrow> DevStatus_DeserializeContents
      | RSSA_DevReady \<Rightarrow> DevReady_DeserializeContents
      | AQUARITE_Percent \<Rightarrow> AquaritePercent_DeserializeContents
      | AQUARITE_GetId \<Rightarrow> AquariteGetId_DeserializeContents
      | AQUARITE_SetPercent \<Rightarrow> AquariteSetPercent_DeserializeContents
      | AQUARITE_PPM \<Rightarrow> AquaritePPM_DeserializeContents
      | PDA_Highlight \<Rightarrow> PdaHighlight_DeserializeContents
      | PDA_Clear \<Rightarrow> PdaClear_DeserializeContents
      | PDA_ShiftLines \<Rightarrow> PdaShiftLines_DeserializeContents
      | PDA_HighlightChars \<Rightarrow> PdaHighlightChars_DeserializeContents
      | EPUMP_Status \<Rightarrow> EPumpStatus_DeserializeContents
      | EPUMP_RPM \<Rightarrow> EPumpRPM_DeserializeContents
      | EPUMP_Watts \<Rightarrow> EPumpWatts_DeserializeContents
      | Light_Status \<Rightarrow> LightStatus_DeserializeContents
      | Chemlink_Response \<Rightarrow> ChemlinkResponse_DeserializeContents
      | IAQ_PageStart \<Rightarrow> IaqPageStart_DeserializeContents
      | IAQ_PageButton \<Rightarrow> IaqPageButton_DeserializeContents
      | IAQ_PageMessage \<Rightarrow> IaqPageMessage_DeserializeContents
      | IAQ_TableMessage \<Rightarrow> IaqTableMessage_DeserializeContents
      | IAQ_TitleMessage \<Rightarrow> IaqTitleMessage_DeserializeContents
      | IAQ_MainStatus \<Rightarrow> IaqMainStatus_DeserializeContents
      | IAQ_OneTouchStatus \<Rightarrow> IaqOneTouchStatus_DeserializeContents
      | IAQ_AuxStatus \<Rightarrow> IaqAuxStatus_DeserializeContents
      | IAQ_DeviceId \<Rightarrow> IaqDeviceId_DeserializeContents
      | DisplayUpdate \<Rightarrow> DisplayUpdate_DeserializeContents
      | IAQ_PageEnd \<Rightarrow> IaqSignal_DeserializeContents
      | IAQ_StartUp \<Rightarrow> IaqSignal_DeserializeContents
      | IAQ_MessageLong \<Rightarrow> IaqSignal_DeserializeContents
      | IAQ_Poll \<Rightarrow> IaqSignal_DeserializeContents
      | IAQ_ControlReady \<Rightarrow> IaqSignal_DeserializeContents
      | IAQ_PageContinue \<Rightarrow> IaqSignal_DeserializeContents
      | IAQ_Heartbeat \<Rightarrow> IaqSignal_DeserializeContents
      | IAQ_CommandReady \<Rightarrow> IaqSignal_DeserializeContents
      | IAQ_PageSubMessage \<Rightarrow> Unknown_DeserializeContents
      | Unknown_PDA_1B \<Rightarrow> Unknown_DeserializeContents
      | Unknown_ReadyControl \<Rightarrow> Unknown_DeserializeContents
      | Unknown \<Rightarrow> Unknown_DeserializeContents)"

section \<open>The envelope\<close>

definition Serialize :: "jandy_message \<Rightarrow> bytes \<Rightarrow> bytes option" where
  "Serialize m message_bytes =
     (let header = message_bytes @ [HEADER_BYTE_DLE, HEADER_BYTE_STX, m_Destination m,
                                    message_id_integer (m_Id m)]
      in case SerializeContents (m_Payload m) header of
           None \<Rightarrow> None
         | Some body \<Rightarrow>
             Some (JandyPacket_NullCharHandler_Serialization
                     (body @ [JandyPacket_CalculateChecksum body, HEADER_BYTE_DLE,
                              HEADER_BYTE_ETX])))"

definition PacketSizeIsValid :: "bytes \<Rightarrow> bool" where
  "PacketSizeIsValid message_bytes \<longleftrightarrow>
     MINIMUM_PACKET_LENGTH \<le> length message_bytes \<and> MAXIMUM_PACKET_LENGTH \<ge> length message_bytes"

definition PacketFramingIsValid :: "bytes \<Rightarrow> bool" where
  "PacketFramingIsValid message_bytes \<longleftrightarrow>
     \<not> MINIMUM_PACKET_LENGTH > length message_bytes
     \<and> message_bytes ! 0 = HEADER_BYTE_DLE
     \<and> message_bytes ! 1 = HEADER_BYTE_STX
     \<and> message_bytes ! (length message_bytes - 2) = HEADER_BYTE_DLE
     \<and> message_bytes ! (length message_bytes - 1) = HEADER_BYTE_ETX"

definition PacketChecksumIsValid :: "bytes \<Rightarrow> bool" where
  "PacketChecksumIsValid message_bytes \<longleftrightarrow>
     \<not> MINIMUM_PACKET_LENGTH > length message_bytes
     \<and> JandyPacket_CalculateChecksum
          (take (length message_bytes - PACKET_FOOTER_LENGTH) message_bytes)
        = message_bytes ! (length message_bytes - PACKET_FOOTER_LENGTH)"

text \<open>
  De-stuffing, the two checks, the header fields, then the contents. \<open>cls\<close> is the class of the
  message object; its id is the class's own until the wire byte resolves to one.
\<close>

definition unescape :: "bytes \<Rightarrow> bytes" where
  "unescape contiguous_data =
     (if JandyPacket_NeedsNullCharHandling contiguous_data
      then JandyPacket_NullCharHandler_DeserializationToSpan contiguous_data MAXIMUM_PACKET_LENGTH
      else contiguous_data)"

definition DeserializeFromContiguousData ::
    "JandyMessageIds \<Rightarrow> bytes \<Rightarrow> jandy_message decoded" where
  "DeserializeFromContiguousData cls contiguous_data =
     (if length contiguous_data > MAXIMUM_PACKET_LENGTH then Inl TooShort
      else
        let packet_data = unescape contiguous_data in
        if \<not> PacketFramingIsValid packet_data then Inl TooShort
        else if \<not> PacketChecksumIsValid packet_data then Inl TooShort
        else
          let raw_id = packet_data ! 3;
              len = of_nat (length packet_data) :: u8;
              chk = packet_data ! (unat len - PACKET_FOOTER_LENGTH)
          in case DeserializeContents cls packet_data of
               Inl e \<Rightarrow> Inl e
             | Inr payload \<Rightarrow>
                 Inr \<lparr> m_Id = value_or (message_id_cast raw_id) cls,
                       m_Destination = packet_data ! 2,
                       m_RawId = raw_id,
                       m_MessageLength = len,
                       m_ChecksumValue = chk,
                       m_Payload = payload \<rparr>)"

definition Deserialize :: "JandyMessageIds \<Rightarrow> bytes \<Rightarrow> jandy_message decoded" where
  "Deserialize cls message_bytes =
     (if \<not> PacketSizeIsValid message_bytes then Inl TooShort
      else DeserializeFromContiguousData cls message_bytes)"

section \<open>The factory\<close>

text \<open>
  The registration table. Every enumerator of \<open>JandyMessageIds\<close> is registered; three
  of them create the class of unknown messages.
\<close>

definition registered_class :: "JandyMessageIds \<Rightarrow> JandyMessageIds option" where
  "registered_class i =
     (case i of Unknown_PDA_1B \<Rightarrow> Some Unknown
      | Unknown_ReadyControl \<Rightarrow> Some Unknown
      | IAQ_PageSubMessage \<Rightarrow> Some Unknown
      | _ \<Rightarrow> Some i)"

definition CreateMessageFromRaw :: "JandyMessageIds \<Rightarrow> JandyMessageIds option" where
  "CreateMessageFromRaw i = registered_class i"

definition CreateFromSerialData :: "bytes \<Rightarrow> jandy_message expected" where
  "CreateFromSerialData message_bytes =
     (if MINIMUM_PACKET_LENGTH > length message_bytes then Inl InvalidPacketFormat
      else
        let type_offset = (if message_bytes ! 2 = HEADER_BYTE_DLE \<and> message_bytes ! 3 = 0x00
                           then 4 else 3);
            raw_message_type = message_bytes ! type_offset;
            message_type = value_or (message_id_cast raw_message_type) Unknown
        in case CreateMessageFromRaw message_type of
             None \<Rightarrow> Inl Error_GeneratorFailed
           | Some cls \<Rightarrow>
               (case DeserializeFromContiguousData cls message_bytes of
                  Inl e \<Rightarrow> Inl Error_FailedToDeserialize
                | Inr message \<Rightarrow> Inr message))"

section \<open>Packets\<close>

text \<open>
  The raw packet with the given destination, type byte and contents, and its form on the wire.
\<close>

definition raw_packet :: "u8 \<Rightarrow> u8 \<Rightarrow> bytes \<Rightarrow> bytes" where
  "raw_packet dest type_byte contents =
     [HEADER_BYTE_DLE, HEADER_BYTE_STX, dest, type_byte] @ contents
     @ [JandyPacket_CalculateChecksum ([HEADER_BYTE_DLE, HEADER_BYTE_STX, dest, type_byte] @ contents),
        HEADER_BYTE_DLE, HEADER_BYTE_ETX]"

definition packet_body :: "u8 \<Rightarrow> u8 \<Rightarrow> bytes \<Rightarrow> bytes" where
  "packet_body dest type_byte contents =
     [dest, type_byte] @ contents
     @ [JandyPacket_CalculateChecksum ([HEADER_BYTE_DLE, HEADER_BYTE_STX, dest, type_byte] @ contents)]"

definition wire_packet :: "u8 \<Rightarrow> u8 \<Rightarrow> bytes \<Rightarrow> bytes" where
  "wire_packet dest type_byte contents =
     [HEADER_BYTE_DLE, HEADER_BYTE_STX] @ null_stuff (packet_body dest type_byte contents)
     @ [HEADER_BYTE_DLE, HEADER_BYTE_ETX]"

lemma length_raw_packet [simp]: "length (raw_packet d t c) = length c + 7"
  by (simp add: raw_packet_def)

lemma raw_packet_body:
  "raw_packet d t c = [HEADER_BYTE_DLE, HEADER_BYTE_STX] @ packet_body d t c
                      @ [HEADER_BYTE_DLE, HEADER_BYTE_ETX]"
  by (simp add: raw_packet_def packet_body_def)

lemma serialization_raw_packet:
  "JandyPacket_NullCharHandler_Serialization (raw_packet d t c) = wire_packet d t c"
  by (simp add: JandyPacket_NullCharHandler_Serialization_def wire_packet_def raw_packet_body
                wire_simps packet_body_def)

lemma unescape_eq: "length bs \<le> MAXIMUM_PACKET_LENGTH \<Longrightarrow> unescape bs = null_filter False bs"
  by (simp add: unescape_def JandyPacket_NullCharHandler_DeserializationToSpan_def
                JandyPacket_NeedsNullCharHandling_def null_filter_span_eq null_filter_id)

lemma null_filter_wire_packet: "null_filter False (wire_packet d t c) = raw_packet d t c"
  by (simp add: wire_packet_def raw_packet_body jandy_consts(1-3) null_filter_stuff)

lemma unescape_wire_packet:
  "length (wire_packet d t c) \<le> MAXIMUM_PACKET_LENGTH \<Longrightarrow>
   unescape (wire_packet d t c) = raw_packet d t c"
  by (simp add: unescape_eq null_filter_wire_packet)

lemma raw_packet_nth:
  "raw_packet d t c ! 2 = d" "raw_packet d t c ! 3 = t"
  "raw_packet d t c ! (length c + 4) = JandyPacket_CalculateChecksum
     ([HEADER_BYTE_DLE, HEADER_BYTE_STX, d, t] @ c)"
  by (simp_all add: raw_packet_def nth_append)

lemma framing_raw_packet: "PacketFramingIsValid (raw_packet d t c)"
  by (simp add: PacketFramingIsValid_def raw_packet_def wire_simps nth_append)

lemma checksum_raw_packet: "PacketChecksumIsValid (raw_packet d t c)"
  by (simp add: PacketChecksumIsValid_def raw_packet_def wire_simps nth_append)

section \<open>Decoding a serialised packet\<close>

lemma length_wire_packet_ge: "length c + 7 \<le> length (wire_packet d t c)"
  by (simp add: wire_packet_def packet_body_def length_null_stuff)

lemma deserialize_wire_packet:
  assumes "length (wire_packet d t c) \<le> MAXIMUM_PACKET_LENGTH"
  shows "DeserializeFromContiguousData cls (wire_packet d t c) =
    (case DeserializeContents cls (raw_packet d t c) of
       Inl e \<Rightarrow> Inl e
     | Inr payload \<Rightarrow> Inr \<lparr> m_Id = value_or (message_id_cast t) cls, m_Destination = d,
         m_RawId = t, m_MessageLength = of_nat (length c + 7),
         m_ChecksumValue = JandyPacket_CalculateChecksum
           ([HEADER_BYTE_DLE, HEADER_BYTE_STX, d, t] @ c),
         m_Payload = payload \<rparr>)"
proof -
  have "length c + 7 \<le> 128"
    using assms length_wire_packet_ge [of c d t] by (simp add: wire_simps)
  then have "unat (of_nat (length c + 7) :: u8) = length c + 7"
    by (subst unat_of_nat) simp
  then have "unat (of_nat (length (raw_packet d t c)) :: u8) - PACKET_FOOTER_LENGTH = length c + 4"
    by (simp add: wire_simps)
  with assms show ?thesis
    unfolding DeserializeFromContiguousData_def
    by (simp add: Let_def unescape_wire_packet framing_raw_packet checksum_raw_packet
                  raw_packet_nth split: sum.split)
qed

lemma wire_packet_header:
  "wire_packet d t c ! 2 = d"
  "d \<noteq> HEADER_BYTE_DLE \<Longrightarrow> wire_packet d t c ! 3 = t"
  "d = HEADER_BYTE_DLE \<Longrightarrow> wire_packet d t c ! 3 = 0x00"
  "d = HEADER_BYTE_DLE \<Longrightarrow> wire_packet d t c ! 4 = t"
  by (simp_all add: wire_packet_def packet_body_def)

text \<open>The factory reads the type byte of the stuffed packet, also behind a stuffed destination.\<close>

lemma create_wire_packet:
  assumes "length (wire_packet d t c) \<le> MAXIMUM_PACKET_LENGTH"
  shows "CreateFromSerialData (wire_packet d t c) =
    (case CreateMessageFromRaw (value_or (message_id_cast t) Unknown) of
       None \<Rightarrow> Inl Error_GeneratorFailed
     | Some cls \<Rightarrow>
         (case DeserializeFromContiguousData cls (wire_packet d t c) of
            Inl e \<Rightarrow> Inl Error_FailedToDeserialize
          | Inr message \<Rightarrow> Inr message))"
proof -
  have "\<not> MINIMUM_PACKET_LENGTH > length (wire_packet d t c)"
    using length_wire_packet_ge [of c d t] by (simp add: wire_simps)
  moreover have "wire_packet d t c !
      (if wire_packet d t c ! 2 = HEADER_BYTE_DLE \<and> wire_packet d t c ! 3 = 0x00 then 4 else 3) = t"
    by (cases "d = HEADER_BYTE_DLE") (simp_all add: wire_packet_header)
  ultimately show ?thesis
    unfolding CreateFromSerialData_def by (simp add: Let_def)
qed

section \<open>Contents round trips\<close>

text \<open>
  The payloads a class can both send and read back. A status frame is sent as zeros, so it is not
  among them; a salt reading travels in hundreds; a display line is at most sixteen printable
  characters.
\<close>

definition display_text :: "bytes \<Rightarrow> bool" where
  "display_text line \<longleftrightarrow>
     line \<noteq> [] \<and> length line \<le> DISPLAY_LINE_LENGTH \<and> list_all printable line"

definition canonical :: "JandyMessageIds \<Rightarrow> jandy_payload \<Rightarrow> bool" where
  "canonical cls p \<longleftrightarrow>
     (case p of
        P_Ack a b \<Rightarrow> cls = Ack
      | P_Probe \<Rightarrow> cls = Probe
      | P_Message line \<Rightarrow> cls = Message \<and> display_text line
      | P_MessageLong line_id line \<Rightarrow> cls = MessageLong \<and> display_text line
      | P_Unknown payload \<Rightarrow> cls = Unknown
      | P_EPumpStatus s \<Rightarrow> cls = EPUMP_Status
      | P_HeaterRequest mode pool spa water \<Rightarrow> cls = Heater_Request
      | P_HeaterStatus state err \<Rightarrow> cls = Heater_Status
      | P_LightStatus state light_mode \<Rightarrow> cls = Light_Status
      | P_AquariteGetId d \<Rightarrow> cls = AQUARITE_GetId
      | P_AquaritePercent percent \<Rightarrow> cls = AQUARITE_Percent
      | P_AquariteSetPercent percent \<Rightarrow> cls = AQUARITE_SetPercent
      | P_AquaritePPM ppm status flags \<Rightarrow>
          cls = AQUARITE_PPM \<and> ppm = ucast (ucast (ppm div 100) :: u8) * 100 \<and> flags = [status]
      | P_PdaHighlight line_id \<Rightarrow> cls = PDA_Highlight
      | _ \<Rightarrow> False)"

lemma display_byte_printable: "printable b \<Longrightarrow> display_byte b = b"
  by (auto simp: display_byte_def printable_def SanitisePrintableAsciiByte_def)

lemma display_line_printable: "list_all printable l \<Longrightarrow> map display_byte l = l"
  by (induction l) (simp_all add: display_byte_printable)

lemma visible_end_printable:
  "list_all printable l \<Longrightarrow> visible_end_loop l (length l) = length l"
  by (cases "length l")
     (auto simp: list_all_length non_printable_def printable_def not_less)

lemma display_line_raw_packet:
  assumes "display_text line" "contents = pre @ line" "i = 4 + length pre"
  shows "ExtractTrailingDisplayLine (raw_packet d t contents) i k = k line"
proof -
  have "length line > 0" using assms(1) by (auto simp: display_text_def)
  moreover have "take (length line) (drop (4 + length pre) (raw_packet d t (pre @ line))) = line"
    by (simp add: raw_packet_def numeral_eq_Suc)
  ultimately show ?thesis
    using assms by (simp add: ExtractTrailingDisplayLine_def wire_simps Let_def display_text_def
                              visible_end_printable display_line_printable)
qed

lemma raw_packet_contents:
  "i < length c \<Longrightarrow> raw_packet d t c ! (i + 4) = c ! i"
  by (simp add: raw_packet_def nth_append)

lemma raw_packet_contents_at:
  "0 < length c \<Longrightarrow> raw_packet d t c ! 4 = c ! 0"
  "1 < length c \<Longrightarrow> raw_packet d t c ! 5 = c ! 1"
  "2 < length c \<Longrightarrow> raw_packet d t c ! 6 = c ! 2"
  "3 < length c \<Longrightarrow> raw_packet d t c ! 7 = c ! 3"
  using raw_packet_contents [of 0 c] raw_packet_contents [of 1 c] raw_packet_contents [of 2 c]
    raw_packet_contents [of 3 c] by simp_all

lemma raw_payload_raw_packet: "RawPayload_of (raw_packet d t c) k = k c"
  by (simp add: RawPayload_of_def wire_simps) (simp add: raw_packet_def)

lemma operating_mode_roundtrip:
  "operating_mode_of (enum_integer HeaterOperatingModes_values mode) = mode"
  by (cases mode) (simp_all add: operating_mode_of_def enum_cast_def enum_integer_def
                                 HeaterOperatingModes_values_def)

lemma heater_state_roundtrip: "heater_state_of (enum_integer HeaterStates_values state) = state"
  by (cases state) (simp_all add: heater_state_of_def enum_cast_def enum_integer_def
                                  HeaterStates_values_def)

lemma heater_error_roundtrip: "heater_error_of (enum_integer HeaterErrors_values err) = err"
  by (cases err) (simp_all add: heater_error_of_def enum_cast_def enum_integer_def
                                HeaterErrors_values_def)

lemma light_state_roundtrip: "light_state_of (enum_integer LightStates_values light) = light"
  by (cases light) (simp_all add: light_state_of_def enum_cast_def enum_integer_def
                                  LightStates_values_def)

lemma panel_data_roundtrip: "panel_data_of (enum_integer PanelDataTypes_values panel) = panel"
  by (cases panel) (simp_all add: panel_data_of_def enum_cast_def enum_integer_def
                                  PanelDataTypes_values_def)

lemma aquarite_status_roundtrip:
  "enum_cast AquariteStatuses_values (enum_integer AquariteStatuses_values status) = Some status"
  by (cases status) (simp_all add: enum_cast_def enum_integer_def AquariteStatuses_values_def)

lemmas enum_roundtrips =
  operating_mode_roundtrip heater_state_roundtrip heater_error_roundtrip light_state_roundtrip
  panel_data_roundtrip aquarite_status_roundtrip

lemmas serialize_contents_defs =
  Ack_SerializeContents_def Probe_SerializeContents_def Message_SerializeContents_def
  MessageLong_SerializeContents_def Unknown_SerializeContents_def
  EPumpStatus_SerializeContents_def HeaterRequest_SerializeContents_def
  HeaterStatus_SerializeContents_def LightStatus_SerializeContents_def
  AquariteGetId_SerializeContents_def AquaritePercent_SerializeContents_def
  AquariteSetPercent_SerializeContents_def AquaritePPM_SerializeContents_def
  PdaHighlight_SerializeContents_def

lemma contents_roundtrip:
  assumes "canonical cls p"
  shows "\<exists>c. (\<forall>hdr. SerializeContents p hdr = Some (hdr @ c))
             \<and> (\<forall>d t. DeserializeContents cls (raw_packet d t c) = Inr p)"
proof (cases p)
  case (P_Message line)
  with assms show ?thesis
    by (auto simp: canonical_def SerializeContents_def DeserializeContents_def display_text_def
                   Message_SerializeContents_def Message_DeserializeContents_def wire_simps
                   display_line_raw_packet [where pre = "[]"] intro!: exI [of _ line])
next
  case (P_MessageLong line_id line)
  with assms show ?thesis
    by (auto simp: canonical_def SerializeContents_def DeserializeContents_def display_text_def
                   MessageLong_SerializeContents_def MessageLong_DeserializeContents_def
                   wire_simps RequireIndex_def raw_packet_contents_at
                   display_line_raw_packet [where pre = "[line_id]"]
             intro!: exI [of _ "line_id # line"])
next
  case (P_Unknown payload)
  with assms show ?thesis
    by (auto simp: canonical_def SerializeContents_def DeserializeContents_def
                   Unknown_SerializeContents_def Unknown_DeserializeContents_def
                   raw_payload_raw_packet)
qed (use assms in \<open>auto simp: canonical_def SerializeContents_def DeserializeContents_def
       serialize_contents_defs decode_defs RequireIndex_def raw_packet_contents_at
       enum_roundtrips\<close>)

end
