(* ===== verification/Generator_Interface.thy ===== *)
theory Generator_Interface
  imports Prelude
begin

text \<open>
  The consume-or-defer contract between the protocol task and the message generators
  (\<open>message_generator_registry.cpp\<close>, comment of \<open>GenerateMessage\<close>). A generator takes the serial
  buffer and gives its result and the buffer it leaves.

  A \<open>conforming\<close> generator never adds or reorders bytes, consumes when it decodes or
  rejects, and leaves the buffer alone when it defers with \<open>DataAvailableToProcess\<close>. That
  much makes the parse loop of the task end. A \<open>non_destructive\<close> generator also leaves
  the buffer alone when it declines with \<open>WaitingForMoreData\<close>, as the contract asks of every
  generator.
\<close>

type_synonym 'm generator = "bytes \<Rightarrow> 'm expected \<times> bytes"

text \<open>\<open>kept xs ys\<close>: \<open>ys\<close> is what is left of \<open>xs\<close> after one contiguous range was erased.\<close>

definition kept :: "bytes \<Rightarrow> bytes \<Rightarrow> bool" where
  "kept xs ys \<longleftrightarrow> (\<exists>a b c. xs = a @ b @ c \<and> ys = a @ c)"

lemma kept_refl [simp]: "kept xs xs"
  unfolding kept_def by (rule exI [of _ xs], rule exI [of _ "[]"]) simp

lemma kept_drop [simp]: "kept xs (drop n xs)"
  unfolding kept_def
  by (rule exI [of _ "[]"], rule exI [of _ "take n xs"], rule exI [of _ "drop n xs"]) simp

lemma kept_erase: "i \<le> j \<Longrightarrow> kept xs (take i xs @ drop j xs)"
  unfolding kept_def
  by (rule exI [of _ "take i xs"], rule exI [of _ "take (j - i) (drop i xs)"],
      rule exI [of _ "drop j xs"])
     (metis append_assoc append_take_drop_id le_add_diff_inverse2 drop_drop)

lemma kept_length: "kept xs ys \<Longrightarrow> length ys \<le> length xs"
  unfolding kept_def by auto

lemma kept_set: "kept xs ys \<Longrightarrow> set ys \<subseteq> set xs"
  unfolding kept_def by auto

locale conforming =
  fixes gen :: "'m generator"
  assumes keeps: "kept buf (snd (gen buf))"
    and consumes: "buf \<noteq> [] \<Longrightarrow> fst (gen buf) \<noteq> Inl WaitingForMoreData \<Longrightarrow>
      fst (gen buf) \<noteq> Inl DataAvailableToProcess \<Longrightarrow>
      length (snd (gen buf)) < length buf"
    and defers: "fst (gen buf) = Inl DataAvailableToProcess \<Longrightarrow> snd (gen buf) = buf"
    and empty_waits: "fst (gen []) = Inl WaitingForMoreData"
begin

lemma length_le: "length (snd (gen buf)) \<le> length buf"
  using keeps kept_length by blast

lemma value_consumes: "fst (gen buf) = Inr m \<Longrightarrow> length (snd (gen buf)) < length buf"
  using consumes [of buf] empty_waits by (cases "buf = []") auto

end

locale non_destructive = conforming +
  assumes declines: "fst (gen buf) = Inl WaitingForMoreData \<Longrightarrow> snd (gen buf) = buf"
begin

lemma changed_iff: "snd (gen buf) = buf \<longleftrightarrow>
  fst (gen buf) = Inl WaitingForMoreData \<or> fst (gen buf) = Inl DataAvailableToProcess"
proof (cases "buf = []")
  case True
  then show ?thesis using empty_waits declines by auto
next
  case False
  then show ?thesis using consumes [of buf] declines defers by fastforce
qed

end

end
