(* ===== verification/Jandy_Generator.thy ===== *)
theory Jandy_Generator
  imports Jandy_Message Generator_Interface
begin

text \<open>
  The Jandy message generator (\<open>src/jandy/generator\<close>): the scan for packet boundaries, the buffer
  clean-up, the checksum check on the still stuffed bytes, and \<open>GenerateMessageFromRawData\<close>, which
  composes them over the shared serial buffer.

  The lemmas show that the generator only ever drops a prefix of the buffer and always consumes when
  it claims one, that its checksum test agrees with the one on the de-stuffed packet, and that a
  serialised message is recovered whole from behind any noise and in front of any following bytes.
\<close>

section \<open>Packet boundaries\<close>

definition PACKET_START_SEQUENCE :: bytes where
  "PACKET_START_SEQUENCE = [HEADER_BYTE_DLE, HEADER_BYTE_STX]"
definition PACKET_END_SEQUENCE :: bytes where
  "PACKET_END_SEQUENCE = [HEADER_BYTE_DLE, HEADER_BYTE_ETX]"

record PacketLocations =
  p1_start :: nat
  p1_end :: nat
  p2_start :: nat
  HasPacketStart :: bool
  HasPacketEnd :: bool
  HasSecondPacketStart :: bool

definition PacketProcessing_FindAllPacketLocations :: "bytes \<Rightarrow> PacketLocations" where
  "PacketProcessing_FindAllPacketLocations serial_data =
     (let e = length serial_data;
          loc = \<lparr> p1_start = search_pos PACKET_START_SEQUENCE serial_data, p1_end = e, p2_start = e,
                  HasPacketStart = False, HasPacketEnd = False, HasSecondPacketStart = False \<rparr>
      in if p1_start loc = e then loc
         else
           let search_from = p1_start loc + 1;
               pe = search_from + search_pos PACKET_END_SEQUENCE (drop search_from serial_data);
               p2 = search_from
                    + search_pos PACKET_START_SEQUENCE
                        (take (pe - search_from) (drop search_from serial_data))
           in loc \<lparr> HasPacketStart := True, p1_end := pe, HasPacketEnd := (e \<noteq> pe),
                    p2_start := p2, HasSecondPacketStart := (pe \<noteq> p2) \<rparr>)"

section \<open>Buffer clean-up\<close>

definition BufferCleanUp_ClearBytesFromBeginToPos :: "bytes \<Rightarrow> nat \<Rightarrow> bytes" where
  "BufferCleanUp_ClearBytesFromBeginToPos serial_data position = drop position serial_data"

definition BufferCleanUp_HasEndOfPacketWithinMaxDistance ::
    "bytes \<Rightarrow> PacketLocations \<Rightarrow> bytes \<times> bool" where
  "BufferCleanUp_HasEndOfPacketWithinMaxDistance serial_data locations =
     (if MAXIMUM_PACKET_LENGTH \<ge> length serial_data \<or> \<not> HasPacketStart locations
      then (serial_data, False)
      else
        let distance = p1_end locations - p1_start locations in
        if 0 = distance then (serial_data, False)
        else if MAXIMUM_PACKET_LENGTH < distance + length PACKET_END_SEQUENCE then
          let erase_end = (if HasPacketEnd locations
                           then p1_end locations + length PACKET_END_SEQUENCE
                           else p1_end locations)
          in (drop erase_end serial_data, True)
        else (serial_data, False))"

section \<open>Checksum on the stuffed bytes\<close>

definition PacketValidation_ChecksumIsValid :: "bytes \<Rightarrow> bool" where
  "PacketValidation_ChecksumIsValid packet \<longleftrightarrow>
     (let len = length packet in
      if 3 > len then False
      else if 4 \<le> len \<and> packet ! (len - 4) = HEADER_BYTE_DLE \<and> packet ! (len - 3) = 0x00
      then packet ! (len - 4) = JandyPacket_CalculateChecksum (take (len - 4) packet)
      else packet ! (len - 3) = JandyPacket_CalculateChecksum (take (len - 3) packet))"

section \<open>The generator\<close>

definition Jandy_GenerateMessageFromRawData :: "bytes \<Rightarrow> jandy_message expected \<times> bytes" where
  "Jandy_GenerateMessageFromRawData serial_data =
     (if serial_data = [] then (Inl WaitingForMoreData, serial_data)
      else
        let locations = PacketProcessing_FindAllPacketLocations serial_data in
        if \<not> HasPacketStart locations then (Inl WaitingForMoreData, [])
        else
          let (data, buffer_was_mutated) =
                BufferCleanUp_HasEndOfPacketWithinMaxDistance serial_data locations;
              loc = (if buffer_was_mutated then PacketProcessing_FindAllPacketLocations data
                     else locations)
          in if \<not> HasPacketStart loc then (Inl WaitingForMoreData, [])
             else if HasPacketEnd loc \<and> HasSecondPacketStart loc \<and> p2_start loc < p1_end loc + 2
             then (Inl OverlappingPackets, drop (p2_start loc) data)
             else if \<not> HasPacketEnd loc \<and> HasSecondPacketStart loc
             then (Inl OverlappingPackets, drop (p2_start loc) data)
             else if \<not> HasPacketEnd loc then (Inl WaitingForMoreData, data)
             else
               let packet = take (p1_end loc + 2 - p1_start loc) (drop (p1_start loc) data)
               in if \<not> PacketValidation_ChecksumIsValid packet
                  then (Inl ChecksumFailure,
                        BufferCleanUp_ClearBytesFromBeginToPos data (p1_end loc + 2))
                  else (CreateFromSerialData packet,
                        BufferCleanUp_ClearBytesFromBeginToPos data (p1_end loc + 2)))"

section \<open>What the scan finds\<close>

lemma locations_start_end:
  assumes "HasPacketStart (PacketProcessing_FindAllPacketLocations data)"
  shows "p1_start (PacketProcessing_FindAllPacketLocations data)
           < p1_end (PacketProcessing_FindAllPacketLocations data)"
    and "p1_end (PacketProcessing_FindAllPacketLocations data) \<le> length data"
    and "p1_start (PacketProcessing_FindAllPacketLocations data)
           < p2_start (PacketProcessing_FindAllPacketLocations data)"
    and "p2_start (PacketProcessing_FindAllPacketLocations data)
           \<le> p1_end (PacketProcessing_FindAllPacketLocations data)"
proof -
  let ?s = "search_pos PACKET_START_SEQUENCE data"
  have "?s \<noteq> length data"
    using assms by (auto simp: PacketProcessing_FindAllPacketLocations_def Let_def)
  then have s: "?s < length data"
    by (simp add: nat_less_le)
  have e: "search_pos PACKET_END_SEQUENCE (drop (Suc ?s) data) \<le> length data - Suc ?s"
    using search_pos_le [of PACKET_END_SEQUENCE "drop (Suc ?s) data"] by simp
  have "search_pos PACKET_START_SEQUENCE (take n (drop (Suc ?s) data)) \<le> n" for n
    using search_pos_le [of PACKET_START_SEQUENCE "take n (drop (Suc ?s) data)"] by simp
  with s e show "p1_start (PacketProcessing_FindAllPacketLocations data)
           < p1_end (PacketProcessing_FindAllPacketLocations data)"
    "p1_end (PacketProcessing_FindAllPacketLocations data) \<le> length data"
    "p1_start (PacketProcessing_FindAllPacketLocations data)
           < p2_start (PacketProcessing_FindAllPacketLocations data)"
    "p2_start (PacketProcessing_FindAllPacketLocations data)
           \<le> p1_end (PacketProcessing_FindAllPacketLocations data)"
    by (auto simp: PacketProcessing_FindAllPacketLocations_def Let_def)
qed

lemma cleanup_drops:
  "\<exists>n. fst (BufferCleanUp_HasEndOfPacketWithinMaxDistance data loc) = drop n data"
  by (auto simp: BufferCleanUp_HasEndOfPacketWithinMaxDistance_def Let_def
           intro: exI [of _ "0"])

lemma cleanup_unchanged:
  "\<not> snd (BufferCleanUp_HasEndOfPacketWithinMaxDistance data loc) \<Longrightarrow>
   fst (BufferCleanUp_HasEndOfPacketWithinMaxDistance data loc) = data"
  by (auto simp: BufferCleanUp_HasEndOfPacketWithinMaxDistance_def Let_def)

text \<open>
  The second half of the generator as a function of the cleaned buffer alone: after a clean-up the
  boundaries are those of the buffer it left.
\<close>

definition parse_front :: "bytes \<Rightarrow> jandy_message expected \<times> bytes" where
  "parse_front data =
     (let loc = PacketProcessing_FindAllPacketLocations data in
      if \<not> HasPacketStart loc then (Inl WaitingForMoreData, [])
      else if HasSecondPacketStart loc then (Inl OverlappingPackets, drop (p2_start loc) data)
      else if \<not> HasPacketEnd loc then (Inl WaitingForMoreData, data)
      else
        let packet = take (p1_end loc + 2 - p1_start loc) (drop (p1_start loc) data)
        in (if PacketValidation_ChecksumIsValid packet then CreateFromSerialData packet
            else Inl ChecksumFailure, drop (p1_end loc + 2) data))"

definition cleaned :: "bytes \<Rightarrow> bytes" where
  "cleaned data = fst (BufferCleanUp_HasEndOfPacketWithinMaxDistance data
                         (PacketProcessing_FindAllPacketLocations data))"

lemma generator_eq:
  "Jandy_GenerateMessageFromRawData data =
     (if data = [] \<or> \<not> HasPacketStart (PacketProcessing_FindAllPacketLocations data)
      then (Inl WaitingForMoreData, []) else parse_front (cleaned data))"
proof -
  obtain d m where c: "BufferCleanUp_HasEndOfPacketWithinMaxDistance data
      (PacketProcessing_FindAllPacketLocations data) = (d, m)" by fastforce
  then have "\<not> m \<Longrightarrow> d = data"
    using cleanup_unchanged [of data "PacketProcessing_FindAllPacketLocations data"] by simp
  then have loc: "(if m then PacketProcessing_FindAllPacketLocations d
      else PacketProcessing_FindAllPacketLocations data) = PacketProcessing_FindAllPacketLocations d"
    by auto
  show ?thesis
    using locations_start_end(4) [of d]
    by (auto simp: Jandy_GenerateMessageFromRawData_def parse_front_def cleaned_def c loc Let_def
                   BufferCleanUp_ClearBytesFromBeginToPos_def)
qed

section \<open>The contract\<close>

lemma cleaned_drops: "\<exists>n. cleaned data = drop n data"
  unfolding cleaned_def by (rule cleanup_drops)

lemma parse_front_drops: "\<exists>n. snd (parse_front data) = drop n data"
proof -
  have "\<exists>k. [] = drop k data" by (rule exI [of _ "length data"]) simp
  moreover have "\<exists>k. data = drop k data" by (rule exI [of _ 0]) simp
  ultimately show ?thesis
    by (auto simp: parse_front_def Let_def)
qed

lemma parse_front_consumes:
  assumes "fst (parse_front data) \<noteq> Inl WaitingForMoreData"
  shows "length (snd (parse_front data)) < length data"
  using assms locations_start_end [of data]
  by (auto simp: parse_front_def Let_def split: if_splits)

lemma generator_drops: "\<exists>n. snd (Jandy_GenerateMessageFromRawData data) = drop n data"
proof -
  obtain n where n: "cleaned data = drop n data" using cleaned_drops by blast
  obtain m where "snd (parse_front (cleaned data)) = drop m (drop n data)"
    using parse_front_drops [of "cleaned data"] n by auto
  moreover have "\<exists>k. [] = drop k data" by (rule exI [of _ "length data"]) simp
  ultimately show ?thesis
    by (auto simp: generator_eq drop_drop)
qed

lemma generator_consumes:
  assumes "fst (Jandy_GenerateMessageFromRawData data) \<noteq> Inl WaitingForMoreData"
  shows "length (snd (Jandy_GenerateMessageFromRawData data)) < length data"
proof -
  have "length (cleaned data) \<le> length data" using cleaned_drops [of data] by auto
  with assms parse_front_consumes [of "cleaned data"] show ?thesis
    by (auto simp: generator_eq split: if_splits)
qed

lemma create_never_defers: "CreateFromSerialData p \<noteq> Inl DataAvailableToProcess"
  by (auto simp: CreateFromSerialData_def Let_def split: option.split sum.split)

lemma generator_never_defers:
  "fst (Jandy_GenerateMessageFromRawData data) \<noteq> Inl DataAvailableToProcess"
  by (auto simp: generator_eq parse_front_def Let_def create_never_defers)

text \<open>The Jandy generator keeps the part of the contract that the parse loop relies on.\<close>

interpretation jandy: conforming Jandy_GenerateMessageFromRawData
proof
  fix buf
  show "kept buf (snd (Jandy_GenerateMessageFromRawData buf))"
    using generator_drops [of buf] by (metis kept_drop)
  show "length (snd (Jandy_GenerateMessageFromRawData buf)) < length buf"
    if "fst (Jandy_GenerateMessageFromRawData buf) \<noteq> Inl WaitingForMoreData"
    using that by (rule generator_consumes)
  show "snd (Jandy_GenerateMessageFromRawData buf) = buf"
    if "fst (Jandy_GenerateMessageFromRawData buf) = Inl DataAvailableToProcess"
    using that generator_never_defers by blast
  show "fst (Jandy_GenerateMessageFromRawData []) = Inl WaitingForMoreData"
    by (simp add: Jandy_GenerateMessageFromRawData_def)
qed

section \<open>Checksum before and after de-stuffing\<close>

lemma null_filter_append:
  "null_filter l (xs @ ys) = null_filter l xs @ null_filter (if xs = [] then l else last xs = 0x10) ys"
  by (induction xs arbitrary: l) (auto simp: Let_def)

lemma sum_list_null_filter: "sum_list (null_filter l xs) = sum_list xs"
  by (induction xs arbitrary: l) (auto simp: Let_def)

text \<open>
  The packet as it comes off the scan: \<open>DLE STX\<close>, some bytes ending in the checksum, \<open>DLE ETX\<close>.
\<close>

lemma checksum_stuffed_snoc:
  "PacketValidation_ChecksumIsValid (pre @ [c, HEADER_BYTE_DLE, HEADER_BYTE_ETX]) \<longleftrightarrow>
     (if pre \<noteq> [] \<and> last pre = HEADER_BYTE_DLE \<and> c = 0x00
      then HEADER_BYTE_DLE = sum_list (butlast pre) else c = sum_list pre)"
proof (cases pre rule: rev_cases)
  case Nil
  then show ?thesis by (simp add: PacketValidation_ChecksumIsValid_def checksum_eq_sum)
next
  case (snoc ys y)
  then show ?thesis
    by (auto simp: PacketValidation_ChecksumIsValid_def checksum_eq_sum Let_def nth_append)
qed

lemma checksum_raw_snoc:
  "4 \<le> length pre \<Longrightarrow> PacketChecksumIsValid (pre @ [c, HEADER_BYTE_DLE, HEADER_BYTE_ETX]) \<longleftrightarrow>
     c = sum_list pre"
  by (auto simp: PacketChecksumIsValid_def checksum_eq_sum wire_simps nth_append)

lemma null_filter_footer:
  "null_filter l [HEADER_BYTE_DLE, HEADER_BYTE_ETX] = [HEADER_BYTE_DLE, HEADER_BYTE_ETX]"
  by (simp add: jandy_consts)

lemma checksum_stuffed_iff:
  assumes len: "MINIMUM_PACKET_LENGTH \<le> length (null_filter False (pre @ [c, HEADER_BYTE_DLE, HEADER_BYTE_ETX]))"
  shows "PacketValidation_ChecksumIsValid (pre @ [c, HEADER_BYTE_DLE, HEADER_BYTE_ETX]) \<longleftrightarrow>
         PacketChecksumIsValid (null_filter False (pre @ [c, HEADER_BYTE_DLE, HEADER_BYTE_ETX]))"
proof (cases "pre \<noteq> [] \<and> last pre = HEADER_BYTE_DLE \<and> c = 0x00")
  case True
  then obtain ys where pre: "pre = ys @ [HEADER_BYTE_DLE]"
    by (metis append_butlast_last_id)
  have "null_filter False (pre @ [c, HEADER_BYTE_DLE, HEADER_BYTE_ETX])
      = null_filter False ys @ [HEADER_BYTE_DLE, HEADER_BYTE_DLE, HEADER_BYTE_ETX]"
    using True by (simp add: pre null_filter_append jandy_consts)
  moreover from this len have "4 \<le> length (null_filter False ys)"
    by (simp add: wire_simps)
  ultimately show ?thesis
    using True checksum_stuffed_snoc [of pre c]
    by (simp add: checksum_raw_snoc sum_list_null_filter pre)
next
  case False
  have "null_filter False (pre @ [c, HEADER_BYTE_DLE, HEADER_BYTE_ETX])
      = null_filter False pre @ [c, HEADER_BYTE_DLE, HEADER_BYTE_ETX]"
    using False by (auto simp: null_filter_append jandy_consts)
  moreover from this len have "4 \<le> length (null_filter False pre)"
    by (simp add: wire_simps)
  ultimately show ?thesis
    using False by (auto simp: checksum_stuffed_snoc checksum_raw_snoc sum_list_null_filter)
qed

section \<open>Recovering a serialised packet\<close>

lemma wire_packet_split:
  "\<exists>pre. wire_packet d t c = pre @ [if last (packet_body d t c) = HEADER_BYTE_DLE then 0x00
            else last (packet_body d t c), HEADER_BYTE_DLE, HEADER_BYTE_ETX]"
proof -
  have "null_stuff (xs @ [x]) = (null_stuff xs @ (if x = HEADER_BYTE_DLE then [x] else []))
      @ [if x = HEADER_BYTE_DLE then 0x00 else x]" for xs x
    by (induction xs) auto
  then show ?thesis
    unfolding wire_packet_def packet_body_def by (fastforce simp flip: append_Cons append_assoc)
qed

lemma wire_packet_checksum:
  "PacketValidation_ChecksumIsValid (wire_packet d t c)"
proof -
  obtain pre b where w: "wire_packet d t c = pre @ [b, HEADER_BYTE_DLE, HEADER_BYTE_ETX]"
    using wire_packet_split by blast
  have "MINIMUM_PACKET_LENGTH \<le> length (null_filter False (wire_packet d t c))"
    by (simp add: null_filter_wire_packet wire_simps)
  then show ?thesis
    using checksum_stuffed_iff [of pre b] checksum_raw_packet [of d t c]
    by (simp add: w [symmetric] null_filter_wire_packet)
qed

lemma locations_wire_packet:
  fixes pre rest :: bytes and d t :: u8 and c :: bytes
  assumes "\<not> adjacent HEADER_BYTE_DLE HEADER_BYTE_STX (pre @ [HEADER_BYTE_DLE])"
  defines "pkt \<equiv> wire_packet d t c"
  shows "PacketProcessing_FindAllPacketLocations (pre @ pkt @ rest) =
    \<lparr> p1_start = length pre, p1_end = length pre + length pkt - 2,
      p2_start = length pre + length pkt - 2, HasPacketStart = True, HasPacketEnd = True,
      HasSecondPacketStart = False \<rparr>"
proof -
  let ?b = "HEADER_BYTE_STX # null_stuff (packet_body d t c)"
  have pkt: "pkt = HEADER_BYTE_DLE # ?b @ [HEADER_BYTE_DLE, HEADER_BYTE_ETX]"
    by (simp add: pkt_def wire_packet_def)
  have start: "search_pos PACKET_START_SEQUENCE (pre @ pkt @ rest) = length pre"
    using search_pos_adjacent [OF assms(1)] by (simp add: pkt PACKET_START_SEQUENCE_def jandy_consts)
  have dr: "drop (Suc (length pre)) (pre @ pkt @ rest)
      = ?b @ HEADER_BYTE_DLE # HEADER_BYTE_ETX # rest"
    by (simp add: pkt)
  have "\<not> adjacent HEADER_BYTE_DLE HEADER_BYTE_ETX (?b @ [HEADER_BYTE_DLE])"
    using stuff_not_adjacent [of HEADER_BYTE_ETX] by (simp add: adjacent_Cons jandy_consts)
  then have stop: "search_pos PACKET_END_SEQUENCE
      (?b @ HEADER_BYTE_DLE # HEADER_BYTE_ETX # rest) = length ?b"
    unfolding PACKET_END_SEQUENCE_def by (rule search_pos_adjacent) (simp add: jandy_consts)
  have "\<not> adjacent HEADER_BYTE_DLE HEADER_BYTE_STX ?b"
    using stuff_not_adjacent [of HEADER_BYTE_STX "packet_body d t c"]
    by (simp add: adjacent_snoc adjacent_Cons jandy_consts)
  then have none: "search_pos PACKET_START_SEQUENCE ?b = length ?b"
    unfolding PACKET_START_SEQUENCE_def by (rule search_pos_not_adjacent)
  have "length pkt = length ?b + 3" by (simp add: pkt)
  with none stop dr start show ?thesis
    by (simp add: PacketProcessing_FindAllPacketLocations_def Let_def)
qed

text \<open>
  A packet that fits is handed to the factory whole, whatever follows it and whatever noise
  precedes it, and exactly its bytes and the noise are consumed.
\<close>

lemma generate_wire_packet:
  assumes noise: "\<not> adjacent HEADER_BYTE_DLE HEADER_BYTE_STX (pre @ [HEADER_BYTE_DLE])"
    and fits: "length (wire_packet d t c) \<le> MAXIMUM_PACKET_LENGTH"
  shows "Jandy_GenerateMessageFromRawData (pre @ wire_packet d t c @ rest) =
         (CreateFromSerialData (wire_packet d t c), rest)"
proof -
  let ?w = "wire_packet d t c" and ?data = "pre @ wire_packet d t c @ rest"
  note loc = locations_wire_packet [OF noise, of d t c rest]
  have w: "7 \<le> length ?w" using length_wire_packet_ge [of c d t] by simp
  have "\<not> MAXIMUM_PACKET_LENGTH < length pre + length ?w - 2 - length pre + 2"
    using fits w by simp
  then have "cleaned ?data = ?data"
    by (simp add: cleaned_def loc BufferCleanUp_HasEndOfPacketWithinMaxDistance_def Let_def
                  PACKET_END_SEQUENCE_def)
  moreover have "?w \<noteq> []" using w by auto
  ultimately show ?thesis
    using w by (simp add: generator_eq loc parse_front_def Let_def wire_packet_checksum)
qed

end
