(* ===== verification/Jandy_Properties.thy ===== *)
theory Jandy_Properties
  imports Jandy_Generator
begin

text \<open>
  The properties of the Jandy protocol stack as a whole: what a sender writes, the generator reads
  back; what the generator accepts was a well-formed packet; no packet makes a decoder leave its
  span or lets an unprintable byte through to text; corruption of a byte is detected.
\<close>

section \<open>Round trip\<close>

lemma serialize_wire_packet:
  assumes "canonical cls (m_Payload m)"
  shows "\<exists>c. Serialize m [] = Some (wire_packet (m_Destination m) (message_id_integer (m_Id m)) c)
             \<and> (\<forall>d t. DeserializeContents cls (raw_packet d t c) = Inr (m_Payload m))"
proof -
  obtain c where c: "\<And>hdr. SerializeContents (m_Payload m) hdr = Some (hdr @ c)"
    and "\<And>d t. DeserializeContents cls (raw_packet d t c) = Inr (m_Payload m)"
    using contents_roundtrip [OF assms] by blast
  moreover have "Serialize m [] = Some (JandyPacket_NullCharHandler_Serialization
      (raw_packet (m_Destination m) (message_id_integer (m_Id m)) c))"
    by (simp add: Serialize_def c raw_packet_def)
  ultimately show ?thesis
    by (auto simp: serialization_raw_packet)
qed

text \<open>
  C1: a message of a class that can be sent and read back, serialised and put on the wire behind
  noise that contains no packet start and in front of any further bytes, is recovered by the
  generator with its id, destination and payload, and exactly the noise and the packet are
  consumed. The packet may be addressed to a device whose address is the DLE byte and may contain
  DLE bytes anywhere, the checksum included.
\<close>

theorem jandy_roundtrip:
  assumes "registered_class (m_Id m) = Some cls" "canonical cls (m_Payload m)"
    and "Serialize m [] = Some packet" "length packet \<le> MAXIMUM_PACKET_LENGTH"
    and "\<not> adjacent HEADER_BYTE_DLE HEADER_BYTE_STX (noise @ [HEADER_BYTE_DLE])"
  shows "\<exists>len chk. Jandy_GenerateMessageFromRawData (noise @ packet @ rest) =
     (Inr (m \<lparr> m_RawId := message_id_integer (m_Id m), m_MessageLength := len,
               m_ChecksumValue := chk \<rparr>), rest)"
proof -
  let ?t = "message_id_integer (m_Id m)" and ?d = "m_Destination m"
  obtain c where packet: "packet = wire_packet ?d ?t c"
    and c: "DeserializeContents cls (raw_packet ?d ?t c) = Inr (m_Payload m)"
    using serialize_wire_packet [OF assms(2)] assms(3) by auto
  have fits: "length (wire_packet ?d ?t c) \<le> MAXIMUM_PACKET_LENGTH"
    using assms(4) packet by simp
  have "CreateFromSerialData packet = Inr \<lparr> m_Id = m_Id m, m_Destination = ?d, m_RawId = ?t,
      m_MessageLength = of_nat (length c + 7),
      m_ChecksumValue = JandyPacket_CalculateChecksum
        ([HEADER_BYTE_DLE, HEADER_BYTE_STX, ?d, ?t] @ c), m_Payload = m_Payload m \<rparr>"
    using c assms(1)
    by (simp add: packet create_wire_packet [OF fits] deserialize_wire_packet [OF fits]
                  CreateMessageFromRaw_def)
  moreover have "Jandy_GenerateMessageFromRawData (noise @ packet @ rest)
      = (CreateFromSerialData packet, rest)"
    unfolding packet by (rule generate_wire_packet [OF assms(5) fits])
  ultimately show ?thesis by (cases m) auto
qed

definition example_message :: jandy_message where
  "example_message = \<lparr> m_Id = MessageLong, m_Destination = 0x10, m_RawId = 0, m_MessageLength = 0,
     m_ChecksumValue = 0, m_Payload = P_MessageLong 0x10 [0x41, 0x42] \<rparr>"

theorem jandy_roundtrip_witness:
  "\<exists>len chk. Jandy_GenerateMessageFromRawData
     ([0x03, 0xFF, 0x10] @ [0x10, 0x02, 0x10, 0x00, 0x04, 0x10, 0x00, 0x41, 0x42, 0xB9, 0x10, 0x03]
      @ [0x10, 0x02, 0x07]) =
     (Inr (example_message \<lparr> m_RawId := 0x04, m_MessageLength := len, m_ChecksumValue := chk \<rparr>),
      [0x10, 0x02, 0x07])"
proof -
  have "registered_class (m_Id example_message) = Some MessageLong"
    by (simp add: example_message_def registered_class_def)
  moreover have "canonical MessageLong (m_Payload example_message)"
    by (simp add: example_message_def canonical_def display_text_def DISPLAY_LINE_LENGTH_def
                  printable_def)
  moreover have id: "message_id_integer (m_Id example_message) = 0x04"
    by (simp add: example_message_def message_id_integer_def enum_integer_def
                  JandyMessageIds_values_def)
  moreover have "Serialize example_message [] = Some [0x10, 0x02, 0x10, 0x00, 0x04, 0x10, 0x00,
      0x41, 0x42, 0xB9, 0x10, 0x03]"
    unfolding Serialize_def id
    by (simp add: example_message_def SerializeContents_def MessageLong_SerializeContents_def
                  checksum_eq_sum JandyPacket_NullCharHandler_Serialization_def wire_simps)
  ultimately show ?thesis
    using jandy_roundtrip [of example_message MessageLong
        "[0x10, 0x02, 0x10, 0x00, 0x04, 0x10, 0x00, 0x41, 0x42, 0xB9, 0x10, 0x03]"
        "[0x03, 0xFF, 0x10]" "[0x10, 0x02, 0x07]"]
    by (simp add: wire_simps)
qed

section \<open>Soundness\<close>

lemma scan_packet:
  assumes "HasPacketStart (PacketProcessing_FindAllPacketLocations data)"
    and "HasPacketEnd (PacketProcessing_FindAllPacketLocations data)"
  defines "loc \<equiv> PacketProcessing_FindAllPacketLocations data"
  shows "data = take (p1_start loc) data
                @ take (p1_end loc + 2 - p1_start loc) (drop (p1_start loc) data)
                @ drop (p1_end loc + 2) data"
proof -
  have "p1_start loc \<le> p1_end loc + 2"
    using locations_start_end(1) [OF assms(1)] by (simp add: loc_def)
  then have "drop (p1_end loc + 2) data
      = drop (p1_end loc + 2 - p1_start loc) (drop (p1_start loc) data)"
    by (simp add: drop_drop)
  then show ?thesis by (metis append_take_drop_id)
qed

lemma create_sound:
  assumes "CreateFromSerialData packet = Inr m"
  shows "MINIMUM_PACKET_LENGTH \<le> length packet" "length packet \<le> MAXIMUM_PACKET_LENGTH"
    "PacketFramingIsValid (unescape packet)" "PacketChecksumIsValid (unescape packet)"
    "m_Destination m = unescape packet ! 2" "m_RawId m = unescape packet ! 3"
  using assms
  by (auto simp: CreateFromSerialData_def DeserializeFromContiguousData_def Let_def
           split: if_splits option.splits sum.splits)

text \<open>
  C16: whenever the generator produces a message, the buffer held a packet of permitted length whose
  de-stuffed form has a valid frame and a valid checksum, the message carries that packet's
  destination and type byte, and the buffer left is exactly what followed the packet.
\<close>

theorem jandy_generator_sound:
  assumes "Jandy_GenerateMessageFromRawData data = (Inr m, rest)"
  shows "\<exists>noise packet. data = noise @ packet @ rest
     \<and> MINIMUM_PACKET_LENGTH \<le> length packet \<and> length packet \<le> MAXIMUM_PACKET_LENGTH
     \<and> PacketFramingIsValid (unescape packet) \<and> PacketChecksumIsValid (unescape packet)
     \<and> m_Destination m = unescape packet ! 2 \<and> m_RawId m = unescape packet ! 3"
proof -
  let ?d = "cleaned data" and ?loc = "PacketProcessing_FindAllPacketLocations (cleaned data)"
  let ?p = "take (p1_end ?loc + 2 - p1_start ?loc) (drop (p1_start ?loc) ?d)"
  have front: "parse_front ?d = (Inr m, rest)"
    using assms by (auto simp: generator_eq split: if_splits)
  then have found: "HasPacketStart ?loc" "HasPacketEnd ?loc" "CreateFromSerialData ?p = Inr m"
      "rest = drop (p1_end ?loc + 2) ?d"
    by (auto simp: parse_front_def Let_def split: if_splits)
  obtain n where "?d = drop n data" using cleaned_drops by blast
  then have "data = take n data @ ?d" by simp
  also have "?d = take (p1_start ?loc) ?d @ ?p @ rest"
    using scan_packet [OF found(1,2)] found(4) by simp
  finally have "data = (take n data @ take (p1_start ?loc) ?d) @ ?p @ rest" by simp
  with create_sound [OF found(3)] show ?thesis by blast
qed

theorem jandy_generator_sound_witness:
  "\<exists>noise packet. [0x55, 0x10, 0x02, 0x00, 0x01, 0x00, 0x00, 0x13, 0x10, 0x03, 0x77] =
       noise @ packet @ [0x77]
     \<and> MINIMUM_PACKET_LENGTH \<le> length packet \<and> length packet \<le> MAXIMUM_PACKET_LENGTH
     \<and> PacketFramingIsValid (unescape packet) \<and> PacketChecksumIsValid (unescape packet)
     \<and> 0x00 = unescape packet ! 2 \<and> 0x01 = unescape packet ! 3"
proof -
  have "Jandy_GenerateMessageFromRawData
      [0x55, 0x10, 0x02, 0x00, 0x01, 0x00, 0x00, 0x13, 0x10, 0x03, 0x77] =
      (Inr \<lparr> m_Id = Ack, m_Destination = 0x00, m_RawId = 0x01, m_MessageLength = 9,
             m_ChecksumValue = 0x13, m_Payload = P_Ack 0x00 0x00 \<rparr>, [0x77])"
    by code_simp
  from jandy_generator_sound [OF this] show ?thesis by simp
qed

section \<open>Decoder safety\<close>

lemma contents_in_span: "in_span (DeserializeContents cls bs)"
  by (cases cls) (simp_all add: DeserializeContents_def decoders_safe)

text \<open>
  C38: no packet, of any class, length or content, makes the decoding read outside the packet: every
  access of every decoder is within the span, and inputs that are too short are refused.
\<close>

theorem jandy_decoders_in_bounds:
  "DeserializeFromContiguousData cls bs \<noteq> Inl OutOfRange \<and> DeserializeContents cls bs \<noteq> Inl OutOfRange"
  using contents_in_span [of cls]
  by (auto simp: DeserializeFromContiguousData_def in_span_def Let_def split: sum.split)

lemma contents_texts: "texts_printable (DeserializeContents cls bs)"
  by (cases cls) (simp_all add: DeserializeContents_def decoders_texts)

text \<open>
  Every text a decoded message carries (display lines, titles, button and device names, device
  ids) consists of printable ASCII only, so no control or escape byte of a hostile packet reaches
  the logs or the user interface.
\<close>

theorem jandy_text_printable:
  assumes "CreateFromSerialData packet = Inr m"
  shows "list_all (list_all printable) (payload_texts (m_Payload m))"
proof -
  obtain cls where "DeserializeFromContiguousData cls packet = Inr m"
    using assms by (auto simp: CreateFromSerialData_def Let_def split: if_splits option.splits sum.splits)
  then have "DeserializeContents cls (unescape packet) = Inr (m_Payload m)"
    by (auto simp: DeserializeFromContiguousData_def Let_def split: if_splits sum.splits)
  with contents_texts [of cls "unescape packet"] show ?thesis
    by simp
qed

theorem jandy_text_printable_witness:
  "list_all (list_all printable) (payload_texts (P_Message [0x41, 0x3F, 0x20, 0x42]))"
proof -
  have "CreateFromSerialData
      [0x10, 0x02, 0x40, 0x03, 0x41, 0x1B, 0x00, 0x42, 0x00, 0xF3, 0x10, 0x03] =
      Inr \<lparr> m_Id = Message, m_Destination = 0x40, m_RawId = 0x03, m_MessageLength = 12,
            m_ChecksumValue = 0xF3, m_Payload = P_Message [0x41, 0x3F, 0x20, 0x42] \<rparr>"
    by code_simp
  from jandy_text_printable [OF this] show ?thesis by simp
qed

section \<open>Checksum\<close>

text \<open>
  The checksum test of the generator, made on the still stuffed bytes, gives the same verdict as
  the test on the de-stuffed packet, for every packet between a start and an end marker that is
  long enough to be one. This covers a checksum whose own value is the DLE byte and was
  therefore stuffed.
\<close>

theorem stuffed_checksum_agrees:
  assumes "length ([HEADER_BYTE_DLE, HEADER_BYTE_STX] @ body @ [HEADER_BYTE_DLE, HEADER_BYTE_ETX])
             \<le> MAXIMUM_PACKET_LENGTH"
    and "MINIMUM_PACKET_LENGTH \<le> length (unescape ([HEADER_BYTE_DLE, HEADER_BYTE_STX] @ body
             @ [HEADER_BYTE_DLE, HEADER_BYTE_ETX]))"
  shows "PacketValidation_ChecksumIsValid
           ([HEADER_BYTE_DLE, HEADER_BYTE_STX] @ body @ [HEADER_BYTE_DLE, HEADER_BYTE_ETX]) \<longleftrightarrow>
         PacketChecksumIsValid (unescape
           ([HEADER_BYTE_DLE, HEADER_BYTE_STX] @ body @ [HEADER_BYTE_DLE, HEADER_BYTE_ETX]))"
proof -
  have "body \<noteq> []"
    using assms by (auto simp: unescape_eq wire_simps)
  then obtain pre c where body: "body = pre @ [c]" by (metis rev_exhaust)
  show ?thesis
    using assms checksum_stuffed_iff [of "[HEADER_BYTE_DLE, HEADER_BYTE_STX] @ pre" c]
    by (simp add: unescape_eq body)
qed

theorem stuffed_checksum_agrees_witness:
  "PacketValidation_ChecksumIsValid [0x10, 0x02, 0x00, 0x01, 0x00, 0xFD, 0x10, 0x00, 0x10, 0x03] \<longleftrightarrow>
   PacketChecksumIsValid (unescape [0x10, 0x02, 0x00, 0x01, 0x00, 0xFD, 0x10, 0x00, 0x10, 0x03])"
proof -
  have "unescape [0x10, 0x02, 0x00, 0x01, 0x00, 0xFD, 0x10, 0x00, 0x10, 0x03]
      = [0x10, 0x02, 0x00, 0x01, 0x00, 0xFD, 0x10, 0x10, 0x03]"
    by code_simp
  then show ?thesis
    using stuffed_checksum_agrees [of "[0x00, 0x01, 0x00, 0xFD, 0x10, 0x00]"]
    by (simp add: wire_simps)
qed

text \<open>
  A packet in which one byte, anywhere up to and including the checksum, was replaced by a
  different value fails the checksum test.
\<close>

theorem corrupted_byte_rejected:
  assumes "PacketChecksumIsValid packet" "i < length packet - 2" "b \<noteq> packet ! i"
  shows "\<not> PacketChecksumIsValid (packet[i := b])"
proof -
  let ?n = "length packet - 3"
  have len: "7 \<le> length packet" and sum: "sum_list (take ?n packet) = packet ! ?n"
    using assms(1) by (simp_all add: PacketChecksumIsValid_def checksum_eq_sum wire_simps)
  show ?thesis
  proof (cases "i = ?n")
    case True
    then show ?thesis
      using assms(3) sum len
      by (auto simp: PacketChecksumIsValid_def checksum_eq_sum wire_simps)
  next
    case False
    then have i: "i < ?n" using assms(2) len by linarith
    then have "sum_list (take ?n (packet[i := b])) \<noteq> sum_list (take ?n packet)"
      using checksum_single_byte [of i "take ?n packet" b] assms(3)
      by (simp add: checksum_eq_sum take_update_swap)
    then show ?thesis
      using i sum len by (simp add: PacketChecksumIsValid_def checksum_eq_sum wire_simps)
  qed
qed

theorem corrupted_byte_rejected_witness:
  "\<not> PacketChecksumIsValid
     ([0x10, 0x02, 0x00, 0x01, 0x00, 0x00, 0x13, 0x10, 0x03][4 := 0x80])"
  by (rule corrupted_byte_rejected; code_simp)

section \<open>Identifiers\<close>

text \<open>
  Looking a class's addresses up and classifying an address are inverse to each other: a device
  id is classified as a class (other than unknown) exactly when it is among the instance addresses of
  that class, and every message id survives the trip through its wire byte.
\<close>

theorem identifiers_consistent:
  "(cls \<noteq> UnknownDevice \<longrightarrow>
      (JandyDeviceType_Class device_id = cls \<longleftrightarrow> device_id \<in> set (InstanceAddressesForClass cls)))
   \<and> message_id_cast (message_id_integer i) = Some i"
  using find_class_address [OF device_table_distinct, of cls device_id]
  by (auto simp: JandyDeviceType_Class_def InstanceAddressesForClass_def split: option.split)

theorem identifiers_consistent_witness:
  "JandyDeviceType_Class 0x42 = OneTouch"
  using identifiers_consistent [of OneTouch "0x42" Ack]
  by (simp add: InstanceAddressesForClass_def KnownDeviceIdsList_def)

section \<open>Chlorinator status flags\<close>

lemma and_single_bit: "and b (push_bit i 1) \<noteq> 0 \<longleftrightarrow> bit b i" if "i < 8" for b :: u8
  by (simp add: push_bit_eq_mult and_exp_eq_0_iff_not_bit)

definition single_bit_flags :: "AquariteStatuses list" where
  "single_bit_flags =
     [Warning_NoFlow, Warning_LowSalt, Warning_HighSalt, Warning_CleanCell, Warning_HighCurrent,
      Warning_LowVoltage, Warning_LowTemperature, Error_CheckPCB]"

lemma single_bit_values:
  "filter (\<lambda>(c, v). popcount8 v = 1) AquariteStatuses_values =
     map (\<lambda>i. (single_bit_flags ! i, push_bit i 1)) [0..<8]"
  by code_simp

lemma single_bit_integers:
  "map (\<lambda>i. enum_integer AquariteStatuses_values (single_bit_flags ! i)) [0..<8] =
     map (\<lambda>i. push_bit i 1) [0..<8]"
  by code_simp

lemma decompose_filter:
  "map fst (filter (\<lambda>(c, v). popcount8 v = 1 \<and> and b v \<noteq> 0) AquariteStatuses_values) =
     map ((!) single_bit_flags) (filter (bit b) [0..<8])"
proof -
  have "filter (\<lambda>(c, v). popcount8 v = 1 \<and> and b v \<noteq> 0) AquariteStatuses_values
      = filter (\<lambda>(c, v). and b v \<noteq> 0)
          (map (\<lambda>i. (single_bit_flags ! i, push_bit i 1)) [0..<8])"
    unfolding single_bit_values [symmetric] filter_filter by (rule filter_cong) auto
  moreover have "filter (\<lambda>i. and b (push_bit i 1) \<noteq> 0) [0..<8] = filter (bit b) [0..<8]"
    by (rule filter_cong) (simp_all only: set_upt atLeastLessThan_iff and_single_bit)
  ultimately show ?thesis
    by (simp only: filter_map comp_def case_prod_conv map_map fst_conv)
qed

lemma some_bit: "b \<noteq> 0 \<Longrightarrow> filter (bit b) [0..<8] \<noteq> []" for b :: u8
proof -
  assume "b \<noteq> 0"
  then obtain i where "bit b i" by (auto simp: bit_eq_iff)
  moreover from this have "i < 8" using bit_imp_le_length [of b i] by simp
  ultimately show ?thesis by (auto simp: filter_empty_conv)
qed

text \<open>
  A chlorinator status byte that combines several flags is decomposed without loss: the values of
  the reported flags, in order, are exactly the bits set in the byte (and the fallback to unknown is
  never taken).
\<close>

theorem aquarite_flags_exact:
  assumes "b \<noteq> 0"
  shows "map (enum_integer AquariteStatuses_values) (DecomposeStatusFlags b) =
         map (\<lambda>i. push_bit i 1) (filter (bit b) [0..<8])"
proof -
  have "DecomposeStatusFlags b = map ((!) single_bit_flags) (filter (bit b) [0..<8])"
    using some_bit [OF assms] unfolding DecomposeStatusFlags_def decompose_filter
    by (simp only: Let_def map_is_Nil_conv if_False)
  moreover have "enum_integer AquariteStatuses_values (single_bit_flags ! i) = push_bit i 1"
    if "i < 8" for i
    using that single_bit_integers unfolding map_eq_conv set_upt by auto
  ultimately show ?thesis by (simp only: map_map) auto
qed

theorem aquarite_flags_exact_witness:
  "map (enum_integer AquariteStatuses_values) (DecomposeStatusFlags 0x06) = [0x02, 0x04]"
proof -
  have "filter (bit (0x06 :: u8)) [0..<8] = [1, 2]" by code_simp
  then show ?thesis using aquarite_flags_exact [of "0x06"] by simp
qed

section \<open>Deviations\<close>

text \<open>
  The decoders compare their field indices with the length of the whole packet, footer included.
  A minimal acknowledgement packet, which has no payload at all, is therefore not refused: its
  checksum byte is taken as the acknowledgement type and its DLE footer byte as the command.
\<close>

theorem empty_ack_decodes_footer:
  "\<exists>r. CreateFromSerialData (wire_packet dest (message_id_integer Ack) []) = Inr r
       \<and> m_Payload r = P_Ack (m_ChecksumValue r) HEADER_BYTE_DLE"
proof -
  let ?t = "message_id_integer Ack" and ?w = "wire_packet dest (message_id_integer Ack) []"
  have "length ?w \<le> 12"
    by (simp add: wire_packet_def packet_body_def)
  then have fits: "length ?w \<le> MAXIMUM_PACKET_LENGTH" by (simp add: wire_simps)
  have "DeserializeContents Ack (raw_packet dest ?t []) = Inr (P_Ack
      (JandyPacket_CalculateChecksum [HEADER_BYTE_DLE, HEADER_BYTE_STX, dest, ?t]) HEADER_BYTE_DLE)"
    by (simp add: DeserializeContents_def Ack_DeserializeContents_def raw_packet_def)
  then show ?thesis
    by (simp add: create_wire_packet [OF fits] deserialize_wire_packet [OF fits]
                  CreateMessageFromRaw_def registered_class_def)
qed

text \<open>
  The serial adapter messages build a complete frame in \<open>SerializeContents\<close>, and the envelope then
  frames it again: the destination of the message is lost, the inner footer becomes payload, and
  twelve bytes are sent in place of eight.
\<close>

theorem serial_adapter_framed_twice:
  "Serialize (m \<lparr> m_Payload := P_RssaDevReady \<rparr>) [] =
     Some [0x10, 0x02, 0x00, 0x07, 0x00, 0x19, 0x10, 0x00, 0x03, 0x45, 0x10, 0x03]"
proof -
  have "message_id_integer RSSA_DevReady = 0x07"
    by (simp add: message_id_integer_def enum_integer_def JandyMessageIds_values_def)
  then show ?thesis
    by (simp add: Serialize_def SerializeContents_def DevReady_SerializeContents_def checksum_eq_sum
                  JandyPacket_NullCharHandler_Serialization_def wire_simps)
qed

end
