(* ===== verification/Pentair.thy ===== *)
theory Pentair
  imports Generator_Interface Jandy_Ids
begin

text \<open>
  The Pentair protocol (\<open>src/pentair\<close>): the 16-bit checksum, the message classes with their contents,
  the envelope, the factory and the generator. A frame is
  \<open>FF 00 FF A5 from dest command length data checksum-high checksum-low\<close>; the checksum is the sum of
  the bytes from the \<open>A5\<close> to the last data byte.

  The lemmas show that a serialised frame is recovered by the generator with the bytes around
  it untouched, that no decoder leaves the span of a frame whose size was checked, and that the
  generator keeps the whole consume-or-defer contract.
\<close>

section \<open>Constants and checksum\<close>

definition PREAMBLE_BYTE_FF :: u8 where "PREAMBLE_BYTE_FF = 0xFF"
definition PREAMBLE_BYTE_00 :: u8 where "PREAMBLE_BYTE_00 = 0x00"
definition START_OF_FRAME :: u8 where "START_OF_FRAME = 0xA5"
definition FRAME_PREAMBLE :: bytes where
  "FRAME_PREAMBLE = [PREAMBLE_BYTE_FF, PREAMBLE_BYTE_00, PREAMBLE_BYTE_FF, START_OF_FRAME]"

definition HEADER_LENGTH :: nat where "HEADER_LENGTH = 5"
definition CHECKSUM_LENGTH :: nat where "CHECKSUM_LENGTH = 2"
definition MINIMUM_FRAME_LENGTH :: nat where "MINIMUM_FRAME_LENGTH = HEADER_LENGTH + CHECKSUM_LENGTH"
definition MAXIMUM_FRAME_LENGTH :: nat where
  "MAXIMUM_FRAME_LENGTH = HEADER_LENGTH + 255 + CHECKSUM_LENGTH"

lemmas pentair_consts =
  PREAMBLE_BYTE_FF_def PREAMBLE_BYTE_00_def START_OF_FRAME_def FRAME_PREAMBLE_def
  HEADER_LENGTH_def CHECKSUM_LENGTH_def MINIMUM_FRAME_LENGTH_def MAXIMUM_FRAME_LENGTH_def

fun pentair_checksum_loop :: "u32 \<Rightarrow> bytes \<Rightarrow> u32" where
  "pentair_checksum_loop checksum [] = checksum"
| "pentair_checksum_loop checksum (v # rest) = pentair_checksum_loop (checksum + ucast v) rest"

definition PentairPacket_CalculateChecksum :: "bytes \<Rightarrow> u16" where
  "PentairPacket_CalculateChecksum message_bytes =
     ucast (and (pentair_checksum_loop 0 message_bytes) 0xFFFF)"

definition ReadBigEndianChecksum :: "bytes \<Rightarrow> u16" where
  "ReadBigEndianChecksum message_bytes =
     (let hi_index = length message_bytes - 2
      in or (push_bit 8 (ucast (message_bytes ! hi_index))) (ucast (message_bytes ! (hi_index + 1))))"

definition AppendBigEndianChecksum :: "bytes \<Rightarrow> u16 \<Rightarrow> bytes" where
  "AppendBigEndianChecksum message_bytes checksum =
     message_bytes @ [ucast (and (drop_bit 8 checksum) 0xFF), ucast (and checksum 0xFF)]"

section \<open>Messages\<close>

datatype PentairMessageIds =
    PM_Unknown | Controller_Status | Pump_Speed | Pump_Remote | Pump_Power | Pump_Status
  | Chlorinator_SetOutput | Chlorinator_Status

definition PentairMessageIds_values :: "(PentairMessageIds \<times> u8) list" where
  "PentairMessageIds_values =
    [(PM_Unknown, 0x00), (Controller_Status, 0x02), (Pump_Speed, 0x01), (Pump_Remote, 0x04),
     (Pump_Power, 0x06), (Pump_Status, 0x07), (Chlorinator_SetOutput, 0x11),
     (Chlorinator_Status, 0x12)]"

record controller_status =
  Hour :: u8
  Minute :: u8
  CircuitMask :: u8
  HasWaterTemp :: bool
  WaterTempF :: u8
  HasAirTemp :: bool
  AirTempF :: u8
  HeaterMask :: u8

record pump_status =
  PumpRPM :: u16
  PumpWatts :: u16
  PumpGPM :: u8
  PumpIsRunning :: bool

datatype pentair_payload =
    PP_Unknown bytes
  | PP_ControllerStatus controller_status
  | PP_PumpSpeed u16
  | PP_PumpPower bool
  | PP_PumpStatus pump_status
  | PP_ChlorinatorSetOutput u8
  | PP_ChlorinatorStatus u16 u8 u8

record pentair_message =
  pm_Id :: PentairMessageIds
  pm_From :: u8
  pm_Destination :: u8
  pm_RawCommand :: u8
  pm_DataLength :: u8
  pm_Payload :: pentair_payload

section \<open>Contents\<close>

text \<open>A field beyond the advertised length reads as zero.\<close>

definition DataByteAt :: "bytes \<Rightarrow> nat \<Rightarrow> (u8 \<Rightarrow> 'a decoded) \<Rightarrow> 'a decoded" where
  "DataByteAt message_bytes data_index k =
     rd message_bytes 4 (\<lambda>data_length.
       if data_index \<ge> unat data_length then k 0 else rd message_bytes (5 + data_index) k)"

definition be16 :: "u8 \<Rightarrow> u8 \<Rightarrow> u16" where
  "be16 high low = or (push_bit 8 (ucast high)) (ucast low)"

definition hi8 :: "u16 \<Rightarrow> u8" where "hi8 w = ucast (and (drop_bit 8 w) 0xFF)"
definition lo8 :: "u16 \<Rightarrow> u8" where "lo8 w = ucast (and w 0xFF)"

definition PUnknown_DeserializeContents :: "bytes \<Rightarrow> pentair_payload decoded" where
  "PUnknown_DeserializeContents message_bytes =
     rd message_bytes 4 (\<lambda>data_length.
       subspan message_bytes 5 (unat data_length) (\<lambda>payload. Inr (PP_Unknown payload)))"

definition ControllerStatus_DeserializeContents :: "bytes \<Rightarrow> pentair_payload decoded" where
  "ControllerStatus_DeserializeContents message_bytes =
     rd message_bytes 4 (\<lambda>data_length.
     DataByteAt message_bytes 0 (\<lambda>hour. DataByteAt message_bytes 1 (\<lambda>minute.
     DataByteAt message_bytes 2 (\<lambda>circuits. DataByteAt message_bytes 3 (\<lambda>water.
     DataByteAt message_bytes 4 (\<lambda>air. DataByteAt message_bytes 5 (\<lambda>heater.
       Inr (PP_ControllerStatus
         \<lparr> Hour = hour, Minute = minute, CircuitMask = circuits,
           HasWaterTemp = (3 < data_length), WaterTempF = water,
           HasAirTemp = (4 < data_length), AirTempF = air, HeaterMask = heater \<rparr>))))))))"

definition PumpSpeed_DeserializeContents :: "bytes \<Rightarrow> pentair_payload decoded" where
  "PumpSpeed_DeserializeContents message_bytes =
     rd message_bytes 4 (\<lambda>data_length.
       if data_length \<le> 1 then Inl TooShort
       else rd message_bytes 5 (\<lambda>high. rd message_bytes 6 (\<lambda>low.
              Inr (PP_PumpSpeed (be16 high low)))))"

definition PumpPower_DeserializeContents :: "bytes \<Rightarrow> pentair_payload decoded" where
  "PumpPower_DeserializeContents message_bytes =
     rd message_bytes 4 (\<lambda>data_length.
       if data_length \<le> 0 then Inl TooShort
       else rd message_bytes 5 (\<lambda>power. Inr (PP_PumpPower (power = 0x0A))))"

definition PumpStatus_DeserializeContents :: "bytes \<Rightarrow> pentair_payload decoded" where
  "PumpStatus_DeserializeContents message_bytes =
     DataByteAt message_bytes 3 (\<lambda>watts_high. DataByteAt message_bytes 4 (\<lambda>watts_low.
     DataByteAt message_bytes 5 (\<lambda>rpm_high. DataByteAt message_bytes 6 (\<lambda>rpm_low.
     DataByteAt message_bytes 7 (\<lambda>gpm. DataByteAt message_bytes 0 (\<lambda>run_state.
       Inr (PP_PumpStatus
         \<lparr> PumpRPM = be16 rpm_high rpm_low, PumpWatts = be16 watts_high watts_low,
           PumpGPM = gpm, PumpIsRunning = (run_state = 0x0A) \<rparr>)))))))"

definition SetOutput_DeserializeContents :: "bytes \<Rightarrow> pentair_payload decoded" where
  "SetOutput_DeserializeContents message_bytes =
     rd message_bytes 4 (\<lambda>data_length.
       if data_length \<le> 0 then Inl TooShort
       else rd message_bytes 5 (\<lambda>output. Inr (PP_ChlorinatorSetOutput output)))"

definition ChlorinatorStatus_DeserializeContents :: "bytes \<Rightarrow> pentair_payload decoded" where
  "ChlorinatorStatus_DeserializeContents message_bytes =
     DataByteAt message_bytes 0 (\<lambda>salt. DataByteAt message_bytes 1 (\<lambda>output.
     DataByteAt message_bytes 2 (\<lambda>flags.
       Inr (PP_ChlorinatorStatus (ucast salt * 50) output flags))))"

definition PUnknown_SerializeContents :: "bytes \<Rightarrow> bytes \<Rightarrow> bytes" where
  "PUnknown_SerializeContents payload message_bytes =
     message_bytes @ [of_nat (length payload)] @ payload"

definition ControllerStatus_SerializeContents :: "controller_status \<Rightarrow> bytes \<Rightarrow> bytes" where
  "ControllerStatus_SerializeContents st message_bytes =
     message_bytes @ [6] @ [Hour st, Minute st, CircuitMask st, WaterTempF st, AirTempF st,
                            HeaterMask st]"

definition PumpSpeed_SerializeContents :: "u16 \<Rightarrow> bytes \<Rightarrow> bytes" where
  "PumpSpeed_SerializeContents rpm message_bytes = message_bytes @ [2, hi8 rpm, lo8 rpm]"

definition PumpPower_SerializeContents :: "bool \<Rightarrow> bytes \<Rightarrow> bytes" where
  "PumpPower_SerializeContents power_on message_bytes =
     message_bytes @ [1, if power_on then 0x0A else 0x04]"

definition PumpStatus_SerializeContents :: "pump_status \<Rightarrow> bytes \<Rightarrow> bytes" where
  "PumpStatus_SerializeContents st message_bytes =
     message_bytes @ [8] @ [if PumpIsRunning st then 0x0A else 0x04, 0, 0, hi8 (PumpWatts st),
       lo8 (PumpWatts st), hi8 (PumpRPM st), lo8 (PumpRPM st), PumpGPM st]"

definition SetOutput_SerializeContents :: "u8 \<Rightarrow> bytes \<Rightarrow> bytes" where
  "SetOutput_SerializeContents output message_bytes = message_bytes @ [1, output]"

definition ChlorinatorStatus_SerializeContents :: "u16 \<Rightarrow> u8 \<Rightarrow> u8 \<Rightarrow> bytes \<Rightarrow> bytes" where
  "ChlorinatorStatus_SerializeContents salt_ppm output flags message_bytes =
     message_bytes @ [3, ucast (salt_ppm div 50), output, flags]"

text \<open>The send constructor of the chlorinator command clamps its percentage.\<close>

definition make_SetOutput :: "u8 \<Rightarrow> u8 \<Rightarrow> u8 \<Rightarrow> pentair_message" where
  "make_SetOutput from destination output_percent =
     \<lparr> pm_Id = Chlorinator_SetOutput, pm_From = from, pm_Destination = destination,
       pm_RawCommand = 0, pm_DataLength = 0,
       pm_Payload = PP_ChlorinatorSetOutput (min output_percent 100) \<rparr>"

section \<open>Envelope and factory\<close>

definition Pentair_SerializeContents :: "pentair_payload \<Rightarrow> bytes \<Rightarrow> bytes" where
  "Pentair_SerializeContents payload message_bytes =
     (case payload of
        PP_Unknown p \<Rightarrow> PUnknown_SerializeContents p message_bytes
      | PP_ControllerStatus st \<Rightarrow> ControllerStatus_SerializeContents st message_bytes
      | PP_PumpSpeed rpm \<Rightarrow> PumpSpeed_SerializeContents rpm message_bytes
      | PP_PumpPower on \<Rightarrow> PumpPower_SerializeContents on message_bytes
      | PP_PumpStatus st \<Rightarrow> PumpStatus_SerializeContents st message_bytes
      | PP_ChlorinatorSetOutput v \<Rightarrow> SetOutput_SerializeContents v message_bytes
      | PP_ChlorinatorStatus s v f \<Rightarrow> ChlorinatorStatus_SerializeContents s v f message_bytes)"

definition Pentair_DeserializeContents :: "PentairMessageIds \<Rightarrow> bytes \<Rightarrow> pentair_payload decoded" where
  "Pentair_DeserializeContents cls =
     (case cls of
        PM_Unknown \<Rightarrow> PUnknown_DeserializeContents
      | Controller_Status \<Rightarrow> ControllerStatus_DeserializeContents
      | Pump_Speed \<Rightarrow> PumpSpeed_DeserializeContents
      | Pump_Remote \<Rightarrow> PUnknown_DeserializeContents
      | Pump_Power \<Rightarrow> PumpPower_DeserializeContents
      | Pump_Status \<Rightarrow> PumpStatus_DeserializeContents
      | Chlorinator_SetOutput \<Rightarrow> SetOutput_DeserializeContents
      | Chlorinator_Status \<Rightarrow> ChlorinatorStatus_DeserializeContents)"

definition Pentair_Serialize :: "pentair_message \<Rightarrow> bytes \<Rightarrow> bytes" where
  "Pentair_Serialize m message_bytes =
     (let lead = message_bytes @ [PREAMBLE_BYTE_FF, PREAMBLE_BYTE_00, PREAMBLE_BYTE_FF];
          checksum_region_start = length lead;
          header = lead @ [START_OF_FRAME, pm_From m, pm_Destination m,
                           enum_integer PentairMessageIds_values (pm_Id m)];
          body = Pentair_SerializeContents (pm_Payload m) header
      in AppendBigEndianChecksum body
           (PentairPacket_CalculateChecksum (drop checksum_region_start body)))"

definition FrameSizeIsValid :: "bytes \<Rightarrow> bool" where
  "FrameSizeIsValid message_bytes \<longleftrightarrow>
     MINIMUM_FRAME_LENGTH \<le> length message_bytes \<and> MAXIMUM_FRAME_LENGTH \<ge> length message_bytes
     \<and> HEADER_LENGTH + unat (message_bytes ! 4) + CHECKSUM_LENGTH = length message_bytes"

definition FrameChecksumIsValid :: "bytes \<Rightarrow> bool" where
  "FrameChecksumIsValid message_bytes \<longleftrightarrow>
     \<not> MINIMUM_FRAME_LENGTH > length message_bytes
     \<and> PentairPacket_CalculateChecksum (take (length message_bytes - CHECKSUM_LENGTH) message_bytes)
        = ReadBigEndianChecksum message_bytes"

definition Pentair_DeserializeFromContiguousData ::
    "PentairMessageIds \<Rightarrow> bytes \<Rightarrow> bool \<Rightarrow> pentair_message decoded" where
  "Pentair_DeserializeFromContiguousData cls contiguous_data verify_checksum =
     (if \<not> FrameSizeIsValid contiguous_data then Inl TooShort
      else if verify_checksum \<and> \<not> FrameChecksumIsValid contiguous_data then Inl TooShort
      else case Pentair_DeserializeContents cls contiguous_data of
             Inl e \<Rightarrow> Inl e
           | Inr payload \<Rightarrow>
               Inr \<lparr> pm_Id = cls, pm_From = contiguous_data ! 1,
                     pm_Destination = contiguous_data ! 2, pm_RawCommand = contiguous_data ! 3,
                     pm_DataLength = contiguous_data ! 4, pm_Payload = payload \<rparr>)"

definition Pentair_Deserialize :: "PentairMessageIds \<Rightarrow> bytes \<Rightarrow> pentair_message decoded" where
  "Pentair_Deserialize cls message_bytes =
     (if MAXIMUM_FRAME_LENGTH < length message_bytes then Inl TooShort
      else Pentair_DeserializeFromContiguousData cls message_bytes True)"

definition CreateMessageFromCommand :: "PentairMessageIds \<Rightarrow> PentairMessageIds" where
  "CreateMessageFromCommand i =
     (case i of Pump_Remote \<Rightarrow> PM_Unknown | PM_Unknown \<Rightarrow> PM_Unknown | _ \<Rightarrow> i)"

definition Pentair_CreateFromSerialData :: "bytes \<Rightarrow> pentair_message expected" where
  "Pentair_CreateFromSerialData message_bytes =
     (if HEADER_LENGTH > length message_bytes then Inl InvalidPacketFormat
      else
        let command_id = value_or (enum_cast PentairMessageIds_values (message_bytes ! 3)) PM_Unknown
        in case Pentair_DeserializeFromContiguousData (CreateMessageFromCommand command_id)
                  message_bytes False of
             Inl e \<Rightarrow> Inl Error_FailedToDeserialize
           | Inr message \<Rightarrow> Inr message)"

section \<open>The generator\<close>

definition Pentair_GenerateMessageFromRawData ::
    "bytes \<Rightarrow> pentair_message expected \<times> bytes" where
  "Pentair_GenerateMessageFromRawData serial_data =
     (if serial_data = [] then (Inl WaitingForMoreData, serial_data)
      else
        let preamble_index = search_pos FRAME_PREAMBLE serial_data in
        if length serial_data = preamble_index then (Inl WaitingForMoreData, serial_data)
        else
          let sof_index = preamble_index + (length FRAME_PREAMBLE - 1);
              bytes_from_sof = length serial_data - sof_index
          in if HEADER_LENGTH > bytes_from_sof then (Inl DataAvailableToProcess, serial_data)
             else
               let data_length = serial_data ! (sof_index + 4);
                   frame_region_size = HEADER_LENGTH + unat data_length + CHECKSUM_LENGTH
               in if frame_region_size > bytes_from_sof
                  then (Inl DataAvailableToProcess, serial_data)
                  else
                    let region = take frame_region_size (drop sof_index serial_data);
                        expected = PentairPacket_CalculateChecksum
                                     (take (length region - CHECKSUM_LENGTH) region);
                        received = be16 (region ! (length region - CHECKSUM_LENGTH))
                                        (region ! (length region - 1))
                    in if expected \<noteq> received
                       then (Inl ChecksumFailure,
                             take preamble_index serial_data
                             @ drop (preamble_index + length FRAME_PREAMBLE) serial_data)
                       else (Pentair_CreateFromSerialData region,
                             take preamble_index serial_data
                             @ drop (preamble_index + (length FRAME_PREAMBLE - 1 + frame_region_size))
                                 serial_data))"

section \<open>Bytes and checksums\<close>

lemma hi8_eq: "hi8 w = ucast (drop_bit 8 w)"
proof -
  have "(0xFF :: u16) = mask LENGTH(8)" by (simp add: mask_eq_exp_minus_1)
  then show ?thesis unfolding hi8_def by (simp only: ucast_mask_narrow)
qed

lemma lo8_eq: "lo8 w = ucast w"
proof -
  have "(0xFF :: u16) = mask LENGTH(8)" by (simp add: mask_eq_exp_minus_1)
  then show ?thesis unfolding lo8_def by (simp only: ucast_mask_narrow)
qed

lemma be16_bytes [simp]: "be16 (hi8 w) (lo8 w) = w"
  unfolding be16_def hi8_eq lo8_eq by (rule u16_from_bytes)

section \<open>Decoders stay inside a checked frame\<close>

lemma frame_size_lengths:
  assumes "FrameSizeIsValid bs"
  shows "4 < length bs" "5 + unat (bs ! 4) < length bs"
  using assms by (auto simp: FrameSizeIsValid_def pentair_consts)

lemma in_span_DataByteAt:
  "FrameSizeIsValid bs \<Longrightarrow> (\<And>b. in_span (k b)) \<Longrightarrow> in_span (DataByteAt bs i k)"
  using frame_size_lengths [of bs] by (auto simp: DataByteAt_def)

lemma pentair_contents_in_span:
  assumes "FrameSizeIsValid bs"
  shows "in_span (Pentair_DeserializeContents cls bs)"
proof -
  note len = frame_size_lengths [OF assms]
  have one: "unat (bs ! 4) > 0" if "\<not> bs ! 4 \<le> 0"
    using that by (simp add: word_le_nat_alt)
  have two: "unat (bs ! 4) > 1" if "\<not> bs ! 4 \<le> 1"
    using that by (simp add: word_le_nat_alt)
  show ?thesis
    using len one two assms
    by (cases cls)
       (auto simp: Pentair_DeserializeContents_def PUnknown_DeserializeContents_def
                   ControllerStatus_DeserializeContents_def PumpSpeed_DeserializeContents_def
                   PumpPower_DeserializeContents_def PumpStatus_DeserializeContents_def
                   SetOutput_DeserializeContents_def ChlorinatorStatus_DeserializeContents_def
             intro!: in_span_rd in_span_subspan in_span_DataByteAt)
qed

section \<open>The contract\<close>

lemma pentair_index:
  assumes "search_pos FRAME_PREAMBLE data \<noteq> length data"
  shows "search_pos FRAME_PREAMBLE data + 4 \<le> length data"
proof -
  have "search_pos FRAME_PREAMBLE data < length data"
    using assms by (simp add: nat_less_le)
  from search_pos_fits [OF this] show ?thesis by (simp add: FRAME_PREAMBLE_def)
qed

lemma pentair_create_codes:
  "Pentair_CreateFromSerialData p \<noteq> Inl DataAvailableToProcess"
  "Pentair_CreateFromSerialData p \<noteq> Inl WaitingForMoreData"
  by (auto simp: Pentair_CreateFromSerialData_def Let_def split: sum.split)

lemma pentair_keeps: "kept data (snd (Pentair_GenerateMessageFromRawData data))"
  by (auto simp: Pentair_GenerateMessageFromRawData_def Let_def intro!: kept_erase)

lemma pentair_untouched:
  "fst (Pentair_GenerateMessageFromRawData data) \<in> {Inl WaitingForMoreData, Inl DataAvailableToProcess}
   \<Longrightarrow> snd (Pentair_GenerateMessageFromRawData data) = data"
  using pentair_create_codes
  by (auto simp: Pentair_GenerateMessageFromRawData_def Let_def split: if_splits)

lemma pentair_consumes:
  assumes "fst (Pentair_GenerateMessageFromRawData data) \<noteq> Inl WaitingForMoreData"
    and "fst (Pentair_GenerateMessageFromRawData data) \<noteq> Inl DataAvailableToProcess"
  shows "length (snd (Pentair_GenerateMessageFromRawData data)) < length data"
  using assms pentair_index [of data]
  by (auto simp: Pentair_GenerateMessageFromRawData_def Let_def pentair_consts split: if_splits)

interpretation pentair: non_destructive Pentair_GenerateMessageFromRawData
  by unfold_locales
     (auto simp: pentair_keeps pentair_consumes pentair_untouched
        Pentair_GenerateMessageFromRawData_def [of "[]"])

section \<open>Round trip\<close>

fun pentair_data :: "pentair_payload \<Rightarrow> bytes" where
  "pentair_data (PP_Unknown payload) = payload"
| "pentair_data (PP_ControllerStatus st) =
     [Hour st, Minute st, CircuitMask st, WaterTempF st, AirTempF st, HeaterMask st]"
| "pentair_data (PP_PumpSpeed rpm) = [hi8 rpm, lo8 rpm]"
| "pentair_data (PP_PumpPower on) = [if on then 0x0A else 0x04]"
| "pentair_data (PP_PumpStatus st) =
     [if PumpIsRunning st then 0x0A else 0x04, 0, 0, hi8 (PumpWatts st),
       lo8 (PumpWatts st), hi8 (PumpRPM st), lo8 (PumpRPM st), PumpGPM st]"
| "pentair_data (PP_ChlorinatorSetOutput v) = [v]"
| "pentair_data (PP_ChlorinatorStatus s v f) = [ucast (s div 50), v, f]"

lemma serialize_contents_data:
  "Pentair_SerializeContents p hdr = hdr @ [of_nat (length (pentair_data p))] @ pentair_data p"
  by (cases p)
     (simp_all add: Pentair_SerializeContents_def PUnknown_SerializeContents_def
        ControllerStatus_SerializeContents_def PumpSpeed_SerializeContents_def
        PumpPower_SerializeContents_def PumpStatus_SerializeContents_def
        SetOutput_SerializeContents_def ChlorinatorStatus_SerializeContents_def)

text \<open>The checksummed part of a frame, and the payloads a class can send and read back.\<close>

definition frame_region :: "u8 \<Rightarrow> u8 \<Rightarrow> u8 \<Rightarrow> bytes \<Rightarrow> bytes" where
  "frame_region from dest cmd dat =
     (let body = [START_OF_FRAME, from, dest, cmd, of_nat (length dat)] @ dat;
          c = PentairPacket_CalculateChecksum body
      in body @ [hi8 c, lo8 c])"

definition pentair_canonical :: "PentairMessageIds \<Rightarrow> pentair_payload \<Rightarrow> bool" where
  "pentair_canonical cls p \<longleftrightarrow>
     (case p of
        PP_Unknown payload \<Rightarrow> cls = PM_Unknown \<and> length payload \<le> 255
      | PP_ControllerStatus st \<Rightarrow> cls = Controller_Status \<and> HasWaterTemp st \<and> HasAirTemp st
      | PP_PumpSpeed rpm \<Rightarrow> cls = Pump_Speed
      | PP_PumpPower on \<Rightarrow> cls = Pump_Power
      | PP_PumpStatus st \<Rightarrow> cls = Pump_Status
      | PP_ChlorinatorSetOutput v \<Rightarrow> cls = Chlorinator_SetOutput
      | PP_ChlorinatorStatus s v f \<Rightarrow>
          cls = Chlorinator_Status \<and> s = ucast (ucast (s div 50) :: u8) * 50)"

lemma serialize_frame:
  "Pentair_Serialize m [] = take 3 FRAME_PREAMBLE @ frame_region (pm_From m) (pm_Destination m)
     (enum_integer PentairMessageIds_values (pm_Id m)) (pentair_data (pm_Payload m))"
  by (simp add: Pentair_Serialize_def serialize_contents_data frame_region_def Let_def
                AppendBigEndianChecksum_def FRAME_PREAMBLE_def hi8_def lo8_def)

lemma canonical_length: "pentair_canonical cls p \<Longrightarrow> length (pentair_data p) \<le> 255"
  by (cases p) (auto simp: pentair_canonical_def)

lemma length_frame_region [simp]: "length (frame_region f d c dat) = length dat + 7"
  by (simp add: frame_region_def Let_def)

lemma unat_length: "length dat \<le> 255 \<Longrightarrow> unat (of_nat (length dat) :: u8) = length dat"
  by (subst unat_of_nat) simp

lemma frame_region_nth [simp]:
  "frame_region f d c dat ! Suc 0 = f" "frame_region f d c dat ! 2 = d"
  "frame_region f d c dat ! 3 = c" "frame_region f d c dat ! 4 = of_nat (length dat)"
  by (simp_all add: frame_region_def Let_def)

lemma frame_region_data: "i < length dat \<Longrightarrow> frame_region f d c dat ! (5 + i) = dat ! i"
  by (simp add: frame_region_def Let_def nth_append)

lemma DataByteAt_frame:
  "length dat \<le> 255 \<Longrightarrow> i < length dat \<Longrightarrow> DataByteAt (frame_region f d c dat) i k = k (dat ! i)"
  by (simp add: DataByteAt_def unat_length frame_region_data)

lemma pentair_contents_roundtrip:
  assumes "pentair_canonical cls p"
  shows "Pentair_DeserializeContents cls (frame_region f d c (pentair_data p)) = Inr p"
proof (cases p)
  case (PP_Unknown payload)
  with assms have "length payload \<le> 255" "cls = PM_Unknown" by (simp_all add: pentair_canonical_def)
  moreover have "take (length payload) (drop 5 (frame_region f d c payload)) = payload"
    by (simp add: frame_region_def Let_def)
  ultimately show ?thesis
    using PP_Unknown
    by (simp add: Pentair_DeserializeContents_def PUnknown_DeserializeContents_def unat_length)
next
  case (PP_PumpSpeed rpm)
  with assms show ?thesis
    by (simp add: pentair_canonical_def Pentair_DeserializeContents_def
          PumpSpeed_DeserializeContents_def word_le_nat_alt
          frame_region_data [where i = 0, simplified] frame_region_data [where i = 1, simplified])
next
  case (PP_PumpPower on)
  with assms show ?thesis
    by (simp add: pentair_canonical_def Pentair_DeserializeContents_def
          PumpPower_DeserializeContents_def frame_region_data [where i = 0, simplified])
next
  case (PP_ChlorinatorSetOutput v)
  with assms show ?thesis
    by (simp add: pentair_canonical_def Pentair_DeserializeContents_def
          SetOutput_DeserializeContents_def frame_region_data [where i = 0, simplified])
qed (use assms in \<open>auto simp: pentair_canonical_def Pentair_DeserializeContents_def
       ControllerStatus_DeserializeContents_def PumpStatus_DeserializeContents_def
       ChlorinatorStatus_DeserializeContents_def DataByteAt_frame\<close>)

lemma frame_region_start: "\<exists>rest. frame_region f d c dat = START_OF_FRAME # rest"
  by (simp add: frame_region_def Let_def)

text \<open>
  A complete frame with a correct checksum goes to the factory, and exactly its bytes are erased: what
  came before it and what follows it stays.
\<close>

lemma generate_frame:
  assumes first: "search_pos FRAME_PREAMBLE (lead @ FRAME_PREAMBLE) = length lead"
    and dat: "length dat \<le> 255"
  shows "Pentair_GenerateMessageFromRawData
           (lead @ take 3 FRAME_PREAMBLE @ frame_region f d c dat @ rest) =
         (Pentair_CreateFromSerialData (frame_region f d c dat), lead @ rest)"
proof -
  let ?r = "frame_region f d c dat"
  let ?data = "lead @ take 3 FRAME_PREAMBLE @ ?r @ rest"
  obtain tl where tl: "?r = START_OF_FRAME # tl" using frame_region_start by blast
  have "?data = (lead @ FRAME_PREAMBLE) @ tl @ rest"
    by (simp add: tl FRAME_PREAMBLE_def)
  then have pos: "search_pos FRAME_PREAMBLE ?data = length lead"
    using search_pos_append [of FRAME_PREAMBLE "lead @ FRAME_PREAMBLE" "tl @ rest"] first
    by (simp add: FRAME_PREAMBLE_def)
  have sof: "drop (length lead + 3) ?data = ?r @ rest"
    by (simp add: FRAME_PREAMBLE_def)
  have len: "?data ! (length lead + 3 + 4) = of_nat (length dat)"
    by (simp add: FRAME_PREAMBLE_def nth_append)
  have chk: "PentairPacket_CalculateChecksum (take (5 + length dat) ?r)
      = be16 (?r ! (5 + length dat)) (?r ! (6 + length dat))"
  proof -
    define body where "body = [START_OF_FRAME, f, d, c, of_nat (length dat)] @ dat"
    have "length body = 5 + length dat" by (simp add: body_def)
    moreover have "?r = body @ [hi8 (PentairPacket_CalculateChecksum body),
        lo8 (PentairPacket_CalculateChecksum body)]"
      by (simp add: frame_region_def body_def Let_def)
    ultimately show ?thesis by (simp add: nth_append)
  qed
  have size: "HEADER_LENGTH + unat (of_nat (length dat) :: u8) + CHECKSUM_LENGTH = length dat + 7"
    using dat by (simp add: unat_length pentair_consts)
  have lens: "length ?data = length lead + 3 + (length dat + 7) + length rest"
    "length FRAME_PREAMBLE = 4"
    by (simp_all add: FRAME_PREAMBLE_def)
  have "drop (length dat + 7) (drop (length lead + 3) ?data) = rest"
    by (simp only: sof) simp
  then have cut: "drop (length lead + (3 + (length dat + 7))) ?data = rest"
    by (simp only: drop_drop ac_simps)
  have "?r \<noteq> []" by (simp add: tl)
  then show ?thesis
    unfolding Pentair_GenerateMessageFromRawData_def Let_def pos
    using len sof chk size lens cut
    by (simp add: HEADER_LENGTH_def CHECKSUM_LENGTH_def)
qed

lemma create_frame:
  assumes "length dat \<le> 255"
  shows "Pentair_CreateFromSerialData (frame_region f d c dat) =
    (let cls = CreateMessageFromCommand (value_or (enum_cast PentairMessageIds_values c) PM_Unknown)
     in case Pentair_DeserializeContents cls (frame_region f d c dat) of
          Inl e \<Rightarrow> Inl Error_FailedToDeserialize
        | Inr payload \<Rightarrow> Inr \<lparr> pm_Id = cls, pm_From = f, pm_Destination = d, pm_RawCommand = c,
            pm_DataLength = of_nat (length dat), pm_Payload = payload \<rparr>)"
  using assms
  by (simp add: Pentair_CreateFromSerialData_def Pentair_DeserializeFromContiguousData_def Let_def
                FrameSizeIsValid_def unat_length pentair_consts split: sum.split)

lemma pentair_id_roundtrip:
  "enum_cast PentairMessageIds_values (enum_integer PentairMessageIds_values i) = Some i"
  by (cases i) (simp_all add: enum_cast_def enum_integer_def PentairMessageIds_values_def)

lemma pentair_roundtrip_exists:
  assumes "pentair_canonical (pm_Id m) (pm_Payload m)"
    and "search_pos FRAME_PREAMBLE (lead @ FRAME_PREAMBLE) = length lead"
  shows "\<exists>cmd len. Pentair_GenerateMessageFromRawData (lead @ Pentair_Serialize m [] @ rest) =
     (Inr (m \<lparr> pm_RawCommand := cmd, pm_DataLength := len \<rparr>), lead @ rest)"
proof -
  let ?c = "enum_integer PentairMessageIds_values (pm_Id m)"
  note len = canonical_length [OF assms(1)]
  have "CreateMessageFromCommand (pm_Id m) = pm_Id m"
    using assms(1)
    by (cases "pm_Payload m") (auto simp: pentair_canonical_def CreateMessageFromCommand_def)
  then have "Pentair_CreateFromSerialData (frame_region (pm_From m) (pm_Destination m) ?c
        (pentair_data (pm_Payload m))) =
      Inr (m \<lparr> pm_RawCommand := ?c, pm_DataLength := of_nat (length (pentair_data (pm_Payload m))) \<rparr>)"
    using pentair_contents_roundtrip [OF assms(1)] len
    by (cases m) (simp add: create_frame pentair_id_roundtrip Let_def)
  then show ?thesis
    using generate_frame [OF assms(2) len, of "pm_From m" "pm_Destination m" ?c rest]
    by (auto simp: serialize_frame)
qed

text \<open>
  C32: a Pentair message of any class that can be sent, put on the wire behind bytes in which no
  preamble starts and in front of any further bytes, is recovered by the generator with its
  addresses and payload; the bytes before and after the frame are kept, so a Jandy packet that
  arrived ahead of it is not lost.
\<close>

theorem pentair_roundtrip:
  assumes "pentair_canonical (pm_Id m) (pm_Payload m)"
    and "search_pos FRAME_PREAMBLE (lead @ FRAME_PREAMBLE) = length lead"
  shows "\<exists>cmd len. Pentair_GenerateMessageFromRawData (lead @ Pentair_Serialize m [] @ rest) =
     (Inr (m \<lparr> pm_RawCommand := cmd, pm_DataLength := len \<rparr>), lead @ rest)"
  using assms by (rule pentair_roundtrip_exists)

theorem pentair_roundtrip_witness:
  "\<exists>cmd len. Pentair_GenerateMessageFromRawData
     ([0x10, 0x02, 0xFF, 0x00] @ [0xFF, 0x00, 0xFF, 0xA5, 0x10, 0x60, 0x01, 0x02, 0x0A, 0xBE, 0x01, 0xE0]
      @ [0x77]) =
     (Inr \<lparr> pm_Id = Pump_Speed, pm_From = 0x10, pm_Destination = 0x60, pm_RawCommand = cmd,
            pm_DataLength = len, pm_Payload = PP_PumpSpeed 2750 \<rparr>, [0x10, 0x02, 0xFF, 0x00, 0x77])"
proof -
  let ?m = "\<lparr> pm_Id = Pump_Speed, pm_From = 0x10, pm_Destination = 0x60, pm_RawCommand = 0,
              pm_DataLength = 0, pm_Payload = PP_PumpSpeed 2750 \<rparr>"
  have "Pentair_Serialize ?m [] =
      [0xFF, 0x00, 0xFF, 0xA5, 0x10, 0x60, 0x01, 0x02, 0x0A, 0xBE, 0x01, 0xE0]"
    by code_simp
  moreover have "search_pos FRAME_PREAMBLE ([0x10, 0x02, 0xFF, 0x00] @ FRAME_PREAMBLE) = 4"
    by code_simp
  ultimately show ?thesis
    using pentair_roundtrip [of ?m "[0x10, 0x02, 0xFF, 0x00]" "[0x77]"]
    by (simp add: pentair_canonical_def)
qed

text \<open>
  No frame that passed the size check makes a Pentair decoder read outside it, whatever its
  length byte and command say.
\<close>

theorem pentair_decoders_in_bounds:
  "Pentair_DeserializeFromContiguousData cls bs verify \<noteq> Inl OutOfRange"
  using pentair_contents_in_span [of bs cls]
  by (auto simp: Pentair_DeserializeFromContiguousData_def in_span_def split: sum.split)

text \<open>
  The Pentair generator keeps the whole consume-or-defer contract of the registry: its buffer is
  always the old one with at most one contiguous range erased; it leaves the buffer untouched
  exactly when it declines or defers; and once 262 bytes are buffered from a start of frame it
  never defers, so a corrupt length byte cannot stall the stream for longer than that.
\<close>

theorem pentair_contract:
  "kept buf (snd (Pentair_GenerateMessageFromRawData buf)) \<and>
   (snd (Pentair_GenerateMessageFromRawData buf) = buf \<longleftrightarrow>
      fst (Pentair_GenerateMessageFromRawData buf) = Inl WaitingForMoreData \<or>
      fst (Pentair_GenerateMessageFromRawData buf) = Inl DataAvailableToProcess) \<and>
   (search_pos FRAME_PREAMBLE buf + 3 + MAXIMUM_FRAME_LENGTH \<le> length buf \<longrightarrow>
      fst (Pentair_GenerateMessageFromRawData buf) \<noteq> Inl DataAvailableToProcess)"
proof (intro conjI impI)
  show "fst (Pentair_GenerateMessageFromRawData buf) \<noteq> Inl DataAvailableToProcess"
    if "search_pos FRAME_PREAMBLE buf + 3 + MAXIMUM_FRAME_LENGTH \<le> length buf"
  proof -
    have bound: "HEADER_LENGTH + unat b + CHECKSUM_LENGTH \<le> MAXIMUM_FRAME_LENGTH" for b :: u8
    proof -
      have "unat b < 2 ^ LENGTH(8)" by (rule unsigned_less)
      then show ?thesis by (simp add: pentair_consts)
    qed
    have "\<not> HEADER_LENGTH + unat b + CHECKSUM_LENGTH
        > length buf - (search_pos FRAME_PREAMBLE buf + (length FRAME_PREAMBLE - 1))" for b :: u8
      using that bound [of b] by (simp add: FRAME_PREAMBLE_def)
    then show ?thesis
      using that pentair_create_codes(1)
      by (auto simp: Pentair_GenerateMessageFromRawData_def Let_def pentair_consts)
  qed
qed (rule pentair.keeps, rule pentair.changed_iff)

theorem pentair_contract_witness:
  "fst (Pentair_GenerateMessageFromRawData (FRAME_PREAMBLE @ replicate 261 0)) \<noteq>
     Inl DataAvailableToProcess"
proof -
  have "search_pos FRAME_PREAMBLE (FRAME_PREAMBLE @ replicate 261 0) + 3 + MAXIMUM_FRAME_LENGTH
      \<le> length (FRAME_PREAMBLE @ replicate 261 (0 :: u8))"
    by (simp add: pentair_consts)
  then show ?thesis
    using pentair_contract [of "FRAME_PREAMBLE @ replicate 261 0"] by blast
qed

end
