(* ===== verification/Protocol_Registry.thy ===== *)
theory Protocol_Registry
  imports Jandy_Properties Pentair
begin

text \<open>
  The message generator registry (\<open>message_generator_registry.cpp\<close>) and the registrations of
  the two protocols: the Pentair generator with priority 0, the Jandy generator with priority 1.
  The type-erased message wrapper is the sum of the two message types.

  The lemmas show that a non-destructive generator in front of a conforming one makes a conforming
  pair, and so the registered pair is conforming.
\<close>

datatype protocol_message = JandyMsg jandy_message | PentairMsg pentair_message

type_synonym 'm generator_entry = "'m generator \<times> int"

section \<open>Registry\<close>

definition Register :: "'m generator_entry list \<Rightarrow> 'm generator \<Rightarrow> int \<Rightarrow> 'm generator_entry list" where
  "Register m_Generators gen priority = sort_key snd (m_Generators @ [(gen, priority)])"

fun try_generators :: "'m generator_entry list \<Rightarrow> bytes \<Rightarrow> 'm expected \<times> bytes" where
  "try_generators [] buffer = (Inl WaitingForMoreData, buffer)"
| "try_generators ((gen, priority) # entries) buffer =
     (case gen buffer of
        (Inr message, buffer') \<Rightarrow> (Inr message, buffer')
      | (Inl err, buffer') \<Rightarrow>
          if err \<noteq> WaitingForMoreData then (Inl err, buffer') else try_generators entries buffer')"

definition GenerateMessage :: "'m generator_entry list \<Rightarrow> bytes \<Rightarrow> 'm expected \<times> bytes" where
  "GenerateMessage m_Generators buffer =
     (if m_Generators = [] then (Inl Error_CannotFindGenerator, buffer)
      else try_generators m_Generators buffer)"

section \<open>The registered generators\<close>

definition jandy_generator :: "protocol_message generator" where
  "jandy_generator buffer =
     (case Jandy_GenerateMessageFromRawData buffer of
        (Inr m, buffer') \<Rightarrow> (Inr (JandyMsg m), buffer')
      | (Inl e, buffer') \<Rightarrow> (Inl e, buffer'))"

definition pentair_generator :: "protocol_message generator" where
  "pentair_generator buffer =
     (case Pentair_GenerateMessageFromRawData buffer of
        (Inr m, buffer') \<Rightarrow> (Inr (PentairMsg m), buffer')
      | (Inl e, buffer') \<Rightarrow> (Inl e, buffer'))"

definition RegisterMessageGenerators :: "protocol_message generator_entry list" where
  "RegisterMessageGenerators = Register (Register [] jandy_generator 1) pentair_generator 0"

definition bus_generator :: "protocol_message generator" where
  "bus_generator = GenerateMessage RegisterMessageGenerators"

section \<open>Composing generators\<close>

text \<open>Two generators, the first of which leaves the bytes of the second alone.\<close>

locale first_refusal =
  first: non_destructive g1 + second: conforming g2
  for g1 :: "'m generator" and g2 :: "'m generator"
begin

definition pair :: "'m generator" where
  "pair buf = (if fst (g1 buf) = Inl WaitingForMoreData then g2 buf else g1 buf)"

lemma pair_eq: "try_generators [(g1, p1), (g2, p2)] buf = pair buf"
  using first.declines [of buf] by (auto simp: pair_def split: prod.split sum.split)

lemma pair_keeps: "kept buf (snd (pair buf))"
  by (simp add: pair_def first.keeps second.keeps)

lemma pair_consumes:
  "buf \<noteq> [] \<Longrightarrow> fst (pair buf) \<noteq> Inl WaitingForMoreData \<Longrightarrow>
   fst (pair buf) \<noteq> Inl DataAvailableToProcess \<Longrightarrow> length (snd (pair buf)) < length buf"
  by (auto simp: pair_def first.consumes second.consumes split: if_splits)

lemma pair_defers: "fst (pair buf) = Inl DataAvailableToProcess \<Longrightarrow> snd (pair buf) = buf"
  by (auto simp: pair_def first.defers second.defers split: if_splits)

lemma pair_empty: "fst (pair []) = Inl WaitingForMoreData"
  by (simp add: pair_def first.empty_waits second.empty_waits)

end

sublocale first_refusal \<subseteq> both: conforming pair
  by unfold_locales (auto intro: pair_keeps pair_consumes pair_defers pair_empty)

lemma adapter_snd: "snd (jandy_generator buf) = snd (Jandy_GenerateMessageFromRawData buf)"
  "snd (pentair_generator buf) = snd (Pentair_GenerateMessageFromRawData buf)"
  by (simp_all add: jandy_generator_def pentair_generator_def split: prod.split sum.split)

lemma adapter_error:
  "fst (jandy_generator buf) = Inl e \<longleftrightarrow> fst (Jandy_GenerateMessageFromRawData buf) = Inl e"
  "fst (pentair_generator buf) = Inl e \<longleftrightarrow> fst (Pentair_GenerateMessageFromRawData buf) = Inl e"
  by (auto simp: jandy_generator_def pentair_generator_def split: prod.splits sum.splits)

interpretation bus: first_refusal pentair_generator jandy_generator
  by unfold_locales
     (auto simp: adapter_snd adapter_error pentair.keeps pentair.consumes pentair.defers
        pentair.declines pentair.empty_waits jandy.keeps jandy.consumes jandy.defers
        jandy.empty_waits)

lemma registered: "RegisterMessageGenerators = [(pentair_generator, 0), (jandy_generator, 1)]"
  by (simp add: RegisterMessageGenerators_def Register_def)

lemma bus_generator_eq: "bus_generator = bus.pair"
  by (rule ext) (simp add: bus_generator_def GenerateMessage_def registered bus.pair_eq
                      del: try_generators.simps)

interpretation bus_gen: conforming bus_generator
  unfolding bus_generator_eq by (rule bus.both.conforming_axioms)

end
