(* ===== verification/Protocol_Task.thy ===== *)
theory Protocol_Task
  imports Protocol_Registry
begin

text \<open>
  The protocol task (\<open>protocol_thread.cpp\<close>) and the error handler it calls
  (\<open>protocol_handler_read_handler_errors.cpp\<close>): one
  \<open>Poll\<close> drains the pending writes, reads what the port has, parses messages until more data is needed,
  dispatches each to its handlers and drains the writes again.

  The serial port belongs to the operating system: its answers to \<open>write_some\<close> and \<open>read_some\<close> are
  lists that the calls consume one by one, and a port with no further answer would block. The slots a
  message is dispatched to are the parameter \<open>dispatch\<close>: from the message and the state \<open>'w\<close> of the
  rest of the application they give the new state, the buffers they pass to \<open>EnqueueWrite\<close>, and
  whether one of them threw. Counters are natural numbers; latency metrics and profiler plots
  are left out.
\<close>

section \<open>State\<close>

record statistics =
  TransmissionFailures :: nat
  SerialWriteQueueDepth :: nat
  ChecksumFailures :: nat
  DeserializationFailures :: nat
  InvalidPacketFormats :: nat
  GeneratorFailures :: nat
  OverlappingPacketCount :: nat
  BufferOverflows :: nat
  HandlerExceptions :: nat

record 'w protocol_task =
  m_WriteQueue :: "bytes list"
  m_WriteOffset :: nat
  m_SerialBuffer :: bytes
  m_SingleReadPerPoll :: bool
  m_StatisticsHub :: "statistics option"
  m_World :: 'w

type_synonym ('m, 'w) dispatch = "'m \<Rightarrow> 'w \<Rightarrow> 'w \<times> bytes list \<times> bool"

definition SERIAL_CIRCULAR_BUFFER_SIZE :: nat where "SERIAL_CIRCULAR_BUFFER_SIZE = 4096"
definition SERIAL_READ_CHUNK_SIZE :: nat where "SERIAL_READ_CHUNK_SIZE = 128"

definition count :: "(statistics \<Rightarrow> statistics) \<Rightarrow> 'w protocol_task \<Rightarrow> 'w protocol_task" where
  "count f t = t \<lparr> m_StatisticsHub := map_option f (m_StatisticsHub t) \<rparr>"

datatype io_error =
    WouldBlock | TryAgain | OperationAborted | Eof | BadDescriptor | AlreadyOpen | InvalidArgument
  | OtherIoError
datatype write_answer = Written nat | WriteError io_error
datatype read_answer = ReadBytes bytes | ReadError io_error

section \<open>Writing\<close>

definition EnqueueWrite :: "bytes \<Rightarrow> 'w protocol_task \<Rightarrow> 'w protocol_task" where
  "EnqueueWrite buffer t = t \<lparr> m_WriteQueue := m_WriteQueue t @ [buffer] \<rparr>"

text \<open>
  The inner loop of \<open>DrainWrites\<close> on the front buffer: the new offset, the bytes put on the wire, the
  answers left, and whether a transmission failure is counted. The port never takes more bytes than
  it is offered.
\<close>

fun write_loop :: "bytes \<Rightarrow> nat \<Rightarrow> write_answer list \<Rightarrow> nat \<times> bytes \<times> write_answer list \<times> bool" where
  "write_loop buffer offset [] = (offset, [], [], False)"
| "write_loop buffer offset (answer # rest) =
     (if \<not> offset < length buffer then (offset, [], answer # rest, False)
      else case answer of
        WriteError e \<Rightarrow> (offset, [], rest, e \<noteq> WouldBlock \<and> e \<noteq> TryAgain)
      | Written n \<Rightarrow>
          (let k = min n (length buffer - offset);
               (offset', wire, rest', failed) = write_loop buffer (offset + k) rest
           in (offset', take k (drop offset buffer) @ wire, rest', failed)))"

fun drain_writes_loop ::
    "bytes list \<Rightarrow> nat \<Rightarrow> write_answer list \<Rightarrow> bytes list \<times> nat \<times> bytes \<times> write_answer list \<times> nat" where
  "drain_writes_loop [] offset answers = ([], offset, [], answers, 0)"
| "drain_writes_loop (buffer # queue) offset answers =
     (let (offset', wire, rest, failed) = write_loop buffer offset answers in
      if offset' \<ge> length buffer then
        (let (queue', offset'', wire', rest', failures) = drain_writes_loop queue 0 rest
         in (queue', offset'', wire @ wire', rest', failures + (if failed then 1 else 0)))
      else (buffer # queue, offset', wire, rest, if failed then 1 else 0))"

definition DrainWrites ::
    "write_answer list \<Rightarrow> 'w protocol_task \<Rightarrow> 'w protocol_task \<times> bytes \<times> write_answer list" where
  "DrainWrites answers t =
     (let (queue, offset, wire, rest, failures) =
            drain_writes_loop (m_WriteQueue t) (m_WriteOffset t) answers
      in (count (\<lambda>s. s \<lparr> TransmissionFailures := TransmissionFailures s + failures \<rparr>)
            (t \<lparr> m_WriteQueue := queue, m_WriteOffset := offset \<rparr>), wire, rest))"

section \<open>Reading\<close>

text \<open>
  One chunk that was read: what fits is appended, the rest of the chunk is dropped and counted.
\<close>

definition insert_chunk :: "bytes \<Rightarrow> bytes \<Rightarrow> bytes \<times> nat" where
  "insert_chunk buffer chunk =
     (let bytes_read = length chunk;
          space_available = SERIAL_CIRCULAR_BUFFER_SIZE - length buffer;
          bytes_to_insert = min bytes_read space_available;
          bytes_discarded = (if bytes_read > space_available then bytes_read - space_available else 0)
      in (buffer @ take bytes_to_insert chunk, bytes_discarded))"

primrec drain_reads_loop ::
    "bool \<Rightarrow> read_answer list \<Rightarrow> bytes \<Rightarrow> nat \<Rightarrow> bytes \<times> nat \<times> read_answer list" where
  "drain_reads_loop single [] buffer dropped = (buffer, dropped, [])"
| "drain_reads_loop single (answer # rest) buffer dropped =
     (case answer of
        ReadError e \<Rightarrow> (buffer, dropped, rest)
      | ReadBytes bs \<Rightarrow>
          let chunk = take SERIAL_READ_CHUNK_SIZE bs
          in if length chunk = 0 then (buffer, dropped, rest)
             else
               let (buffer', bytes_discarded) = insert_chunk buffer chunk
               in if single then (buffer', dropped + bytes_discarded, rest)
                  else drain_reads_loop single rest buffer' (dropped + bytes_discarded))"

definition DrainReads :: "read_answer list \<Rightarrow> 'w protocol_task \<Rightarrow> 'w protocol_task \<times> read_answer list" where
  "DrainReads answers t =
     (let (buffer, dropped, rest) =
            drain_reads_loop (m_SingleReadPerPoll t) answers (m_SerialBuffer t) 0
      in (count (\<lambda>s. s \<lparr> BufferOverflows := BufferOverflows s + dropped \<rparr>)
            (t \<lparr> m_SerialBuffer := buffer \<rparr>), rest))"

section \<open>Parsing\<close>

definition ReadOp_ErrorHandler :: "error_code \<Rightarrow> 'w protocol_task \<Rightarrow> 'w protocol_task" where
  "ReadOp_ErrorHandler err t =
     (if err = Error_CannotFindGenerator
      then count (\<lambda>s. s \<lparr> GeneratorFailures := GeneratorFailures s + 1 \<rparr>) t
      else if err = Error_GeneratorFailed
      then count (\<lambda>s. s \<lparr> GeneratorFailures := GeneratorFailures s + 1 \<rparr>) t
      else if err = Error_FailedToDeserialize
      then count (\<lambda>s. s \<lparr> DeserializationFailures := DeserializationFailures s + 1 \<rparr>) t
      else if err = InvalidPacketFormat
      then count (\<lambda>s. s \<lparr> InvalidPacketFormats := InvalidPacketFormats s + 1 \<rparr>) t
      else if err = ChecksumFailure
      then count (\<lambda>s. s \<lparr> ChecksumFailures := ChecksumFailures s + 1 \<rparr>) t
      else if err = OverlappingPackets
      then count (\<lambda>s. s \<lparr> OverlappingPacketCount := OverlappingPacketCount s + 1 \<rparr>) t
      else t)"

definition HandleParsedMessage ::
    "('m, 'w) dispatch \<Rightarrow> 'm \<Rightarrow> 'w protocol_task \<Rightarrow> 'w protocol_task" where
  "HandleParsedMessage dispatch message t =
     (let (world, writes, threw) = dispatch message (m_World t);
          t' = fold EnqueueWrite writes (t \<lparr> m_World := world \<rparr>)
      in if threw then count (\<lambda>s. s \<lparr> HandlerExceptions := HandlerExceptions s + 1 \<rparr>) t' else t')"

definition HandleGenerationError ::
    "error_code \<Rightarrow> nat \<Rightarrow> 'w protocol_task \<Rightarrow> 'w protocol_task \<times> bool" where
  "HandleGenerationError err size_before t =
     (let t' = ReadOp_ErrorHandler err t;
          keep_processing = (err = DataAvailableToProcess \<or> err = ChecksumFailure
                             \<or> err = OverlappingPackets)
      in (t', keep_processing \<and> length (m_SerialBuffer t') < size_before))"

text \<open>The parse loop. It is a partial function: \<open>None\<close> would be a loop that never ends.\<close>

partial_function (option) ProcessMessages ::
    "'m generator \<Rightarrow> ('m, 'w) dispatch \<Rightarrow> 'w protocol_task \<Rightarrow> nat \<Rightarrow> ('w protocol_task \<times> nat) option" where
  "ProcessMessages gen dispatch t messages_parsed =
     (if m_SerialBuffer t = [] then Some (t, messages_parsed)
      else
        let size_before = length (m_SerialBuffer t);
            (result, buffer) = gen (m_SerialBuffer t);
            t1 = t \<lparr> m_SerialBuffer := buffer \<rparr>
        in case result of
             Inr message \<Rightarrow>
               ProcessMessages gen dispatch (HandleParsedMessage dispatch message t1)
                 (messages_parsed + 1)
           | Inl err \<Rightarrow>
               (let (t2, again) = HandleGenerationError err size_before t1
                in if again then ProcessMessages gen dispatch t2 messages_parsed
                   else Some (t2, messages_parsed)))"

definition Poll ::
    "'m generator \<Rightarrow> ('m, 'w) dispatch \<Rightarrow> write_answer list \<Rightarrow> read_answer list \<Rightarrow> 'w protocol_task \<Rightarrow>
     (bool \<times> 'w protocol_task \<times> bytes) option" where
  "Poll gen dispatch w_answers r_answers t =
     (let (t1, wire1, w_answers1) = DrainWrites w_answers t;
          (t2, r_answers1) = DrainReads r_answers t1
      in case (if m_SerialBuffer t2 \<noteq> []
               then (case ProcessMessages gen dispatch t2 0 of
                       None \<Rightarrow> None
                     | Some (t3, messages_parsed) \<Rightarrow>
                         let (t4, wire2, w_answers2) = DrainWrites w_answers1 t3
                         in Some (t4, messages_parsed, wire2))
               else Some (t2, 0, [])) of
           None \<Rightarrow> None
         | Some (t5, messages_parsed, wire3) \<Rightarrow>
             let t6 = count (\<lambda>s. s \<lparr> SerialWriteQueueDepth := length (m_WriteQueue t5) \<rparr>) t5
             in Some (messages_parsed > 0 \<or> m_WriteQueue t6 \<noteq> [], t6, wire1 @ wire3))"

section \<open>Frame conditions\<close>

lemma count_frame [simp]:
  "m_WriteQueue (count f t) = m_WriteQueue t" "m_WriteOffset (count f t) = m_WriteOffset t"
  "m_SerialBuffer (count f t) = m_SerialBuffer t" "m_World (count f t) = m_World t"
  "m_SingleReadPerPoll (count f t) = m_SingleReadPerPoll t"
  by (simp_all add: count_def)

lemma enqueue_all:
  "m_WriteQueue (fold EnqueueWrite bs t) = m_WriteQueue t @ bs"
  "m_WriteOffset (fold EnqueueWrite bs t) = m_WriteOffset t"
  "m_SerialBuffer (fold EnqueueWrite bs t) = m_SerialBuffer t"
  "m_World (fold EnqueueWrite bs t) = m_World t"
  by (induction bs arbitrary: t) (simp_all add: EnqueueWrite_def)

lemma error_handler_frame [simp]:
  "m_WriteQueue (ReadOp_ErrorHandler e t) = m_WriteQueue t"
  "m_WriteOffset (ReadOp_ErrorHandler e t) = m_WriteOffset t"
  "m_SerialBuffer (ReadOp_ErrorHandler e t) = m_SerialBuffer t"
  "m_World (ReadOp_ErrorHandler e t) = m_World t"
  by (simp_all add: ReadOp_ErrorHandler_def)

lemma parsed_frame [simp]:
  "m_SerialBuffer (HandleParsedMessage dispatch m t) = m_SerialBuffer t"
  "m_WriteOffset (HandleParsedMessage dispatch m t) = m_WriteOffset t"
  by (simp_all add: HandleParsedMessage_def Let_def enqueue_all split: prod.split)

lemma parsed_world: "m_World (HandleParsedMessage dispatch m t) = fst (dispatch m (m_World t))"
  by (simp add: HandleParsedMessage_def Let_def enqueue_all split: prod.split)

lemma parsed_queue:
  "m_WriteQueue (HandleParsedMessage dispatch m t)
     = m_WriteQueue t @ fst (snd (dispatch m (m_World t)))"
  by (simp add: HandleParsedMessage_def Let_def enqueue_all split: prod.split)

section \<open>Writes\<close>

text \<open>The bytes still to be sent: the rest of the front buffer and the buffers behind it.\<close>

fun pending :: "bytes list \<Rightarrow> nat \<Rightarrow> bytes" where
  "pending [] offset = []"
| "pending (buffer # queue) offset = drop offset buffer @ concat queue"

lemma write_loop_sends:
  "write_loop buffer offset answers = (offset', wire, rest, failed) \<Longrightarrow> offset \<le> length buffer \<Longrightarrow>
   offset' \<le> length buffer \<and> wire @ drop offset' buffer = drop offset buffer"
proof (induction answers arbitrary: offset offset' wire rest failed)
  case Nil
  then show ?case by simp
next
  case (Cons a answers)
  show ?case
  proof (cases "offset < length buffer \<and> (\<exists>n. a = Written n)")
    case False
    with Cons.prems show ?thesis by (cases a) (auto split: if_splits)
  next
    case True
    then obtain n where a: "a = Written n" by blast
    define k where "k = min n (length buffer - offset)"
    obtain o2 w2 r2 f2 where rec: "write_loop buffer (offset + k) answers = (o2, w2, r2, f2)"
      by (metis prod_cases4)
    have "offset + k \<le> length buffer" using Cons.prems(2) by (simp add: k_def)
    with Cons.IH [OF rec] have "o2 \<le> length buffer"
      "w2 @ drop o2 buffer = drop (offset + k) buffer" by auto
    moreover have "take k (drop offset buffer) @ drop (offset + k) buffer = drop offset buffer"
      by (metis append_take_drop_id drop_drop add.commute)
    ultimately show ?thesis
      using Cons.prems True by (simp add: a rec k_def [symmetric] Let_def) auto
  qed
qed

lemma pending_concat: "pending queue 0 = concat queue"
  by (cases queue) simp_all

lemma drain_writes_sends:
  "drain_writes_loop queue offset answers = (queue', offset', wire, rest, failures) \<Longrightarrow>
   (queue \<noteq> [] \<Longrightarrow> offset \<le> length (hd queue)) \<Longrightarrow>
   (queue' \<noteq> [] \<longrightarrow> offset' < length (hd queue')) \<and> wire @ pending queue' offset' = pending queue offset"
proof (induction queue arbitrary: offset answers queue' offset' wire rest failures)
  case Nil
  then show ?case by simp
next
  case (Cons buffer queue)
  obtain o1 w1 r1 f1 where w: "write_loop buffer offset answers = (o1, w1, r1, f1)"
    by (metis prod_cases4)
  have sent: "o1 \<le> length buffer" "w1 @ drop o1 buffer = drop offset buffer"
    using write_loop_sends [OF w] Cons.prems(2) by auto
  show ?case
  proof (cases "o1 \<ge> length buffer")
    case False
    with Cons.prems sent show ?thesis by (auto simp: w)
  next
    case True
    obtain q2 o2 w2 r2 n2 where rec: "drain_writes_loop queue 0 r1 = (q2, o2, w2, r2, n2)"
      by (metis prod_cases5)
    from True sent(2) have "w1 = drop offset buffer" by simp
    with Cons.prems(1) Cons.IH [OF rec] True show ?thesis
      by (auto simp: w rec pending_concat)
  qed
qed

text \<open>
  C7: draining the write queue sends bytes in the order they were queued, without loss, duplication
  or reordering, whatever partial writes and errors the port answers: what went onto the wire
  followed by what is still pending is exactly what was pending before, and the offset stays inside
  the front buffer.
\<close>

theorem writes_in_order:
  assumes "m_WriteQueue t \<noteq> [] \<Longrightarrow> m_WriteOffset t \<le> length (hd (m_WriteQueue t))"
    and "DrainWrites answers t = (t', wire, rest)"
  shows "wire @ pending (m_WriteQueue t') (m_WriteOffset t')
           = pending (m_WriteQueue t) (m_WriteOffset t)
         \<and> (m_WriteQueue t' = [] \<or> m_WriteOffset t' < length (hd (m_WriteQueue t')))"
proof -
  obtain q off w r n where d: "drain_writes_loop (m_WriteQueue t) (m_WriteOffset t) answers
      = (q, off, w, r, n)" by (metis prod_cases5)
  with assms(2) have "m_WriteQueue t' = q" "m_WriteOffset t' = off" "wire = w"
    by (auto simp: DrainWrites_def)
  with drain_writes_sends [OF d assms(1)] show ?thesis by auto
qed

definition idle_task :: "bytes list \<Rightarrow> nat \<Rightarrow> bytes \<Rightarrow> unit protocol_task" where
  "idle_task queue offset buffer =
     \<lparr> m_WriteQueue = queue, m_WriteOffset = offset, m_SerialBuffer = buffer,
       m_SingleReadPerPoll = False, m_StatisticsHub = None, m_World = () \<rparr>"

theorem writes_in_order_witness:
  "fst (snd (DrainWrites [Written 2, Written 9, Written 1, WriteError Eof]
       (idle_task [[1, 2, 3], [4, 5]] 0 []))) @ pending [[4, 5]] 1 = [1, 2, 3, 4, 5]"
proof -
  let ?t = "idle_task [[1, 2, 3], [4, 5]] 0 []"
    and ?answers = "[Written 2, Written 9, Written 1, WriteError Eof]"
  have d: "DrainWrites ?answers ?t = (idle_task [[4, 5]] 1 [], [1, 2, 3, 4], [])"
    by code_simp
  show ?thesis
    unfolding d using writes_in_order [OF _ d] by (simp add: idle_task_def)
qed

section \<open>Reads\<close>

lemma insert_chunk_props:
  assumes "insert_chunk buffer chunk = (buffer', n)" "length buffer \<le> SERIAL_CIRCULAR_BUFFER_SIZE"
  shows "length buffer' \<le> SERIAL_CIRCULAR_BUFFER_SIZE"
    "\<exists>k. buffer' = buffer @ take k chunk \<and> k + n = length chunk
         \<and> (n = 0 \<or> length buffer' = SERIAL_CIRCULAR_BUFFER_SIZE)"
proof -
  show "length buffer' \<le> SERIAL_CIRCULAR_BUFFER_SIZE"
    using assms by (auto simp: insert_chunk_def Let_def min_def split: if_splits)
  show "\<exists>k. buffer' = buffer @ take k chunk \<and> k + n = length chunk
         \<and> (n = 0 \<or> length buffer' = SERIAL_CIRCULAR_BUFFER_SIZE)"
    using assms
    by (intro exI [of _ "min (length chunk) (SERIAL_CIRCULAR_BUFFER_SIZE - length buffer)"])
       (auto simp: insert_chunk_def Let_def min_def split: if_splits)
qed

lemma drain_reads_props:
  "drain_reads_loop single answers buffer dropped = (buffer', dropped', rest) \<Longrightarrow>
   length buffer \<le> SERIAL_CIRCULAR_BUFFER_SIZE \<Longrightarrow>
   length buffer' \<le> SERIAL_CIRCULAR_BUFFER_SIZE \<and> (\<exists>new. buffer' = buffer @ new)
   \<and> dropped \<le> dropped' \<and> (dropped < dropped' \<longrightarrow> length buffer' = SERIAL_CIRCULAR_BUFFER_SIZE)"
proof (induction answers arbitrary: buffer dropped)
  case Nil
  then show ?case by simp
next
  case (Cons a answers)
  show ?case
  proof (cases a)
    case (ReadError e)
    with Cons.prems show ?thesis by simp
  next
    case (ReadBytes bs)
    define chunk where "chunk = take SERIAL_READ_CHUNK_SIZE bs"
    obtain b1 n1 where ins: "insert_chunk buffer chunk = (b1, n1)" by fastforce
    note b1 = insert_chunk_props [OF ins Cons.prems(2)]
    then obtain k where k: "b1 = buffer @ take k chunk"
      and full: "n1 = 0 \<or> length b1 = SERIAL_CIRCULAR_BUFFER_SIZE" by blast
    show ?thesis
    proof (cases "length chunk = 0 \<or> single")
      case True
      with Cons.prems b1(1) k full show ?thesis
        by (auto simp: ReadBytes ins Let_def simp flip: chunk_def split: if_splits)
    next
      case False
      with Cons.prems(1) have "drain_reads_loop single answers b1 (dropped + n1)
          = (buffer', dropped', rest)"
        by (simp add: ReadBytes ins Let_def flip: chunk_def split: if_splits)
      from Cons.IH [OF this b1(1)] k full show ?thesis by auto
    qed
  qed
qed

text \<open>
  Reading never overruns the serial buffer's capacity and never evicts or alters the bytes already
  buffered, the packet in flight: new bytes are only appended, and bytes are dropped (and counted)
  only when the buffer is full.
\<close>

theorem reads_preserve_inflight:
  assumes "length (m_SerialBuffer t) \<le> SERIAL_CIRCULAR_BUFFER_SIZE"
    and "DrainReads answers t = (t', rest)"
  shows "length (m_SerialBuffer t') \<le> SERIAL_CIRCULAR_BUFFER_SIZE
    \<and> (\<exists>new. m_SerialBuffer t' = m_SerialBuffer t @ new)
    \<and> (m_StatisticsHub t' = m_StatisticsHub t \<or> length (m_SerialBuffer t') = SERIAL_CIRCULAR_BUFFER_SIZE)"
proof -
  obtain b n r where d: "drain_reads_loop (m_SingleReadPerPoll t) answers (m_SerialBuffer t) 0
      = (b, n, r)" by (metis prod_cases3)
  with assms(2) have t': "m_SerialBuffer t' = b"
    "m_StatisticsHub t' = map_option (\<lambda>s. s \<lparr> BufferOverflows := BufferOverflows s + n \<rparr>) (m_StatisticsHub t)"
    by (auto simp: DrainReads_def count_def)
  moreover have "map_option (\<lambda>s. s \<lparr> BufferOverflows := BufferOverflows s + 0 \<rparr>) h = h" for h
    by (cases h) simp_all
  ultimately show ?thesis
    using drain_reads_props [OF d assms(1)] by (cases "n = 0") auto
qed

theorem reads_preserve_inflight_witness:
  "\<exists>new. m_SerialBuffer (fst (DrainReads [ReadBytes [7, 8], ReadError WouldBlock]
     (idle_task [] 0 [0x10, 0x02]))) = [0x10, 0x02] @ new"
proof -
  let ?t = "idle_task [] 0 [0x10, 0x02]" and ?a = "[ReadBytes [7, 8], ReadError WouldBlock]"
  obtain t' r where d: "DrainReads ?a ?t = (t', r)" by fastforce
  have "length (m_SerialBuffer ?t) \<le> SERIAL_CIRCULAR_BUFFER_SIZE"
    by (simp add: idle_task_def SERIAL_CIRCULAR_BUFFER_SIZE_def)
  from reads_preserve_inflight [OF this d] show ?thesis
    unfolding d by (simp add: idle_task_def)
qed

section \<open>The parse loop ends\<close>

context conforming
begin

text \<open>
  On a conforming generator the parse loop returns: every iteration that goes on has shortened the
  buffer. What it leaves of the buffer is never longer, and the write offset is untouched.
\<close>

lemma process_returns:
  "\<exists>t' n'. ProcessMessages gen dispatch t n = Some (t', n') \<and> n \<le> n'
      \<and> length (m_SerialBuffer t') \<le> length (m_SerialBuffer t)
      \<and> m_WriteOffset t' = m_WriteOffset t \<and> (\<exists>qs. m_WriteQueue t' = m_WriteQueue t @ qs)"
proof (induction "length (m_SerialBuffer t)" arbitrary: t n rule: less_induct)
  case less
  show ?case
  proof (cases "m_SerialBuffer t = []")
    case True
    then show ?thesis by (subst ProcessMessages.simps) simp
  next
    case False
    obtain result buf where g: "gen (m_SerialBuffer t) = (result, buf)" by fastforce
    let ?t1 = "t \<lparr> m_SerialBuffer := buf \<rparr>"
    show ?thesis
    proof (cases result)
      case (Inr m)
      let ?t2 = "HandleParsedMessage dispatch m ?t1"
      have step: "ProcessMessages gen dispatch t n = ProcessMessages gen dispatch ?t2 (n + 1)"
        using False by (subst ProcessMessages.simps) (simp add: g Inr)
      have "length buf < length (m_SerialBuffer t)"
        using value_consumes [of "m_SerialBuffer t" m] g Inr by simp
      then have "length (m_SerialBuffer ?t2) < length (m_SerialBuffer t)" by simp
      from less [OF this, of "n + 1"] show ?thesis
        unfolding step using \<open>length buf < length (m_SerialBuffer t)\<close>
        by (fastforce simp: parsed_queue)
    next
      case (Inl e)
      let ?h = "HandleGenerationError e (length (m_SerialBuffer t)) ?t1"
      have frame: "m_SerialBuffer (fst ?h) = buf" "m_WriteOffset (fst ?h) = m_WriteOffset t"
        "m_WriteQueue (fst ?h) = m_WriteQueue t"
        "snd ?h \<Longrightarrow> length buf < length (m_SerialBuffer t)"
        by (simp_all add: HandleGenerationError_def Let_def)
      have le: "length buf \<le> length (m_SerialBuffer t)"
        using length_le [of "m_SerialBuffer t"] g by simp
      have step: "ProcessMessages gen dispatch t n
          = (if snd ?h then ProcessMessages gen dispatch (fst ?h) n else Some (fst ?h, n))"
        using False by (subst ProcessMessages.simps) (simp add: g Inl split: prod.split)
      show ?thesis
      proof (cases "snd ?h")
        case True
        with frame have "length (m_SerialBuffer (fst ?h)) < length (m_SerialBuffer t)" by simp
        from less [OF this, of n] show ?thesis
          unfolding step using True frame le by auto
      next
        case False
        then show ?thesis unfolding step using frame le by auto
      qed
    qed
  qed
qed

lemma poll_returns: "\<exists>r. Poll gen dispatch w_answers r_answers t = Some r"
proof -
  obtain t1 w1 a1 where w: "DrainWrites w_answers t = (t1, w1, a1)" by (metis prod_cases3)
  obtain t2 a2 where r: "DrainReads r_answers t1 = (t2, a2)" by fastforce
  obtain t3 n where p: "ProcessMessages gen dispatch t2 0 = Some (t3, n)"
    using process_returns by blast
  show ?thesis by (simp add: Poll_def w r p Let_def split: prod.split)
qed

lemma poll_bounded:
  assumes "length (m_SerialBuffer t) \<le> SERIAL_CIRCULAR_BUFFER_SIZE"
    and "Poll gen dispatch w_answers r_answers t = Some (busy, t', wire)"
  shows "length (m_SerialBuffer t') \<le> SERIAL_CIRCULAR_BUFFER_SIZE"
proof -
  have same: "m_SerialBuffer s' = m_SerialBuffer s" if "DrainWrites ans s = (s', w, a)" for s s' ans w a
    using that by (auto simp: DrainWrites_def split: prod.splits)
  obtain t1 w1 a1 where w: "DrainWrites w_answers t = (t1, w1, a1)" by (metis prod_cases3)
  obtain t2 a2 where r: "DrainReads r_answers t1 = (t2, a2)" by fastforce
  obtain b n q where d: "drain_reads_loop (m_SingleReadPerPoll t1) r_answers (m_SerialBuffer t1) 0
      = (b, n, q)" by (metis prod_cases3)
  have b2: "length (m_SerialBuffer t2) \<le> SERIAL_CIRCULAR_BUFFER_SIZE"
    using drain_reads_props [OF d] assms(1) same [OF w] r d by (auto simp: DrainReads_def)
  obtain t3 n3 where p: "ProcessMessages gen dispatch t2 0 = Some (t3, n3)"
    and b3: "length (m_SerialBuffer t3) \<le> length (m_SerialBuffer t2)"
    using process_returns by blast
  show ?thesis
    using assms(2) b2 b3 by (auto simp: Poll_def w r p Let_def same split: prod.splits if_splits)
qed

end


text \<open>
  The serial buffer stays within its capacity: every \<open>Poll\<close> preserves the bound.
\<close>

theorem poll_buffer_bounded:
  assumes "length (m_SerialBuffer t) \<le> SERIAL_CIRCULAR_BUFFER_SIZE"
    and "Poll bus_generator dispatch w_answers r_answers t = Some (busy, t', wire)"
  shows "length (m_SerialBuffer t') \<le> SERIAL_CIRCULAR_BUFFER_SIZE"
  using assms by (rule bus_gen.poll_bounded)

theorem poll_buffer_bounded_witness:
  "\<exists>busy t' wire. Poll bus_generator (\<lambda>m w. (w, [], False)) [] [ReadBytes [0x10, 0x02, 0x41]]
     (idle_task [] 0 []) = Some (busy, t', wire)
   \<and> length (m_SerialBuffer t') \<le> SERIAL_CIRCULAR_BUFFER_SIZE"
proof -
  obtain busy t' wire where p: "Poll bus_generator (\<lambda>m w. (w, [], False)) []
      [ReadBytes [0x10, 0x02, 0x41]] (idle_task [] 0 []) = Some (busy, t', wire)"
    using bus_gen.poll_returns by (metis prod_cases3)
  have "length (m_SerialBuffer (idle_task [] 0 [])) \<le> SERIAL_CIRCULAR_BUFFER_SIZE"
    by (simp add: idle_task_def)
  from poll_buffer_bounded [OF this p] p show ?thesis by blast
qed

end
