(* ===== verification/Protocol_Properties.thy ===== *)
theory Protocol_Properties
  imports Protocol_Task
begin

text \<open>
  Properties of the receive path as a whole, from bytes on the bus to dispatched messages: batches of
  packets, coexistence of the two protocols, and the two ways the path loses or stalls traffic that
  the comments in the code say it keeps.
\<close>

section \<open>The bus generator\<close>

definition no_preamble :: "bytes \<Rightarrow> bool" where
  "no_preamble buf \<longleftrightarrow> search_pos FRAME_PREAMBLE buf = length buf"

lemma search_pos_suffix:
  "search_pos pat (xs @ ys) = length (xs @ ys) \<Longrightarrow> search_pos pat ys = length ys"
  by (induction xs) (auto split: if_splits)

lemma no_preamble_suffix: "no_preamble (xs @ ys) \<Longrightarrow> no_preamble ys"
  unfolding no_preamble_def by (rule search_pos_suffix)

lemma bus_without_preamble: "no_preamble buf \<Longrightarrow> bus_generator buf = jandy_generator buf"
  by (auto simp: bus_generator_eq bus.pair_def adapter_error Pentair_GenerateMessageFromRawData_def
                 no_preamble_def Let_def)

text \<open>What arrives is the message sent, with the three fields the decoder fills in.\<close>

definition received_as :: "jandy_message \<Rightarrow> jandy_message \<Rightarrow> bool" where
  "received_as m r \<longleftrightarrow> (\<exists>len chk. r = m \<lparr> m_RawId := message_id_integer (m_Id m),
     m_MessageLength := len, m_ChecksumValue := chk \<rparr>)"

definition sendable :: "jandy_message \<Rightarrow> bool" where
  "sendable m \<longleftrightarrow>
     (case registered_class (m_Id m) of
        None \<Rightarrow> False
      | Some cls \<Rightarrow> canonical cls (m_Payload m)
          \<and> (case Serialize m [] of None \<Rightarrow> False
             | Some packet \<Rightarrow> length packet \<le> MAXIMUM_PACKET_LENGTH))"

definition on_wire :: "jandy_message \<Rightarrow> bytes" where
  "on_wire m = (case Serialize m [] of None \<Rightarrow> [] | Some packet \<Rightarrow> packet)"

lemma sendable_packet:
  assumes "sendable m"
  obtains d t c where "on_wire m = wire_packet d t c"
    "length (wire_packet d t c) \<le> MAXIMUM_PACKET_LENGTH"
    "\<exists>r. CreateFromSerialData (wire_packet d t c) = Inr r \<and> received_as m r"
proof -
  let ?t = "message_id_integer (m_Id m)" and ?d = "m_Destination m"
  obtain cls where cls: "registered_class (m_Id m) = Some cls" "canonical cls (m_Payload m)"
    using assms by (auto simp: sendable_def split: option.splits)
  obtain c where s: "Serialize m [] = Some (wire_packet ?d ?t c)"
    and c: "DeserializeContents cls (raw_packet ?d ?t c) = Inr (m_Payload m)"
    using serialize_wire_packet [OF cls(2)] by auto
  have fits: "length (wire_packet ?d ?t c) \<le> MAXIMUM_PACKET_LENGTH"
    using assms s by (auto simp: sendable_def split: option.splits)
  have "CreateFromSerialData (wire_packet ?d ?t c) = Inr \<lparr> m_Id = m_Id m, m_Destination = ?d,
      m_RawId = ?t, m_MessageLength = of_nat (length c + 7),
      m_ChecksumValue = JandyPacket_CalculateChecksum
        ([HEADER_BYTE_DLE, HEADER_BYTE_STX, ?d, ?t] @ c), m_Payload = m_Payload m \<rparr>"
    using c cls(1) by (simp add: create_wire_packet [OF fits] deserialize_wire_packet [OF fits]
                                 CreateMessageFromRaw_def)
  then have "\<exists>r. CreateFromSerialData (wire_packet ?d ?t c) = Inr r \<and> received_as m r"
    unfolding received_as_def by (cases m) auto
  with that [of ?d ?t c] s fits show ?thesis by (simp add: on_wire_def)
qed

lemma jandy_generator_packet:
  assumes "sendable m"
  shows "on_wire m \<noteq> [] \<and>
    (\<exists>r. jandy_generator (on_wire m @ rest) = (Inr (JandyMsg r), rest) \<and> received_as m r)"
proof -
  obtain d t c r where p: "on_wire m = wire_packet d t c"
    "length (wire_packet d t c) \<le> MAXIMUM_PACKET_LENGTH"
    "CreateFromSerialData (wire_packet d t c) = Inr r" "received_as m r"
    using sendable_packet [OF assms] by metis
  have "Jandy_GenerateMessageFromRawData ([] @ wire_packet d t c @ rest) = (Inr r, rest)"
    using generate_wire_packet [OF _ p(2), of "[]" rest] p(3) by simp
  with p show ?thesis by (auto simp: jandy_generator_def wire_packet_def)
qed

section \<open>Batches\<close>

lemma enqueue_fold:
  "fold EnqueueWrite bs t = t \<lparr> m_WriteQueue := m_WriteQueue t @ bs \<rparr>"
  by (induction bs arbitrary: t) (simp_all add: EnqueueWrite_def)

lemma parsed_buffer_update:
  "HandleParsedMessage dispatch m (t \<lparr> m_SerialBuffer := b \<rparr>)
     = (HandleParsedMessage dispatch m t) \<lparr> m_SerialBuffer := b \<rparr>"
  by (cases t) (simp add: HandleParsedMessage_def Let_def count_def enqueue_fold split: prod.split)

lemma batch_dispatched:
  assumes "list_all sendable ms" "no_preamble (concat (map on_wire ms))"
  shows "\<exists>rs. list_all2 received_as ms rs \<and>
    ProcessMessages bus_generator dispatch (t \<lparr> m_SerialBuffer := concat (map on_wire ms) \<rparr>) n =
    Some (fold (\<lambda>r. HandleParsedMessage dispatch (JandyMsg r)) rs (t \<lparr> m_SerialBuffer := [] \<rparr>),
          n + length ms)"
  using assms
proof (induction ms arbitrary: t n)
  case Nil
  show ?case by (subst ProcessMessages.simps) simp
next
  case (Cons m ms)
  let ?rest = "concat (map on_wire ms)"
  have m: "sendable m" using Cons.prems(1) by simp
  obtain r where r: "jandy_generator (on_wire m @ ?rest) = (Inr (JandyMsg r), ?rest)"
    and as: "received_as m r" and ne: "on_wire m \<noteq> []"
    using jandy_generator_packet [OF m] by blast
  have "bus_generator (on_wire m @ ?rest) = (Inr (JandyMsg r), ?rest)"
    using Cons.prems(2) r by (simp add: bus_without_preamble)
  then have step: "ProcessMessages bus_generator dispatch
        (t \<lparr> m_SerialBuffer := concat (map on_wire (m # ms)) \<rparr>) n
      = ProcessMessages bus_generator dispatch
          ((HandleParsedMessage dispatch (JandyMsg r) t) \<lparr> m_SerialBuffer := ?rest \<rparr>) (n + 1)"
    using ne by (subst ProcessMessages.simps) (simp add: parsed_buffer_update)
  have "list_all sendable ms" "no_preamble ?rest"
    using Cons.prems no_preamble_suffix by auto
  from Cons.IH [OF this, of "HandleParsedMessage dispatch (JandyMsg r) t" "n + 1"]
  obtain rs where "list_all2 received_as ms rs"
    "ProcessMessages bus_generator dispatch
        ((HandleParsedMessage dispatch (JandyMsg r) t) \<lparr> m_SerialBuffer := ?rest \<rparr>) (n + 1) =
      Some (fold (\<lambda>r. HandleParsedMessage dispatch (JandyMsg r)) rs
        ((HandleParsedMessage dispatch (JandyMsg r) t) \<lparr> m_SerialBuffer := [] \<rparr>), n + 1 + length ms)"
    by blast
  with as step show ?case
    by (intro exI [of _ "r # rs"]) (simp add: parsed_buffer_update)
qed

text \<open>
  C20: a batch of serialised Jandy messages that arrived back to back (and contains no Pentair
  preamble) is parsed completely in one call: every message is dispatched, in the order sent, and the
  buffer ends empty. This holds for every behaviour of the handlers, so a handler that throws on one
  message cannot keep the following ones from being dispatched.
\<close>

theorem batch_dispatched_in_order:
  assumes "list_all sendable ms" "no_preamble (concat (map on_wire ms))"
  shows "\<exists>rs. list_all2 received_as ms rs \<and>
    ProcessMessages bus_generator dispatch (t \<lparr> m_SerialBuffer := concat (map on_wire ms) \<rparr>) n =
    Some (fold (\<lambda>r. HandleParsedMessage dispatch (JandyMsg r)) rs (t \<lparr> m_SerialBuffer := [] \<rparr>),
          n + length ms)"
  using assms by (rule batch_dispatched)

definition probe_message :: jandy_message where
  "probe_message = \<lparr> m_Id = Probe, m_Destination = 0x40, m_RawId = 0, m_MessageLength = 0,
     m_ChecksumValue = 0, m_Payload = P_Probe \<rparr>"

theorem batch_dispatched_in_order_witness:
  "\<exists>rs. list_all2 received_as [probe_message, probe_message] rs \<and>
    ProcessMessages bus_generator (\<lambda>m w. (w, [], True)) ((idle_task [] 0 [])
      \<lparr> m_SerialBuffer := concat (map on_wire [probe_message, probe_message]) \<rparr>) 0 =
    Some (fold (\<lambda>r. HandleParsedMessage (\<lambda>m w. (w, [], True)) (JandyMsg r)) rs
      ((idle_task [] 0 []) \<lparr> m_SerialBuffer := [] \<rparr>), 0 + length [probe_message, probe_message])"
proof (rule batch_dispatched_in_order)
  show "list_all sendable [probe_message, probe_message]" by code_simp
  show "no_preamble (concat (map on_wire [probe_message, probe_message]))" by code_simp
qed

section \<open>Lost and stalled traffic\<close>

text \<open>
  The registry's comment says a generator that declines leaves the buffer untouched. The Jandy
  generator does not: when a packet is split by the reads after its first byte, the first part
  is discarded, and then so is the second, so the packet is lost. The same happens to a Pentair frame
  split inside its preamble.
\<close>

theorem split_packet_lost:
  assumes "sendable m" "on_wire m = first_byte # remainder" "no_preamble (on_wire m)"
  shows "bus_generator [first_byte] = (Inl WaitingForMoreData, []) \<and>
         bus_generator remainder = (Inl WaitingForMoreData, []) \<and>
         bus_generator [PREAMBLE_BYTE_FF, PREAMBLE_BYTE_00] = (Inl WaitingForMoreData, [])"
proof -
  have cleared: "bus_generator buf = (Inl WaitingForMoreData, [])"
    if "no_preamble buf" "\<not> adjacent HEADER_BYTE_DLE HEADER_BYTE_STX buf" for buf
  proof -
    have "search_pos PACKET_START_SEQUENCE buf = length buf"
      unfolding PACKET_START_SEQUENCE_def by (rule search_pos_not_adjacent [OF that(2)])
    then have "Jandy_GenerateMessageFromRawData buf = (Inl WaitingForMoreData, [])"
      by (simp add: generator_eq PacketProcessing_FindAllPacketLocations_def Let_def)
    then show ?thesis by (simp add: bus_without_preamble that(1) jandy_generator_def)
  qed
  obtain d t c where p: "on_wire m = wire_packet d t c"
    using sendable_packet [OF assms(1)] by metis
  have parts: "first_byte = HEADER_BYTE_DLE"
    "remainder = HEADER_BYTE_STX # null_stuff (packet_body d t c) @ [HEADER_BYTE_DLE, HEADER_BYTE_ETX]"
    using assms(2) p by (simp_all add: wire_packet_def)
  have "\<not> adjacent HEADER_BYTE_DLE HEADER_BYTE_STX remainder"
  proof -
    have "adjacent HEADER_BYTE_DLE HEADER_BYTE_STX (xs @ [HEADER_BYTE_DLE, HEADER_BYTE_ETX])
        \<longleftrightarrow> adjacent HEADER_BYTE_DLE HEADER_BYTE_STX (xs @ [HEADER_BYTE_DLE])" for xs
      using adjacent_snoc [of HEADER_BYTE_DLE HEADER_BYTE_STX "xs @ [HEADER_BYTE_DLE]" HEADER_BYTE_ETX]
      by (simp add: jandy_consts)
    then show ?thesis
      using stuff_not_adjacent [of HEADER_BYTE_STX "packet_body d t c"]
      by (simp add: parts adjacent_Cons jandy_consts)
  qed
  moreover have "no_preamble remainder"
    using assms(2,3) no_preamble_suffix [of "[first_byte]" remainder] by simp
  moreover have "no_preamble [HEADER_BYTE_DLE]" "no_preamble [PREAMBLE_BYTE_FF, PREAMBLE_BYTE_00]"
    by code_simp+
  ultimately show ?thesis
    using cleared by (simp add: parts(1) jandy_consts pentair_consts)
qed

theorem split_packet_lost_witness:
  "bus_generator [0x10] = (Inl WaitingForMoreData, []) \<and>
   bus_generator [0x02, 0x40, 0x00, 0x52, 0x10, 0x03] = (Inl WaitingForMoreData, []) \<and>
   bus_generator [PREAMBLE_BYTE_FF, PREAMBLE_BYTE_00] = (Inl WaitingForMoreData, [])"
  by (rule split_packet_lost [of probe_message]; code_simp)

lemma full_reads:
  "length buffer = SERIAL_CIRCULAR_BUFFER_SIZE \<Longrightarrow>
   fst (drain_reads_loop single answers buffer dropped) = buffer"
  by (induction answers arbitrary: dropped)
     (auto simp: insert_chunk_def Let_def split: read_answer.split)

text \<open>
  The receive path can stall for good. When the serial buffer is full and ends in an incomplete
  Pentair frame, the Pentair generator defers, the Jandy packets ahead of the frame are not
  offered to the Jandy generator, and there is no room for the bytes that would complete the frame:
  no \<open>Poll\<close>, whatever arrives, changes the buffer again.
\<close>

theorem full_buffer_stalls:
  assumes "length (m_SerialBuffer t) = SERIAL_CIRCULAR_BUFFER_SIZE"
    and "fst (Pentair_GenerateMessageFromRawData (m_SerialBuffer t)) = Inl DataAvailableToProcess"
    and "Poll bus_generator dispatch w_answers r_answers t = Some (busy, t', wire)"
  shows "m_SerialBuffer t' = m_SerialBuffer t"
proof -
  have same: "m_SerialBuffer s' = m_SerialBuffer s" if "DrainWrites ans s = (s', w, a)" for s s' ans w a
    using that by (auto simp: DrainWrites_def split: prod.splits)
  obtain t1 w1 a1 where w: "DrainWrites w_answers t = (t1, w1, a1)" by (metis prod_cases3)
  obtain t2 a2 where r: "DrainReads r_answers t1 = (t2, a2)" by fastforce
  have t2: "m_SerialBuffer t2 = m_SerialBuffer t"
    using r full_reads [of "m_SerialBuffer t1" "m_SingleReadPerPoll t1" r_answers 0] assms(1)
      same [OF w] by (auto simp: DrainReads_def split: prod.splits)
  have g: "bus_generator (m_SerialBuffer t2) = (Inl DataAvailableToProcess, m_SerialBuffer t2)"
    using assms(2) pentair.defers [of "m_SerialBuffer t"]
    by (auto simp: t2 bus_generator_eq bus.pair_def adapter_error adapter_snd intro!: prod_eqI)
  have "m_SerialBuffer t2 \<noteq> []"
    using assms(1) t2 by (auto simp: SERIAL_CIRCULAR_BUFFER_SIZE_def)
  then obtain t3 n where p: "ProcessMessages bus_generator dispatch t2 0 = Some (t3, n)"
    and t3: "m_SerialBuffer t3 = m_SerialBuffer t2"
    by (subst (asm) ProcessMessages.simps) (auto simp: g HandleGenerationError_def)
  show ?thesis
    using assms(3) t2 t3 by (auto simp: Poll_def w r p Let_def same split: prod.splits if_splits)
qed

lemma search_preamble_zeros:
  "search_pos FRAME_PREAMBLE (replicate n 0 @ FRAME_PREAMBLE) = n"
  by (induction n) (simp_all add: FRAME_PREAMBLE_def pentair_consts)

lemma preamble_at_end_defers:
  "search_pos FRAME_PREAMBLE buf + 4 = length buf \<Longrightarrow>
   fst (Pentair_GenerateMessageFromRawData buf) = Inl DataAvailableToProcess"
  by (auto simp: Pentair_GenerateMessageFromRawData_def Let_def FRAME_PREAMBLE_def HEADER_LENGTH_def)

theorem full_buffer_stalls_witness:
  "\<exists>busy t' wire. Poll bus_generator (\<lambda>m w. (w, [], False)) [] [ReadBytes [1, 2, 3, 4, 5, 6, 7]]
      (idle_task [] 0 (replicate 4092 0 @ FRAME_PREAMBLE)) = Some (busy, t', wire)
    \<and> m_SerialBuffer t' = replicate 4092 0 @ FRAME_PREAMBLE"
proof -
  let ?buf = "replicate 4092 0 @ FRAME_PREAMBLE :: bytes"
  let ?t = "idle_task [] 0 ?buf"
  obtain busy t' wire where p: "Poll bus_generator (\<lambda>m w. (w, [], False)) []
      [ReadBytes [1, 2, 3, 4, 5, 6, 7]] ?t = Some (busy, t', wire)"
    using bus_gen.poll_returns by (metis prod_cases3)
  have len: "length ?buf = 4096" by (simp add: FRAME_PREAMBLE_def)
  then have "length (m_SerialBuffer ?t) = SERIAL_CIRCULAR_BUFFER_SIZE"
    by (simp add: idle_task_def SERIAL_CIRCULAR_BUFFER_SIZE_def)
  moreover have "fst (Pentair_GenerateMessageFromRawData (m_SerialBuffer ?t)) = Inl DataAvailableToProcess"
    using preamble_at_end_defers [of ?buf] search_preamble_zeros [of 4092] len
    by (simp add: idle_task_def)
  ultimately have "m_SerialBuffer t' = m_SerialBuffer ?t"
    using p by (rule full_buffer_stalls)
  with p show ?thesis by (auto simp: idle_task_def)
qed

section \<open>Coexistence\<close>

text \<open>
  On a bus shared by both protocols, a Jandy packet that arrived just ahead of a complete
  Pentair frame is not lost: the Pentair frame is lifted out first with the Jandy packet left in
  place, and the next call yields the Jandy message (provided no further preamble follows).
\<close>

theorem mixed_traffic_recovered:
  assumes "sendable m" "pentair_canonical (pm_Id p) (pm_Payload p)"
    and "search_pos FRAME_PREAMBLE (on_wire m @ FRAME_PREAMBLE) = length (on_wire m)"
    and "no_preamble (on_wire m @ rest)"
  shows "\<exists>q r. bus_generator (on_wire m @ Pentair_Serialize p [] @ rest)
              = (Inr (PentairMsg q), on_wire m @ rest)
     \<and> pm_From q = pm_From p \<and> pm_Destination q = pm_Destination p \<and> pm_Payload q = pm_Payload p
     \<and> bus_generator (on_wire m @ rest) = (Inr (JandyMsg r), rest) \<and> received_as m r"
proof -
  obtain cmd len where g: "Pentair_GenerateMessageFromRawData (on_wire m @ Pentair_Serialize p [] @ rest)
      = (Inr (p \<lparr> pm_RawCommand := cmd, pm_DataLength := len \<rparr>), on_wire m @ rest)"
    using pentair_roundtrip_exists [OF assms(2,3)] by blast
  then have "bus_generator (on_wire m @ Pentair_Serialize p [] @ rest)
      = (Inr (PentairMsg (p \<lparr> pm_RawCommand := cmd, pm_DataLength := len \<rparr>)), on_wire m @ rest)"
    by (simp add: bus_generator_eq bus.pair_def pentair_generator_def)
  moreover obtain r where "jandy_generator (on_wire m @ rest) = (Inr (JandyMsg r), rest)"
    "received_as m r"
    using jandy_generator_packet [OF assms(1)] by blast
  ultimately show ?thesis
    using assms(4) by (auto simp: bus_without_preamble)
qed

theorem mixed_traffic_recovered_witness:
  "\<exists>q r. bus_generator (on_wire probe_message @ Pentair_Serialize (make_SetOutput 0x10 0x50 120) [] @ [])
            = (Inr (PentairMsg q), on_wire probe_message @ [])
     \<and> pm_From q = pm_From (make_SetOutput 0x10 0x50 120)
     \<and> pm_Destination q = pm_Destination (make_SetOutput 0x10 0x50 120)
     \<and> pm_Payload q = pm_Payload (make_SetOutput 0x10 0x50 120)
     \<and> bus_generator (on_wire probe_message @ []) = (Inr (JandyMsg r), [])
     \<and> received_as probe_message r"
  by (rule mixed_traffic_recovered; code_simp)

lemma partial_frame_defers:
  assumes "search_pos FRAME_PREAMBLE (lead @ FRAME_PREAMBLE) = length lead" "length dat \<le> 255"
    and "4 \<le> k" "k < length dat + 10"
  shows "fst (Pentair_GenerateMessageFromRawData
           (lead @ take k (take 3 FRAME_PREAMBLE @ frame_region f d c dat))) = Inl DataAvailableToProcess"
proof -
  define frame where "frame = take 3 FRAME_PREAMBLE @ frame_region f d c dat"
  let ?data = "lead @ take k frame"
  obtain tl where "frame_region f d c dat = START_OF_FRAME # tl" using frame_region_start by blast
  then have "frame = FRAME_PREAMBLE @ tl" by (simp add: frame_def FRAME_PREAMBLE_def)
  moreover have "length FRAME_PREAMBLE = 4" by (simp add: FRAME_PREAMBLE_def)
  ultimately have "?data = (lead @ FRAME_PREAMBLE) @ take (k - 4) tl"
    using assms(3) by simp
  then have pos: "search_pos FRAME_PREAMBLE ?data = length lead"
    using search_pos_append [of FRAME_PREAMBLE "lead @ FRAME_PREAMBLE" "take (k - 4) tl"] assms(1)
    by (simp add: FRAME_PREAMBLE_def)
  have len: "length ?data = length lead + k"
    using assms(4) by (simp add: frame_def FRAME_PREAMBLE_def)
  then have ne: "length ?data \<noteq> length lead" "?data \<noteq> []" using assms(3) by auto
  have "?data ! (length lead + 3 + 4) = of_nat (length dat)" if "8 \<le> k"
    using that by (simp add: frame_def nth_append FRAME_PREAMBLE_def)
  then show ?thesis
    unfolding frame_def [symmetric] Pentair_GenerateMessageFromRawData_def Let_def pos
    using len ne assms(2,4)
    by (cases "8 \<le> k") (simp_all add: FRAME_PREAMBLE_def HEADER_LENGTH_def CHECKSUM_LENGTH_def unat_length)
qed

text \<open>
  A Pentair frame that arrives in several reads survives every split behind its preamble: each
  proper prefix, whatever precedes it, is left untouched in the buffer and is not offered to the
  Jandy generator, which would clear it.
\<close>

theorem partial_frame_kept:
  assumes "pentair_canonical (pm_Id p) (pm_Payload p)"
    and "search_pos FRAME_PREAMBLE (lead @ FRAME_PREAMBLE) = length lead"
    and "4 \<le> k" "k < length (Pentair_Serialize p [])"
  shows "bus_generator (lead @ take k (Pentair_Serialize p []))
         = (Inl DataAvailableToProcess, lead @ take k (Pentair_Serialize p []))"
proof -
  note dat = canonical_length [OF assms(1)]
  have "length (Pentair_Serialize p []) = length (pentair_data (pm_Payload p)) + 10"
    by (simp add: serialize_frame FRAME_PREAMBLE_def)
  then have d: "fst (Pentair_GenerateMessageFromRawData (lead @ take k (Pentair_Serialize p [])))
      = Inl DataAvailableToProcess"
    using partial_frame_defers [OF assms(2) dat assms(3)] assms(4) by (simp add: serialize_frame)
  then show ?thesis
    using pentair.defers [OF d]
    by (auto simp: bus_generator_eq bus.pair_def adapter_error adapter_snd intro!: prod_eqI)
qed

theorem partial_frame_kept_witness:
  "bus_generator ([0x10] @ take 6 (Pentair_Serialize (make_SetOutput 0x10 0x50 30) []))
   = (Inl DataAvailableToProcess, [0x10] @ take 6 (Pentair_Serialize (make_SetOutput 0x10 0x50 30) []))"
  by (rule partial_frame_kept; code_simp)

end
