(* ===== verification/Rfc2217.thy ===== *)
theory Rfc2217
  imports Prelude
begin

text \<open>
  The RFC 2217 handler of a network serial port: the byte-wise telnet filter
  (\<open>rfc2217_protocol_handler_byteprocessor.cpp\<close>) and the commands the client sends
  (\<open>rfc2217_protocol_handler.cpp\<close>).

  A socket is its open flag, the bytes given to the peer so far and what the next
  \<open>boost::asio::write\<close> calls do: \<open>None\<close> (or nothing listed) for a write that sends everything,
  \<open>Some k\<close> for one that fails after \<open>k\<close> bytes. \<open>HandleCommand\<close> only logs; its verdicts are the list
  \<open>m_Log\<close> of the handler.
\<close>

section \<open>Constants and data\<close>

definition IAC :: u8 where "IAC = 0xFF"
definition SB :: u8 where "SB = 0xFA"
definition SE :: u8 where "SE = 0xF0"
definition WILL :: u8 where "WILL = 0xFB"
definition WONT :: u8 where "WONT = 0xFC"
definition DO :: u8 where "DO = 0xFD"
definition DONT :: u8 where "DONT = 0xFE"
definition COM_PORT_OPTION :: u8 where "COM_PORT_OPTION = 44"
definition SET_BAUDRATE :: u8 where "SET_BAUDRATE = 1"
definition SET_DATASIZE :: u8 where "SET_DATASIZE = 2"
definition SET_PARITY :: u8 where "SET_PARITY = 3"
definition SET_STOPSIZE :: u8 where "SET_STOPSIZE = 4"
definition SET_CONTROL :: u8 where "SET_CONTROL = 5"
definition NOTIFY_LINESTATE :: u8 where "NOTIFY_LINESTATE = 6"
definition NOTIFY_MODEMSTATE :: u8 where "NOTIFY_MODEMSTATE = 7"
definition SERVER_OFFSET :: u8 where "SERVER_OFFSET = 100"
definition MAX_COMMAND_BUFFER_SIZE :: nat where "MAX_COMMAND_BUFFER_SIZE = 4096"

named_theorems telnet_simps \<open>the telnet constants\<close>

lemmas telnet_constants [telnet_simps] =
  IAC_def SB_def SE_def WILL_def WONT_def DO_def DONT_def COM_PORT_OPTION_def

datatype Parity = NoParity | Odd | Even
datatype StopBits = One | OnePointFive | Two
datatype FlowControl = NoFlowControl | Software | Hardware

record SerialPortConfig =
  baud_rate :: u32
  character_size :: u8
  parity :: Parity
  stop_bits :: StopBits
  flow_control :: FlowControl

definition IsValid :: "SerialPortConfig \<Rightarrow> bool" where
  "IsValid c \<longleftrightarrow> baud_rate c > 0 \<and> character_size c \<ge> 5 \<and> character_size c \<le> 8"

definition JandyDefault :: SerialPortConfig where
  "JandyDefault = \<lparr> baud_rate = 9600, character_size = 8, parity = NoParity, stop_bits = One,
                    flow_control = NoFlowControl \<rparr>"

datatype State = DATA | IAC_STATE | COMMAND | SUBNEG | SUBNEG_IAC

datatype verdict = ClientCommand | InvalidLength | ExcessiveLength | Acknowledged | UnknownResponse

datatype log_entry = Handled u8 bytes verdict | Incomplete

record handler =
  m_State :: State
  m_CommandBuffer :: bytes
  m_Log :: "log_entry list"

record socket =
  s_open :: bool
  s_sent :: bytes
  s_faults :: "nat option list"

definition asio_write :: "bytes \<Rightarrow> socket \<Rightarrow> socket \<times> bool" where
  "asio_write packet s =
     (case s_faults s of
        Some k # rest \<Rightarrow> (s \<lparr> s_sent := s_sent s @ take k packet, s_faults := rest \<rparr>, True)
      | None # rest \<Rightarrow> (s \<lparr> s_sent := s_sent s @ packet, s_faults := rest \<rparr>, False)
      | [] \<Rightarrow> (s \<lparr> s_sent := s_sent s @ packet \<rparr>, False))"

section \<open>The inbound filter\<close>

text \<open>
  \<open>HandleCommand\<close> checks the parameter length of the known server responses and logs what arrived.
\<close>

definition HandleCommand :: "u8 \<Rightarrow> bytes \<Rightarrow> handler \<Rightarrow> handler" where
  "HandleCommand command params h =
     (let base_command = command - SERVER_OFFSET;
          single = [SET_DATASIZE, SET_PARITY, SET_STOPSIZE, SET_CONTROL, NOTIFY_LINESTATE,
                    NOTIFY_MODEMSTATE];
          v = (if command < SERVER_OFFSET then ClientCommand
               else if base_command = SET_BAUDRATE \<and> length params \<noteq> 4 then InvalidLength
               else if base_command \<in> set single \<and> length params \<noteq> 1 then InvalidLength
               else if base_command \<noteq> SET_BAUDRATE \<and> base_command \<notin> set single
                       \<and> length params > 256 then ExcessiveLength
               else if base_command = SET_BAUDRATE \<or> base_command \<in> set single then Acknowledged
               else UnknownResponse)
      in h \<lparr> m_Log := m_Log h @ [Handled command params v] \<rparr>)"

definition ProcessIAC :: "u8 \<Rightarrow> handler \<Rightarrow> handler \<times> u8 option" where
  "ProcessIAC byte h =
     (if byte = IAC then (h \<lparr> m_State := DATA \<rparr>, Some byte)
      else if byte = SB then (h \<lparr> m_CommandBuffer := [], m_State := SUBNEG \<rparr>, None)
      else if byte = WILL \<or> byte = WONT \<or> byte = DO \<or> byte = DONT
      then (h \<lparr> m_State := COMMAND \<rparr>, None)
      else (h \<lparr> m_State := DATA \<rparr>, None))"

definition ProcessCommand :: "u8 \<Rightarrow> handler \<Rightarrow> handler \<times> u8 option" where
  "ProcessCommand byte h = (h \<lparr> m_State := DATA \<rparr>, None)"

text \<open>Appending to the command buffer, with the overflow guard the code repeats at each place.\<close>

definition push_command :: "u8 \<Rightarrow> handler \<Rightarrow> handler" where
  "push_command byte h =
     (if length (m_CommandBuffer h) \<ge> MAX_COMMAND_BUFFER_SIZE
      then h \<lparr> m_CommandBuffer := [], m_State := DATA \<rparr>
      else h \<lparr> m_CommandBuffer := m_CommandBuffer h @ [byte], m_State := SUBNEG \<rparr>)"

definition ProcessSubnegIAC :: "u8 \<Rightarrow> handler \<Rightarrow> handler \<times> u8 option" where
  "ProcessSubnegIAC byte h =
     (if byte = SE then
        (let h' = (if m_CommandBuffer h \<noteq> [] \<and> m_CommandBuffer h ! 0 = COM_PORT_OPTION
                   then if length (m_CommandBuffer h) \<ge> 2
                        then HandleCommand (m_CommandBuffer h ! 1) (drop 2 (m_CommandBuffer h)) h
                        else h \<lparr> m_Log := m_Log h @ [Incomplete] \<rparr>
                   else h)
         in (h' \<lparr> m_State := DATA \<rparr>, None))
      else (push_command byte h, None))"

definition ProcessByte :: "u8 \<Rightarrow> handler \<Rightarrow> handler \<times> u8 option" where
  "ProcessByte byte h =
     (case m_State h of
        DATA \<Rightarrow> if byte = IAC then (h \<lparr> m_State := IAC_STATE \<rparr>, None) else (h, Some byte)
      | IAC_STATE \<Rightarrow> ProcessIAC byte h
      | COMMAND \<Rightarrow> ProcessCommand byte h
      | SUBNEG \<Rightarrow> if byte = IAC then (h \<lparr> m_State := SUBNEG_IAC \<rparr>, None)
                  else (push_command byte h, None)
      | SUBNEG_IAC \<Rightarrow> ProcessSubnegIAC byte h)"

text \<open>
  \<open>FilterInboundData\<close> rewrites the buffer it reads from: \<open>i\<close> is the position of the range-for loop,
  which reads the buffer as it is by then.
\<close>

function filter_loop :: "handler \<Rightarrow> bytes \<Rightarrow> nat \<Rightarrow> nat \<Rightarrow> handler \<times> bytes \<times> nat" where
  "filter_loop h raw i out_pos =
     (if i < length raw then
        (case ProcessByte (raw ! i) h of
           (h', Some data_byte) \<Rightarrow> filter_loop h' (raw[out_pos := data_byte]) (Suc i) (Suc out_pos)
         | (h', None) \<Rightarrow> filter_loop h' raw (Suc i) out_pos)
      else (h, raw, out_pos))"
  by pat_completeness auto
termination
  by (relation "measure (\<lambda>(h, raw, i, out_pos). length raw - i)") auto

declare filter_loop.simps [simp del]

definition FilterInboundData :: "bytes \<Rightarrow> handler \<Rightarrow> handler \<times> bytes \<times> nat" where
  "FilterInboundData raw h = filter_loop h raw 0 0"

section \<open>Commands to the server\<close>

definition EncodeBaudRate :: "u32 \<Rightarrow> bytes" where
  "EncodeBaudRate rate =
     [ucast (and (drop_bit 24 rate) 0xFF), ucast (and (drop_bit 16 rate) 0xFF),
      ucast (and (drop_bit 8 rate) 0xFF), ucast (and rate 0xFF)]"

fun iac_escape :: "bytes \<Rightarrow> bytes" where
  "iac_escape [] = []"
| "iac_escape (byte # rest) =
     (if byte = IAC then byte # IAC # iac_escape rest else byte # iac_escape rest)"

definition command_packet :: "u8 \<Rightarrow> bytes \<Rightarrow> bytes" where
  "command_packet command data =
     [IAC, SB, COM_PORT_OPTION, command] @ iac_escape data @ [IAC, SE]"

definition SendCommand :: "u8 \<Rightarrow> bytes \<Rightarrow> socket \<Rightarrow> socket" where
  "SendCommand command data s =
     (if \<not> s_open s then s else fst (asio_write (command_packet command data) s))"

definition Handler_set_baud_rate :: "u32 \<Rightarrow> socket \<Rightarrow> socket" where
  "Handler_set_baud_rate rate s =
     (if \<not> s_open s then s else SendCommand SET_BAUDRATE (EncodeBaudRate rate) s)"

definition Handler_set_character_size :: "u8 \<Rightarrow> socket \<Rightarrow> socket" where
  "Handler_set_character_size char_size s =
     (if \<not> s_open s then s else SendCommand SET_DATASIZE [char_size] s)"

definition to_rfc2217_parity :: "Parity \<Rightarrow> u8" where
  "to_rfc2217_parity p = (case p of NoParity \<Rightarrow> 1 | Odd \<Rightarrow> 2 | Even \<Rightarrow> 3)"

definition Handler_set_parity :: "Parity \<Rightarrow> socket \<Rightarrow> socket" where
  "Handler_set_parity p s = (if \<not> s_open s then s else SendCommand SET_PARITY [to_rfc2217_parity p] s)"

definition to_rfc2217_stop :: "StopBits \<Rightarrow> u8" where
  "to_rfc2217_stop b = (case b of One \<Rightarrow> 1 | OnePointFive \<Rightarrow> 2 | Two \<Rightarrow> 3)"

definition Handler_set_stop_bits :: "StopBits \<Rightarrow> socket \<Rightarrow> socket" where
  "Handler_set_stop_bits b s = (if \<not> s_open s then s else SendCommand SET_STOPSIZE [to_rfc2217_stop b] s)"

definition to_rfc2217_flow :: "FlowControl \<Rightarrow> u8" where
  "to_rfc2217_flow f = (case f of NoFlowControl \<Rightarrow> 0 | Software \<Rightarrow> 1 | Hardware \<Rightarrow> 2)"

definition Handler_set_flow_control :: "FlowControl \<Rightarrow> socket \<Rightarrow> socket" where
  "Handler_set_flow_control f s =
     (if \<not> s_open s then s else SendCommand SET_CONTROL [to_rfc2217_flow f] s)"

definition InitiateNegotiation :: "socket \<Rightarrow> socket" where
  "InitiateNegotiation s =
     (if \<not> s_open s then s
      else
        let (s1, ec) = asio_write [IAC, WILL, COM_PORT_OPTION] s in
        if ec then s1
        else
          let c = JandyDefault;
              s2 = Handler_set_baud_rate (baud_rate c) s1;
              s3 = Handler_set_character_size (character_size c) s2;
              s4 = Handler_set_parity (parity c) s3;
              s5 = Handler_set_stop_bits (stop_bits c) s4
          in Handler_set_flow_control (flow_control c) s5)"

definition Handler_Initialize :: "handler \<Rightarrow> socket \<Rightarrow> handler \<times> socket" where
  "Handler_Initialize h s = (h \<lparr> m_State := DATA, m_CommandBuffer := [] \<rparr>, InitiateNegotiation s)"

definition Handler_Shutdown :: "handler \<Rightarrow> handler" where
  "Handler_Shutdown h = h \<lparr> m_CommandBuffer := [] \<rparr>"

section \<open>The filter as a stream transformer\<close>

text \<open>
  The reference the in-place loop is measured against: bytes in, handler state threaded through,
  data bytes out.
\<close>

primrec decode_stream :: "handler \<Rightarrow> bytes \<Rightarrow> handler \<times> bytes" where
  "decode_stream h [] = (h, [])"
| "decode_stream h (b # bs) =
     (let (h1, d) = ProcessByte b h; (h2, ds) = decode_stream h1 bs
      in (h2, (case d of None \<Rightarrow> ds | Some x \<Rightarrow> x # ds)))"

lemma decode_stream_append:
  "decode_stream h (xs @ ys) =
     (let (h1, ds) = decode_stream h xs; (h2, es) = decode_stream h1 ys in (h2, ds @ es))"
  by (induction xs arbitrary: h) (auto simp: Let_def split: prod.split option.split)

lemma decode_stream_length: "length (snd (decode_stream h bs)) \<le> length bs"
proof (induction bs arbitrary: h)
  case Nil
  then show ?case by simp
next
  case (Cons b bs)
  obtain h1 d where "ProcessByte b h = (h1, d)" by fastforce
  moreover obtain h2 ds where "decode_stream h1 bs = (h2, ds)" by fastforce
  ultimately show ?case using Cons.IH [of h1] by (auto split: option.split)
qed

lemma overwrite_next:
  assumes "out_pos < length raw"
  shows "take (Suc out_pos) (raw[out_pos := d]) = take out_pos raw @ [d]"
    and "drop (Suc out_pos + n) (raw[out_pos := d]) = drop (Suc out_pos + n) raw"
  using assms by (simp_all add: take_Suc_conv_app_nth)

lemma filter_loop_decodes:
  assumes "out_pos \<le> i" "decode_stream h (drop i raw) = (h', ds)"
  shows "filter_loop h raw i out_pos
           = (h', take out_pos raw @ ds @ drop (out_pos + length ds) raw, out_pos + length ds)"
  using assms
proof (induction h raw i out_pos arbitrary: h' ds rule: filter_loop.induct)
  case (1 h raw i out_pos)
  show ?case
  proof (cases "i < length raw")
    case False
    with "1.prems" show ?thesis by (simp add: filter_loop.simps)
  next
    case True
    then have split: "drop i raw = raw ! i # drop (Suc i) raw" by (simp add: Cons_nth_drop_Suc)
    obtain h1 d where p: "ProcessByte (raw ! i) h = (h1, d)" by fastforce
    obtain es where r: "decode_stream h1 (drop (Suc i) raw) = (h', es)"
      and ds: "ds = (case d of None \<Rightarrow> es | Some x \<Rightarrow> x # es)"
      using "1.prems"(2) by (auto simp: split p split: prod.splits)
    show ?thesis
    proof (cases d)
      case None
      have "filter_loop h1 raw (Suc i) out_pos
          = (h', take out_pos raw @ es @ drop (out_pos + length es) raw, out_pos + length es)"
        using "1.IH"(1) [OF True p [symmetric] None] r "1.prems"(1) by simp
      with True None ds show ?thesis by (subst filter_loop.simps) (simp add: p)
    next
      case (Some x)
      let ?raw = "raw[out_pos := x]"
      have "drop (Suc i) ?raw = drop (Suc i) raw" using "1.prems"(1) by simp
      then have "filter_loop h1 ?raw (Suc i) (Suc out_pos)
          = (h', take (Suc out_pos) ?raw @ es @ drop (Suc out_pos + length es) ?raw,
             Suc out_pos + length es)"
        using "1.IH"(2) [OF True p [symmetric] Some] r "1.prems"(1) by simp
      with True Some ds "1.prems"(1) show ?thesis
        by (subst filter_loop.simps) (simp add: p overwrite_next)
    qed
  qed
qed

section \<open>Telnet traffic\<close>

text \<open>
  What a conforming RFC 2217 server sends: serial data with every \<open>IAC\<close> doubled, option
  negotiation, subnegotiations with every \<open>IAC\<close> doubled, and commands of a single byte.
\<close>

datatype telnet_item = Data u8 | Option u8 u8 | Subnegotiation bytes | Simple u8

fun encode_item :: "telnet_item \<Rightarrow> bytes" where
  "encode_item (Data b) = iac_escape [b]"
| "encode_item (Option verb opt) = [IAC, verb, opt]"
| "encode_item (Subnegotiation body) = [IAC, SB] @ iac_escape body @ [IAC, SE]"
| "encode_item (Simple c) = [IAC, c]"

fun item_data :: "telnet_item \<Rightarrow> bytes" where
  "item_data (Data b) = [b]"
| "item_data _ = []"

fun item_valid :: "telnet_item \<Rightarrow> bool" where
  "item_valid (Data b) = True"
| "item_valid (Option verb opt) = (verb \<in> {WILL, WONT, DO, DONT})"
| "item_valid (Subnegotiation body) = (length body \<le> MAX_COMMAND_BUFFER_SIZE)"
| "item_valid (Simple c) = (c \<notin> {IAC, SB, WILL, WONT, DO, DONT})"

text \<open>What the handler logs of an item.\<close>

definition subnegotiated :: "bytes \<Rightarrow> log_entry list" where
  "subnegotiated body =
     (if body \<noteq> [] \<and> body ! 0 = COM_PORT_OPTION
      then if length body \<ge> 2
           then m_Log (HandleCommand (body ! 1) (drop 2 body)
                         \<lparr> m_State = DATA, m_CommandBuffer = [], m_Log = [] \<rparr>)
           else [Incomplete]
      else [])"

fun item_log :: "telnet_item \<Rightarrow> log_entry list" where
  "item_log (Subnegotiation body) = subnegotiated body"
| "item_log _ = []"

lemma decode_body:
  assumes "m_State h = SUBNEG" "length (m_CommandBuffer h) + length body \<le> MAX_COMMAND_BUFFER_SIZE"
  shows "decode_stream h (iac_escape body)
           = (h \<lparr> m_CommandBuffer := m_CommandBuffer h @ body \<rparr>, [])"
  using assms
proof (induction body arbitrary: h)
  case Nil
  then show ?case by simp
next
  case (Cons b body)
  let ?h = "h \<lparr> m_CommandBuffer := m_CommandBuffer h @ [b], m_State := SUBNEG \<rparr>"
  have "decode_stream ?h (iac_escape body)
      = (?h \<lparr> m_CommandBuffer := m_CommandBuffer h @ b # body \<rparr>, [])"
    using Cons.IH [of ?h] Cons.prems by simp
  moreover have "?h \<lparr> m_CommandBuffer := m_CommandBuffer h @ b # body \<rparr>
      = h \<lparr> m_CommandBuffer := m_CommandBuffer h @ b # body \<rparr>"
    using Cons.prems(1) by simp
  ultimately have "decode_stream ?h (iac_escape body)
      = (h \<lparr> m_CommandBuffer := m_CommandBuffer h @ b # body \<rparr>, [])" by simp
  with Cons.prems show ?case
    by (auto simp: ProcessByte_def ProcessSubnegIAC_def push_command_def telnet_simps)
qed

lemma decode_item:
  assumes "m_State h = DATA" "item_valid x"
  shows "\<exists>buf. decode_stream h (encode_item x)
      = (h \<lparr> m_CommandBuffer := buf, m_Log := m_Log h @ item_log x \<rparr>, item_data x)"
proof (cases x)
  case (Data b)
  with assms show ?thesis
    by (intro exI [of _ "m_CommandBuffer h"]) (simp add: ProcessByte_def ProcessIAC_def)
next
  case (Option verb opt)
  with assms show ?thesis
    by (intro exI [of _ "m_CommandBuffer h"])
       (auto simp: ProcessByte_def ProcessIAC_def ProcessCommand_def telnet_simps)
next
  case (Simple c)
  with assms show ?thesis
    by (intro exI [of _ "m_CommandBuffer h"]) (auto simp: ProcessByte_def ProcessIAC_def)
next
  case (Subnegotiation body)
  let ?h = "h \<lparr> m_CommandBuffer := [], m_State := SUBNEG \<rparr>"
  have start: "decode_stream h [IAC, SB] = (?h, [])"
    using assms(1) by (simp add: ProcessByte_def ProcessIAC_def telnet_simps)
  have body: "decode_stream ?h (iac_escape body)
      = (h \<lparr> m_CommandBuffer := body, m_State := SUBNEG \<rparr>, [])"
    using decode_body [of ?h body] assms(2) Subnegotiation by simp
  have fin: "decode_stream (h \<lparr> m_CommandBuffer := body, m_State := SUBNEG \<rparr>) [IAC, SE]
      = (h \<lparr> m_CommandBuffer := body, m_Log := m_Log h @ subnegotiated body \<rparr>, [])"
    using assms(1)
    by (simp add: ProcessByte_def ProcessSubnegIAC_def subnegotiated_def HandleCommand_def Let_def
                  telnet_simps)
  have "encode_item x = [IAC, SB] @ iac_escape body @ [IAC, SE]" by (simp add: Subnegotiation)
  then have "decode_stream h (encode_item x)
      = (h \<lparr> m_CommandBuffer := body, m_Log := m_Log h @ subnegotiated body \<rparr>, [])"
    by (simp only: decode_stream_append start body fin Let_def prod.case append_Nil)
  then show ?thesis using Subnegotiation by auto
qed

lemma decode_items:
  assumes "m_State h = DATA" "list_all item_valid items"
  shows "\<exists>buf. decode_stream h (concat (map encode_item items))
      = (h \<lparr> m_CommandBuffer := buf, m_Log := m_Log h @ concat (map item_log items) \<rparr>,
         concat (map item_data items))"
  using assms
proof (induction items arbitrary: h)
  case Nil
  then show ?case by (intro exI [of _ "m_CommandBuffer h"]) simp
next
  case (Cons x items)
  obtain buf where x: "decode_stream h (encode_item x)
      = (h \<lparr> m_CommandBuffer := buf, m_Log := m_Log h @ item_log x \<rparr>, item_data x)"
    using decode_item [of h x] Cons.prems by auto
  obtain buf' where "decode_stream (h \<lparr> m_CommandBuffer := buf, m_Log := m_Log h @ item_log x \<rparr>)
        (concat (map encode_item items))
      = (h \<lparr> m_CommandBuffer := buf', m_Log := m_Log h @ item_log x @ concat (map item_log items) \<rparr>,
         concat (map item_data items))"
    using Cons.IH [of "h \<lparr> m_CommandBuffer := buf, m_Log := m_Log h @ item_log x \<rparr>"] Cons.prems
    by auto
  then show ?case by (auto simp: decode_stream_append x)
qed

section \<open>The in-place filter\<close>

text \<open>
  Filtering a read buffer in place is exact: whatever the handler's state and the bytes, the loop
  leaves the decoded data at the front of the buffer, returns its length, threads the handler's state
  exactly as byte-wise processing does, and leaves the rest of the buffer as it was. In particular the
  rewriting never overtakes the bytes still to be read.
\<close>

theorem filter_in_place_exact:
  "FilterInboundData raw h =
     (let (h', data) = decode_stream h raw in (h', data @ drop (length data) raw, length data))"
  using filter_loop_decodes [of 0 0 h raw]
  by (auto simp: FilterInboundData_def split: prod.split)

section \<open>The command buffer\<close>

text \<open>The states a handler goes through: initialisation, bytes from the peer, shutdown.\<close>

inductive handler_reachable :: "handler \<Rightarrow> bool" where
  fresh: "handler_reachable \<lparr> m_State = DATA, m_CommandBuffer = [], m_Log = [] \<rparr>"
| init: "handler_reachable h \<Longrightarrow> handler_reachable (fst (Handler_Initialize h s))"
| byte: "handler_reachable h \<Longrightarrow> handler_reachable (fst (ProcessByte b h))"
| shutdown: "handler_reachable h \<Longrightarrow> handler_reachable (Handler_Shutdown h)"

lemma process_byte_bounded:
  assumes "length (m_CommandBuffer h) \<le> MAX_COMMAND_BUFFER_SIZE"
  shows "length (m_CommandBuffer (fst (ProcessByte b h))) \<le> MAX_COMMAND_BUFFER_SIZE"
  using assms
  by (cases "m_State h")
     (auto simp: ProcessByte_def ProcessIAC_def ProcessCommand_def ProcessSubnegIAC_def
                 push_command_def HandleCommand_def Let_def)

text \<open>
  However long and hostile the traffic of the peer is, the command buffer of a handler never
  grows beyond its limit of 4096 bytes, in any state reachable from a fresh handler.
\<close>

lemma command_buffer_bounded:
  assumes "handler_reachable h"
  shows "length (m_CommandBuffer h) \<le> MAX_COMMAND_BUFFER_SIZE"
  using assms
  by induction (simp_all add: process_byte_bounded Handler_Initialize_def Handler_Shutdown_def)

definition fresh_handler :: handler where
  "fresh_handler = \<lparr> m_State = DATA, m_CommandBuffer = [], m_Log = [] \<rparr>"

section \<open>What the server makes of the settings\<close>

text \<open>
  The server's reading of a command, by the value tables of RFC 2217: for the stop size 1, 2 and 3
  mean one, two and one and a half bits; for the control command 1, 2 and 3 mean no, software and
  hardware flow control; 0 asks for the current setting and changes nothing.
\<close>

definition be32 :: "u8 \<Rightarrow> u8 \<Rightarrow> u8 \<Rightarrow> u8 \<Rightarrow> u32" where
  "be32 a b c d = or (push_bit 24 (ucast a))
     (or (push_bit 16 (ucast b)) (or (push_bit 8 (ucast c)) (ucast d)))"

fun server_apply :: "log_entry \<Rightarrow> SerialPortConfig \<Rightarrow> SerialPortConfig" where
  "server_apply (Handled command [v] verdict) c =
     (if command = 2 \<and> 5 \<le> v \<and> v \<le> 8 then c \<lparr> character_size := v \<rparr>
      else if command = 3 \<and> v = 1 then c \<lparr> parity := NoParity \<rparr>
      else if command = 3 \<and> v = 2 then c \<lparr> parity := Odd \<rparr>
      else if command = 3 \<and> v = 3 then c \<lparr> parity := Even \<rparr>
      else if command = 4 \<and> v = 1 then c \<lparr> stop_bits := One \<rparr>
      else if command = 4 \<and> v = 2 then c \<lparr> stop_bits := Two \<rparr>
      else if command = 4 \<and> v = 3 then c \<lparr> stop_bits := OnePointFive \<rparr>
      else if command = 5 \<and> v = 1 then c \<lparr> flow_control := NoFlowControl \<rparr>
      else if command = 5 \<and> v = 2 then c \<lparr> flow_control := Software \<rparr>
      else if command = 5 \<and> v = 3 then c \<lparr> flow_control := Hardware \<rparr>
      else c)"
| "server_apply (Handled command [w, x, y, z] verdict) c =
     (if command = 1 \<and> be32 w x y z \<noteq> 0 then c \<lparr> baud_rate := be32 w x y z \<rparr> else c)"
| "server_apply _ c = c"

lemma EncodeBaudRate_be32:
  "EncodeBaudRate rate = [a, b, c, d] \<Longrightarrow> be32 a b c d = rate"
proof -
  assume e: "EncodeBaudRate rate = [a, b, c, d]"
  have m: "(0xFF :: u32) = mask LENGTH(8)" by (simp add: mask_eq_exp_minus_1)
  have "be32 (ucast (drop_bit 24 rate)) (ucast (drop_bit 16 rate)) (ucast (drop_bit 8 rate))
      (ucast rate) = rate"
    unfolding be32_def by (rule u32_from_bytes)
  with e show ?thesis unfolding EncodeBaudRate_def m by (simp only: ucast_mask_narrow list.inject)
qed

definition configure :: "SerialPortConfig \<Rightarrow> socket \<Rightarrow> socket" where
  "configure c s =
     Handler_set_flow_control (flow_control c) (Handler_set_stop_bits (stop_bits c)
       (Handler_set_parity (parity c) (Handler_set_character_size (character_size c)
         (Handler_set_baud_rate (baud_rate c) s))))"

lemma SendCommand_open:
  "s_open s \<Longrightarrow> s_faults s = [] \<Longrightarrow>
   SendCommand c d s = s \<lparr> s_sent := s_sent s @ command_packet c d \<rparr>"
  by (simp add: SendCommand_def asio_write_def)

definition settings :: "SerialPortConfig \<Rightarrow> (u8 \<times> bytes) list" where
  "settings c = [(SET_BAUDRATE, EncodeBaudRate (baud_rate c)), (SET_DATASIZE, [character_size c]),
     (SET_PARITY, [to_rfc2217_parity (parity c)]), (SET_STOPSIZE, [to_rfc2217_stop (stop_bits c)]),
     (SET_CONTROL, [to_rfc2217_flow (flow_control c)])]"

lemma configure_sends:
  "s_open s \<Longrightarrow> s_faults s = [] \<Longrightarrow>
   configure c s = s \<lparr> s_sent := s_sent s @ concat (map (\<lambda>(k, d). command_packet k d) (settings c)) \<rparr>"
  by (simp add: configure_def settings_def Handler_set_baud_rate_def Handler_set_character_size_def
      Handler_set_parity_def Handler_set_stop_bits_def Handler_set_flow_control_def SendCommand_open)

lemma InitiateNegotiation_sends:
  "s_open s \<Longrightarrow> s_faults s = [] \<Longrightarrow>
   InitiateNegotiation s = configure JandyDefault (s \<lparr> s_sent := s_sent s @ [IAC, WILL, COM_PORT_OPTION] \<rparr>)"
  by (simp add: InitiateNegotiation_def asio_write_def configure_def Let_def)

lemma command_packet_item:
  "k \<noteq> IAC \<Longrightarrow> command_packet k d = encode_item (Subnegotiation (COM_PORT_OPTION # k # d))"
  by (simp add: command_packet_def telnet_simps)

lemma settings_items:
  "concat (map (\<lambda>(k, d). command_packet k d) (settings c))
     = concat (map encode_item (map (\<lambda>(k, d). Subnegotiation (COM_PORT_OPTION # k # d)) (settings c)))"
  by (simp add: settings_def command_packet_item SET_BAUDRATE_def SET_DATASIZE_def SET_PARITY_def
      SET_STOPSIZE_def SET_CONTROL_def IAC_def)

lemma settings_log:
  "concat (map item_log (map (\<lambda>(k, d). Subnegotiation (COM_PORT_OPTION # k # d)) (settings c)))
     = map (\<lambda>(k, d). Handled k d ClientCommand) (settings c)"
  by (simp add: settings_def subnegotiated_def HandleCommand_def SET_BAUDRATE_def SET_DATASIZE_def
      SET_PARITY_def SET_STOPSIZE_def SET_CONTROL_def SERVER_OFFSET_def)

lemma settings_read:
  assumes "IsValid c"
  shows "fold server_apply (map (\<lambda>(k, d). Handled k d ClientCommand) (settings c)) c0
     = \<lparr> baud_rate = baud_rate c, character_size = character_size c, parity = parity c,
         stop_bits = (case stop_bits c of One \<Rightarrow> One | OnePointFive \<Rightarrow> Two | Two \<Rightarrow> OnePointFive),
         flow_control = (case flow_control c of NoFlowControl \<Rightarrow> flow_control c0
                         | Software \<Rightarrow> NoFlowControl | Hardware \<Rightarrow> Software) \<rparr>"
proof -
  obtain w x y z where e: "EncodeBaudRate (baud_rate c) = [w, x, y, z]"
    by (simp add: EncodeBaudRate_def)
  have "baud_rate c \<noteq> 0" using assms by (auto simp: IsValid_def)
  then show ?thesis
    using assms EncodeBaudRate_be32 [OF e]
    by (cases "parity c"; cases "stop_bits c"; cases "flow_control c")
       (simp_all add: settings_def e IsValid_def SET_BAUDRATE_def SET_DATASIZE_def SET_PARITY_def
          SET_STOPSIZE_def SET_CONTROL_def to_rfc2217_parity_def to_rfc2217_stop_def
          to_rfc2217_flow_def)
qed

text \<open>
  The settings a client sends over an open socket reach the server as commands and nothing else:
  a server that filters its input as this handler does sees no data byte, and, reading the values by
  the tables of RFC 2217, ends with the baud rate, character size and parity that were set. The stop
  bits arrive as set only for one stop bit, and flow control never does: no flow control is sent as a
  query, software as none and hardware as software.
\<close>

theorem configuration_received:
  assumes "IsValid c" "s_open s" "s_faults s = []" "m_State peer = DATA"
  shows "\<exists>buf log. decode_stream peer (drop (length (s_sent s)) (s_sent (configure c s)))
           = (peer \<lparr> m_CommandBuffer := buf, m_Log := m_Log peer @ log \<rparr>, [])
     \<and> fold server_apply log c0
       = \<lparr> baud_rate = baud_rate c, character_size = character_size c, parity = parity c,
           stop_bits = (case stop_bits c of One \<Rightarrow> One | OnePointFive \<Rightarrow> Two | Two \<Rightarrow> OnePointFive),
           flow_control = (case flow_control c of NoFlowControl \<Rightarrow> flow_control c0
                           | Software \<Rightarrow> NoFlowControl | Hardware \<Rightarrow> Software) \<rparr>"
proof -
  let ?items = "map (\<lambda>(k, d). Subnegotiation (COM_PORT_OPTION # k # d)) (settings c)"
  have "list_all item_valid ?items"
    by (simp add: settings_def EncodeBaudRate_def MAX_COMMAND_BUFFER_SIZE_def)
  from decode_items [OF assms(4) this] obtain buf where
    "decode_stream peer (concat (map encode_item ?items))
      = (peer \<lparr> m_CommandBuffer := buf, m_Log := m_Log peer @ concat (map item_log ?items) \<rparr>,
         concat (map item_data ?items))" by blast
  moreover have "concat (map item_data ?items) = []" by (simp add: settings_def)
  moreover have "drop (length (s_sent s)) (s_sent (configure c s)) = concat (map encode_item ?items)"
    by (simp add: configure_sends [OF assms(2,3)] settings_items)
  ultimately show ?thesis using settings_log settings_read [OF assms(1)] by metis
qed

theorem configuration_received_witness:
  "s_sent (InitiateNegotiation \<lparr> s_open = True, s_sent = [], s_faults = [] \<rparr>)
     = [IAC, WILL, COM_PORT_OPTION] @ [IAC, SB, 44, 1, 0, 0, 0x25, 0x80, IAC, SE] @
       [IAC, SB, 44, 2, 8, IAC, SE] @ [IAC, SB, 44, 3, 1, IAC, SE] @
       [IAC, SB, 44, 4, 1, IAC, SE] @ [IAC, SB, 44, 5, 0, IAC, SE]
   \<and> (\<exists>buf log. decode_stream fresh_handler
        (drop 3 (s_sent (InitiateNegotiation \<lparr> s_open = True, s_sent = [], s_faults = [] \<rparr>)))
          = (fresh_handler \<lparr> m_CommandBuffer := buf, m_Log := log \<rparr>, [])
        \<and> fold server_apply log
            \<lparr> baud_rate = 300, character_size = 7, parity = Even, stop_bits = Two, flow_control = Hardware \<rparr>
          = \<lparr> baud_rate = 9600, character_size = 8, parity = NoParity, stop_bits = One,
              flow_control = Hardware \<rparr>)"
proof
  show "s_sent (InitiateNegotiation \<lparr> s_open = True, s_sent = [], s_faults = [] \<rparr>)
     = [IAC, WILL, COM_PORT_OPTION] @ [IAC, SB, 44, 1, 0, 0, 0x25, 0x80, IAC, SE] @
       [IAC, SB, 44, 2, 8, IAC, SE] @ [IAC, SB, 44, 3, 1, IAC, SE] @
       [IAC, SB, 44, 4, 1, IAC, SE] @ [IAC, SB, 44, 5, 0, IAC, SE]" by code_simp
next
  let ?s = "\<lparr> s_open = True, s_sent = [IAC, WILL, COM_PORT_OPTION], s_faults = [] \<rparr>"
  have "InitiateNegotiation \<lparr> s_open = True, s_sent = [], s_faults = [] \<rparr> = configure JandyDefault ?s"
    by (simp add: InitiateNegotiation_sends)
  moreover have "IsValid JandyDefault" by code_simp
  ultimately show "\<exists>buf log. decode_stream fresh_handler
        (drop 3 (s_sent (InitiateNegotiation \<lparr> s_open = True, s_sent = [], s_faults = [] \<rparr>)))
          = (fresh_handler \<lparr> m_CommandBuffer := buf, m_Log := log \<rparr>, [])
        \<and> fold server_apply log
            \<lparr> baud_rate = 300, character_size = 7, parity = Even, stop_bits = Two, flow_control = Hardware \<rparr>
          = \<lparr> baud_rate = 9600, character_size = 8, parity = NoParity, stop_bits = One,
              flow_control = Hardware \<rparr>"
    using configuration_received [of JandyDefault ?s fresh_handler
      "\<lparr> baud_rate = 300, character_size = 7, parity = Even, stop_bits = Two, flow_control = Hardware \<rparr>"]
    by (simp add: fresh_handler_def JandyDefault_def numeral_3_eq_3)
qed

end
