(* ===== verification/Endpoint.thy ===== *)
theory Endpoint
  imports Prelude
begin

text \<open>
  Parsing the address of a network serial port (\<open>endpoint_parser.cpp\<close>): \<open>host:port\<close>,
  \<open>scheme://host:port\<close> and \<open>[ipv6%zone]:port\<close>. A \<open>std::string_view\<close> is the list of its
  characters; \<open>find\<close> and \<open>rfind\<close> give a position or \<open>None\<close> for \<open>npos\<close>.
\<close>

section \<open>Strings\<close>

definition find_char :: "char \<Rightarrow> string \<Rightarrow> nat option" where
  "find_char c s = (let n = length (takeWhile (\<lambda>x. x \<noteq> c) s) in if n < length s then Some n else None)"

definition rfind_char :: "char \<Rightarrow> string \<Rightarrow> nat option" where
  "rfind_char c s =
     (let n = length (takeWhile (\<lambda>x. x \<noteq> c) (rev s))
      in if n < length s then Some (length s - 1 - n) else None)"

definition is_space :: "char \<Rightarrow> bool" where
  "is_space c \<longleftrightarrow> c = CHR '' '' \<or> c = CHR 0x09 \<or> c = CHR 0x0A \<or> c = CHR 0x0D \<or> c = CHR 0x0C \<or> c = CHR 0x0B"

fun ltrim :: "string \<Rightarrow> string" where
  "ltrim [] = []"
| "ltrim (c # s) = (if is_space c then ltrim s else c # s)"

definition rtrim :: "string \<Rightarrow> string" where
  "rtrim s = rev (ltrim (rev s))"

definition trim :: "string \<Rightarrow> string" where
  "trim s = rtrim (ltrim s)"

definition strip_scheme :: "string \<Rightarrow> string" where
  "strip_scheme s =
     (let pos = search_pos ''://'' s in if pos \<noteq> length s \<and> pos > 0 then drop (pos + 3) s else s)"

definition decode_zone_id :: "string \<Rightarrow> string" where
  "decode_zone_id zone =
     (if length zone \<ge> 2 \<and> zone ! 0 = CHR ''2'' \<and> zone ! 1 = CHR ''5'' then drop 2 zone else zone)"

section \<open>Port numbers\<close>

fun port_loop :: "u32 \<Rightarrow> string \<Rightarrow> u32 option" where
  "port_loop v [] = Some v"
| "port_loop v (c # s) =
     (if of_char c < (48 :: nat) \<or> of_char c > (57 :: nat) then None
      else let v' = v * 10 + (of_char c - 48) in if v' > 65535 then None else port_loop v' s)"

definition parse_port_number :: "string \<Rightarrow> u16 option" where
  "parse_port_number s =
     (if s = [] \<or> length s > 5 then None
      else case port_loop 0 s of
             None \<Rightarrow> None
           | Some v \<Rightarrow> if v = 0 then None else Some (ucast v))"

section \<open>Endpoints\<close>

record EndpointView =
  host :: string
  port :: string
  port_num :: "u16 option"
  scope_id :: string
  had_brackets :: bool

definition parse_bracketed :: "string \<Rightarrow> EndpointView" where
  "parse_bracketed input =
     (let out = \<lparr> host = [], port = [], port_num = None, scope_id = [], had_brackets = True \<rparr> in
      case find_char (CHR '']'') input of
        None \<Rightarrow> out \<lparr> host := drop 1 input \<rparr>
      | Some rb \<Rightarrow>
          let inner = take (rb - 1) (drop 1 input);
              out1 = (case find_char (CHR ''%'') inner of
                        None \<Rightarrow> out \<lparr> host := inner \<rparr>
                      | Some pct \<Rightarrow> out \<lparr> scope_id := decode_zone_id (drop (pct + 1) inner),
                                          host := take pct inner \<rparr>)
          in if rb + 1 < length input \<and> input ! (rb + 1) = CHR '':''
             then out1 \<lparr> port := drop (rb + 2) input \<rparr> else out1)"

definition parse_plain :: "string \<Rightarrow> EndpointView" where
  "parse_plain input =
     (let out = \<lparr> host = [], port = [], port_num = None, scope_id = [], had_brackets = False \<rparr> in
      case rfind_char (CHR '':'') input of
        None \<Rightarrow> out \<lparr> host := input \<rparr>
      | Some last_colon \<Rightarrow>
          let host_part = take last_colon input
          in if find_char (CHR '':'') host_part = None
             then out \<lparr> host := host_part, port := drop (last_colon + 1) input \<rparr>
             else out \<lparr> host := input \<rparr>)"

definition ParseEndpointView :: "string \<Rightarrow> string \<Rightarrow> EndpointView" where
  "ParseEndpointView text default_port =
     (let input = trim text in
      if input = [] then
        (let out = \<lparr> host = [], port = [], port_num = None, scope_id = [], had_brackets = False \<rparr>
         in if default_port \<noteq> []
            then out \<lparr> port := default_port, port_num := parse_port_number default_port \<rparr> else out)
      else
        let body = strip_scheme input;
            out = (if body \<noteq> [] \<and> hd body = CHR ''['' then parse_bracketed body else parse_plain body);
            out1 = (if port out = [] \<and> default_port \<noteq> [] then out \<lparr> port := default_port \<rparr> else out)
        in if port out1 \<noteq> [] then out1 \<lparr> port_num := parse_port_number (port out1) \<rparr> else out1)"

definition ParseEndpoint :: "string \<Rightarrow> string \<Rightarrow> string \<times> string" where
  "ParseEndpoint text default_port =
     (let v = ParseEndpointView text default_port in (host v, port v))"

section \<open>Searching and trimming\<close>

lemma takeWhile_stop: "c \<notin> set xs \<Longrightarrow> takeWhile (\<lambda>x. x \<noteq> c) (xs @ c # ys) = xs"
  by (induction xs) auto

lemma find_char_at: "c \<notin> set xs \<Longrightarrow> find_char c (xs @ c # ys) = Some (length xs)"
  by (simp add: find_char_def takeWhile_stop)

lemma find_char_none: "find_char c s = None \<longleftrightarrow> c \<notin> set s"
proof -
  have "length (takeWhile (\<lambda>x. x \<noteq> c) s) < length s \<longleftrightarrow> takeWhile (\<lambda>x. x \<noteq> c) s \<noteq> s"
    by (metis length_takeWhile_le less_le takeWhile_eq_take take_all_iff)
  also have "\<dots> \<longleftrightarrow> c \<in> set s" by (auto simp: takeWhile_eq_all_conv)
  finally show ?thesis by (simp add: find_char_def Let_def)
qed

lemma rfind_char_at: "c \<notin> set ys \<Longrightarrow> rfind_char c (xs @ c # ys) = Some (length xs)"
  by (simp add: rfind_char_def takeWhile_stop)

lemma ltrim_id: "s = [] \<or> \<not> is_space (hd s) \<Longrightarrow> ltrim s = s"
  by (cases s) auto

lemma trim_id: "s \<noteq> [] \<Longrightarrow> \<not> is_space (hd s) \<Longrightarrow> \<not> is_space (last s) \<Longrightarrow> trim s = s"
  by (simp add: trim_def rtrim_def ltrim_id hd_rev)

lemma strip_scheme_none: "CHR ''/'' \<notin> set s \<Longrightarrow> strip_scheme s = s"
proof -
  assume no: "CHR ''/'' \<notin> set s"
  have "\<not> search_pos ''://'' s < length s"
  proof
    assume "search_pos ''://'' s < length s"
    from search_pos_match [OF this] have "CHR ''/'' \<in> set (take 3 (drop (search_pos ''://'' s) s))"
      by (simp add: numeral_3_eq_3)
    with no show False by (meson in_set_dropD in_set_takeD)
  qed
  with search_pos_le [of "''://''" s] have "search_pos ''://'' s = length s" by linarith
  then show ?thesis by (simp add: strip_scheme_def)
qed

lemma strip_scheme_some:
  assumes "sch \<noteq> []" "CHR '':'' \<notin> set sch"
  shows "strip_scheme (sch @ ''://'' @ s) = s"
proof -
  have "search_pos ''://'' (sch @ ''://'' @ s) = length sch + search_pos ''://'' (''://'' @ s)"
  proof (rule search_pos_skip)
    fix i assume i: "i < length sch"
    then have "drop i (sch @ ''://'' @ s) = sch ! i # drop (Suc i) sch @ ''://'' @ s"
      by (simp add: Cons_nth_drop_Suc [symmetric])
    moreover have "sch ! i \<noteq> CHR '':''" using assms(2) i nth_mem by metis
    ultimately show "take (length ''://'') (drop i (sch @ ''://'' @ s)) \<noteq> ''://''" by simp
  qed
  then have "search_pos ''://'' (sch @ ''://'' @ s) = length sch" by simp
  then show ?thesis using assms(1) by (simp add: strip_scheme_def)
qed

section \<open>Round trip\<close>

text \<open>
  An address as a user writes it: an optional scheme, a name or a bracketed IPv6 address with an
  optional zone, and a port.
\<close>

datatype address = Name string | V6 string "string option"

fun render_address :: "address \<Rightarrow> string" where
  "render_address (Name h) = h"
| "render_address (V6 a None) = CHR ''['' # a @ '']''"
| "render_address (V6 a (Some z)) = CHR ''['' # (a @ CHR ''%'' # z) @ '']''"

fun address_host :: "address \<Rightarrow> string" where
  "address_host (Name h) = h"
| "address_host (V6 a z) = a"

fun render_scheme :: "string option \<Rightarrow> string" where
  "render_scheme None = []"
| "render_scheme (Some s) = s @ ''://''"

definition render :: "string option \<Rightarrow> address \<Rightarrow> string \<Rightarrow> string" where
  "render sch a p = render_scheme sch @ render_address a @ '':'' @ p"

definition without :: "string \<Rightarrow> string \<Rightarrow> bool" where
  "without cs s \<longleftrightarrow> list_all (\<lambda>c. \<not> is_space c \<and> c \<noteq> CHR ''/'' \<and> c \<notin> set cs) s"

fun address_valid :: "address \<Rightarrow> bool" where
  "address_valid (Name h) = (h \<noteq> [] \<and> without '':['' h)"
| "address_valid (V6 a None) = without ''%]'' a"
| "address_valid (V6 a (Some z)) = (without ''%]'' a \<and> without '']'' z)"

fun scheme_valid :: "string option \<Rightarrow> bool" where
  "scheme_valid None = True"
| "scheme_valid (Some s) = (s \<noteq> [] \<and> without '':'' s)"

lemma without_D: "without cs s \<Longrightarrow> c \<in> set cs \<Longrightarrow> c \<notin> set s"
  by (auto simp: without_def list_all_iff)

lemma without_slash: "without cs s \<Longrightarrow> CHR ''/'' \<notin> set s"
  by (auto simp: without_def list_all_iff)

lemma without_space: "without cs s \<Longrightarrow> s \<noteq> [] \<Longrightarrow> \<not> is_space (hd s) \<and> \<not> is_space (last s)"
  by (auto simp: without_def list_all_iff)

lemma parse_plain_name:
  "without '':['' h \<Longrightarrow> without '':'' p \<Longrightarrow>
   parse_plain (h @ CHR '':'' # p)
     = \<lparr> host = h, port = p, port_num = None, scope_id = [], had_brackets = False \<rparr>"
  using rfind_char_at [of "CHR '':''" p h] without_D [of "'':''" p "CHR '':''"]
    without_D [of "'':[''" h "CHR '':''"]
  by (simp add: parse_plain_def find_char_none)

lemma parse_bracketed_v6:
  "CHR '']'' \<notin> set inner \<Longrightarrow>
   parse_bracketed (CHR ''['' # inner @ CHR '']'' # CHR '':'' # p)
     = (case find_char (CHR ''%'') inner of
          None \<Rightarrow> \<lparr> host = inner, port = p, port_num = None, scope_id = [], had_brackets = True \<rparr>
        | Some pct \<Rightarrow> \<lparr> host = take pct inner, port = p, port_num = None,
            scope_id = decode_zone_id (drop (pct + 1) inner), had_brackets = True \<rparr>)"
  using find_char_at [of "CHR '']''" "CHR ''['' # inner" "CHR '':'' # p"]
  by (simp add: parse_bracketed_def nth_append split: option.split)

definition parse_body :: "string \<Rightarrow> EndpointView" where
  "parse_body body = (if body \<noteq> [] \<and> hd body = CHR ''['' then parse_bracketed body else parse_plain body)"

lemma parse_body_rendered:
  assumes "address_valid a" "without '':'' p"
  shows "host (parse_body (render_address a @ '':'' @ p)) = address_host a
       \<and> port (parse_body (render_address a @ '':'' @ p)) = p"
proof (cases a rule: render_address.cases)
  case (1 h)
  then have "hd h \<noteq> CHR ''[''" "h \<noteq> []" using assms(1) by (auto simp: without_def list_all_iff)
  with 1 assms show ?thesis by (simp add: parse_body_def parse_plain_name)
next
  case (2 b)
  with assms without_D [of "''%]''" b] show ?thesis
    by (simp add: parse_body_def parse_bracketed_v6 find_char_none [THEN iffD2])
next
  case (3 b z)
  with assms have "CHR '']'' \<notin> set (b @ CHR ''%'' # z)" "CHR ''%'' \<notin> set b"
    using without_D [of "''%]''" b] without_D [of "'']''" z] by auto
  with 3 show ?thesis
    using parse_bracketed_v6 [of "b @ CHR ''%'' # z" p] find_char_at [of "CHR ''%''" b z]
    by (simp add: parse_body_def)
qed

lemma ParseEndpoint_body:
  assumes "trim text \<noteq> []" "port (parse_body (strip_scheme (trim text))) \<noteq> []"
  shows "ParseEndpoint text d = (host (parse_body (strip_scheme (trim text))),
                                 port (parse_body (strip_scheme (trim text))))"
  using assms by (simp add: ParseEndpoint_def ParseEndpointView_def parse_body_def Let_def)

lemma rendered_without:
  assumes "address_valid a" "without '':'' p"
  shows "CHR ''/'' \<notin> set (render_address a @ '':'' @ p)" "\<not> is_space (hd (render_address a))"
    "render_address a \<noteq> []"
proof -
  show "CHR ''/'' \<notin> set (render_address a @ '':'' @ p)"
    using assms without_slash by (cases a rule: render_address.cases) auto
  show "\<not> is_space (hd (render_address a))"
    using assms without_space by (cases a rule: render_address.cases) (auto simp: is_space_def)
  show "render_address a \<noteq> []"
    using assms by (cases a rule: render_address.cases) auto
qed

text \<open>
  What a user writes as the address of a remote port is taken apart as written: for an optional
  scheme, a host name, IPv4 address or bracketed IPv6 address with or without a zone, and a
  non-empty port, parsing returns the host (without brackets and zone) and the port, whatever the
  default port.
\<close>

theorem endpoint_roundtrip:
  assumes "scheme_valid sch" "address_valid a" "p \<noteq> []" "without '':'' p"
  shows "ParseEndpoint (render sch a p) d = (address_host a, p)"
proof -
  let ?body = "render_address a @ '':'' @ p"
  have last: "\<not> is_space (last (render sch a p))"
    using assms(3) without_space [OF assms(4,3)] by (simp add: render_def)
  have first: "\<not> is_space (hd (render sch a p))"
    using assms(1) rendered_without [OF assms(2,4)] without_space
    by (cases sch) (auto simp: render_def)
  have trim: "trim (render sch a p) = render sch a p" "render sch a p \<noteq> []"
    using trim_id [OF _ first last] by (auto simp: render_def)
  have "strip_scheme (render sch a p) = ?body"
  proof (cases sch)
    case None
    then show ?thesis
      using strip_scheme_none [OF rendered_without(1) [OF assms(2,4)]] by (simp add: render_def)
  next
    case (Some s)
    then have "s \<noteq> []" "CHR '':'' \<notin> set s" using assms(1) without_D [of "'':''" s] by auto
    from strip_scheme_some [OF this] Some show ?thesis by (simp add: render_def)
  qed
  with trim parse_body_rendered [OF assms(2,4)] assms(3) show ?thesis
    by (simp add: ParseEndpoint_body)
qed

theorem endpoint_roundtrip_witness:
  "ParseEndpoint ''rfc2217://[fe80::1%eth0]:4001'' ''23'' = (''fe80::1'', ''4001'')"
proof -
  have "ParseEndpoint (render (Some ''rfc2217'') (V6 ''fe80::1'' (Some ''eth0'')) ''4001'') ''23''
      = (address_host (V6 ''fe80::1'' (Some ''eth0'')), ''4001'')"
    by (rule endpoint_roundtrip) code_simp+
  then show ?thesis by (simp add: render_def)
qed

section \<open>Port numbers\<close>

definition digit :: "char \<Rightarrow> bool" where
  "digit c \<longleftrightarrow> 48 \<le> (of_char c :: nat) \<and> (of_char c :: nat) \<le> 57"

fun decimal :: "nat \<Rightarrow> string \<Rightarrow> nat" where
  "decimal v [] = v"
| "decimal v (c # s) = decimal (v * 10 + (of_char c - 48)) s"

lemma decimal_ge: "v \<le> decimal v s"
proof (induction s arbitrary: v)
  case Nil
  then show ?case by simp
next
  case (Cons c s)
  have "v \<le> v * 10 + (of_char c - 48)" by simp
  also have "\<dots> \<le> decimal (v * 10 + (of_char c - 48)) s" by (rule Cons.IH)
  finally show ?case by simp
qed

lemma u32_greater: "n < 2 ^ 32 \<Longrightarrow> (of_nat n :: u32) > 65535 \<longleftrightarrow> n > 65535"
  by (simp add: word_less_nat_alt unat_of_nat)

lemma port_loop_decimal:
  "v \<le> 65535 \<Longrightarrow>
   port_loop (of_nat v) s
     = (if list_all digit s \<and> decimal v s \<le> 65535 then Some (of_nat (decimal v s)) else None)"
proof (induction s arbitrary: v)
  case Nil
  then show ?case by simp
next
  case (Cons c s)
  show ?case
  proof (cases "digit c")
    case False
    then show ?thesis by (auto simp: digit_def)
  next
    case True
    define n where "n = v * 10 + (of_char c - 48)"
    have small: "n < 2 ^ 32" using Cons.prems True unfolding digit_def n_def by simp linarith
    have "(of_nat v :: u32) * 10 + (of_char c - 48) = of_nat n"
      using True by (simp add: digit_def n_def of_nat_diff of_nat_of_char)
    then have "port_loop (of_nat v) (c # s) = (if n > 65535 then None else port_loop (of_nat n) s)"
      using True u32_greater [OF small] by (auto simp: digit_def)
    moreover have "decimal v (c # s) = decimal n s" by (simp add: n_def)
    moreover have "n \<le> decimal n s" by (rule decimal_ge)
    ultimately show ?thesis using True Cons.IH [of n] by auto
  qed
qed

text \<open>
  The port number is exact: one to five decimal digits whose value is between 1 and 65535 give
  that value, and every other text, leading signs, blanks, zero and overflow included, gives none.
\<close>

theorem port_number_exact:
  "parse_port_number s =
     (if s \<noteq> [] \<and> length s \<le> 5 \<and> list_all digit s \<and> 1 \<le> decimal 0 s \<and> decimal 0 s \<le> 65535
      then Some (of_nat (decimal 0 s)) else None)"
proof -
  have zero: "decimal 0 s \<le> 65535 \<Longrightarrow> (of_nat (decimal 0 s) :: u32) = 0 \<longleftrightarrow> decimal 0 s = 0"
    by (simp add: word_of_nat_eq_0_iff dvd_eq_mod_eq_0)
  have cast: "(ucast (of_nat (decimal 0 s) :: u32) :: u16) = of_nat (decimal 0 s)"
    by (rule bit_word_eqI) (auto simp: bit_simps)
  show ?thesis
    using port_loop_decimal [of 0 s] zero cast by (auto simp: parse_port_number_def not_less)
qed

end
