(* ===== verification/Network_Port.thy ===== *)
theory Network_Port
  imports Rfc2217 Endpoint Protocol_Task
begin

text \<open>
  The network serial port (\<open>network_serial_port_impl.cpp\<close>): opening a TCP connection, reading through
  the RFC 2217 filter, writing, the port settings and the detection of a lost connection.

  What the operating system does is given to each operation: how resolving, connecting and the socket
  options come out, and the answer of the socket to one read or write. The overloads without an error
  code throw what the modelled ones return.
\<close>

section \<open>State and operations\<close>

record network_port =
  m_Options :: SerialPortConfig
  m_Socket :: socket
  m_EndpointName :: string
  m_IsOpen :: bool
  m_UseRfc2217 :: bool
  m_ProtocolHandler :: "handler option"

definition CreateProtocolHandler :: "bool \<Rightarrow> handler option" where
  "CreateProtocolHandler use_rfc2217 =
     (if \<not> use_rfc2217 then None
      else Some \<lparr> m_State = DATA, m_CommandBuffer = [], m_Log = [] \<rparr>)"

definition NetworkSerialPortImpl :: "bool \<Rightarrow> network_port" where
  "NetworkSerialPortImpl use_rfc2217 =
     \<lparr> m_Options = JandyDefault, m_Socket = \<lparr> s_open = False, s_sent = [], s_faults = [] \<rparr>,
       m_EndpointName = [], m_IsOpen = False, m_UseRfc2217 = use_rfc2217,
       m_ProtocolHandler = CreateProtocolHandler use_rfc2217 \<rparr>"

definition Port_is_open :: "network_port \<Rightarrow> bool" where
  "Port_is_open p \<longleftrightarrow> m_IsOpen p \<and> s_open (m_Socket p)"

definition close_socket :: "socket \<Rightarrow> socket" where
  "close_socket s = s \<lparr> s_open := False \<rparr>"

record open_answers =
  resolve_error :: "io_error option"
  connect_error :: "io_error option"
  left_open :: bool
  non_blocking_error :: "io_error option"
  no_delay_error :: "io_error option"
  write_faults :: "nat option list"

definition InitialiseConnectedSocket ::
    "open_answers \<Rightarrow> string \<Rightarrow> network_port \<Rightarrow> network_port \<times> io_error option" where
  "InitialiseConnectedSocket a endpoint_name p =
     (let p1 = p \<lparr> m_EndpointName := endpoint_name, m_IsOpen := True \<rparr> in
      case non_blocking_error a of
        Some e \<Rightarrow> (p1 \<lparr> m_IsOpen := False, m_Socket := close_socket (m_Socket p1) \<rparr>, Some e)
      | None \<Rightarrow>
          (case m_ProtocolHandler p1 of
             None \<Rightarrow> (p1, None)
           | Some h \<Rightarrow>
               let (h', s') = Handler_Initialize h (m_Socket p1)
               in (p1 \<lparr> m_ProtocolHandler := Some h', m_Socket := s' \<rparr>, None)))"

definition Port_open :: "open_answers \<Rightarrow> string \<Rightarrow> network_port \<Rightarrow> network_port \<times> io_error option" where
  "Port_open a endpoint_name p =
     (if Port_is_open p then (p, Some AlreadyOpen)
      else
        let (host, service) = ParseEndpoint endpoint_name [] in
        if host = [] \<or> service = [] then (p, Some InvalidArgument)
        else case resolve_error a of
               Some e \<Rightarrow> (p, Some e)
             | None \<Rightarrow>
                 (case connect_error a of
                    Some e \<Rightarrow> (p \<lparr> m_Socket := (m_Socket p) \<lparr> s_open := left_open a \<rparr> \<rparr>, Some e)
                  | None \<Rightarrow>
                      InitialiseConnectedSocket a endpoint_name
                        (p \<lparr> m_Socket := \<lparr> s_open = True, s_sent = [], s_faults = write_faults a \<rparr> \<rparr>)))"

definition Port_close :: "network_port \<Rightarrow> network_port" where
  "Port_close p =
     p \<lparr> m_EndpointName := [], m_IsOpen := False,
         m_ProtocolHandler := map_option Handler_Shutdown (m_ProtocolHandler p),
         m_Socket := close_socket (m_Socket p) \<rparr>"

definition Port_cancel :: "io_error option \<Rightarrow> network_port \<Rightarrow> io_error option" where
  "Port_cancel cancel_error p = (if \<not> Port_is_open p then Some BadDescriptor else cancel_error)"

text \<open>A setting is stored and passed to the handler, if there is one.\<close>

definition through_handler :: "(socket \<Rightarrow> socket) \<Rightarrow> network_port \<Rightarrow> network_port" where
  "through_handler f p =
     (if m_ProtocolHandler p = None then p else p \<lparr> m_Socket := f (m_Socket p) \<rparr>)"

definition Port_set_baud_rate :: "u32 \<Rightarrow> network_port \<Rightarrow> network_port" where
  "Port_set_baud_rate rate p =
     through_handler (Handler_set_baud_rate rate)
       (p \<lparr> m_Options := (m_Options p) \<lparr> baud_rate := rate \<rparr> \<rparr>)"

definition Port_set_character_size :: "u8 \<Rightarrow> network_port \<Rightarrow> network_port" where
  "Port_set_character_size bits p =
     through_handler (Handler_set_character_size bits)
       (p \<lparr> m_Options := (m_Options p) \<lparr> character_size := bits \<rparr> \<rparr>)"

definition Port_set_flow_control :: "FlowControl \<Rightarrow> network_port \<Rightarrow> network_port" where
  "Port_set_flow_control fc p =
     through_handler (Handler_set_flow_control fc)
       (p \<lparr> m_Options := (m_Options p) \<lparr> flow_control := fc \<rparr> \<rparr>)"

definition Port_set_parity :: "Parity \<Rightarrow> network_port \<Rightarrow> network_port" where
  "Port_set_parity par p =
     through_handler (Handler_set_parity par)
       (p \<lparr> m_Options := (m_Options p) \<lparr> parity := par \<rparr> \<rparr>)"

definition Port_set_stop_bits :: "StopBits \<Rightarrow> network_port \<Rightarrow> network_port" where
  "Port_set_stop_bits sb p =
     through_handler (Handler_set_stop_bits sb)
       (p \<lparr> m_Options := (m_Options p) \<lparr> stop_bits := sb \<rparr> \<rparr>)"

text \<open>A hard error of the socket closes the port.\<close>

definition disconnect :: "network_port \<Rightarrow> network_port" where
  "disconnect p =
     (if m_IsOpen p then p \<lparr> m_IsOpen := False, m_Socket := close_socket (m_Socket p) \<rparr> else p)"

text \<open>
  One read into a buffer of the given size. The socket never delivers more than fits; the result is
  what \<open>read_some\<close> leaves at the front of the buffer, or the error code.
\<close>

definition Port_read_some :: "nat \<Rightarrow> read_answer \<Rightarrow> network_port \<Rightarrow> network_port \<times> read_answer" where
  "Port_read_some buffer_size answer p =
     (if \<not> Port_is_open p then (p, ReadError BadDescriptor)
      else case answer of
        ReadError e \<Rightarrow>
          if e = WouldBlock \<or> e = TryAgain then (p, ReadBytes [])
          else (disconnect p, ReadError e)
      | ReadBytes bs \<Rightarrow>
          let raw = take buffer_size bs in
          if length raw > 0 then
            (case m_ProtocolHandler p of
               None \<Rightarrow> (p, ReadBytes raw)
             | Some h \<Rightarrow>
                 let (h', raw', bytes_read) = FilterInboundData raw h
                 in (p \<lparr> m_ProtocolHandler := Some h' \<rparr>, ReadBytes (take bytes_read raw')))
          else (p, ReadBytes []))"

definition Port_write_some :: "bytes \<Rightarrow> write_answer \<Rightarrow> network_port \<Rightarrow> network_port \<times> write_answer" where
  "Port_write_some b answer p =
     (if \<not> Port_is_open p then (p, WriteError BadDescriptor)
      else case answer of
        WriteError e \<Rightarrow>
          if e = WouldBlock \<or> e = TryAgain then (p, Written 0)
          else (disconnect p, WriteError e)
      | Written n \<Rightarrow>
          let k = min n (length b)
          in (p \<lparr> m_Socket := (m_Socket p) \<lparr> s_sent := s_sent (m_Socket p) @ take k b \<rparr> \<rparr>, Written k))"

section \<open>Reading\<close>

text \<open>The reads of a port, one per answer of the socket.\<close>

primrec port_reads :: "nat \<Rightarrow> read_answer list \<Rightarrow> network_port \<Rightarrow> network_port \<times> read_answer list" where
  "port_reads n [] p = (p, [])"
| "port_reads n (a # as) p =
     (let (p1, r) = Port_read_some n a p; (p2, rs) = port_reads n as p1 in (p2, r # rs))"

fun answer_data :: "read_answer \<Rightarrow> bytes" where
  "answer_data (ReadBytes bs) = bs"
| "answer_data (ReadError e) = []"

lemma read_filtered:
  assumes "Port_is_open p" "m_ProtocolHandler p = Some h" "length chunk \<le> n"
  shows "Port_read_some n (ReadBytes chunk) p
    = (p \<lparr> m_ProtocolHandler := Some (fst (decode_stream h chunk)) \<rparr>,
       ReadBytes (snd (decode_stream h chunk)))"
proof -
  obtain h' ds where d: "decode_stream h chunk = (h', ds)" by fastforce
  then have "FilterInboundData chunk h = (h', ds @ drop (length ds) chunk, length ds)"
    using filter_loop_decodes [of 0 0 h chunk h' ds] by (simp add: FilterInboundData_def)
  with d assms show ?thesis by (cases p) (auto simp: Port_read_some_def)
qed

primrec decode_chunks :: "handler \<Rightarrow> bytes list \<Rightarrow> bytes list" where
  "decode_chunks h [] = []"
| "decode_chunks h (c # chunks) =
     (let (h1, ds) = decode_stream h c in ds # decode_chunks h1 chunks)"

lemma port_reads_decode:
  assumes "Port_is_open p" "m_ProtocolHandler p = Some h" "list_all (\<lambda>c. length c \<le> n) chunks"
  shows "port_reads n (map ReadBytes chunks) p
      = (p \<lparr> m_ProtocolHandler := Some (fst (decode_stream h (concat chunks))) \<rparr>,
         map ReadBytes (decode_chunks h chunks))
    \<and> concat (decode_chunks h chunks) = snd (decode_stream h (concat chunks))
    \<and> list_all (\<lambda>c. length c \<le> n) (decode_chunks h chunks)"
  using assms
proof (induction chunks arbitrary: p h)
  case Nil
  then show ?case by (cases p) simp
next
  case (Cons c chunks)
  obtain h1 ds where d: "decode_stream h c = (h1, ds)" by fastforce
  let ?p = "p \<lparr> m_ProtocolHandler := Some h1 \<rparr>"
  have step: "Port_read_some n (ReadBytes c) p = (?p, ReadBytes ds)"
    using read_filtered [of p h c n] Cons.prems by (simp add: d)
  have "Port_is_open ?p" using Cons.prems(1) by (simp add: Port_is_open_def)
  with Cons.IH [of ?p h1] Cons.prems(3) decode_stream_length [of h c] show ?case
    by (simp add: d step decode_stream_append split: prod.split)
qed

lemmas reads_filtered = port_reads_decode [THEN conjunct1]
  port_reads_decode [THEN conjunct2, THEN conjunct1] port_reads_decode [THEN conjunct2, THEN conjunct2]

lemma answer_data_ReadBytes [simp]: "map answer_data (map ReadBytes reads) = reads"
  by (induction reads) simp_all

text \<open>
  C29: a network port in RFC 2217 mode is transparent to serial data. Let the server send any
  mixture of data bytes, option negotiation, subnegotiations of at most 4096 bytes and single-byte
  commands, and let the socket deliver that stream in reads of any sizes, cutting it anywhere, also
  inside escapes and commands. Then the reads of the port return exactly the data bytes in order, the
  port stays open, the handler is back in its data state, and it has logged the commands.
\<close>

theorem network_reads_transparent:
  assumes "Port_is_open p" "m_ProtocolHandler p = Some h" "m_State h = DATA"
    and "list_all item_valid items"
    and "concat chunks = concat (map encode_item items)" "list_all (\<lambda>c. length c \<le> n) chunks"
  shows "\<exists>p' h' rs. port_reads n (map ReadBytes chunks) p = (p', rs)
     \<and> concat (map answer_data rs) = concat (map item_data items)
     \<and> Port_is_open p' \<and> m_ProtocolHandler p' = Some h' \<and> m_State h' = DATA
     \<and> m_Log h' = m_Log h @ concat (map item_log items)"
proof -
  obtain buf where "decode_stream h (concat chunks)
      = (h \<lparr> m_CommandBuffer := buf, m_Log := m_Log h @ concat (map item_log items) \<rparr>,
         concat (map item_data items))"
    using decode_items [OF assms(3,4)] assms(5) by auto
  moreover note reads_filtered [OF assms(1,2,6)]
  ultimately show ?thesis using assms(1,3) by (simp add: Port_is_open_def del: map_map)
qed

definition connected_port :: network_port where
  "connected_port = fst (Port_open \<lparr> resolve_error = None, connect_error = None, left_open = False,
      non_blocking_error = None, no_delay_error = None, write_faults = [] \<rparr> ''pool:4001''
      (NetworkSerialPortImpl True))"

text \<open>
  Data with a doubled \<open>IAC\<close> and an acknowledgement of the baud rate between them, cut inside the
  doubled byte and inside the acknowledgement.
\<close>

definition sample_items :: "telnet_item list" where
  "sample_items = [Data 0x10, Data 0xFF, Subnegotiation [44, 101, 0, 0, 0x25, 0x80], Data 0x03]"

definition sample_chunks :: "bytes list" where
  "sample_chunks = [[0x10, 0xFF], [0xFF, 0xFF, 0xFA, 44, 101, 0], [0, 0x25, 0x80, 0xFF], [0xF0, 0x03]]"

theorem network_reads_transparent_witness:
  "\<exists>p' h' rs. port_reads 128 (map ReadBytes sample_chunks) connected_port = (p', rs)
     \<and> concat (map answer_data rs) = [0x10, 0xFF, 0x03]
     \<and> Port_is_open p' \<and> m_ProtocolHandler p' = Some h' \<and> m_State h' = DATA
     \<and> m_Log h' = [Handled 101 [0, 0, 0x25, 0x80] Acknowledged]"
proof -
  have "m_ProtocolHandler connected_port = Some fresh_handler" by code_simp
  moreover have "Port_is_open connected_port" "m_State fresh_handler = DATA"
    "list_all item_valid sample_items" "concat sample_chunks = concat (map encode_item sample_items)"
    "list_all (\<lambda>c. length c \<le> 128) sample_chunks"
    by code_simp+
  ultimately obtain p' h' rs where
    "port_reads 128 (map ReadBytes sample_chunks) connected_port = (p', rs)"
    "concat (map answer_data rs) = concat (map item_data sample_items)"
    "Port_is_open p'" "m_ProtocolHandler p' = Some h'" "m_State h' = DATA"
    "m_Log h' = m_Log fresh_handler @ concat (map item_log sample_items)"
    using network_reads_transparent [of connected_port fresh_handler sample_items sample_chunks 128]
    by blast
  moreover have "concat (map item_data sample_items) = [0x10, 0xFF, 0x03]"
    "m_Log fresh_handler @ concat (map item_log sample_items)
       = [Handled 101 [0, 0, 0x25, 0x80] Acknowledged]" by code_simp+
  ultimately show ?thesis by auto
qed

section \<open>The life of a port\<close>

text \<open>Every operation of the port as a step, with whatever the operating system answers.\<close>

inductive port_step :: "network_port \<Rightarrow> network_port \<Rightarrow> bool" where
  open_step: "port_step p (fst (Port_open a endpoint p))"
| close_step: "port_step p (Port_close p)"
| read_step: "port_step p (fst (Port_read_some n r p))"
| write_step: "port_step p (fst (Port_write_some b w p))"
| baud_step: "port_step p (Port_set_baud_rate rate p)"
| size_step: "port_step p (Port_set_character_size bits p)"
| flow_step: "port_step p (Port_set_flow_control fc p)"
| parity_step: "port_step p (Port_set_parity par p)"
| stop_step: "port_step p (Port_set_stop_bits sb p)"

definition port_invariant :: "network_port \<Rightarrow> bool" where
  "port_invariant p \<longleftrightarrow>
     (m_IsOpen p \<longrightarrow> s_open (m_Socket p))
     \<and> (m_ProtocolHandler p = None \<longleftrightarrow> \<not> m_UseRfc2217 p)
     \<and> pred_option (\<lambda>h. length (m_CommandBuffer h) \<le> MAX_COMMAND_BUFFER_SIZE) (m_ProtocolHandler p)"

lemma asio_write_open [simp]: "s_open (fst (asio_write b s)) = s_open s"
  by (auto simp: asio_write_def split: list.split option.split)

lemma SendCommand_keeps_open [simp]: "s_open (SendCommand k d s) = s_open s"
  by (simp add: SendCommand_def)

lemma setters_keep_open [simp]:
  "s_open (Handler_set_baud_rate r s) = s_open s"
  "s_open (Handler_set_character_size z s) = s_open s"
  "s_open (Handler_set_parity par s) = s_open s"
  "s_open (Handler_set_stop_bits sb s) = s_open s"
  "s_open (Handler_set_flow_control fc s) = s_open s"
  by (simp_all add: Handler_set_baud_rate_def Handler_set_character_size_def Handler_set_parity_def
      Handler_set_stop_bits_def Handler_set_flow_control_def)

lemma negotiation_keeps_open [simp]: "s_open (InitiateNegotiation s) = s_open s"
proof -
  obtain s1 ec where w: "asio_write [IAC, WILL, COM_PORT_OPTION] s = (s1, ec)" by fastforce
  with asio_write_open [of "[IAC, WILL, COM_PORT_OPTION]" s] have "s_open s1 = s_open s" by simp
  with w show ?thesis by (simp add: InitiateNegotiation_def Let_def)
qed

lemma decode_stream_bounded:
  "length (m_CommandBuffer h) \<le> MAX_COMMAND_BUFFER_SIZE \<Longrightarrow>
   length (m_CommandBuffer (fst (decode_stream h bs))) \<le> MAX_COMMAND_BUFFER_SIZE"
proof (induction bs arbitrary: h)
  case Nil
  then show ?case by simp
next
  case (Cons b bs)
  obtain h1 d where p: "ProcessByte b h = (h1, d)" by fastforce
  with process_byte_bounded [OF Cons.prems, of b] Cons.IH [of h1] show ?case
    by (cases "decode_stream h1 bs") simp
qed

lemma filter_handler: "fst (FilterInboundData raw h) = fst (decode_stream h raw)"
  using filter_loop_decodes [of 0 0 h raw]
  by (cases "decode_stream h raw") (simp add: FilterInboundData_def)

lemma open_keeps_invariant: "port_invariant p \<Longrightarrow> port_invariant (fst (Port_open a endpoint p))"
  by (auto simp: Port_open_def InitialiseConnectedSocket_def port_invariant_def Port_is_open_def
        close_socket_def Handler_Initialize_def Let_def split: option.split prod.split)

lemma read_keeps_invariant:
  assumes "port_invariant p"
  shows "port_invariant (fst (Port_read_some n r p))"
proof (cases "Port_is_open p \<and> (\<exists>bs h. r = ReadBytes bs \<and> m_ProtocolHandler p = Some h)")
  case False
  with assms show ?thesis
    by (auto simp: Port_read_some_def port_invariant_def disconnect_def close_socket_def Let_def
        split: read_answer.split option.split)
next
  case True
  then obtain bs h where r: "r = ReadBytes bs" "m_ProtocolHandler p = Some h" by blast
  with assms have "length (m_CommandBuffer (fst (FilterInboundData (take n bs) h)))
      \<le> MAX_COMMAND_BUFFER_SIZE"
    by (simp add: filter_handler decode_stream_bounded port_invariant_def)
  with True r assms show ?thesis
    by (auto simp: Port_read_some_def port_invariant_def Let_def split: prod.split)
qed

lemma write_keeps_invariant: "port_invariant p \<Longrightarrow> port_invariant (fst (Port_write_some b w p))"
  by (auto simp: Port_write_some_def port_invariant_def disconnect_def close_socket_def Let_def
      split: write_answer.split)

lemma setter_keeps_invariant:
  assumes "port_invariant p" "\<And>s. s_open (f s) = s_open s"
  shows "port_invariant (through_handler f (p \<lparr> m_Options := c \<rparr>))"
  using assms by (simp add: through_handler_def port_invariant_def)

lemma port_step_invariant: "port_step p p' \<Longrightarrow> port_invariant p \<Longrightarrow> port_invariant p'"
proof (induction rule: port_step.induct)
  case (close_step p)
  then show ?case
    by (auto simp: Port_close_def port_invariant_def Handler_Shutdown_def option.pred_map
        elim: option.pred_mono_strong split: option.split)
qed (simp_all add: open_keeps_invariant read_keeps_invariant write_keeps_invariant
      Port_set_baud_rate_def Port_set_character_size_def Port_set_flow_control_def
      Port_set_parity_def Port_set_stop_bits_def setter_keeps_invariant)

text \<open>
  In every state a network port reaches by any sequence of operations with any answers of the
  operating system, a port that counts as open has an open socket, the RFC 2217 handler is installed
  exactly when that mode was chosen, and its command buffer is within bounds.
\<close>

theorem network_port_invariant:
  assumes "port_step\<^sup>*\<^sup>* (NetworkSerialPortImpl use_rfc2217) p"
  shows "(m_IsOpen p \<longrightarrow> s_open (m_Socket p))
     \<and> (m_ProtocolHandler p = None \<longleftrightarrow> \<not> m_UseRfc2217 p)
     \<and> pred_option (\<lambda>h. length (m_CommandBuffer h) \<le> MAX_COMMAND_BUFFER_SIZE) (m_ProtocolHandler p)"
proof -
  have "port_invariant (NetworkSerialPortImpl use_rfc2217)"
    by (simp add: port_invariant_def NetworkSerialPortImpl_def CreateProtocolHandler_def)
  with assms have "port_invariant p"
    by (induction rule: rtranclp_induct) (auto intro: port_step_invariant)
  then show ?thesis by (simp add: port_invariant_def)
qed

theorem network_port_invariant_witness:
  "m_IsOpen connected_port \<and> s_open (m_Socket connected_port)"
proof -
  have "port_step\<^sup>*\<^sup>* (NetworkSerialPortImpl True) connected_port"
    unfolding connected_port_def by (rule r_into_rtranclp) (rule port_step.open_step)
  from network_port_invariant [OF this] have "m_IsOpen connected_port \<longrightarrow> s_open (m_Socket connected_port)"
    by blast
  moreover have "m_IsOpen connected_port" by code_simp
  ultimately show ?thesis by blast
qed

section \<open>Losing the connection\<close>

text \<open>The steps that use a port without opening or closing it.\<close>

inductive port_use :: "network_port \<Rightarrow> network_port \<Rightarrow> bool" where
  use_read: "port_use p (fst (Port_read_some n r p))"
| use_write: "port_use p (fst (Port_write_some b w p))"
| use_baud: "port_use p (Port_set_baud_rate rate p)"
| use_size: "port_use p (Port_set_character_size bits p)"
| use_flow: "port_use p (Port_set_flow_control fc p)"
| use_parity: "port_use p (Port_set_parity par p)"
| use_stop: "port_use p (Port_set_stop_bits sb p)"

lemma setters_closed [simp]:
  assumes "\<not> s_open s"
  shows "Handler_set_baud_rate r s = s" "Handler_set_character_size z s = s"
    "Handler_set_parity par s = s" "Handler_set_stop_bits sb s = s"
    "Handler_set_flow_control fc s = s"
  using assms by (simp_all add: Handler_set_baud_rate_def Handler_set_character_size_def
      Handler_set_parity_def Handler_set_stop_bits_def Handler_set_flow_control_def)

lemma use_closed:
  assumes "port_use p p'" "\<not> m_IsOpen p \<and> \<not> s_open (m_Socket p)"
  shows "m_Socket p' = m_Socket p \<and> \<not> m_IsOpen p'"
  using assms
  by (cases rule: port_use.cases)
     (simp_all add: Port_read_some_def Port_write_some_def Port_is_open_def through_handler_def
        Port_set_baud_rate_def Port_set_character_size_def Port_set_flow_control_def
        Port_set_parity_def Port_set_stop_bits_def)

text \<open>
  A lost connection is noticed and stays noticed. When a read or a write of an open port meets a
  hard socket error, the port is closed, the error is reported, and from then on, whatever is read,
  written or set, every read and write reports a bad descriptor and no byte reaches the socket,
  until the port is opened again.
\<close>

theorem disconnect_latched:
  assumes "Port_is_open p" "e \<noteq> WouldBlock" "e \<noteq> TryAgain"
    and "(p1, failed) = (let (q, r) = Port_read_some n (ReadError e) p in (q, r = ReadError e))
         \<or> (p1, failed) = (let (q, w) = Port_write_some b (WriteError e) p in (q, w = WriteError e))"
    and "port_use\<^sup>*\<^sup>* p1 p2"
  shows "failed \<and> \<not> Port_is_open p2
     \<and> s_sent (m_Socket p2) = s_sent (m_Socket p)
     \<and> Port_read_some k answer p2 = (p2, ReadError BadDescriptor)
     \<and> Port_write_some d wanswer p2 = (p2, WriteError BadDescriptor)"
proof -
  have p1: "p1 = disconnect p" "failed"
    using assms(1-4) by (auto simp: Port_read_some_def Port_write_some_def)
  then have "\<not> m_IsOpen p1 \<and> \<not> s_open (m_Socket p1) \<and> s_sent (m_Socket p1) = s_sent (m_Socket p)"
    using assms(1) by (simp add: disconnect_def Port_is_open_def close_socket_def)
  with assms(5) have "\<not> m_IsOpen p2 \<and> \<not> s_open (m_Socket p2)
      \<and> s_sent (m_Socket p2) = s_sent (m_Socket p)"
    by (induction rule: rtranclp_induct) (auto dest: use_closed)
  with p1 show ?thesis by (simp add: Port_is_open_def Port_read_some_def Port_write_some_def)
qed

theorem disconnect_latched_witness:
  "Port_write_some [1, 2] (Written 2)
      (Port_set_parity Even (fst (Port_read_some 128 (ReadError Eof) connected_port)))
    = (Port_set_parity Even (fst (Port_read_some 128 (ReadError Eof) connected_port)),
       WriteError BadDescriptor)"
proof -
  let ?p = "fst (Port_read_some 128 (ReadError Eof) connected_port)"
  have o: "Port_is_open connected_port" by code_simp
  have "port_use\<^sup>*\<^sup>* ?p (Port_set_parity Even ?p)"
    by (rule r_into_rtranclp) (rule port_use.use_parity)
  moreover have "(?p, True) = (let (q, r) = Port_read_some 128 (ReadError Eof) connected_port
      in (q, r = ReadError Eof))"
    using o by (simp add: Port_read_some_def)
  ultimately show ?thesis
    using disconnect_latched [OF o, of Eof ?p True 128 "[]" "Port_set_parity Even ?p" 0
      "ReadBytes []" "[1, 2]" "Written 2"] by simp
qed

section \<open>Writing\<close>

lemma decode_plain:
  "m_State h = DATA \<Longrightarrow> IAC \<notin> set bs \<Longrightarrow> decode_stream h bs = (h, bs)"
  by (induction bs) (auto simp: ProcessByte_def)

lemma decode_loses:
  assumes "m_State h = DATA" "IAC \<in> set bs"
  shows "length (snd (decode_stream h bs)) < length bs"
proof -
  obtain xs ys where bs: "bs = xs @ IAC # ys" "IAC \<notin> set xs" using assms(2) split_list_first by fast
  let ?h = "h \<lparr> m_State := IAC_STATE \<rparr>"
  have "decode_stream h (IAC # ys) = decode_stream ?h ys"
    using assms(1) by (simp add: ProcessByte_def)
  then have "snd (decode_stream h bs) = xs @ snd (decode_stream ?h ys)"
    using decode_plain [OF assms(1) bs(2)]
    by (simp add: bs(1) decode_stream_append split: prod.split)
  with decode_stream_length [of ?h ys] show ?thesis by (simp add: bs(1))
qed

text \<open>
  What a network port in RFC 2217 mode writes is received unchanged, by a server that undoes the
  telnet escapes as RFC 2217 prescribes and this handler does itself, only if it contains no byte
  0xFF: the write path does not double that byte, although the read path expects it doubled.
\<close>

theorem network_write_unescaped:
  assumes "Port_is_open p" "m_State server = DATA"
  shows "snd (decode_stream server
           (drop (length (s_sent (m_Socket p)))
              (s_sent (m_Socket (fst (Port_write_some data (Written (length data)) p)))))) = data
         \<longleftrightarrow> IAC \<notin> set data"
proof -
  have "drop (length (s_sent (m_Socket p)))
      (s_sent (m_Socket (fst (Port_write_some data (Written (length data)) p)))) = data"
    using assms(1) by (simp add: Port_write_some_def)
  then show ?thesis
    using decode_plain [OF assms(2), of data] decode_loses [OF assms(2), of data] by auto
qed

theorem network_write_unescaped_witness:
  "snd (decode_stream fresh_handler (drop 41 (s_sent (m_Socket (fst
      (Port_write_some [0x10, 0x02, 0xFF, 0x00, 0x10, 0x03] (Written 6) connected_port))))))
     \<noteq> [0x10, 0x02, 0xFF, 0x00, 0x10, 0x03]"
proof -
  have "Port_is_open connected_port" "m_State fresh_handler = DATA"
    "length (s_sent (m_Socket connected_port)) = 41"
    "IAC \<in> set [0x10, 0x02, 0xFF, 0x00, 0x10, 0x03]" by code_simp+
  moreover have "Written (length [0x10, 0x02, 0xFF, 0x00, 0x10, 0x03 :: u8]) = Written 6" by simp
  ultimately show ?thesis
    using network_write_unescaped [of connected_port fresh_handler
      "[0x10, 0x02, 0xFF, 0x00, 0x10, 0x03]"] by metis
qed

text \<open>
  While the send buffer of the socket is full, a network port answers a write with nothing
  written and no error, and the write loop of the protocol task asks again at once: for every number
  of such answers the loop goes on, with the offset unchanged. The same answer passed on as
  would-block ends the loop.
\<close>

theorem full_socket_spins:
  assumes "Port_is_open p" "offset < length buffer"
  shows "Port_write_some (drop offset buffer) (WriteError WouldBlock) p = (p, Written 0)
     \<and> write_loop buffer offset (replicate n (Written 0) @ rest) = write_loop buffer offset rest
     \<and> write_loop buffer offset (WriteError WouldBlock # rest) = (offset, [], rest, False)"
proof -
  have "write_loop buffer offset (Written 0 # rest') = write_loop buffer offset rest'" for rest'
    using assms(2) by (cases "write_loop buffer offset rest'") simp
  then have "write_loop buffer offset (replicate n (Written 0) @ rest) = write_loop buffer offset rest"
    by (induction n) simp_all
  with assms show ?thesis by (simp add: Port_write_some_def)
qed

theorem full_socket_spins_witness:
  "write_loop [1, 2, 3] 1 (replicate 1000 (Written 0) @ [Written 2]) = (3, [2, 3], [], False)"
proof -
  have "Port_is_open connected_port" by code_simp
  from full_socket_spins [OF this, of 1 "[1, 2, 3]" 1000 "[Written 2]"] show ?thesis by simp
qed

end
