(* ===== verification/Schedule.thy ===== *)
theory Schedule
  imports Endpoint
begin

text \<open>
  Schedules of the application and of the controller, their JSON form and the rules for moving one
  to the other (\<open>schedule.cpp\<close>, \<open>controller_schedule.cpp\<close>, \<open>promotion_constraints.cpp\<close>).

  JSON values belong to the nlohmann library. They are a type parameter with the library's functions
  in the record \<open>json_api\<close>: \<open>field\<close> is \<open>contains\<close> followed by \<open>operator[]\<close>, \<open>as_string\<close>, \<open>as_boolean\<close>
  and \<open>as_integer\<close> are the type tests with the stored value, the others build values. \<open>json_laws\<close> says
  what the code relies on: that reading a built value gives back what was put in. \<open>get<int>\<close> converts
  the stored 64-bit integer as a C++ cast does.
\<close>

section \<open>Numbers as text\<close>

definition digit_char :: "nat \<Rightarrow> char" where "digit_char n = char_of (48 + n)"

fun nat_string :: "nat \<Rightarrow> string" where
  "nat_string n = (if n < 10 then [digit_char n] else nat_string (n div 10) @ [digit_char (n mod 10)])"

declare nat_string.simps [simp del]

text \<open>\<open>std::format("{:02d}", i)\<close>: at least two characters, padded with zeros behind the sign.\<close>

definition format_02d :: "int \<Rightarrow> string" where
  "format_02d i =
     (if i < 0 then CHR ''-'' # nat_string (nat (- i))
      else let s = nat_string (nat i) in if length s < 2 then CHR ''0'' # s else s)"

text \<open>
  \<open>std::from_chars\<close> for \<open>int\<close>: an optional minus sign and the longest run of digits; characters behind
  it are left unread. It fails without a digit or when the value does not fit.
\<close>

definition from_chars :: "string \<Rightarrow> int option" where
  "from_chars s =
     (let negative = (s \<noteq> [] \<and> hd s = CHR ''-'');
          digits = takeWhile digit (if negative then tl s else s);
          v = (if negative then - int (decimal 0 digits) else int (decimal 0 digits))
      in if digits = [] \<or> v < - (2 ^ 31) \<or> v \<ge> 2 ^ 31 then None else Some v)"

section \<open>JSON values\<close>

record 'j json_api =
  is_object :: "'j \<Rightarrow> bool"
  field :: "'j \<Rightarrow> string \<Rightarrow> 'j option"
  as_string :: "'j \<Rightarrow> string option"
  as_boolean :: "'j \<Rightarrow> bool option"
  as_integer :: "'j \<Rightarrow> int option"
  mk_string :: "string \<Rightarrow> 'j"
  mk_boolean :: "bool \<Rightarrow> 'j"
  mk_integer :: "int \<Rightarrow> 'j"
  mk_object :: "(string \<times> 'j) list \<Rightarrow> 'j"

definition json_laws :: "'j json_api \<Rightarrow> bool" where
  "json_laws J \<longleftrightarrow>
     (\<forall>kvs. is_object J (mk_object J kvs))
     \<and> (\<forall>kvs k. distinct (map fst kvs) \<longrightarrow> field J (mk_object J kvs) k = map_of kvs k)
     \<and> (\<forall>s. as_string J (mk_string J s) = Some s)
     \<and> (\<forall>b. as_boolean J (mk_boolean J b) = Some b)
     \<and> (\<forall>i. - (2 ^ 63) \<le> i \<and> i < 2 ^ 63 \<longrightarrow> as_integer J (mk_integer J i) = Some i)"

definition get_int :: "int \<Rightarrow> int" where "get_int i = signed_take_bit 31 i"
definition get_int64 :: "int \<Rightarrow> int" where "get_int64 i = signed_take_bit 63 i"

definition string_field :: "'j json_api \<Rightarrow> 'j \<Rightarrow> string \<Rightarrow> string option" where
  "string_field J j k = Option.bind (field J j k) (as_string J)"

definition integer_field :: "'j json_api \<Rightarrow> 'j \<Rightarrow> string \<Rightarrow> int option" where
  "integer_field J j k = Option.bind (field J j k) (as_integer J)"

definition JsonStringOr :: "'j json_api \<Rightarrow> 'j \<Rightarrow> string \<Rightarrow> string \<Rightarrow> string" where
  "JsonStringOr J j k fallback = (case string_field J j k of Some s \<Rightarrow> s | None \<Rightarrow> fallback)"

definition JsonBoolOr :: "'j json_api \<Rightarrow> 'j \<Rightarrow> string \<Rightarrow> bool \<Rightarrow> bool" where
  "JsonBoolOr J j k fallback =
     (case Option.bind (field J j k) (as_boolean J) of Some b \<Rightarrow> b | None \<Rightarrow> fallback)"

section \<open>Schedules\<close>

datatype CirculationModes = Pool | Spa | SpaFill | SpaDrain | Spillover

definition CirculationModes_names :: "(string \<times> CirculationModes) list" where
  "CirculationModes_names = [(''Pool'', Pool), (''Spa'', Spa), (''SpaFill'', SpaFill),
     (''SpaDrain'', SpaDrain), (''Spillover'', Spillover)]"

datatype ActionType =
    ButtonOn | ButtonOff | ButtonToggle | PoolSetpoint | SpaSetpoint | ChlorinatorPercent
  | CirculationMode

record Action =
  a_type :: ActionType
  a_target :: string
  a_value :: int

record Schedule =
  s_uuid :: string
  s_name :: string
  s_enabled :: bool
  s_days_of_week :: u8
  s_hour :: int
  s_minute :: int
  s_action :: Action

definition default_schedule :: Schedule where
  "default_schedule = \<lparr> s_uuid = [], s_name = [], s_enabled = True, s_days_of_week = 0, s_hour = 0,
     s_minute = 0, s_action = \<lparr> a_type = ButtonToggle, a_target = [], a_value = 0 \<rparr> \<rparr>"

definition ACTION_NAMES :: "(ActionType \<times> string) list" where
  "ACTION_NAMES = [(ButtonOn, ''button_on''), (ButtonOff, ''button_off''),
     (ButtonToggle, ''button_toggle''), (PoolSetpoint, ''pool_setpoint''),
     (SpaSetpoint, ''spa_setpoint''), (ChlorinatorPercent, ''chlorinator_percent''),
     (CirculationMode, ''circulation_mode'')]"

definition ActionTypeToString :: "ActionType \<Rightarrow> string" where
  "ActionTypeToString type =
     (case find (\<lambda>(t, n). t = type) ACTION_NAMES of Some (t, n) \<Rightarrow> n | None \<Rightarrow> ''button_toggle'')"

definition ActionTypeFromString :: "string \<Rightarrow> ActionType option" where
  "ActionTypeFromString text = map_option fst (find (\<lambda>(t, n). n = text) ACTION_NAMES)"

definition IsButtonAction :: "ActionType \<Rightarrow> bool" where
  "IsButtonAction type \<longleftrightarrow> type = ButtonOn \<or> type = ButtonOff \<or> type = ButtonToggle"

definition IsSetpointAction :: "ActionType \<Rightarrow> bool" where
  "IsSetpointAction type \<longleftrightarrow> type = PoolSetpoint \<or> type = SpaSetpoint"

definition ParseTime :: "string \<Rightarrow> (int \<times> int) option" where
  "ParseTime text =
     (case find_char (CHR '':'') text of
        None \<Rightarrow> None
      | Some colon \<Rightarrow>
          let h = take colon text; m = drop (colon + 1) text in
          if h = [] \<or> m = [] then None
          else case from_chars h of
                 None \<Rightarrow> None
               | Some hv \<Rightarrow>
                   (case from_chars m of
                      None \<Rightarrow> None
                    | Some mv \<Rightarrow>
                        if hv < 0 \<or> hv > 23 \<or> mv < 0 \<or> mv > 59 then None else Some (hv, mv)))"

definition ParseAction :: "'j json_api \<Rightarrow> 'j \<Rightarrow> Schedule \<Rightarrow> string + Schedule" where
  "ParseAction J action_json s =
     (case ActionTypeFromString (JsonStringOr J action_json ''type'' []) of
        None \<Rightarrow> Inl ''action.type is unknown''
      | Some type \<Rightarrow>
          let a = (s_action s) \<lparr> a_type := type \<rparr> in
          if IsButtonAction type then
            (let target = JsonStringOr J action_json ''target'' [] in
             if target = [] then Inl ''action.target (device label) is required for button actions''
             else Inr (s \<lparr> s_action := a \<lparr> a_target := target \<rparr> \<rparr>))
          else if type = CirculationMode then
            (let target = JsonStringOr J action_json ''target'' [] in
             if map_of CirculationModes_names target = None
             then Inl ''action.target is not a valid circulation mode''
             else Inr (s \<lparr> s_action := a \<lparr> a_target := target \<rparr> \<rparr>))
          else
            (case integer_field J action_json ''value'' of
               None \<Rightarrow> Inl ''action.value (integer) is required''
             | Some i \<Rightarrow>
                 let v = get_int i in
                 if IsSetpointAction type \<and> (v < 1 \<or> v > 104)
                 then Inl ''setpoint value must be 1..104''
                 else if type = ChlorinatorPercent \<and> (v < 0 \<or> v > 100)
                 then Inl ''chlorinator_percent value must be 0..100''
                 else Inr (s \<lparr> s_action := a \<lparr> a_value := v \<rparr> \<rparr>)))"

definition ToJson :: "'j json_api \<Rightarrow> Schedule \<Rightarrow> 'j" where
  "ToJson J s =
     (let a = s_action s;
          action = mk_object J
            [(''type'', mk_string J (ActionTypeToString (a_type a))),
             (if IsButtonAction (a_type a) \<or> a_type a = CirculationMode
              then (''target'', mk_string J (a_target a))
              else (''value'', mk_integer J (a_value a)))]
      in mk_object J
           [(''uuid'', mk_string J (s_uuid s)),
            (''name'', mk_string J (s_name s)),
            (''enabled'', mk_boolean J (s_enabled s)),
            (''days_of_week'', mk_integer J (uint (s_days_of_week s))),
            (''time_local'', mk_string J (format_02d (s_hour s) @ '':'' @ format_02d (s_minute s))),
            (''action'', action)])"

definition FromJson :: "'j json_api \<Rightarrow> 'j \<Rightarrow> string + Schedule" where
  "FromJson J j =
     (if \<not> is_object J j then Inl ''schedule must be a JSON object''
      else
        let s1 = default_schedule
              \<lparr> s_uuid := (case string_field J j ''uuid'' of Some u \<Rightarrow> u | None \<Rightarrow> []),
                s_name := JsonStringOr J j ''name'' [],
                s_enabled := JsonBoolOr J j ''enabled'' True \<rparr>
        in case integer_field J j ''days_of_week'' of
             None \<Rightarrow> Inl ''days_of_week (integer bitmask) is required''
           | Some i \<Rightarrow>
               let dow = get_int64 i in
               if dow < 0 \<or> dow > 127 then Inl ''days_of_week must be a 0..127 bitmask''
               else case Option.bind (string_field J j ''time_local'') ParseTime of
                      None \<Rightarrow> Inl ''time_local must be a valid \"HH:MM\" string''
                    | Some (h, m) \<Rightarrow>
                        (case field J j ''action'' of
                           None \<Rightarrow> Inl ''action object is required''
                         | Some action_json \<Rightarrow>
                             if \<not> is_object J action_json then Inl ''action object is required''
                             else ParseAction J action_json
                                    (s1 \<lparr> s_days_of_week := word_of_int dow, s_hour := h,
                                         s_minute := m \<rparr>)))"

section \<open>Validity\<close>

definition action_valid :: "Action \<Rightarrow> bool" where
  "action_valid a \<longleftrightarrow>
     (case a_type a of
        PoolSetpoint \<Rightarrow> 1 \<le> a_value a \<and> a_value a \<le> 104
      | SpaSetpoint \<Rightarrow> 1 \<le> a_value a \<and> a_value a \<le> 104
      | ChlorinatorPercent \<Rightarrow> 0 \<le> a_value a \<and> a_value a \<le> 100
      | CirculationMode \<Rightarrow> map_of CirculationModes_names (a_target a) \<noteq> None
      | _ \<Rightarrow> a_target a \<noteq> [])"

definition schedule_valid :: "Schedule \<Rightarrow> bool" where
  "schedule_valid s \<longleftrightarrow>
     0 \<le> s_hour s \<and> s_hour s \<le> 23 \<and> 0 \<le> s_minute s \<and> s_minute s \<le> 59
     \<and> s_days_of_week s \<le> 127 \<and> action_valid (s_action s)"

text \<open>The part of an action its type does not use has its initial value.\<close>

definition action_normal :: "Action \<Rightarrow> bool" where
  "action_normal a \<longleftrightarrow>
     (if IsButtonAction (a_type a) \<or> a_type a = CirculationMode then a_value a = 0 else a_target a = [])"

lemma ParseTime_range: "ParseTime text = Some (h, m) \<Longrightarrow> 0 \<le> h \<and> h \<le> 23 \<and> 0 \<le> m \<and> m \<le> 59"
  by (auto simp: ParseTime_def Let_def split: option.splits if_splits)

lemma dow_word: "0 \<le> dow \<Longrightarrow> dow \<le> 127 \<Longrightarrow> (word_of_int dow :: u8) \<le> 127"
  by (simp add: word_le_def unsigned_of_int take_bit_int_eq_self)

lemma ParseAction_valid:
  "ParseAction J j s = Inr s' \<Longrightarrow>
   s_hour s' = s_hour s \<and> s_minute s' = s_minute s \<and> s_days_of_week s' = s_days_of_week s
   \<and> action_valid (s_action s')"
  by (auto simp: ParseAction_def Let_def action_valid_def IsButtonAction_def IsSetpointAction_def
           split: option.splits if_splits ActionType.splits)

lemma FromJson_valid:
  "FromJson J j = Inr s \<Longrightarrow> schedule_valid s"
  by (auto simp: FromJson_def Let_def schedule_valid_def bind_eq_Some_conv dow_word not_less
           split: if_splits option.splits dest!: ParseAction_valid ParseTime_range)

section \<open>Round trip\<close>

lemma of_digit_char: "n < 10 \<Longrightarrow> (of_char (digit_char n) :: nat) = 48 + n"
  by (simp add: digit_char_def)

lemma digit_char [simp]: "n < 10 \<Longrightarrow> digit (digit_char n)"
  by (simp add: digit_def of_digit_char)

lemma digit_char_zero: "digit_char 0 = CHR ''0''"
  by code_simp

lemma format_two_digits:
  assumes "0 \<le> i" "i \<le> 99"
  shows "format_02d i = [digit_char (nat i div 10), digit_char (nat i mod 10)]"
proof (cases "i < 10")
  case True
  with assms have "nat i < 10" by simp
  then show ?thesis
    using assms by (simp add: format_02d_def nat_string.simps [of "nat i"] digit_char_zero)
next
  case False
  with assms have "nat i div 10 < 10" "\<not> nat i < 10" by auto
  then show ?thesis
    using assms by (simp add: format_02d_def nat_string.simps [of "nat i"] nat_string.simps [of "nat i div 10"])
qed

lemma two_digits:
  assumes "0 \<le> i" "i \<le> 59"
  shows "from_chars (format_02d i) = Some i" "CHR '':'' \<notin> set (format_02d i)" "format_02d i \<noteq> []"
proof -
  define a b where "a = nat i div 10" and "b = nat i mod 10"
  have ab: "a < 10" "b < 10" "int (a * 10 + b) = i" using assms by (auto simp: a_def b_def)
  have f: "format_02d i = [digit_char a, digit_char b]"
    using format_two_digits [of i] assms by (simp add: a_def b_def)
  have "\<not> digit (CHR ''-'')" "\<not> digit (CHR '':'')" by code_simp+
  then have "digit_char a \<noteq> CHR ''-''" "CHR '':'' \<notin> {digit_char a, digit_char b}"
    using ab digit_char by (metis, metis insertE singletonD)
  with ab assms show "from_chars (format_02d i) = Some i" "CHR '':'' \<notin> set (format_02d i)"
      "format_02d i \<noteq> []"
    by (auto simp: f from_chars_def of_digit_char Let_def)
qed

lemma ParseTime_format:
  assumes "0 \<le> h" "h \<le> 23" "0 \<le> m" "m \<le> 59"
  shows "ParseTime (format_02d h @ '':'' @ format_02d m) = Some (h, m)"
  using assms two_digits [of h] two_digits [of m] find_char_at [of "CHR '':''" "format_02d h"]
  by (simp add: ParseTime_def)

lemma ActionType_names: "ActionTypeFromString (ActionTypeToString type) = Some type"
  by (cases type) (simp_all add: ActionTypeFromString_def ActionTypeToString_def ACTION_NAMES_def)

lemma get_int_small: "- (2 ^ 31) \<le> i \<Longrightarrow> i < 2 ^ 31 \<Longrightarrow> get_int i = i"
  by (simp add: get_int_def signed_take_bit_int_eq_self)

lemma get_int64_small: "- (2 ^ 63) \<le> i \<Longrightarrow> i < 2 ^ 63 \<Longrightarrow> get_int64 i = i"
  by (simp add: get_int64_def signed_take_bit_int_eq_self)

lemma action_roundtrip:
  assumes "json_laws J" "action_valid a" "action_normal a" "s_action s = s_action default_schedule"
  shows "ParseAction J (mk_object J
            [(''type'', mk_string J (ActionTypeToString (a_type a))),
             (if IsButtonAction (a_type a) \<or> a_type a = CirculationMode
              then (''target'', mk_string J (a_target a))
              else (''value'', mk_integer J (a_value a)))]) s
         = Inr (s \<lparr> s_action := a \<rparr>)"
proof -
  obtain ty tg v where a: "a = \<lparr> a_type = ty, a_target = tg, a_value = v \<rparr>" by (cases a) simp
  have small: "\<not> (IsButtonAction ty \<or> ty = CirculationMode) \<Longrightarrow> 0 \<le> v \<and> v \<le> 104"
    using assms(2) by (cases ty) (auto simp: a action_valid_def IsButtonAction_def)
  then have "\<not> (IsButtonAction ty \<or> ty = CirculationMode) \<Longrightarrow>
      as_integer J (mk_integer J v) = Some v \<and> get_int v = v"
    using assms(1) by (auto simp: json_laws_def get_int_small)
  with assms show ?thesis
    by (cases ty) (simp_all add: a ParseAction_def JsonStringOr_def string_field_def integer_field_def
        json_laws_def ActionType_names IsButtonAction_def IsSetpointAction_def action_valid_def
        action_normal_def default_schedule_def)
qed

lemma schedule_roundtrip:
  assumes "json_laws J" "schedule_valid s" "action_normal (s_action s)"
  shows "FromJson J (ToJson J s) = Inr s"
proof -
  obtain u n e d h m a where s: "s = \<lparr> s_uuid = u, s_name = n, s_enabled = e, s_days_of_week = d,
      s_hour = h, s_minute = m, s_action = a \<rparr>" by (cases s) simp
  have "uint d \<le> 127" using assms(2) by (simp add: s schedule_valid_def word_le_def)
  then have dow: "as_integer J (mk_integer J (uint d)) = Some (uint d)" "get_int64 (uint d) = uint d"
    "\<not> uint d > 127"
    using assms(1) get_int64_small [of "uint d"] order_trans [of "- (2 ^ 63)" 0 "uint d"]
    by (auto simp: json_laws_def)
  have t: "ParseTime (format_02d h @ '':'' @ format_02d m) = Some (h, m)"
    using assms(2) ParseTime_format [of h m] by (simp add: s schedule_valid_def)
  have act: "action_valid a" "action_normal a" using assms by (simp_all add: s schedule_valid_def)
  show ?thesis
    using assms(1) dow t action_roundtrip [OF assms(1) act]
    by (simp add: s FromJson_def ToJson_def Let_def json_laws_def string_field_def integer_field_def
        JsonStringOr_def JsonBoolOr_def default_schedule_def)
qed

text \<open>
  C33: schedules survive the trip through JSON, the form in which they are stored and served: for every
  JSON library that keeps the laws, every valid schedule whose unused action field is unset is read back
  from its own JSON exactly, with every field, also the padded two-digit times.
\<close>

theorem schedule_json_roundtrip:
  assumes "json_laws J" "schedule_valid s" "action_normal (s_action s)"
  shows "FromJson J (ToJson J s) = Inr s"
  using assms by (rule schedule_roundtrip)

text \<open>A concrete JSON library, as the witnesses need one.\<close>

datatype json = JString string | JBool bool | JInt int | JObject "(string \<times> json) list"

definition json_lib :: "json json_api" where
  "json_lib = \<lparr> is_object = (\<lambda>j. case j of JObject kvs \<Rightarrow> True | _ \<Rightarrow> False),
     field = (\<lambda>j k. case j of JObject kvs \<Rightarrow> map_of kvs k | _ \<Rightarrow> None),
     as_string = (\<lambda>j. case j of JString s \<Rightarrow> Some s | _ \<Rightarrow> None),
     as_boolean = (\<lambda>j. case j of JBool b \<Rightarrow> Some b | _ \<Rightarrow> None),
     as_integer = (\<lambda>j. case j of JInt i \<Rightarrow> Some i | _ \<Rightarrow> None),
     mk_string = JString, mk_boolean = JBool, mk_integer = JInt, mk_object = JObject \<rparr>"

lemma json_lib_laws: "json_laws json_lib"
  by (simp add: json_laws_def json_lib_def)

definition sample_schedule :: Schedule where
  "sample_schedule = \<lparr> s_uuid = ''a1'', s_name = ''warm'', s_enabled = True, s_days_of_week = 64,
     s_hour = 8, s_minute = 5, s_action = \<lparr> a_type = SpaSetpoint, a_target = [], a_value = 38 \<rparr> \<rparr>"

lemma sample_schedule_valid: "schedule_valid sample_schedule" "action_normal (s_action sample_schedule)"
  by (simp_all add: schedule_valid_def sample_schedule_def action_valid_def action_normal_def
      IsButtonAction_def)

theorem schedule_json_roundtrip_witness:
  "FromJson json_lib (ToJson json_lib sample_schedule) = Inr sample_schedule"
  using schedule_json_roundtrip [OF json_lib_laws sample_schedule_valid] .

section \<open>What the parser lets through\<close>

text \<open>The beginning of a text that is no continuation of a number.\<close>

definition stops :: "string \<Rightarrow> bool" where
  "stops s \<longleftrightarrow> s = [] \<or> \<not> digit (hd s)"

lemma from_chars_stops:
  assumes "0 \<le> i" "i \<le> 59" "stops junk"
  shows "from_chars (format_02d i @ junk) = Some i"
proof -
  have f: "format_02d i = [digit_char (nat i div 10), digit_char (nat i mod 10)]"
    using format_two_digits [of i] assms by simp
  have ab: "nat i div 10 < 10" "nat i mod 10 < 10" using assms by auto
  have junk: "takeWhile digit junk = []" using assms(3) by (cases junk) (auto simp: stops_def)
  have "\<not> digit (CHR ''-'')" by code_simp
  then have "digit_char (nat i div 10) \<noteq> CHR ''-''" using ab digit_char by metis
  then have "from_chars (format_02d i @ junk) = from_chars (format_02d i)"
    using ab junk by (simp add: f from_chars_def)
  with two_digits(1) [OF assms(1,2)] show ?thesis by simp
qed

lemma get_int_wraps: "- (2 ^ 31) \<le> v \<Longrightarrow> v < 2 ^ 31 \<Longrightarrow> get_int (v + 2 ^ 32) = v"
proof -
  assume v: "- (2 ^ 31) \<le> v" "v < 2 ^ 31"
  have "signed_take_bit 31 (v + 2 ^ 32) = signed_take_bit 31 v"
    by (simp add: signed_take_bit_eq_iff_take_bit_eq take_bit_eq_mod)
  with get_int_small [OF v] show ?thesis by (simp add: get_int_def)
qed

text \<open>
  Two inputs the comments call malformed are accepted. A time is taken although other characters
  follow its hour or its minute, and a setpoint far outside the range of \<open>int\<close> is taken
  for the value it wraps to: 2 to the 32nd plus 38 sets 38 degrees.
\<close>

theorem lenient_schedule_input:
  assumes "0 \<le> h" "h \<le> 23" "0 \<le> m" "m \<le> 59" "stops x" "stops y" "CHR '':'' \<notin> set x"
    and "1 \<le> v" "v \<le> 104" "json_laws J"
  shows "ParseTime (format_02d h @ x @ '':'' @ format_02d m @ y) = Some (h, m)
     \<and> ParseAction J (mk_object J [(''type'', mk_string J ''spa_setpoint''),
                                     (''value'', mk_integer J (v + 2 ^ 32))]) s
       = Inr (s \<lparr> s_action := (s_action s) \<lparr> a_type := SpaSetpoint, a_value := v \<rparr> \<rparr>)"
proof
  have "find_char (CHR '':'') ((format_02d h @ x) @ CHR '':'' # format_02d m @ y)
      = Some (length (format_02d h @ x))"
    using two_digits(2) [of h] assms by (intro find_char_at) simp
  then show "ParseTime (format_02d h @ x @ '':'' @ format_02d m @ y) = Some (h, m)"
    using assms from_chars_stops [of h x] from_chars_stops [of m y] two_digits(3)
    by (simp add: ParseTime_def)
next
  have "ActionTypeFromString ''spa_setpoint'' = Some SpaSetpoint" by code_simp
  moreover have "as_integer J (mk_integer J (v + 2 ^ 32)) = Some (v + 2 ^ 32)"
    using assms by (simp add: json_laws_def)
  ultimately show "ParseAction J (mk_object J [(''type'', mk_string J ''spa_setpoint''),
        (''value'', mk_integer J (v + 2 ^ 32))]) s
      = Inr (s \<lparr> s_action := (s_action s) \<lparr> a_type := SpaSetpoint, a_value := v \<rparr> \<rparr>)"
    using assms get_int_wraps [of v]
    by (simp add: ParseAction_def JsonStringOr_def string_field_def integer_field_def json_laws_def
        IsButtonAction_def)
qed

theorem lenient_schedule_input_witness:
  "ParseTime ''08am:30 or so'' = Some (8, 30)
   \<and> ParseAction json_lib (JObject [(''type'', JString ''spa_setpoint''), (''value'', JInt 4294967334)])
       default_schedule
     = Inr (default_schedule \<lparr> s_action := \<lparr> a_type = SpaSetpoint, a_target = [], a_value = 38 \<rparr> \<rparr>)"
proof -
  have "stops ''am''" "stops '' or so''" by code_simp+
  moreover have shape: "format_02d 8 @ ''am'' @ '':'' @ format_02d 30 @ '' or so'' = ''08am:30 or so''"
    by code_simp
  ultimately have r: "ParseTime (format_02d 8 @ ''am'' @ '':'' @ format_02d 30 @ '' or so'') = Some (8, 30)
     \<and> ParseAction json_lib (mk_object json_lib [(''type'', mk_string json_lib ''spa_setpoint''),
          (''value'', mk_integer json_lib (38 + 2 ^ 32))]) default_schedule
       = Inr (default_schedule \<lparr> s_action := (s_action default_schedule) \<lparr> a_type := SpaSetpoint,
                                                                          a_value := 38 \<rparr> \<rparr>)"
    using json_lib_laws by (intro lenient_schedule_input) simp_all
  then show ?thesis
    unfolding shape by (simp add: default_schedule_def) (simp add: json_lib_def)
qed

end
