(* ===== verification/Scheduler.thy ===== *)
theory Scheduler
  imports Schedule
begin

text \<open>
  The scheduler service (\<open>scheduler_service.cpp\<close>): the schedule store with its file, and the tick that
  fires what is due. The clock is the parameter \<open>tm\<close> of each tick, the broken-down local time the
  platform gives; fresh uuids are arguments; the file is the JSON array it holds, and whether a save
  succeeds is an argument. A dispatched command is what \<open>Fire\<close> asks of the command dispatcher.
\<close>

section \<open>Local time\<close>

record tm =
  tm_year :: int
  tm_mon :: int
  tm_mday :: int
  tm_hour :: int
  tm_min :: int
  tm_wday :: int

record LocalMinute =
  lm_weekday :: nat
  lm_hour :: int
  lm_minute :: int
  lm_key :: int

definition DecomposeLocal :: "tm \<Rightarrow> LocalMinute" where
  "DecomposeLocal t =
     \<lparr> lm_weekday = nat ((tm_wday t + 6) mod 7), lm_hour = tm_hour t, lm_minute = tm_min t,
       lm_key = (tm_year t + 1900) * 100000000 + (tm_mon t + 1) * 1000000 + tm_mday t * 10000
                + tm_hour t * 100 + tm_min t \<rparr>"

definition tm_valid :: "tm \<Rightarrow> bool" where
  "tm_valid t \<longleftrightarrow> 0 \<le> tm_mon t \<and> tm_mon t \<le> 11 \<and> 1 \<le> tm_mday t \<and> tm_mday t \<le> 31
     \<and> 0 \<le> tm_hour t \<and> tm_hour t \<le> 23 \<and> 0 \<le> tm_min t \<and> tm_min t \<le> 59
     \<and> 0 \<le> tm_wday t \<and> tm_wday t \<le> 6"

text \<open>The key of a minute tells it from every other minute: its fields are digits to base 100.\<close>

lemma base_100:
  fixes a b c d :: int
  shows "0 \<le> b \<Longrightarrow> b < 100 \<Longrightarrow> 0 \<le> d \<Longrightarrow> d < 100 \<Longrightarrow> a * 100 + b = c * 100 + d \<longleftrightarrow> a = c \<and> b = d"
proof -
  assume "0 \<le> b" "b < 100" "0 \<le> d" "d < 100"
  then have "(a * 100 + b) div 100 = a" "(c * 100 + d) div 100 = c" by simp_all
  then have "a * 100 + b = c * 100 + d \<Longrightarrow> a = c" by metis
  then show ?thesis by auto
qed

lemma minute_key_digits:
  "lm_key (DecomposeLocal t) =
     ((((tm_year t + 1900) * 100 + (tm_mon t + 1)) * 100 + tm_mday t) * 100 + tm_hour t) * 100 + tm_min t"
  by (simp add: DecomposeLocal_def algebra_simps)

lemma minute_key_injective:
  assumes "tm_valid a" "tm_valid b"
  shows "lm_key (DecomposeLocal a) = lm_key (DecomposeLocal b) \<longleftrightarrow>
     tm_year a = tm_year b \<and> tm_mon a = tm_mon b \<and> tm_mday a = tm_mday b \<and> tm_hour a = tm_hour b
     \<and> tm_min a = tm_min b"
proof -
  have bounds: "0 \<le> tm_mon t + 1" "tm_mon t + 1 < 100" "0 \<le> tm_mday t" "tm_mday t < 100"
    "0 \<le> tm_hour t" "tm_hour t < 100" "0 \<le> tm_min t" "tm_min t < 100" if "tm_valid t" for t
    using that by (auto simp: tm_valid_def)
  show ?thesis
    unfolding minute_key_digits
    by (simp only: base_100 bounds [OF assms(1)] bounds [OF assms(2)] add_right_cancel simp_thms conj_assoc)
qed

section \<open>Firing\<close>

datatype EquipmentMode = Normal | Service | TimeOut
datatype DeviceAction = DA_On | DA_Off | DA_Toggle
datatype BodyOfWaterIds = Body_Pool | Body_Spa | Body_Shared | Body_Unknown

datatype command =
    CommandByLabel string DeviceAction
  | SetPoolSetpoint u8
  | SetSpaSetpoint u8
  | SetChlorinatorPercentage u8 BodyOfWaterIds
  | SetCirculationMode CirculationModes

definition Fire :: "EquipmentMode option \<Rightarrow> bool \<Rightarrow> Schedule \<Rightarrow> command option" where
  "Fire mode has_dispatcher s =
     (if mode = Some Service then None
      else if \<not> has_dispatcher then None
      else let a = s_action s in
        (case a_type a of
           ButtonOn \<Rightarrow> Some (CommandByLabel (a_target a) DA_On)
         | ButtonOff \<Rightarrow> Some (CommandByLabel (a_target a) DA_Off)
         | ButtonToggle \<Rightarrow> Some (CommandByLabel (a_target a) DA_Toggle)
         | PoolSetpoint \<Rightarrow> Some (SetPoolSetpoint (word_of_int (a_value a)))
         | SpaSetpoint \<Rightarrow> Some (SetSpaSetpoint (word_of_int (a_value a)))
         | ChlorinatorPercent \<Rightarrow> Some (SetChlorinatorPercentage (word_of_int (a_value a)) Body_Pool)
         | CirculationMode \<Rightarrow>
             (case map_of CirculationModes_names (a_target a) of
                None \<Rightarrow> None
              | Some m \<Rightarrow> Some (SetCirculationMode m))))"

section \<open>The service\<close>

record 'j scheduler =
  m_Schedules :: "Schedule list"
  m_LastFiredMinute :: "string \<rightharpoonup> int"
  m_Running :: bool
  m_FileName :: string
  m_File :: "'j list option"

text \<open>The loop of \<open>Tick\<close>: the schedules that fire, in order, and the guard map after it.\<close>

definition is_due :: "LocalMinute \<Rightarrow> Schedule \<Rightarrow> bool" where
  "is_due lm s \<longleftrightarrow>
     s_enabled s
     \<and> and (ucast (s_days_of_week s) :: u32) (push_bit (lm_weekday lm) 1) \<noteq> 0
     \<and> s_hour s = lm_hour lm \<and> s_minute s = lm_minute lm"

primrec tick_loop ::
    "LocalMinute \<Rightarrow> Schedule list \<Rightarrow> (string \<rightharpoonup> int) \<Rightarrow> (string \<rightharpoonup> int) \<times> Schedule list" where
  "tick_loop lm [] last_fired = (last_fired, [])"
| "tick_loop lm (s # rest) last_fired =
     (if \<not> is_due lm s then tick_loop lm rest last_fired
      else if last_fired (s_uuid s) = Some (lm_key lm) then tick_loop lm rest last_fired
      else
        let (last_fired', fired) = tick_loop lm rest (last_fired(s_uuid s \<mapsto> lm_key lm))
        in (last_fired', s # fired))"

definition Tick :: "tm \<Rightarrow> 'j scheduler \<Rightarrow> 'j scheduler \<times> Schedule list" where
  "Tick t st =
     (let (last_fired, fired) = tick_loop (DecomposeLocal t) (m_Schedules st) (m_LastFiredMinute st)
      in (st \<lparr> m_LastFiredMinute := last_fired \<rparr>, fired))"

definition Save :: "'j json_api \<Rightarrow> bool \<Rightarrow> 'j scheduler \<Rightarrow> 'j scheduler" where
  "Save J saved st =
     (if m_FileName st = [] then st
      else if saved then st \<lparr> m_File := Some (map (ToJson J) (m_Schedules st)) \<rparr> else st)"

text \<open>Loading the entries of the file; each entry without a uuid takes the next fresh one.\<close>

fun load_entries :: "'j json_api \<Rightarrow> string list \<Rightarrow> 'j list \<Rightarrow> Schedule list" where
  "load_entries J uuids [] = []"
| "load_entries J uuids (entry # rest) =
     (case FromJson J entry of
        Inl error \<Rightarrow> load_entries J uuids rest
      | Inr s \<Rightarrow>
          if s_uuid s = [] then s \<lparr> s_uuid := hd uuids \<rparr> # load_entries J (tl uuids) rest
          else s # load_entries J uuids rest)"

definition Load :: "'j json_api \<Rightarrow> string list \<Rightarrow> 'j scheduler \<Rightarrow> 'j scheduler" where
  "Load J uuids st =
     st \<lparr> m_Schedules := (case m_File st of None \<Rightarrow> [] | Some entries \<Rightarrow> load_entries J uuids entries) \<rparr>"

definition Start :: "'j json_api \<Rightarrow> string list \<Rightarrow> 'j scheduler \<Rightarrow> 'j scheduler" where
  "Start J uuids st =
     (if m_Running st \<or> m_FileName st = [] then st else Load J uuids (st \<lparr> m_Running := True \<rparr>))"

definition Stop :: "'j scheduler \<Rightarrow> 'j scheduler" where
  "Stop st = (if \<not> m_Running st then st else st \<lparr> m_Running := False \<rparr>)"

text \<open>The handler of the 30-second timer that \<open>ScheduleTick\<close> arms; it ticks only while running.\<close>

definition timer_expired :: "bool \<Rightarrow> tm \<Rightarrow> 'j scheduler \<Rightarrow> 'j scheduler \<times> Schedule list" where
  "timer_expired cancelled t st = (if cancelled \<or> \<not> m_Running st then (st, []) else Tick t st)"

definition Get :: "string \<Rightarrow> 'j scheduler \<Rightarrow> Schedule option" where
  "Get uuid st = find (\<lambda>s. s_uuid s = uuid) (m_Schedules st)"

definition Create :: "'j json_api \<Rightarrow> bool \<Rightarrow> string \<Rightarrow> Schedule \<Rightarrow> 'j scheduler \<Rightarrow> 'j scheduler \<times> Schedule" where
  "Create J saved new_uuid s st =
     (let s' = s \<lparr> s_uuid := new_uuid \<rparr>
      in (Save J saved (st \<lparr> m_Schedules := m_Schedules st @ [s'] \<rparr>), s'))"

primrec replace_first :: "string \<Rightarrow> Schedule \<Rightarrow> Schedule list \<Rightarrow> Schedule list option" where
  "replace_first uuid s [] = None"
| "replace_first uuid s (existing # rest) =
     (if s_uuid existing = uuid then Some (s \<lparr> s_uuid := uuid \<rparr> # rest)
      else map_option ((#) existing) (replace_first uuid s rest))"

definition Replace :: "'j json_api \<Rightarrow> bool \<Rightarrow> string \<Rightarrow> Schedule \<Rightarrow> 'j scheduler \<Rightarrow> 'j scheduler \<times> bool" where
  "Replace J saved uuid s st =
     (case replace_first uuid s (m_Schedules st) of
        None \<Rightarrow> (st, False)
      | Some schedules \<Rightarrow> (Save J saved (st \<lparr> m_Schedules := schedules \<rparr>), True))"

primrec remove_first :: "string \<Rightarrow> Schedule list \<Rightarrow> Schedule list option" where
  "remove_first uuid [] = None"
| "remove_first uuid (existing # rest) =
     (if s_uuid existing = uuid then Some rest
      else map_option ((#) existing) (remove_first uuid rest))"

definition Remove :: "'j json_api \<Rightarrow> bool \<Rightarrow> string \<Rightarrow> 'j scheduler \<Rightarrow> 'j scheduler \<times> bool" where
  "Remove J saved uuid st =
     (case remove_first uuid (m_Schedules st) of
        None \<Rightarrow> (st, False)
      | Some schedules \<Rightarrow>
          (Save J saved (st \<lparr> m_Schedules := schedules,
                              m_LastFiredMinute := (m_LastFiredMinute st)(uuid := None) \<rparr>), True))"

section \<open>Once per minute\<close>

text \<open>A run of the service: ticks at the given local times, with no edits between them.\<close>

primrec run_ticks :: "tm list \<Rightarrow> 'j scheduler \<Rightarrow> 'j scheduler \<times> (tm \<times> Schedule) list" where
  "run_ticks [] st = (st, [])"
| "run_ticks (t # ts) st =
     (let (st1, fired) = Tick t st; (st2, later) = run_ticks ts st1
      in (st2, map (Pair t) fired @ later))"

definition fires_of :: "Schedule \<Rightarrow> (tm \<times> Schedule) list \<Rightarrow> int list" where
  "fires_of s log = map (\<lambda>(t, s'). lm_key (DecomposeLocal t)) (filter (\<lambda>(t, s'). s' = s) log)"

text \<open>The guard: a key is passed on unless it is the one seen last.\<close>

fun pass_changes :: "int option \<Rightarrow> int list \<Rightarrow> int list" where
  "pass_changes last_key [] = []"
| "pass_changes last_key (k # ks) =
     (if last_key = Some k then pass_changes last_key ks else k # pass_changes (Some k) ks)"

lemma tick_loop_other:
  "u \<notin> s_uuid ` set ss \<Longrightarrow> fst (tick_loop lm ss lf) u = lf u"
  by (induction ss arbitrary: lf) (auto simp: split_def Let_def)

lemma tick_loop_subset: "set (snd (tick_loop lm ss lf)) \<subseteq> set ss"
  by (induction ss arbitrary: lf) (auto simp: split_def Let_def subset_iff)

lemma tick_loop_fires:
  assumes "distinct (map s_uuid ss)" "s \<in> set ss" "tick_loop lm ss lf = (lf', fired)"
  shows "filter (\<lambda>s'. s' = s) fired
           = (if is_due lm s \<and> lf (s_uuid s) \<noteq> Some (lm_key lm) then [s] else [])
       \<and> lf' (s_uuid s) = (if is_due lm s then Some (lm_key lm) else lf (s_uuid s))"
  using assms
proof (induction ss arbitrary: lf lf' fired)
  case Nil
  then show ?case by simp
next
  case (Cons x ss)
  let ?lf = "if is_due lm x then lf(s_uuid x \<mapsto> lm_key lm) else lf"
  obtain l' f' where r: "tick_loop lm ss ?lf = (l', f')" by fastforce
  have step: "lf' = l'" "fired = (if is_due lm x \<and> lf (s_uuid x) \<noteq> Some (lm_key lm) then x # f' else f')"
    using Cons.prems(3) r by (auto simp: fun_upd_idem split: if_splits prod.splits)
  show ?case
  proof (cases "s = x")
    case True
    then have "s \<notin> set ss" "s_uuid s \<notin> s_uuid ` set ss" using Cons.prems(1) by auto
    then have "filter (\<lambda>s'. s' = s) f' = []" "l' (s_uuid s) = ?lf (s_uuid s)"
      using tick_loop_subset [of lm ss ?lf] tick_loop_other [of "s_uuid s" ss lm ?lf] r
      by (auto simp: filter_empty_conv)
    with True step show ?thesis by auto
  next
    case False
    then have "s \<in> set ss" "distinct (map s_uuid ss)" "s_uuid s \<noteq> s_uuid x"
      using Cons.prems(1,2) False by (auto simp: image_iff)
    with Cons.IH [OF _ _ r] step False show ?thesis by auto
  qed
qed

lemma run_ticks_fires:
  assumes "distinct (map s_uuid (m_Schedules st))" "s \<in> set (m_Schedules st)"
  shows "fires_of s (snd (run_ticks ts st))
     = pass_changes (m_LastFiredMinute st (s_uuid s))
         (map (\<lambda>t. lm_key (DecomposeLocal t)) (filter (\<lambda>t. is_due (DecomposeLocal t) s) ts))"
  using assms
proof (induction ts arbitrary: st)
  case Nil
  then show ?case by (simp add: fires_of_def)
next
  case (Cons t ts)
  obtain l f where tick: "tick_loop (DecomposeLocal t) (m_Schedules st) (m_LastFiredMinute st) = (l, f)"
    by fastforce
  let ?st = "st \<lparr> m_LastFiredMinute := l \<rparr>"
  obtain st2 later where r: "run_ticks ts ?st = (st2, later)" by fastforce
  have "fires_of s (map (Pair t) f) = map (\<lambda>s'. lm_key (DecomposeLocal t)) (filter (\<lambda>s'. s' = s) f)"
    by (induction f) (auto simp: fires_of_def)
  moreover have "fires_of s (snd (run_ticks (t # ts) st)) = fires_of s (map (Pair t) f) @ fires_of s later"
    by (simp add: Tick_def tick r fires_of_def)
  ultimately show ?case
    using tick_loop_fires [OF Cons.prems tick] Cons.IH [of ?st] Cons.prems r by auto
qed

lemma pass_changes_sorted:
  "sorted ks \<Longrightarrow> (\<And>l. last_key = Some l \<Longrightarrow> list_all (\<lambda>k. l \<le> k) ks) \<Longrightarrow>
   distinct (pass_changes last_key ks) \<and> sorted (pass_changes last_key ks)
   \<and> set (pass_changes last_key ks) = set ks - set_option last_key"
proof (induction last_key ks rule: pass_changes.induct)
  case (1 last_key)
  then show ?case by simp
next
  case (2 last_key k ks)
  show ?case
  proof (cases "last_key = Some k")
    case True
    with 2 show ?thesis by (auto simp: list_all_iff)
  next
    case False
    have "distinct (pass_changes (Some k) ks) \<and> sorted (pass_changes (Some k) ks)
        \<and> set (pass_changes (Some k) ks) = set ks - {k}"
      using "2.IH"(2) [OF False] "2.prems"(1) by (auto simp: list_all_iff)
    moreover have "l \<notin> set ks" if "last_key = Some l" for l
      using that False "2.prems" by (auto simp: list_all_iff)
    ultimately show ?thesis using False "2.prems"(1) by (cases last_key) auto
  qed
qed


definition sample_scheduler :: "json scheduler" where
  "sample_scheduler = \<lparr> m_Schedules = [sample_schedule], m_LastFiredMinute = Map.empty, m_Running = True,
     m_FileName = ''schedules.json'', m_File = None \<rparr>"

text \<open>Sunday, two ticks at 08:05 and one at 08:06.\<close>

definition sample_ticks :: "tm list" where
  "sample_ticks = (let t = \<lparr> tm_year = 126, tm_mon = 2, tm_mday = 1, tm_hour = 8, tm_min = 5, tm_wday = 0 \<rparr>
     in [t, t, t \<lparr> tm_min := 6 \<rparr>])"


section \<open>What is dispatched\<close>

definition command_in_range :: "command \<Rightarrow> bool" where
  "command_in_range c \<longleftrightarrow>
     (case c of
        CommandByLabel label action \<Rightarrow> label \<noteq> []
      | SetPoolSetpoint t \<Rightarrow> 1 \<le> t \<and> t \<le> 104
      | SetSpaSetpoint t \<Rightarrow> 1 \<le> t \<and> t \<le> 104
      | SetChlorinatorPercentage p body \<Rightarrow> p \<le> 100 \<and> body = Body_Pool
      | SetCirculationMode m \<Rightarrow> True)"

lemma word_of_int_range:
  "0 \<le> v \<Longrightarrow> v \<le> 127 \<Longrightarrow> uint (word_of_int v :: u8) = v"
  by (simp add: unsigned_of_int take_bit_int_eq_self)

lemma fire_in_range:
  assumes "action_valid (s_action s)"
  shows "case Fire mode True s of None \<Rightarrow> mode = Some Service | Some c \<Rightarrow> mode \<noteq> Some Service \<and> command_in_range c"
  using assms
  by (auto simp: Fire_def Let_def action_valid_def command_in_range_def word_le_def word_of_int_range
      split: ActionType.splits option.splits)

text \<open>
  C37: whatever JSON a client sends, an accepted schedule can only ever ask for a command within the
  limits of the equipment: a non-empty label, a setpoint of 1 to 104 degrees, a pool chlorinator output
  of at most 100 percent or a known circulation mode, its value not changed by the narrowing to eight
  bits; and firing it does nothing in service mode and dispatches in every other mode.
\<close>

theorem accepted_schedule_commands:
  assumes "FromJson J j = Inr s"
  shows "case Fire mode True s of None \<Rightarrow> mode = Some Service | Some c \<Rightarrow> mode \<noteq> Some Service \<and> command_in_range c"
  using FromJson_valid [OF assms] fire_in_range by (simp add: schedule_valid_def)

theorem accepted_schedule_commands_witness:
  "Fire (Some Normal) True sample_schedule = Some (SetSpaSetpoint 38)
   \<and> command_in_range (SetSpaSetpoint 38)"
proof -
  have "FromJson json_lib (ToJson json_lib sample_schedule) = Inr sample_schedule"
    by (rule schedule_roundtrip [OF json_lib_laws sample_schedule_valid])
  moreover have "Fire (Some Normal) True sample_schedule = Some (SetSpaSetpoint 38)"
    by (simp add: Fire_def sample_schedule_def)
  ultimately show ?thesis
    using accepted_schedule_commands [of json_lib _ sample_schedule "Some Normal"] by fastforce
qed

section \<open>The store as a map\<close>

lemma Get_Save [simp]: "Get u (Save J b st) = Get u st"
  by (simp add: Get_def Save_def)

lemma schedules_Save [simp]: "m_Schedules (Save J b st) = m_Schedules st"
  by (simp add: Save_def)

lemma find_uuid_None: "find (\<lambda>s. s_uuid s = u) ss = None \<longleftrightarrow> u \<notin> s_uuid ` set ss"
  by (induction ss) auto

lemma find_snoc:
  "u \<notin> s_uuid ` set ss \<Longrightarrow> s_uuid s' = u \<Longrightarrow>
   find (\<lambda>s. s_uuid s = v) (ss @ [s']) = (if v = u then Some s' else find (\<lambda>s. s_uuid s = v) ss)"
  by (induction ss) auto

lemma replace_first_find:
  "case replace_first u s ss of
     None \<Rightarrow> find (\<lambda>s. s_uuid s = u) ss = None
   | Some ss' \<Rightarrow> find (\<lambda>s. s_uuid s = u) ss \<noteq> None \<and> map s_uuid ss' = map s_uuid ss
       \<and> (\<forall>v. find (\<lambda>s. s_uuid s = v) ss'
             = (if v = u then Some (s \<lparr> s_uuid := u \<rparr>) else find (\<lambda>s. s_uuid s = v) ss))
       \<and> set ss' \<subseteq> insert (s \<lparr> s_uuid := u \<rparr>) (set ss)"
  by (induction ss) (auto split: option.splits)

lemma remove_first_find:
  "distinct (map s_uuid ss) \<Longrightarrow>
   case remove_first u ss of
     None \<Rightarrow> find (\<lambda>s. s_uuid s = u) ss = None
   | Some ss' \<Rightarrow> find (\<lambda>s. s_uuid s = u) ss \<noteq> None \<and> distinct (map s_uuid ss') \<and> set ss' \<subseteq> set ss
       \<and> (\<forall>v. find (\<lambda>s. s_uuid s = v) ss' = (if v = u then None else find (\<lambda>s. s_uuid s = v) ss))"
proof (induction ss)
  case Nil
  then show ?case by simp
next
  case (Cons x ss)
  show ?case
  proof (cases "remove_first u ss")
    case None
    with Cons show ?thesis by (auto simp: find_uuid_None)
  next
    case (Some ss')
    with Cons have "set ss' \<subseteq> set ss" "distinct (map s_uuid ss')" by auto
    moreover from this Cons.prems have "s_uuid x \<notin> s_uuid ` set ss'" by auto
    ultimately show ?thesis using Some Cons by (auto simp: find_uuid_None)
  qed
qed

text \<open>What \<open>Get\<close> shows of a store: a map from uuids to schedules.\<close>

definition contents :: "'j scheduler \<Rightarrow> string \<rightharpoonup> Schedule" where
  "contents st = (\<lambda>u. Get u st)"

definition uuids_distinct :: "'j scheduler \<Rightarrow> bool" where
  "uuids_distinct st \<longleftrightarrow> distinct (map s_uuid (m_Schedules st))"

lemma store_operations:
  assumes "uuids_distinct st"
  shows "contents st new_uuid = None \<Longrightarrow>
       contents (fst (Create J saved new_uuid s st)) = (contents st)(new_uuid \<mapsto> s \<lparr> s_uuid := new_uuid \<rparr>)
       \<and> snd (Create J saved new_uuid s st) = s \<lparr> s_uuid := new_uuid \<rparr>
       \<and> uuids_distinct (fst (Create J saved new_uuid s st))"
    and "snd (Replace J saved u s st) = (u \<in> dom (contents st))
       \<and> contents (fst (Replace J saved u s st))
         = (if u \<in> dom (contents st) then (contents st)(u \<mapsto> s \<lparr> s_uuid := u \<rparr>) else contents st)
       \<and> uuids_distinct (fst (Replace J saved u s st))"
    and "snd (Remove J saved u st) = (u \<in> dom (contents st))
       \<and> contents (fst (Remove J saved u st)) = (contents st)(u := None)
       \<and> uuids_distinct (fst (Remove J saved u st))"
proof -
  assume "contents st new_uuid = None"
  then show "contents (fst (Create J saved new_uuid s st)) = (contents st)(new_uuid \<mapsto> s \<lparr> s_uuid := new_uuid \<rparr>)
       \<and> snd (Create J saved new_uuid s st) = s \<lparr> s_uuid := new_uuid \<rparr>
       \<and> uuids_distinct (fst (Create J saved new_uuid s st))"
    using assms
    by (auto simp: contents_def Create_def Get_def find_snoc uuids_distinct_def find_uuid_None fun_eq_iff
        Let_def)
next
  show "snd (Replace J saved u s st) = (u \<in> dom (contents st))
       \<and> contents (fst (Replace J saved u s st))
         = (if u \<in> dom (contents st) then (contents st)(u \<mapsto> s \<lparr> s_uuid := u \<rparr>) else contents st)
       \<and> uuids_distinct (fst (Replace J saved u s st))"
    using replace_first_find [of u "m_Schedules st" s] assms
    by (auto simp: Replace_def contents_def uuids_distinct_def Get_def fun_eq_iff dom_def
        split: option.splits)
next
  show "snd (Remove J saved u st) = (u \<in> dom (contents st))
       \<and> contents (fst (Remove J saved u st)) = (contents st)(u := None)
       \<and> uuids_distinct (fst (Remove J saved u st))"
    using remove_first_find [of "m_Schedules st" u] assms
    by (auto simp: Remove_def contents_def uuids_distinct_def Get_def fun_eq_iff dom_def
        split: option.splits)
qed

text \<open>
  C34: the schedule store implements a map from uuids to schedules. While its uuids differ, creating
  under a fresh uuid is a map update that returns the stored schedule, replacing and removing report
  exactly whether the uuid is present and are then the update and the removal of that key, nothing
  else changes, whether or not the file could be written, and the uuids stay different.
\<close>

theorem store_refines_map:
  assumes "uuids_distinct st"
  shows "(contents st new_uuid = None \<longrightarrow>
       contents (fst (Create J saved new_uuid s st)) = (contents st)(new_uuid \<mapsto> s \<lparr> s_uuid := new_uuid \<rparr>)
       \<and> snd (Create J saved new_uuid s st) = s \<lparr> s_uuid := new_uuid \<rparr>
       \<and> uuids_distinct (fst (Create J saved new_uuid s st)))
     \<and> snd (Replace J saved u s st) = (u \<in> dom (contents st))
     \<and> contents (fst (Replace J saved u s st))
         = (if u \<in> dom (contents st) then (contents st)(u \<mapsto> s \<lparr> s_uuid := u \<rparr>) else contents st)
     \<and> uuids_distinct (fst (Replace J saved u s st))
     \<and> snd (Remove J saved u st) = (u \<in> dom (contents st))
     \<and> contents (fst (Remove J saved u st)) = (contents st)(u := None)
     \<and> uuids_distinct (fst (Remove J saved u st))"
  using store_operations(1) [OF assms] store_operations(2) [OF assms, of J saved u s]
    store_operations(3) [OF assms, of J saved u]
  by blast

theorem store_refines_map_witness:
  "contents (fst (Create json_lib True ''b2'' sample_schedule sample_scheduler)) ''b2''
     = Some (sample_schedule \<lparr> s_uuid := ''b2'' \<rparr>)
   \<and> snd (Remove json_lib True ''a1'' sample_scheduler)
   \<and> \<not> snd (Replace json_lib True ''zz'' sample_schedule sample_scheduler)"
proof -
  have d: "uuids_distinct sample_scheduler" "contents sample_scheduler ''b2'' = None"
    "''a1'' \<in> dom (contents sample_scheduler)" "''zz'' \<notin> dom (contents sample_scheduler)"
    by (simp_all add: uuids_distinct_def sample_scheduler_def contents_def Get_def sample_schedule_def dom_def)
  show ?thesis
    using store_refines_map [OF d(1), of "''b2''" json_lib True sample_schedule "''a1''"]
      store_refines_map [OF d(1), of "''b2''" json_lib True sample_schedule "''zz''"] d(2,3,4)
    by simp
qed

section \<open>Restart\<close>

text \<open>A store whose schedules are valid and carry different, non-empty uuids.\<close>

definition storable :: "Schedule \<Rightarrow> bool" where
  "storable s \<longleftrightarrow> schedule_valid s \<and> action_normal (s_action s)"

definition store_ok :: "'j scheduler \<Rightarrow> bool" where
  "store_ok st \<longleftrightarrow> uuids_distinct st \<and> list_all (\<lambda>s. storable s \<and> s_uuid s \<noteq> []) (m_Schedules st)"

lemma storable_uuid [simp]: "storable (s \<lparr> s_uuid := u \<rparr>) = storable s"
  by (simp add: storable_def schedule_valid_def)

lemma load_saved:
  "json_laws J \<Longrightarrow> list_all (\<lambda>s. storable s \<and> s_uuid s \<noteq> []) ss \<Longrightarrow>
   load_entries J uuids (map (ToJson J) ss) = ss"
  by (induction ss) (simp_all add: schedule_roundtrip storable_def)

text \<open>One edit of the store whose save succeeded.\<close>

inductive edited :: "'j json_api \<Rightarrow> 'j scheduler \<Rightarrow> 'j scheduler \<Rightarrow> bool" for J where
  created: "storable s \<Longrightarrow> u \<noteq> [] \<Longrightarrow> contents st u = None \<Longrightarrow> edited J st (fst (Create J True u s st))"
| replaced: "storable s \<Longrightarrow> snd (Replace J True u s st) \<Longrightarrow> edited J st (fst (Replace J True u s st))"
| removed: "snd (Remove J True u st) \<Longrightarrow> edited J st (fst (Remove J True u st))"

lemma edited_saved:
  assumes "edited J st st'" "m_FileName st \<noteq> []"
  shows "m_File st' = Some (map (ToJson J) (m_Schedules st')) \<and> m_FileName st' = m_FileName st"
  using assms
  by cases (auto simp: Create_def Replace_def Remove_def Save_def Let_def split: option.splits)

lemma edited_ok:
  assumes "edited J st st'" "store_ok st"
  shows "store_ok st'"
  using assms
proof (cases rule: edited.cases)
  case (created s u)
  with assms(2) show ?thesis
    by (auto simp: store_ok_def Create_def uuids_distinct_def contents_def Get_def find_uuid_None Let_def)
next
  case (replaced s u)
  then obtain ss where r: "replace_first u s (m_Schedules st) = Some ss"
    by (auto simp: Replace_def split: option.splits)
  with replace_first_find [of u "m_Schedules st" s]
  have f: "map s_uuid ss = map s_uuid (m_Schedules st)" "set ss \<subseteq> insert (s \<lparr> s_uuid := u \<rparr>) (set (m_Schedules st))"
    "u \<in> s_uuid ` set (m_Schedules st)"
    by (auto simp: find_uuid_None)
  have "u \<noteq> []" using f(3) assms(2) by (auto simp: store_ok_def list_all_iff)
  with f r replaced assms(2) show ?thesis
    by (auto simp: store_ok_def Replace_def uuids_distinct_def list_all_iff)
next
  case (removed u)
  then obtain ss where r: "remove_first u (m_Schedules st) = Some ss"
    by (auto simp: Remove_def split: option.splits)
  with remove_first_find [of "m_Schedules st" u] assms(2) removed show ?thesis
    by (auto simp: store_ok_def Remove_def uuids_distinct_def list_all_iff)
qed

text \<open>
  C21: no saved edit is lost by a restart: after any sequence of creations, replacements and removals
  whose saves succeeded, a service started afresh on the file has exactly the schedules the store had,
  in the same order.
\<close>

theorem edits_survive_restart:
  assumes "json_laws J" "store_ok st" "m_FileName st \<noteq> []" "(edited J)\<^sup>+\<^sup>+ st st'"
  shows "m_Schedules (Start J uuids (st' \<lparr> m_Schedules := [], m_LastFiredMinute := Map.empty,
                                          m_Running := False \<rparr>)) = m_Schedules st'"
proof -
  have "store_ok st' \<and> m_FileName st' = m_FileName st
      \<and> m_File st' = Some (map (ToJson J) (m_Schedules st'))"
    using assms(4)
    by (induction rule: tranclp_induct)
       (use assms(2,3) edited_ok edited_saved in metis)+
  then show ?thesis
    using assms(3) load_saved [OF assms(1)] by (simp add: Start_def Load_def store_ok_def)
qed

theorem edits_survive_restart_witness:
  "m_Schedules (Start json_lib [] ((fst (Create json_lib True ''b2'' sample_schedule sample_scheduler))
      \<lparr> m_Schedules := [], m_LastFiredMinute := Map.empty, m_Running := False \<rparr>))
    = [sample_schedule, sample_schedule \<lparr> s_uuid := ''b2'' \<rparr>]"
proof -
  have s: "storable sample_schedule" using sample_schedule_valid by (simp add: storable_def)
  then have ok: "store_ok sample_scheduler" "m_FileName sample_scheduler \<noteq> []"
    by (simp_all add: store_ok_def uuids_distinct_def sample_scheduler_def) (simp add: sample_schedule_def)
  have "edited json_lib sample_scheduler (fst (Create json_lib True ''b2'' sample_schedule sample_scheduler))"
    by (rule edited.created [OF s])
       (simp_all add: contents_def Get_def sample_scheduler_def sample_schedule_def)
  from edits_survive_restart [OF json_lib_laws ok tranclp.r_into_trancl [of "edited json_lib", OF this], of "[]"]
  show ?thesis by (simp add: Create_def sample_scheduler_def Let_def)
qed

end
