(* ===== verification/Controller_Schedule.thy ===== *)
theory Controller_Schedule
  imports Scheduler
begin

text \<open>
  The controller's own programs and the rules for moving schedules of the application to them
  (\<open>controller_schedule.cpp\<close>, \<open>promotion_constraints.cpp\<close>).
\<close>

section \<open>Programs\<close>

datatype ControllerScheduleStatus = Available | PendingCapture | Unsupported

record ControllerSchedule =
  c_id :: string
  c_name :: string
  c_target :: string
  c_group :: string
  c_enabled :: bool
  c_days_of_week :: u8
  c_on_hour :: int
  c_on_minute :: int
  c_off_hour :: int
  c_off_minute :: int

definition default_program :: ControllerSchedule where
  "default_program = \<lparr> c_id = [], c_name = [], c_target = [], c_group = [], c_enabled = True,
     c_days_of_week = 0, c_on_hour = 0, c_on_minute = 0, c_off_hour = 0, c_off_minute = 0 \<rparr>"

definition ControllerScheduleStatusToString :: "ControllerScheduleStatus \<Rightarrow> string" where
  "ControllerScheduleStatusToString s =
     (case s of Available \<Rightarrow> ''available'' | PendingCapture \<Rightarrow> ''pending_capture''
      | Unsupported \<Rightarrow> ''unsupported'')"

record ControllerScheduleStore =
  cs_Status :: ControllerScheduleStatus
  cs_Schedules :: "ControllerSchedule list"
  cs_ActiveGroup :: string

definition new_store :: ControllerScheduleStore where
  "new_store = \<lparr> cs_Status = PendingCapture, cs_Schedules = [], cs_ActiveGroup = [] \<rparr>"

definition Store_Replace ::
    "ControllerScheduleStatus \<Rightarrow> ControllerSchedule list \<Rightarrow> string \<Rightarrow> ControllerScheduleStore \<Rightarrow>
     ControllerScheduleStore" where
  "Store_Replace status schedules active_group st =
     st \<lparr> cs_Status := status, cs_Schedules := schedules, cs_ActiveGroup := active_group \<rparr>"

text \<open>\<open>ParseHhMm\<close> makes the same steps as \<open>ParseTime\<close> of the application schedules.\<close>

definition ParseHhMm :: "string \<Rightarrow> (int \<times> int) option" where
  "ParseHhMm text =
     (case find_char (CHR '':'') text of
        None \<Rightarrow> None
      | Some colon \<Rightarrow>
          let h = take colon text; m = drop (colon + 1) text in
          if h = [] \<or> m = [] then None
          else case from_chars h of
                 None \<Rightarrow> None
               | Some hour \<Rightarrow>
                   (case from_chars m of
                      None \<Rightarrow> None
                    | Some minute \<Rightarrow>
                        if hour < 0 \<or> hour > 23 \<or> minute < 0 \<or> minute > 59 then None
                        else Some (hour, minute)))"

definition Program_ToJson :: "'j json_api \<Rightarrow> ControllerSchedule \<Rightarrow> 'j" where
  "Program_ToJson J c = mk_object J
     [(''id'', mk_string J (c_id c)), (''name'', mk_string J (c_name c)),
      (''target'', mk_string J (c_target c)), (''group'', mk_string J (c_group c)),
      (''enabled'', mk_boolean J (c_enabled c)),
      (''days_of_week'', mk_integer J (uint (c_days_of_week c))),
      (''on_local'', mk_string J (format_02d (c_on_hour c) @ '':'' @ format_02d (c_on_minute c))),
      (''off_local'', mk_string J (format_02d (c_off_hour c) @ '':'' @ format_02d (c_off_minute c)))]"

definition ControllerScheduleFromJson :: "'j json_api \<Rightarrow> 'j \<Rightarrow> string + ControllerSchedule" where
  "ControllerScheduleFromJson J j =
     (if \<not> is_object J j then Inl ''body must be a JSON object''
      else if string_field J j ''target'' = None \<or> string_field J j ''target'' = Some []
      then Inl ''target is required and must be a non-empty string''
      else
        let target = the (string_field J j ''target'') in
        case integer_field J j ''days_of_week'' of
          None \<Rightarrow> Inl ''days_of_week is required and must be an integer bitmask''
        | Some i \<Rightarrow>
            let days = get_int i in
            if days < 0 \<or> days > 0x7f then Inl ''days_of_week must be in the range 0..127''
            else case Option.bind (string_field J j ''on_local'') ParseHhMm of
                   None \<Rightarrow> Inl ''on_local is required and must be a valid \"HH:MM\" time''
                 | Some (on_h, on_m) \<Rightarrow>
                     (case Option.bind (string_field J j ''off_local'') ParseHhMm of
                        None \<Rightarrow> Inl ''off_local is required and must be a valid \"HH:MM\" time''
                      | Some (off_h, off_m) \<Rightarrow>
                          Inr (default_program
                            \<lparr> c_target := target, c_days_of_week := word_of_int days,
                              c_on_hour := on_h, c_on_minute := on_m,
                              c_off_hour := off_h, c_off_minute := off_m,
                              c_name := (case string_field J j ''name'' of None \<Rightarrow> [] | Some n \<Rightarrow> n),
                              c_group := (case string_field J j ''group'' of None \<Rightarrow> [] | Some g \<Rightarrow> g),
                              c_enabled := True \<rparr>)))"

section \<open>Promotion\<close>

datatype ControllerDaySelection = AllDays | Weekdays | Weekends | SingleDay | NotExpressible

datatype PromotionBlocker =
  TargetMissing | ActionNotOnOff | DaySelectionNotExpressible | TimeInvalid

definition DAYS_ALL :: u8 where "DAYS_ALL = 0x7f"
definition DAYS_WEEKDAYS :: u8 where "DAYS_WEEKDAYS = 0x1f"
definition DAYS_WEEKENDS :: u8 where "DAYS_WEEKENDS = 0x60"

definition TimeInRange :: "int \<Rightarrow> int \<Rightarrow> bool" where
  "TimeInRange hour minute \<longleftrightarrow> hour \<ge> 0 \<and> hour \<le> 23 \<and> minute \<ge> 0 \<and> minute \<le> 59"

definition ControllerDaySelectionToString :: "ControllerDaySelection \<Rightarrow> string" where
  "ControllerDaySelectionToString s =
     (case s of AllDays \<Rightarrow> ''all_days'' | Weekdays \<Rightarrow> ''weekdays'' | Weekends \<Rightarrow> ''weekends''
      | SingleDay \<Rightarrow> ''single_day'' | NotExpressible \<Rightarrow> ''not_expressible'')"

definition PromotionBlockerToString :: "PromotionBlocker \<Rightarrow> string" where
  "PromotionBlockerToString b =
     (case b of TargetMissing \<Rightarrow> ''target_missing'' | ActionNotOnOff \<Rightarrow> ''action_not_on_off''
      | DaySelectionNotExpressible \<Rightarrow> ''day_selection_not_expressible''
      | TimeInvalid \<Rightarrow> ''time_invalid'')"

text \<open>\<open>std::popcount\<close> of a byte.\<close>

definition popcount :: "u8 \<Rightarrow> nat" where
  "popcount w = length (filter (bit w) [0..<8])"

definition ClassifyDaySelection :: "u8 \<Rightarrow> ControllerDaySelection" where
  "ClassifyDaySelection days_of_week =
     (let days = and days_of_week DAYS_ALL in
      if days = 0 then NotExpressible
      else if days = DAYS_ALL then AllDays
      else if days = DAYS_WEEKDAYS then Weekdays
      else if days = DAYS_WEEKENDS then Weekends
      else if popcount days = 1 then SingleDay
      else NotExpressible)"

record PromotionResult =
  promotable :: bool
  blockers :: "PromotionBlocker list"
  day_selection :: ControllerDaySelection

definition CheckControllerCandidate :: "ControllerSchedule \<Rightarrow> PromotionResult" where
  "CheckControllerCandidate c =
     (let selection = ClassifyDaySelection (c_days_of_week c);
          found = (if c_target c = [] then [TargetMissing] else [])
            @ (if \<not> TimeInRange (c_on_hour c) (c_on_minute c)
                  \<or> \<not> TimeInRange (c_off_hour c) (c_off_minute c) then [TimeInvalid] else [])
            @ (if selection = NotExpressible then [DaySelectionNotExpressible] else [])
      in \<lparr> promotable = (found = []), blockers = found, day_selection = selection \<rparr>)"

definition IsControllerRepresentableAction :: "ActionType \<Rightarrow> bool" where
  "IsControllerRepresentableAction type \<longleftrightarrow> type = ButtonOn \<or> type = ButtonOff"

definition BuildPromotionCandidate :: "Schedule \<Rightarrow> Schedule \<Rightarrow> string + ControllerSchedule" where
  "BuildPromotionCandidate on_s off_s =
     (if a_type (s_action on_s) \<noteq> ButtonOn then Inl ''the ON schedule must be a button_on action''
      else if a_type (s_action off_s) \<noteq> ButtonOff then Inl ''the OFF schedule must be a button_off action''
      else if a_target (s_action on_s) = [] \<or> a_target (s_action on_s) \<noteq> a_target (s_action off_s)
      then Inl ''the ON and OFF schedules must drive the same target device''
      else if s_days_of_week on_s \<noteq> s_days_of_week off_s
      then Inl ''the ON and OFF schedules must run on the same days''
      else Inr (default_program
             \<lparr> c_target := a_target (s_action on_s), c_days_of_week := s_days_of_week on_s,
               c_on_hour := s_hour on_s, c_on_minute := s_minute on_s,
               c_off_hour := s_hour off_s, c_off_minute := s_minute off_s, c_enabled := True \<rparr>))"

section \<open>What promotion keeps\<close>

text \<open>The days of a mask in order, Monday being 0, and what the controller's selections stand for.\<close>

definition days :: "u8 \<Rightarrow> nat list" where
  "days w = filter (bit w) [0..<7]"

fun selects :: "ControllerDaySelection \<Rightarrow> nat list \<Rightarrow> bool" where
  "selects AllDays ds = (ds = [0, 1, 2, 3, 4, 5, 6])"
| "selects Weekdays ds = (ds = [0, 1, 2, 3, 4])"
| "selects Weekends ds = (ds = [5, 6])"
| "selects SingleDay ds = (length ds = 1)"
| "selects NotExpressible ds =
     (ds \<notin> {[0, 1, 2, 3, 4, 5, 6], [0, 1, 2, 3, 4], [5, 6]} \<and> length ds \<noteq> 1)"

lemma bit_positions:
  "[0..<5] = [0, 1, 2, 3, 4 :: nat]" "[0..<7] = [0, 1, 2, 3, 4, 5, 6 :: nat]"
  "[0..<8] = [0, 1, 2, 3, 4, 5, 6, 7 :: nat]"
  by (simp_all add: upt_rec)

lemma byte_eq_iff: "(v :: u8) = w \<longleftrightarrow> list_all (\<lambda>n. bit v n = bit w n) [0..<8]"
  by (auto simp: list_all_iff intro: bit_word_eqI)

lemma selection_bits:
  "and w DAYS_ALL = 0 \<longleftrightarrow> list_all (\<lambda>n. \<not> bit w n) [0..<7]"
  "and w DAYS_ALL = DAYS_ALL \<longleftrightarrow> list_all (bit w) [0..<7]"
  "and w DAYS_ALL = DAYS_WEEKDAYS \<longleftrightarrow> list_all (bit w) [0..<5] \<and> \<not> bit w 5 \<and> \<not> bit w 6"
  "and w DAYS_ALL = DAYS_WEEKENDS \<longleftrightarrow> list_all (\<lambda>n. \<not> bit w n) [0..<5] \<and> bit w 5 \<and> bit w 6"
  "popcount (and w DAYS_ALL) = length (days w)"
  by (simp_all add: byte_eq_iff popcount_def days_def DAYS_ALL_def DAYS_WEEKDAYS_def
      DAYS_WEEKENDS_def bit_and_iff bit_positions)

lemma classify_selects: "selects (ClassifyDaySelection w) (days w)"
  unfolding ClassifyDaySelection_def Let_def selection_bits
  by (auto simp: days_def bit_positions)

text \<open>What the controller does with a program: at the marked minutes of its days it switches the target.\<close>

definition switches :: "ControllerSchedule \<Rightarrow> int \<Rightarrow> int \<Rightarrow> LocalMinute \<Rightarrow> bool" where
  "switches c hour minute lm \<longleftrightarrow>
     lm_weekday lm \<in> set (days (c_days_of_week c)) \<and> lm_hour lm = hour \<and> lm_minute lm = minute"

lemma weekday_of_tm: "lm_weekday (DecomposeLocal t) < 7"
  by (simp add: DecomposeLocal_def nat_less_iff)

lemma day_bit: "d < 7 \<Longrightarrow> and (ucast (w :: u8) :: u32) (push_bit d 1) \<noteq> 0 \<longleftrightarrow> d \<in> set (days w)"
proof -
  assume "d < 7"
  then have "bit (and (ucast w :: u32) (push_bit d 1)) n \<longleftrightarrow> n = d \<and> bit w d" for n
    by (auto simp: bit_simps)
  then have "and (ucast w :: u32) (push_bit d 1) \<noteq> 0 \<longleftrightarrow> bit w d"
    by (metis bit_eq_iff bit_0_eq bot_apply bot_bool_def)
  with \<open>d < 7\<close> show ?thesis by (simp add: days_def)
qed

lemma due_switches:
  assumes "s_days_of_week s = c_days_of_week c" "s_enabled s"
  shows "is_due (DecomposeLocal t) s \<longleftrightarrow> switches c (s_hour s) (s_minute s) (DecomposeLocal t)"
  using assms day_bit [OF weekday_of_tm] by (auto simp: is_due_def switches_def)

text \<open>
  Promotion keeps what a pair of schedules does. When two enabled, accepted schedules are paired,
  the controller program switches its target on exactly in the minutes the first one is due and off
  exactly in those of the second, on the target they name; the only thing that can block the promotion
  is a set of days that is none of every day, Monday to Friday, Saturday and Sunday, and a single day,
  and the selection reported is the one with those days.
\<close>

theorem promotion_keeps_schedule:
  assumes "schedule_valid on_s" "schedule_valid off_s" "s_enabled on_s" "s_enabled off_s"
    and "BuildPromotionCandidate on_s off_s = Inr c"
  shows "(is_due (DecomposeLocal t) on_s \<longleftrightarrow> switches c (c_on_hour c) (c_on_minute c) (DecomposeLocal t))
     \<and> (is_due (DecomposeLocal t) off_s \<longleftrightarrow> switches c (c_off_hour c) (c_off_minute c) (DecomposeLocal t))
     \<and> Fire mode True on_s = (if mode = Some Service then None else Some (CommandByLabel (c_target c) DA_On))
     \<and> Fire mode True off_s = (if mode = Some Service then None else Some (CommandByLabel (c_target c) DA_Off))
     \<and> set (blockers (CheckControllerCandidate c)) \<subseteq> {DaySelectionNotExpressible}
     \<and> promotable (CheckControllerCandidate c) = (\<not> selects NotExpressible (days (s_days_of_week on_s)))
     \<and> selects (day_selection (CheckControllerCandidate c)) (days (s_days_of_week on_s))"
proof -
  have c: "c_days_of_week c = s_days_of_week on_s" "s_days_of_week off_s = s_days_of_week on_s"
    "c_on_hour c = s_hour on_s" "c_on_minute c = s_minute on_s" "c_off_hour c = s_hour off_s"
    "c_off_minute c = s_minute off_s" "c_target c = a_target (s_action on_s)" "c_target c \<noteq> []"
    "a_target (s_action off_s) = a_target (s_action on_s)"
    "a_type (s_action on_s) = ButtonOn" "a_type (s_action off_s) = ButtonOff"
    using assms(5) by (auto simp: BuildPromotionCandidate_def split: if_splits)
  have "ClassifyDaySelection (s_days_of_week on_s) = NotExpressible
      \<longleftrightarrow> selects NotExpressible (days (s_days_of_week on_s))"
    using classify_selects [of "s_days_of_week on_s"]
    by (cases "ClassifyDaySelection (s_days_of_week on_s)") auto
  with c assms(1,2) classify_selects [of "s_days_of_week on_s"]
  have "set (blockers (CheckControllerCandidate c)) \<subseteq> {DaySelectionNotExpressible}
     \<and> promotable (CheckControllerCandidate c) = (\<not> selects NotExpressible (days (s_days_of_week on_s)))
     \<and> selects (day_selection (CheckControllerCandidate c)) (days (s_days_of_week on_s))"
    by (simp add: CheckControllerCandidate_def TimeInRange_def schedule_valid_def Let_def)
  moreover have "Fire mode True on_s
        = (if mode = Some Service then None else Some (CommandByLabel (c_target c) DA_On))"
    "Fire mode True off_s
        = (if mode = Some Service then None else Some (CommandByLabel (c_target c) DA_Off))"
    using c by (simp_all add: Fire_def)
  ultimately show ?thesis
    using due_switches [of on_s c t] due_switches [of off_s c t] assms(3,4) c by simp
qed

definition button_schedule :: "ActionType \<Rightarrow> int \<Rightarrow> Schedule" where
  "button_schedule type hour = default_schedule \<lparr> s_days_of_week := 0x1f, s_hour := hour,
     s_action := \<lparr> a_type = type, a_target = ''Pump'', a_value = 0 \<rparr> \<rparr>"

theorem promotion_keeps_schedule_witness:
  "promotable (CheckControllerCandidate (default_program \<lparr> c_target := ''Pump'', c_days_of_week := 0x1f,
      c_on_hour := 8, c_off_hour := 17 \<rparr>))
   \<and> (is_due (DecomposeLocal (hd sample_ticks)) (button_schedule ButtonOn 8) \<longleftrightarrow>
      switches (default_program \<lparr> c_target := ''Pump'', c_days_of_week := 0x1f, c_on_hour := 8,
        c_off_hour := 17 \<rparr>) 8 0 (DecomposeLocal (hd sample_ticks)))"
proof -
  have "schedule_valid (button_schedule ButtonOn 8)" "schedule_valid (button_schedule ButtonOff 17)"
    "s_enabled (button_schedule ButtonOn 8)" "s_enabled (button_schedule ButtonOff 17)"
    "BuildPromotionCandidate (button_schedule ButtonOn 8) (button_schedule ButtonOff 17)
      = Inr (default_program \<lparr> c_target := ''Pump'', c_days_of_week := 0x1f, c_on_hour := 8,
                               c_off_hour := 17 \<rparr>)"
    by (simp_all add: button_schedule_def schedule_valid_def action_valid_def default_schedule_def
        BuildPromotionCandidate_def default_program_def)
  from promotion_keeps_schedule [OF this, of "hd sample_ticks" None] show ?thesis
    by (simp add: default_program_def button_schedule_def days_def bit_positions default_schedule_def)
qed

end
