(* ===== verification/Entitlement.thy ===== *)
theory Entitlement
  imports Endpoint "HOL-Library.List_Lexorder" "HOL-Library.Char_ord"
begin

text \<open>
  Who may do what (\<open>core/auth\<close>): entitlements and sets of them (\<open>entitlement.cpp\<close>), the
  action vocabulary (\<open>entitlement_vocabulary.h\<close>), the decision point (\<open>policy_engine.cpp\<close>),
  groups (\<open>group.cpp\<close>) and their store (\<open>group_store.cpp\<close>). The JSON document of the
  store is the list of its entries, each a name with the texts of its entitlements; whether a write of
  the file succeeds is a parameter of the operation that writes it.
\<close>

section \<open>Entitlements\<close>

record Entitlement =
  e_Action :: string
  e_Selector :: "string option"

definition IsValidActionChar :: "char \<Rightarrow> bool" where
  "IsValidActionChar ch \<longleftrightarrow>
     (CHR ''a'' \<le> ch \<and> ch \<le> CHR ''z'') \<or> (CHR ''0'' \<le> ch \<and> ch \<le> CHR ''9'')
     \<or> ch = CHR ''_'' \<or> ch = CHR ''-''"

text \<open>The loop of \<open>IsValidActionPath\<close> and what follows it: the number of segments, or a refusal.\<close>

fun action_path_loop :: "nat \<Rightarrow> nat \<Rightarrow> string \<Rightarrow> nat option" where
  "action_path_loop segment_count segment_len [] =
     (if segment_len = 0 then None else Some (segment_count + 1))"
| "action_path_loop segment_count segment_len (ch # rest) =
     (if ch = CHR ''.'' then
        (if segment_len = 0 then None else action_path_loop (segment_count + 1) 0 rest)
      else if IsValidActionChar ch then action_path_loop segment_count (segment_len + 1) rest
      else None)"

definition IsValidActionPath :: "string \<Rightarrow> bool" where
  "IsValidActionPath action \<longleftrightarrow>
     action \<noteq> []
     \<and> (case action_path_loop 0 0 action of None \<Rightarrow> False | Some segment_count \<Rightarrow> 2 \<le> segment_count)"

definition Entitlement_Parse :: "string \<Rightarrow> Entitlement option" where
  "Entitlement_Parse txt =
     (let colon_pos = find_char (CHR '':'') txt;
          action = (case colon_pos of None \<Rightarrow> txt | Some p \<Rightarrow> take p txt)
      in if \<not> IsValidActionPath action then None
         else case colon_pos of
                None \<Rightarrow> Some \<lparr> e_Action = action, e_Selector = None \<rparr>
              | Some p \<Rightarrow>
                  let selector = drop (p + 1) txt
                  in if selector = [] then None
                     else Some \<lparr> e_Action = action, e_Selector = Some selector \<rparr>)"

definition Matches :: "Entitlement \<Rightarrow> string \<Rightarrow> string \<Rightarrow> bool" where
  "Matches e action resource_id =
     (if e_Action e \<noteq> action then False
      else case e_Selector e of
             None \<Rightarrow> resource_id = []
           | Some s \<Rightarrow> if s = ''*'' then True else s = resource_id)"

definition Entitlement_ToString :: "Entitlement \<Rightarrow> string" where
  "Entitlement_ToString e =
     (case e_Selector e of Some s \<Rightarrow> e_Action e @ '':'' @ s | None \<Rightarrow> e_Action e)"

subsection \<open>Sets of entitlements\<close>

type_synonym EntitlementSet = "Entitlement list"

definition Contains :: "EntitlementSet \<Rightarrow> Entitlement \<Rightarrow> bool" where
  "Contains es e \<longleftrightarrow> find (\<lambda>x. x = e) es \<noteq> None"

definition Add :: "EntitlementSet \<Rightarrow> Entitlement \<Rightarrow> EntitlementSet" where
  "Add es e = (if Contains es e then es else es @ [e])"

definition Merge :: "EntitlementSet \<Rightarrow> EntitlementSet \<Rightarrow> EntitlementSet" where
  "Merge es other = foldl Add es other"

definition Permits :: "EntitlementSet \<Rightarrow> string \<Rightarrow> string \<Rightarrow> bool" where
  "Permits es action resource_id \<longleftrightarrow> list_ex (\<lambda>e. Matches e action resource_id) es"

definition EntitlementSet_Parse :: "string list \<Rightarrow> EntitlementSet \<times> string list" where
  "EntitlementSet_Parse texts =
     foldl (\<lambda>(es, rejected) t. case Entitlement_Parse t of
              Some e \<Rightarrow> (Add es e, rejected) | None \<Rightarrow> (es, rejected @ [t])) ([], []) texts"

definition ToStrings :: "EntitlementSet \<Rightarrow> string list" where
  "ToStrings es = sort (map Entitlement_ToString es)"

subsection \<open>The vocabulary\<close>

definition SYSTEM_ADMIN :: string where "SYSTEM_ADMIN = ''system.admin''"
definition EQUIPMENT_VIEW :: string where "EQUIPMENT_VIEW = ''equipment.view''"
definition EQUIPMENT_CONTROL_AUX :: string where "EQUIPMENT_CONTROL_AUX = ''equipment.control.aux''"
definition EQUIPMENT_CONTROL_HEATER :: string where "EQUIPMENT_CONTROL_HEATER = ''equipment.control.heater''"
definition EQUIPMENT_CONTROL_SETPOINTS :: string where "EQUIPMENT_CONTROL_SETPOINTS = ''equipment.control.setpoints''"
definition EQUIPMENT_CONTROL_CIRCULATION :: string where "EQUIPMENT_CONTROL_CIRCULATION = ''equipment.control.circulation''"
definition EQUIPMENT_CONTROL_CHLORINATOR :: string where "EQUIPMENT_CONTROL_CHLORINATOR = ''equipment.control.chlorinator''"
definition EQUIPMENT_CONTROL_IAQ :: string where "EQUIPMENT_CONTROL_IAQ = ''equipment.control.iaq''"
definition EQUIPMENT_CONTROL_SPASIDE :: string where "EQUIPMENT_CONTROL_SPASIDE = ''equipment.control.spaside''"
definition SCHEDULES_VIEW :: string where "SCHEDULES_VIEW = ''schedules.view''"
definition SCHEDULES_EDIT :: string where "SCHEDULES_EDIT = ''schedules.edit''"
definition DIAGNOSTICS_VIEW :: string where "DIAGNOSTICS_VIEW = ''diagnostics.view''"
definition PREFS_SELF :: string where "PREFS_SELF = ''prefs.self''"

definition ALL_ACTIONS :: "string list" where
  "ALL_ACTIONS = [SYSTEM_ADMIN, EQUIPMENT_VIEW, EQUIPMENT_CONTROL_AUX, EQUIPMENT_CONTROL_HEATER,
     EQUIPMENT_CONTROL_SETPOINTS, EQUIPMENT_CONTROL_CIRCULATION, EQUIPMENT_CONTROL_CHLORINATOR,
     EQUIPMENT_CONTROL_IAQ, EQUIPMENT_CONTROL_SPASIDE, SCHEDULES_VIEW, SCHEDULES_EDIT,
     DIAGNOSTICS_VIEW, PREFS_SELF]"

definition IsKnownAction :: "string \<Rightarrow> bool" where
  "IsKnownAction action \<longleftrightarrow> find (\<lambda>a. a = action) ALL_ACTIONS \<noteq> None"

section \<open>Decisions\<close>

datatype SubjectProvider = Anonymous | Local | ApiKey | Oidc | Proxy | KioskPin

record Subject =
  j_Id :: string
  j_Username :: string
  j_Authenticated :: bool
  j_Provider :: SubjectProvider
  j_Groups :: "string list"
  j_Entitlements :: EntitlementSet
  j_TokenVersion :: "32 word"

definition Subject_Anonymous :: Subject where
  "Subject_Anonymous = \<lparr> j_Id = ''anonymous'', j_Username = [], j_Authenticated = False,
     j_Provider = Anonymous, j_Groups = [], j_Entitlements = [], j_TokenVersion = 0 \<rparr>"

datatype Decision = Permit | Deny

record ResourceRef =
  Kind :: string
  Id :: string

record Environment =
  AuthEnabled :: bool

definition Decide :: "Subject \<Rightarrow> string \<Rightarrow> ResourceRef \<Rightarrow> Environment \<Rightarrow> Decision" where
  "Decide subject action resource environment =
     (if \<not> AuthEnabled environment then Permit
      else if Permits (j_Entitlements subject) SYSTEM_ADMIN [] then Permit
      else if Permits (j_Entitlements subject) action (Id resource) then Permit
      else Deny)"

section \<open>Groups\<close>

record Group =
  g_Name :: string
  g_Entitlements :: EntitlementSet
  g_BuiltIn :: bool

type_synonym GroupRegistry = "Group list"

definition EVERYONE :: string where "EVERYONE = ''Everyone''"
definition GUEST :: string where "GUEST = ''Guest''"
definition ADMINISTRATORS :: string where "ADMINISTRATORS = ''Administrators''"

fun Registry_Upsert :: "Group \<Rightarrow> GroupRegistry \<Rightarrow> GroupRegistry" where
  "Registry_Upsert gr [] = [gr]"
| "Registry_Upsert gr (existing # rest) =
     (if g_Name existing = g_Name gr then gr # rest else existing # Registry_Upsert gr rest)"

definition Registry_Find :: "string \<Rightarrow> GroupRegistry \<Rightarrow> Group option" where
  "Registry_Find name groups = find (\<lambda>g. g_Name g = name) groups"

definition WithBuiltIns :: GroupRegistry where
  "WithBuiltIns =
     (let registry = Registry_Upsert \<lparr> g_Name = EVERYONE, g_Entitlements = [], g_BuiltIn = True \<rparr> [];
          registry = Registry_Upsert \<lparr> g_Name = GUEST, g_Entitlements = [], g_BuiltIn = True \<rparr> registry;
          admin_entitlements = Add [] \<lparr> e_Action = SYSTEM_ADMIN, e_Selector = None \<rparr>
      in Registry_Upsert \<lparr> g_Name = ADMINISTRATORS, g_Entitlements = admin_entitlements, g_BuiltIn = True \<rparr>
           registry)"

definition ResolveEffectiveEntitlements ::
    "GroupRegistry \<Rightarrow> EntitlementSet \<Rightarrow> string list \<Rightarrow> EntitlementSet" where
  "ResolveEffectiveEntitlements groups direct memberships =
     (let effective =
            (case Registry_Find EVERYONE groups of
               Some everyone \<Rightarrow> Merge direct (g_Entitlements everyone) | None \<Rightarrow> direct)
      in foldl (\<lambda>effective membership.
           if membership = EVERYONE then effective
           else case Registry_Find membership groups of
                  Some gr \<Rightarrow> Merge effective (g_Entitlements gr) | None \<Rightarrow> effective)
         effective memberships)"

subsection \<open>The store\<close>

type_synonym groups_document = "(string \<times> string list) list"

record GroupStore =
  gs_Registry :: GroupRegistry
  gs_File :: "groups_document option"

definition IsBuiltInName :: "string \<Rightarrow> bool" where
  "IsBuiltInName name \<longleftrightarrow> name = EVERYONE \<or> name = GUEST \<or> name = ADMINISTRATORS"

text \<open>
  What a store operation comes to: refused with its error text and without effect, applied and written,
  or applied in memory and then thrown out of because the file could not be written. The argument
  \<open>written\<close> says whether the write succeeds.
\<close>

datatype outcome = Refused string | Applied | StoreError

definition saved_outcome :: "bool \<Rightarrow> outcome" where
  "saved_outcome written = (if written then Applied else StoreError)"

definition GroupStore_Save :: "bool \<Rightarrow> GroupStore \<Rightarrow> GroupStore" where
  "GroupStore_Save written store =
     (if written
      then store \<lparr> gs_File := Some (map (\<lambda>g. (g_Name g, ToStrings (g_Entitlements g))) (gs_Registry store)) \<rparr>
      else store)"

definition load_group :: "string \<times> string list \<Rightarrow> GroupRegistry \<Rightarrow> GroupRegistry" where
  "load_group entry registry =
     (let gr = \<lparr> g_Name = fst entry, g_Entitlements = fst (EntitlementSet_Parse (snd entry)),
                 g_BuiltIn = IsBuiltInName (fst entry) \<rparr>
      in if g_Name gr \<noteq> [] then Registry_Upsert gr registry else registry)"

text \<open>Loading; a first run that cannot write the seeded groups throws and there is no store.\<close>

definition GroupStore_Load :: "bool \<Rightarrow> groups_document option \<Rightarrow> GroupStore option" where
  "GroupStore_Load written file =
     (let store = \<lparr> gs_Registry = WithBuiltIns, gs_File = file \<rparr>
      in case file of
           Some document \<Rightarrow> Some (store \<lparr> gs_Registry := fold load_group document WithBuiltIns \<rparr>)
         | None \<Rightarrow> if written then Some (GroupStore_Save written store) else None)"

definition GroupStore_Upsert :: "bool \<Rightarrow> Group \<Rightarrow> GroupStore \<Rightarrow> GroupStore \<times> outcome" where
  "GroupStore_Upsert written gr store =
     (if g_Name gr = [] then (store, Refused ''Group name is required'')
      else
        let gr = gr \<lparr> g_BuiltIn := IsBuiltInName (g_Name gr) \<rparr>
        in (GroupStore_Save written (store \<lparr> gs_Registry := Registry_Upsert gr (gs_Registry store) \<rparr>),
            saved_outcome written))"

definition GroupStore_Remove :: "bool \<Rightarrow> string \<Rightarrow> GroupStore \<Rightarrow> GroupStore \<times> outcome" where
  "GroupStore_Remove written name store =
     (if IsBuiltInName name then (store, Refused ''Built-in groups cannot be removed'')
      else if Registry_Find name (gs_Registry store) = None then (store, Refused ''Group not found'')
      else
        let rebuilt = foldl (\<lambda>rebuilt gr. if g_Name gr \<noteq> name then Registry_Upsert gr rebuilt else rebuilt)
                        [] (gs_Registry store)
        in (GroupStore_Save written (store \<lparr> gs_Registry := rebuilt \<rparr>), saved_outcome written))"

section \<open>Reading and writing entitlements\<close>

text \<open>The grammar of the header: at least two non-empty segments joined by dots, and a selector that is not empty.\<close>

fun join_dots :: "string list \<Rightarrow> string" where
  "join_dots [] = []"
| "join_dots [s] = s"
| "join_dots (s # t # rest) = s @ ''.'' @ join_dots (t # rest)"

definition action_path :: "string \<Rightarrow> bool" where
  "action_path action \<longleftrightarrow>
     (\<exists>segments. 2 \<le> length segments \<and> action = join_dots segments
        \<and> (\<forall>s \<in> set segments. s \<noteq> [] \<and> list_all IsValidActionChar s))"

definition well_formed :: "Entitlement \<Rightarrow> bool" where
  "well_formed e \<longleftrightarrow> action_path (e_Action e) \<and> e_Selector e \<noteq> Some []"

lemma dot_not_action_char: "\<not> IsValidActionChar (CHR ''.'')" "\<not> IsValidActionChar (CHR '':'')"
  by (simp_all add: IsValidActionChar_def less_eq_char_def)

lemma action_path_loop_segment:
  "list_all IsValidActionChar s \<Longrightarrow>
   action_path_loop count len (s @ rest) = action_path_loop count (len + length s) rest"
proof (induction s arbitrary: len)
  case (Cons c s)
  then have "c \<noteq> CHR ''.''" using dot_not_action_char by auto
  with Cons show ?case by simp
qed simp

lemma action_path_loop_join:
  assumes "segments \<noteq> []" "\<forall>s \<in> set segments. s \<noteq> [] \<and> list_all IsValidActionChar s"
  shows "action_path_loop count 0 (join_dots segments) = Some (count + length segments)"
  using assms
proof (induction segments arbitrary: count rule: join_dots.induct)
  case (2 s)
  then show ?case using action_path_loop_segment [of s count 0 "[]"] by simp
next
  case (3 s t rest)
  then show ?case using action_path_loop_segment [of s count 0 "''.'' @ join_dots (t # rest)"] by simp
qed simp

lemma action_path_loop_segments:
  "action_path_loop count len cs = Some n \<Longrightarrow>
   \<exists>h segments. cs = join_dots (h # segments) \<and> n = count + Suc (length segments)
     \<and> (len > 0 \<or> h \<noteq> []) \<and> list_all IsValidActionChar h
     \<and> (\<forall>s \<in> set segments. s \<noteq> [] \<and> list_all IsValidActionChar s)"
proof (induction cs arbitrary: count len)
  case Nil
  then show ?case by (intro exI [of _ "[]"]) (auto split: if_splits)
next
  case (Cons c cs)
  show ?case
  proof (cases "c = CHR ''.''")
    case True
    with Cons.prems have "len \<noteq> 0" "action_path_loop (count + 1) 0 cs = Some n" by (auto split: if_splits)
    with Cons.IH obtain h segments where "cs = join_dots (h # segments)" "n = count + 1 + Suc (length segments)"
      "h \<noteq> []" "list_all IsValidActionChar h" "\<forall>s \<in> set segments. s \<noteq> [] \<and> list_all IsValidActionChar s"
      by blast
    with True \<open>len \<noteq> 0\<close> show ?thesis by (intro exI [of _ "[]"] exI [of _ "h # segments"]) simp
  next
    case False
    with Cons.prems have v: "IsValidActionChar c" "action_path_loop count (len + 1) cs = Some n"
      by (auto split: if_splits)
    with Cons.IH obtain h segments where "cs = join_dots (h # segments)" "n = count + Suc (length segments)"
      "list_all IsValidActionChar h" "\<forall>s \<in> set segments. s \<noteq> [] \<and> list_all IsValidActionChar s"
      by blast
    with v show ?thesis
      by (intro exI [of _ "c # h"] exI [of _ segments]) (cases segments; simp)
  qed
qed

lemma join_dots_nonempty: "2 \<le> length segments \<Longrightarrow> join_dots segments \<noteq> []"
  by (induction segments rule: join_dots.induct) simp_all

lemma valid_action_path: "IsValidActionPath action \<longleftrightarrow> action_path action"
proof
  assume "IsValidActionPath action"
  then obtain n where "action_path_loop 0 0 action = Some n" "2 \<le> n"
    by (auto simp: IsValidActionPath_def split: option.splits)
  with action_path_loop_segments [of 0 0 action n] show "action_path action"
    unfolding action_path_def
    by (metis One_nat_def Suc_le_mono add_0 gr0_implies_Suc length_Cons less_irrefl set_ConsD)
next
  assume "action_path action"
  then obtain segments where s: "2 \<le> length segments" "action = join_dots segments"
    "\<forall>s \<in> set segments. s \<noteq> [] \<and> list_all IsValidActionChar s"
    by (auto simp: action_path_def)
  then have "action_path_loop 0 0 action = Some (0 + length segments)"
    by (intro action_path_loop_join [of segments 0, folded s(2)]) auto
  with s join_dots_nonempty [OF s(1)] show "IsValidActionPath action" by (simp add: IsValidActionPath_def)
qed

lemma join_dots_chars: "c \<in> set (join_dots segments) \<Longrightarrow> c = CHR ''.'' \<or> (\<exists>s \<in> set segments. c \<in> set s)"
  by (induction segments rule: join_dots.induct) auto

lemma action_path_no_colon: "action_path action \<Longrightarrow> CHR '':'' \<notin> set action"
  using join_dots_chars [of "CHR '':''"] dot_not_action_char
  by (fastforce simp: action_path_def list_all_iff)

lemma find_char_split:
  "find_char c s = Some p \<Longrightarrow> s = take p s @ c # drop (p + 1) s"
proof -
  assume a: "find_char c s = Some p"
  then have p: "p = length (takeWhile (\<lambda>x. x \<noteq> c) s)" "p < length s"
    by (auto simp: find_char_def Let_def split: if_splits)
  then have "s ! p = c" using nth_length_takeWhile [of "\<lambda>x. x \<noteq> c" s] by simp
  with p show ?thesis using id_take_nth_drop [of p s] by simp
qed

lemma parse_text:
  "Entitlement_Parse t = Some e \<Longrightarrow> well_formed e \<and> t = Entitlement_ToString e"
  by (auto simp: Entitlement_Parse_def Let_def valid_action_path well_formed_def Entitlement_ToString_def
      dest: find_char_split split: option.splits if_splits)

lemma parse_ToString: "well_formed e \<Longrightarrow> Entitlement_Parse (Entitlement_ToString e) = Some e"
proof (cases "e_Selector e")
  case None
  moreover assume "well_formed e"
  ultimately show ?thesis
    using action_path_no_colon [of "e_Action e"] find_char_none [of "CHR '':''" "e_Action e"]
    by (cases e) (simp add: Entitlement_Parse_def Entitlement_ToString_def well_formed_def valid_action_path
      Let_def)
next
  case (Some s)
  moreover assume "well_formed e"
  ultimately show ?thesis
    using action_path_no_colon [of "e_Action e"] find_char_at [of "CHR '':''" "e_Action e" s]
    by (cases e) (simp add: Entitlement_Parse_def Entitlement_ToString_def well_formed_def valid_action_path
      Let_def)
qed

text \<open>
  The parser accepts exactly the texts of the grammar in the header, and reading and printing are
  inverse: a text is read as an entitlement if and only if the entitlement is well formed and prints as
  that text.
\<close>

theorem entitlement_parse_print:
  "Entitlement_Parse t = Some e \<longleftrightarrow> well_formed e \<and> t = Entitlement_ToString e"
  using parse_text parse_ToString by blast


section \<open>Decisions against their specification\<close>

lemma set_Add [simp]: "set (Add es e) = insert e (set es)"
  by (auto simp: Add_def Contains_def find_None_iff)

lemma distinct_Add: "distinct es \<Longrightarrow> distinct (Add es e)"
  by (auto simp: Add_def Contains_def find_None_iff)

lemma set_Merge [simp]: "set (Merge es other) = set es \<union> set other"
  unfolding Merge_def by (induction other arbitrary: es) auto

lemma EntitlementSet_Parse_snoc:
  "EntitlementSet_Parse (texts @ [t]) =
     (case Entitlement_Parse t of
        Some e \<Rightarrow> (Add (fst (EntitlementSet_Parse texts)) e, snd (EntitlementSet_Parse texts))
      | None \<Rightarrow> (fst (EntitlementSet_Parse texts), snd (EntitlementSet_Parse texts) @ [t]))"
  by (simp add: EntitlementSet_Parse_def split_def split: option.split)

lemma EntitlementSet_Parse_Nil: "EntitlementSet_Parse [] = ([], [])"
  by (simp add: EntitlementSet_Parse_def)

lemma set_EntitlementSet_Parse:
  "set (fst (EntitlementSet_Parse texts)) = {e. \<exists>t \<in> set texts. Entitlement_Parse t = Some e}"
  by (induction texts rule: rev_induct)
    (auto simp: EntitlementSet_Parse_snoc EntitlementSet_Parse_Nil split: option.splits)

lemma EntitlementSet_Parse_well_formed: "e \<in> set (fst (EntitlementSet_Parse texts)) \<Longrightarrow> well_formed e"
  using parse_text by (auto simp: set_EntitlementSet_Parse)

lemma EntitlementSet_Parse_ToStrings:
  assumes "\<forall>e \<in> set es. well_formed e"
  shows "set (fst (EntitlementSet_Parse (ToStrings es))) = set es"
  using assms parse_ToString by (auto simp: set_EntitlementSet_Parse ToStrings_def dest: parse_text)

text \<open>
  The entitlements a subject holds: its direct grants and those of every existing group it is a member
  of, \<open>Everyone\<close> among them for every subject.
\<close>

definition granted :: "GroupRegistry \<Rightarrow> EntitlementSet \<Rightarrow> string list \<Rightarrow> Entitlement set" where
  "granted groups direct memberships =
     set direct \<union> {e. \<exists>n \<in> insert EVERYONE (set memberships). \<exists>gr. Registry_Find n groups = Some gr
                                                             \<and> e \<in> set (g_Entitlements gr)}"

definition covers :: "Entitlement \<Rightarrow> string \<Rightarrow> string \<Rightarrow> bool" where
  "covers e action resource \<longleftrightarrow>
     e_Action e = action
     \<and> (e_Selector e = None \<and> resource = [] \<or> e_Selector e = Some ''*'' \<or> e_Selector e = Some resource)"

lemma Matches_covers: "Matches e action resource \<longleftrightarrow> covers e action resource"
  by (auto simp: Matches_def covers_def split: option.split)

lemma Permits_covers: "Permits es action resource \<longleftrightarrow> (\<exists>e \<in> set es. covers e action resource)"
  by (simp add: Permits_def list_ex_iff Matches_covers)

lemma resolve_loop:
  "set (foldl (\<lambda>effective membership.
           if membership = EVERYONE then effective
           else case Registry_Find membership groups of
                  Some gr \<Rightarrow> Merge effective (g_Entitlements gr) | None \<Rightarrow> effective)
         effective memberships)
     = set effective \<union> {e. \<exists>n \<in> set memberships. n \<noteq> EVERYONE
         \<and> (\<exists>gr. Registry_Find n groups = Some gr \<and> e \<in> set (g_Entitlements gr))}"
  by (induction memberships arbitrary: effective) (auto split: option.splits)

lemma set_ResolveEffectiveEntitlements [simp]:
  "set (ResolveEffectiveEntitlements groups direct memberships) = granted groups direct memberships"
proof (cases "Registry_Find EVERYONE groups")
  case None
  then have "n \<noteq> EVERYONE" if "Registry_Find n groups = Some gr" for n gr using that by auto
  with None show ?thesis
    by (fastforce simp: ResolveEffectiveEntitlements_def Let_def resolve_loop granted_def)
next
  case (Some everyone)
  then have "n \<noteq> EVERYONE \<or> gr = everyone" if "Registry_Find n groups = Some gr" for n gr using that by auto
  with Some show ?thesis
    by (fastforce simp: ResolveEffectiveEntitlements_def Let_def resolve_loop granted_def)
qed

text \<open>
  C22: the decision on a subject whose entitlements were resolved from the groups meets the rule of the
  design document, and nothing else is permitted. Without authentication everything is permitted;
  otherwise a request is permitted exactly when the subject holds, directly or through \<open>Everyone\<close>
  or an existing group it is a member of, the administrator entitlement, or an entitlement for exactly
  this action whose selector is absent for a request without a resource, is a star, or is the resource.
  Memberships of groups that do not exist grant nothing.
\<close>

theorem decision_specified:
  assumes "j_Entitlements subject = ResolveEffectiveEntitlements groups direct memberships"
  shows "Decide subject action resource env = Permit \<longleftrightarrow>
     \<not> AuthEnabled env
     \<or> (\<exists>e \<in> granted groups direct memberships. covers e SYSTEM_ADMIN [] \<or> covers e action (Id resource))"
  using assms by (auto simp: Decide_def Permits_covers)

definition sample_groups :: GroupRegistry where
  "sample_groups = Registry_Upsert \<lparr> g_Name = GUEST,
     g_Entitlements = [\<lparr> e_Action = EQUIPMENT_CONTROL_AUX, e_Selector = Some ''7'' \<rparr>], g_BuiltIn = True \<rparr>
     WithBuiltIns"

definition sample_guest :: Subject where
  "sample_guest = Subject_Anonymous \<lparr> j_Groups := [GUEST, ''Gone''],
     j_Entitlements := ResolveEffectiveEntitlements sample_groups [] [GUEST, ''Gone''] \<rparr>"

theorem decision_specified_witness:
  "Decide sample_guest EQUIPMENT_CONTROL_AUX \<lparr> Kind = ''aux'', Id = ''7'' \<rparr> \<lparr> AuthEnabled = True \<rparr> = Permit
   \<and> Decide sample_guest EQUIPMENT_CONTROL_AUX \<lparr> Kind = ''aux'', Id = ''8'' \<rparr> \<lparr> AuthEnabled = True \<rparr> \<noteq> Permit"
proof -
  have "granted sample_groups [] [GUEST, ''Gone''] = {\<lparr> e_Action = EQUIPMENT_CONTROL_AUX, e_Selector = Some ''7'' \<rparr>}"
    by (auto simp: granted_def sample_groups_def WithBuiltIns_def Registry_Find_def EVERYONE_def GUEST_def
        ADMINISTRATORS_def)
  moreover have "j_Entitlements sample_guest = ResolveEffectiveEntitlements sample_groups [] [GUEST, ''Gone'']"
    by (simp add: sample_guest_def)
  ultimately show ?thesis
    using decision_specified [of sample_guest sample_groups "[]" "[GUEST, ''Gone'']" EQUIPMENT_CONTROL_AUX
        "\<lparr> Kind = ''aux'', Id = ''7'' \<rparr>" "\<lparr> AuthEnabled = True \<rparr>"]
      decision_specified [of sample_guest sample_groups "[]" "[GUEST, ''Gone'']" EQUIPMENT_CONTROL_AUX
        "\<lparr> Kind = ''aux'', Id = ''8'' \<rparr>" "\<lparr> AuthEnabled = True \<rparr>"]
    by (simp add: covers_def SYSTEM_ADMIN_def EQUIPMENT_CONTROL_AUX_def)
qed

section \<open>The group store\<close>

lemma names_Upsert:
  "map g_Name (Registry_Upsert gr groups)
     = (if g_Name gr \<in> g_Name ` set groups then map g_Name groups else map g_Name groups @ [g_Name gr])"
  by (induction groups) auto

lemma set_Upsert: "set (Registry_Upsert gr groups) \<subseteq> insert gr (set groups)"
  by (induction groups) auto

lemma Find_Upsert:
  "Registry_Find n (Registry_Upsert gr groups) = (if n = g_Name gr then Some gr else Registry_Find n groups)"
  by (induction groups) (auto simp: Registry_Find_def)

lemma Upsert_new: "g_Name gr \<notin> g_Name ` set groups \<Longrightarrow> Registry_Upsert gr groups = groups @ [gr]"
  by (induction groups) auto

lemma rebuild_filter:
  "distinct (map g_Name (rebuilt @ groups)) \<Longrightarrow>
   foldl (\<lambda>rebuilt gr. if g_Name gr \<noteq> name then Registry_Upsert gr rebuilt else rebuilt) rebuilt groups
     = rebuilt @ filter (\<lambda>gr. g_Name gr \<noteq> name) groups"
proof (induction groups arbitrary: rebuilt)
  case (Cons gr groups)
  then have "Registry_Upsert gr rebuilt = rebuilt @ [gr]" by (intro Upsert_new) auto
  with Cons show ?case by simp
qed simp

text \<open>The name of every group is its own, the built-in groups come first and are flagged, no other is.\<close>

definition registry_ok :: "GroupRegistry \<Rightarrow> bool" where
  "registry_ok groups \<longleftrightarrow>
     distinct (map g_Name groups) \<and> (\<exists>others. map g_Name groups = EVERYONE # GUEST # ADMINISTRATORS # others)
     \<and> (\<forall>gr \<in> set groups. g_Name gr \<noteq> [] \<and> g_BuiltIn gr = IsBuiltInName (g_Name gr)
          \<and> (\<forall>e \<in> set (g_Entitlements gr). well_formed e))"

lemma WithBuiltIns_list:
  "WithBuiltIns = [\<lparr> g_Name = EVERYONE, g_Entitlements = [], g_BuiltIn = True \<rparr>,
     \<lparr> g_Name = GUEST, g_Entitlements = [], g_BuiltIn = True \<rparr>,
     \<lparr> g_Name = ADMINISTRATORS, g_Entitlements = [\<lparr> e_Action = SYSTEM_ADMIN, e_Selector = None \<rparr>],
       g_BuiltIn = True \<rparr>]"
  by (simp add: WithBuiltIns_def EVERYONE_def GUEST_def ADMINISTRATORS_def Add_def Contains_def)

lemma admin_well_formed: "well_formed \<lparr> e_Action = SYSTEM_ADMIN, e_Selector = None \<rparr>"
  by (rule parse_text [of SYSTEM_ADMIN, THEN conjunct1]) code_simp

lemma built_in_names [simp]:
  "EVERYONE \<noteq> GUEST" "EVERYONE \<noteq> ADMINISTRATORS" "GUEST \<noteq> ADMINISTRATORS"
  "EVERYONE \<noteq> []" "GUEST \<noteq> []" "ADMINISTRATORS \<noteq> []"
  "IsBuiltInName EVERYONE" "IsBuiltInName GUEST" "IsBuiltInName ADMINISTRATORS"
  by (simp_all add: EVERYONE_def GUEST_def ADMINISTRATORS_def IsBuiltInName_def)

lemma built_in_names_sym [simp]: "GUEST \<noteq> EVERYONE" "ADMINISTRATORS \<noteq> EVERYONE" "ADMINISTRATORS \<noteq> GUEST"
  using built_in_names by metis+

lemma registry_ok_WithBuiltIns: "registry_ok WithBuiltIns"
  using admin_well_formed by (simp add: registry_ok_def WithBuiltIns_list)

lemma registry_ok_Upsert:
  assumes "registry_ok groups" "g_Name gr \<noteq> []" "g_BuiltIn gr = IsBuiltInName (g_Name gr)"
    and "\<forall>e \<in> set (g_Entitlements gr). well_formed e"
  shows "registry_ok (Registry_Upsert gr groups)"
proof -
  have "distinct (map g_Name (Registry_Upsert gr groups))"
    using assms(1) by (simp add: registry_ok_def names_Upsert)
  moreover have "\<exists>others. map g_Name (Registry_Upsert gr groups) = EVERYONE # GUEST # ADMINISTRATORS # others"
    using assms(1) by (auto simp: registry_ok_def names_Upsert)
  moreover have "\<forall>x \<in> set (Registry_Upsert gr groups). g_Name x \<noteq> [] \<and> g_BuiltIn x = IsBuiltInName (g_Name x)
       \<and> (\<forall>e \<in> set (g_Entitlements x). well_formed e)"
    using assms set_Upsert [of gr groups] by (auto simp: registry_ok_def)
  ultimately show ?thesis by (simp add: registry_ok_def)
qed

lemma registry_ok_remove:
  assumes "registry_ok groups" "\<not> IsBuiltInName name"
  shows "registry_ok (filter (\<lambda>gr. g_Name gr \<noteq> name) groups)"
proof -
  have names: "map g_Name (filter (\<lambda>gr. g_Name gr \<noteq> name) groups) = filter (\<lambda>n. n \<noteq> name) (map g_Name groups)"
    by (simp add: filter_map o_def)
  have "EVERYONE \<noteq> name" "GUEST \<noteq> name" "ADMINISTRATORS \<noteq> name"
    using assms(2) by (auto simp: IsBuiltInName_def)
  with assms(1) have "\<exists>others. filter (\<lambda>n. n \<noteq> name) (map g_Name groups) = EVERYONE # GUEST # ADMINISTRATORS # others"
    by (auto simp: registry_ok_def)
  moreover have "distinct (filter (\<lambda>n. n \<noteq> name) (map g_Name groups))"
    using assms(1) by (simp add: registry_ok_def)
  moreover have "\<forall>gr \<in> set (filter (\<lambda>gr. g_Name gr \<noteq> name) groups). g_Name gr \<noteq> []
      \<and> g_BuiltIn gr = IsBuiltInName (g_Name gr) \<and> (\<forall>e \<in> set (g_Entitlements gr). well_formed e)"
    using assms(1) by (auto simp: registry_ok_def)
  ultimately show ?thesis unfolding registry_ok_def names by (intro conjI)
qed

text \<open>What is read back for one entry of the file.\<close>

definition read_group :: "string \<times> string list \<Rightarrow> Group" where
  "read_group entry = \<lparr> g_Name = fst entry, g_Entitlements = fst (EntitlementSet_Parse (snd entry)),
                        g_BuiltIn = IsBuiltInName (fst entry) \<rparr>"

lemma load_new_groups:
  "distinct (map g_Name registry @ map fst document) \<Longrightarrow> [] \<notin> fst ` set document \<Longrightarrow>
   fold load_group document registry = registry @ map read_group document"
proof (induction document arbitrary: registry)
  case (Cons entry document)
  then have "load_group entry registry = registry @ [read_group entry]"
    by (auto simp: load_group_def Let_def read_group_def intro: Upsert_new)
  with Cons show ?case by (simp add: read_group_def)
qed simp

lemma load_document:
  assumes "distinct (map fst document)" "[] \<notin> fst ` set document"
    and "map fst document = EVERYONE # GUEST # ADMINISTRATORS # others"
  shows "fold load_group document WithBuiltIns = map read_group document"
proof -
  from assms(3) obtain e g a rest where d: "document = e # g # a # rest"
    and n: "fst e = EVERYONE" "fst g = GUEST" "fst a = ADMINISTRATORS" by auto
  have "fold load_group [e, g, a] WithBuiltIns = map read_group [e, g, a]"
    by (simp add: load_group_def Let_def read_group_def n WithBuiltIns_list)
  moreover have "fold load_group rest (map read_group [e, g, a]) = map read_group [e, g, a] @ map read_group rest"
    using assms(1,2) d by (intro load_new_groups) (auto simp: read_group_def)
  ultimately show ?thesis by (simp add: d)
qed

text \<open>
  The histories of the store: a first start, edits whose sets were read by the parser, restarts; every
  write may fail.
\<close>

inductive group_history :: "GroupStore \<Rightarrow> bool" where
  first_start: "GroupStore_Load True None = Some st \<Longrightarrow> group_history st"
| upsert: "group_history st \<Longrightarrow> g_Entitlements gr = fst (EntitlementSet_Parse texts) \<Longrightarrow>
     GroupStore_Upsert written gr st = (st', result) \<Longrightarrow> group_history st'"
| remove: "group_history st \<Longrightarrow> GroupStore_Remove written name st = (st', result) \<Longrightarrow> group_history st'"
| restart: "group_history st \<Longrightarrow> GroupStore_Load written (gs_File st) = Some st' \<Longrightarrow> group_history st'"

definition groups_document_of :: "GroupRegistry \<Rightarrow> groups_document" where
  "groups_document_of groups = map (\<lambda>g. (g_Name g, ToStrings (g_Entitlements g))) groups"

definition same_groups :: "GroupRegistry \<Rightarrow> GroupRegistry \<Rightarrow> bool" where
  "same_groups xs ys \<longleftrightarrow>
     list_all2 (\<lambda>x y. g_Name x = g_Name y \<and> g_BuiltIn x = g_BuiltIn y
                      \<and> set (g_Entitlements x) = set (g_Entitlements y)) xs ys"

definition file_ok :: "GroupStore \<Rightarrow> bool" where
  "file_ok st \<longleftrightarrow> (\<exists>groups. registry_ok groups \<and> gs_File st = Some (groups_document_of groups))"

lemma Save_file: "GroupStore_Save written st
    = (if written then st \<lparr> gs_File := Some (groups_document_of (gs_Registry st)) \<rparr> else st)"
  by (simp add: GroupStore_Save_def groups_document_of_def)

lemma file_ok_Save: "file_ok st \<Longrightarrow> registry_ok groups \<Longrightarrow>
    file_ok (GroupStore_Save written (st \<lparr> gs_Registry := groups \<rparr>))"
  by (auto simp: Save_file file_ok_def)

lemma load_saved_groups:
  assumes "registry_ok groups"
  shows "fold load_group (groups_document_of groups) WithBuiltIns = map read_group (groups_document_of groups)"
proof -
  obtain others where "map g_Name groups = EVERYONE # GUEST # ADMINISTRATORS # others"
    using assms by (auto simp: registry_ok_def)
  moreover have "map fst (groups_document_of groups) = map g_Name groups" by (simp add: groups_document_of_def)
  ultimately show ?thesis
    using assms by (intro load_document) (auto simp: registry_ok_def groups_document_of_def)
qed

lemma same_groups_read: "registry_ok groups \<Longrightarrow> same_groups (map read_group (groups_document_of groups)) groups"
  by (auto simp: same_groups_def groups_document_of_def list_all2_map1 read_group_def registry_ok_def
      EntitlementSet_Parse_ToStrings intro!: list.rel_refl_strong)

lemma registry_ok_read:
  assumes "registry_ok groups" shows "registry_ok (map read_group (groups_document_of groups))"
proof -
  have names: "map g_Name (map read_group (groups_document_of groups)) = map g_Name groups"
    by (simp add: groups_document_of_def read_group_def)
  have "\<forall>gr \<in> set (map read_group (groups_document_of groups)). g_Name gr \<noteq> []
      \<and> g_BuiltIn gr = IsBuiltInName (g_Name gr) \<and> (\<forall>e \<in> set (g_Entitlements gr). well_formed e)"
    using assms unfolding registry_ok_def
    by (auto simp: groups_document_of_def read_group_def dest: EntitlementSet_Parse_well_formed)
  then show ?thesis using assms unfolding registry_ok_def names by (intro conjI) simp_all
qed

lemma group_history_ok: "group_history st \<Longrightarrow> registry_ok (gs_Registry st) \<and> file_ok st"
proof (induction rule: group_history.induct)
  case (first_start st)
  then have "st = GroupStore_Save True \<lparr> gs_Registry = WithBuiltIns, gs_File = None \<rparr>"
    by (simp add: GroupStore_Load_def)
  then show ?case using registry_ok_WithBuiltIns by (auto simp: Save_file file_ok_def)
next
  case (upsert st gr texts written st' result)
  let ?gr = "gr \<lparr> g_BuiltIn := IsBuiltInName (g_Name gr) \<rparr>"
  show ?case
  proof (cases "g_Name gr = []")
    case False
    then have "registry_ok (Registry_Upsert ?gr (gs_Registry st))"
      using upsert EntitlementSet_Parse_well_formed by (intro registry_ok_Upsert) auto
    with False upsert file_ok_Save [of st _ written] show ?thesis
      by (auto simp: GroupStore_Upsert_def Let_def Save_file split: if_splits)
  qed (use upsert in \<open>simp add: GroupStore_Upsert_def\<close>)
next
  case (remove st written name st' result)
  show ?case
  proof (cases "IsBuiltInName name \<or> Registry_Find name (gs_Registry st) = None")
    case False
    let ?groups = "filter (\<lambda>gr. g_Name gr \<noteq> name) (gs_Registry st)"
    have "registry_ok ?groups" using remove False by (intro registry_ok_remove) auto
    moreover have "foldl (\<lambda>rebuilt gr. if g_Name gr \<noteq> name then Registry_Upsert gr rebuilt else rebuilt) [] (gs_Registry st)
        = ?groups"
      using remove rebuild_filter [of "[]" "gs_Registry st" name] by (simp add: registry_ok_def)
    moreover note file_ok_Save [of st ?groups written]
    ultimately show ?thesis using False remove
      by (auto simp: GroupStore_Remove_def Save_file Let_def split: if_splits)
  qed (use remove in \<open>auto simp: GroupStore_Remove_def split: if_splits\<close>)
next
  case (restart st written st')
  then obtain groups where g: "registry_ok groups" "gs_File st = Some (groups_document_of groups)"
    by (auto simp: file_ok_def)
  with restart have "st' = \<lparr> gs_Registry = map read_group (groups_document_of groups), gs_File = gs_File st \<rparr>"
    by (simp add: GroupStore_Load_def load_saved_groups)
  with g registry_ok_read show ?case by (auto simp: file_ok_def)
qed

text \<open>
  Whatever edits and restarts a group store went through, with writes that may fail, its three
  built-in groups exist and they alone are flagged as built in, no two groups share a name; and once
  the store has been written, a restart finds the same groups with the same entitlements.
\<close>

theorem groups_survive:
  assumes "group_history st"
  shows "distinct (map g_Name (gs_Registry st))
     \<and> {EVERYONE, GUEST, ADMINISTRATORS} \<subseteq> set (map g_Name (gs_Registry st))
     \<and> list_all (\<lambda>gr. g_BuiltIn gr = (g_Name gr \<in> {EVERYONE, GUEST, ADMINISTRATORS})) (gs_Registry st)
     \<and> (\<exists>st'. GroupStore_Load written (gs_File (GroupStore_Save True st)) = Some st'
          \<and> same_groups (gs_Registry st') (gs_Registry st))"
proof -
  have ok: "registry_ok (gs_Registry st)" using group_history_ok [OF assms] by simp
  then have "GroupStore_Load written (gs_File (GroupStore_Save True st))
      = Some \<lparr> gs_Registry = map read_group (groups_document_of (gs_Registry st)),
               gs_File = Some (groups_document_of (gs_Registry st)) \<rparr>"
    by (simp add: GroupStore_Load_def Save_file load_saved_groups)
  moreover obtain others where "map g_Name (gs_Registry st) = EVERYONE # GUEST # ADMINISTRATORS # others"
    using ok by (auto simp: registry_ok_def)
  then have "{EVERYONE, GUEST, ADMINISTRATORS} \<subseteq> set (map g_Name (gs_Registry st))" by (metis insert_subset list.set_intros empty_subsetI)
  ultimately show ?thesis
    using ok same_groups_read [OF ok] by (simp add: registry_ok_def list_all_iff IsBuiltInName_def)
qed

definition sample_history :: "GroupStore list" where
  "sample_history =
     (let started = the (GroupStore_Load True None);
          custom = \<lparr> g_Name = ''pool'', g_Entitlements = fst (EntitlementSet_Parse [''schedules.view'']), g_BuiltIn = True \<rparr>;
          edited = fst (GroupStore_Upsert True custom started)
      in [started, edited, fst (GroupStore_Remove False ''pool'' edited)])"

theorem groups_survive_witness:
  "{EVERYONE, GUEST, ADMINISTRATORS} \<subseteq> set (map g_Name (gs_Registry (last sample_history)))
   \<and> (\<exists>st'. GroupStore_Load False (gs_File (GroupStore_Save True (last sample_history))) = Some st'
        \<and> same_groups (gs_Registry st') (gs_Registry (last sample_history)))"
proof -
  have "group_history (the (GroupStore_Load True None))"
    by (rule group_history.first_start) (simp add: GroupStore_Load_def)
  then have "group_history (fst (GroupStore_Upsert True \<lparr> g_Name = ''pool'',
      g_Entitlements = fst (EntitlementSet_Parse [''schedules.view'']), g_BuiltIn = True \<rparr> (the (GroupStore_Load True None))))"
    by (rule group_history.upsert [OF _ _ prod.collapse [symmetric]]) simp
  then have "group_history (last sample_history)"
    unfolding sample_history_def Let_def
    by (simp add: group_history.remove [OF _ prod.collapse [symmetric]])
  from groups_survive [OF this, of False] show ?thesis by blast
qed

end
