(* ===== verification/User_Store.thy ===== *)
theory User_Store
  imports Entitlement
begin

text \<open>
  Local accounts (\<open>user_store.cpp\<close>) and the first administrator (\<open>bootstrap.cpp\<close>). The
  JSON document of the store is the list of its entries with their fields; a password hash is an opaque
  text, a fresh id is an argument of the operation that needs one, and so is whether the write of the
  file succeeds.
\<close>

section \<open>Finding, replacing and erasing in a list\<close>

text \<open>What \<open>find_if\<close> followed by an assignment through the iterator or by \<open>erase\<close> does.\<close>

fun replace_where :: "('a \<Rightarrow> bool) \<Rightarrow> 'a \<Rightarrow> 'a list \<Rightarrow> 'a list" where
  "replace_where p y [] = []"
| "replace_where p y (x # xs) = (if p x then y # xs else x # replace_where p y xs)"

fun erase_where :: "('a \<Rightarrow> bool) \<Rightarrow> 'a list \<Rightarrow> 'a list" where
  "erase_where p [] = []"
| "erase_where p (x # xs) = (if p x then xs else x # erase_where p xs)"

lemma replace_where_split:
  "find p xs = Some x \<Longrightarrow>
   \<exists>us vs. xs = us @ x # vs \<and> p x \<and> (\<forall>u \<in> set us. \<not> p u)
     \<and> (\<forall>y. replace_where p y xs = us @ y # vs) \<and> erase_where p xs = us @ vs"
proof (induction xs)
  case (Cons a xs)
  show ?case
  proof (cases "p a")
    case False
    with Cons obtain us vs where "xs = us @ x # vs \<and> p x \<and> (\<forall>u \<in> set us. \<not> p u)
     \<and> (\<forall>y. replace_where p y xs = us @ y # vs) \<and> erase_where p xs = us @ vs" by auto
    with False show ?thesis by - (rule exI [of _ "a # us"], rule exI [of _ vs], auto)
  next
    case True
    with Cons.prems show ?thesis by - (rule exI [of _ "[]"], rule exI [of _ xs], auto)
  qed
qed simp

lemma find_append: "find p (xs @ ys) = (case find p xs of None \<Rightarrow> find p ys | Some x \<Rightarrow> Some x)"
  by (induction xs) auto

lemma erase_where_skip: "\<forall>x \<in> set xs. \<not> p x \<Longrightarrow> erase_where p (xs @ ys) = xs @ erase_where p ys"
  by (induction xs) auto

lemma set_erase_where: "set (erase_where p xs) \<subseteq> set xs"
  by (induction xs) auto

lemma set_replace_where: "set (replace_where p y xs) \<subseteq> insert y (set xs)"
  by (induction xs) auto

section \<open>Accounts\<close>

record UserRecord =
  u_Id :: string
  u_Username :: string
  u_PasswordHash :: string
  u_Groups :: "string list"
  u_DirectEntitlements :: EntitlementSet
  u_TokenVersion :: "32 word"
  u_Disabled :: bool

definition new_user :: UserRecord where
  "new_user = \<lparr> u_Id = [], u_Username = [], u_PasswordHash = [], u_Groups = [],
     u_DirectEntitlements = [], u_TokenVersion = 1, u_Disabled = False \<rparr>"

text \<open>One object of the array of the file, its members in the order \<open>ToJson\<close> writes them.\<close>

record user_entry =
  k_id :: string
  k_username :: string
  k_password_hash :: string
  k_groups :: "string list"
  k_direct_entitlements :: "string list"
  k_tokver :: "32 word"
  k_disabled :: bool

record UserStore =
  us_Users :: "UserRecord list"
  us_File :: "user_entry list option"

definition UsernameEquals :: "string \<Rightarrow> string \<Rightarrow> bool" where
  "UsernameEquals lhs rhs \<longleftrightarrow> list_all2 (\<lambda>a b. tolower a = tolower b) lhs rhs"

definition ResolvesSystemAdmin :: "UserRecord \<Rightarrow> GroupRegistry \<Rightarrow> bool" where
  "ResolvesSystemAdmin user registry =
     Permits (ResolveEffectiveEntitlements registry (u_DirectEntitlements user) (u_Groups user)) SYSTEM_ADMIN []"

definition User_ToJson :: "UserRecord \<Rightarrow> user_entry" where
  "User_ToJson user = \<lparr> k_id = u_Id user, k_username = u_Username user,
     k_password_hash = u_PasswordHash user, k_groups = u_Groups user,
     k_direct_entitlements = ToStrings (u_DirectEntitlements user),
     k_tokver = u_TokenVersion user, k_disabled = u_Disabled user \<rparr>"

definition User_FromJson :: "user_entry \<Rightarrow> UserRecord" where
  "User_FromJson json = \<lparr> u_Id = k_id json, u_Username = k_username json,
     u_PasswordHash = k_password_hash json, u_Groups = k_groups json,
     u_DirectEntitlements = fst (EntitlementSet_Parse (k_direct_entitlements json)),
     u_TokenVersion = k_tokver json, u_Disabled = k_disabled json \<rparr>"

section \<open>The store\<close>

definition UserStore_Load :: "user_entry list option \<Rightarrow> UserStore" where
  "UserStore_Load file =
     \<lparr> us_Users = (case file of Some users \<Rightarrow> map User_FromJson users | None \<Rightarrow> []), us_File = file \<rparr>"

definition UserStore_Save :: "bool \<Rightarrow> UserStore \<Rightarrow> UserStore" where
  "UserStore_Save written store =
     (if written then store \<lparr> us_File := Some (map User_ToJson (us_Users store)) \<rparr> else store)"

definition FindById :: "string \<Rightarrow> UserStore \<Rightarrow> UserRecord option" where
  "FindById ident store = find (\<lambda>user. u_Id user = ident) (us_Users store)"

definition FindByUsername :: "string \<Rightarrow> UserStore \<Rightarrow> UserRecord option" where
  "FindByUsername username store = find (\<lambda>user. UsernameEquals (u_Username user) username) (us_Users store)"

definition UserStore_Create ::
    "bool \<Rightarrow> string \<Rightarrow> UserRecord \<Rightarrow> UserStore \<Rightarrow> UserStore \<times> outcome" where
  "UserStore_Create written new_uuid user store =
     (if u_Username user = [] \<or> u_PasswordHash user = [] then (store, Refused ''Username and password are required'')
      else if FindByUsername (u_Username user) store \<noteq> None then (store, Refused ''Username already exists'')
      else
        let user = (if u_Id user = [] then user \<lparr> u_Id := new_uuid \<rparr> else user)
        in (UserStore_Save written (store \<lparr> us_Users := us_Users store @ [user] \<rparr>), saved_outcome written))"

definition HasEnabledAdmin :: "GroupRegistry \<Rightarrow> UserStore \<Rightarrow> bool" where
  "HasEnabledAdmin registry store \<longleftrightarrow>
     list_ex (\<lambda>user. \<not> u_Disabled user \<and> ResolvesSystemAdmin user registry) (us_Users store)"

text \<open>
  \<open>WouldLoseLastAdmin\<close>: the accounts as they would be after the change, every account with the id
  of the changed one replaced, or dropped when there is no replacement.
\<close>

definition WouldLoseLastAdmin ::
    "UserRecord \<Rightarrow> UserRecord option \<Rightarrow> GroupRegistry \<Rightarrow> UserStore \<Rightarrow> bool" where
  "WouldLoseLastAdmin changed_or_removed replacement registry store =
     (let effective = (\<lambda>user. if u_Id user = u_Id changed_or_removed then replacement else Some user);
          admins_after = length (filter
            (\<lambda>user. case effective user of
                      None \<Rightarrow> False
                    | Some e \<Rightarrow> \<not> u_Disabled e \<and> ResolvesSystemAdmin e registry) (us_Users store))
      in HasEnabledAdmin registry store \<and> admins_after = 0)"

definition LAST_ADMIN_REFUSED :: string where
  "LAST_ADMIN_REFUSED = ''Refused: this change would remove the last enabled administrator''"

definition UserStore_Update ::
    "bool \<Rightarrow> UserRecord \<Rightarrow> GroupRegistry \<Rightarrow> UserStore \<Rightarrow> UserStore \<times> outcome" where
  "UserStore_Update written user registry store =
     (case FindById (u_Id user) store of
        None \<Rightarrow> (store, Refused ''User not found'')
      | Some existing \<Rightarrow>
          if (case FindByUsername (u_Username user) store of
                None \<Rightarrow> False | Some duplicate \<Rightarrow> u_Id duplicate \<noteq> u_Id user)
          then (store, Refused ''Username already exists'')
          else if WouldLoseLastAdmin existing (Some user) registry store then (store, Refused LAST_ADMIN_REFUSED)
          else (UserStore_Save written (store \<lparr> us_Users :=
                  replace_where (\<lambda>existing. u_Id existing = u_Id user) user (us_Users store) \<rparr>),
                saved_outcome written))"

definition UserStore_Remove ::
    "bool \<Rightarrow> string \<Rightarrow> GroupRegistry \<Rightarrow> UserStore \<Rightarrow> UserStore \<times> outcome" where
  "UserStore_Remove written ident registry store =
     (case FindById ident store of
        None \<Rightarrow> (store, Refused ''User not found'')
      | Some existing \<Rightarrow>
          if WouldLoseLastAdmin existing None registry store then (store, Refused LAST_ADMIN_REFUSED)
          else (UserStore_Save written (store \<lparr> us_Users := erase_where (\<lambda>user. u_Id user = ident) (us_Users store) \<rparr>),
                saved_outcome written))"

definition BumpTokenVersion :: "bool \<Rightarrow> string \<Rightarrow> UserStore \<Rightarrow> UserStore \<times> 32 word" where
  "BumpTokenVersion written ident store =
     (case FindById ident store of
        None \<Rightarrow> (store, 0)
      | Some user \<Rightarrow>
          let bumped = user \<lparr> u_TokenVersion := u_TokenVersion user + 1 \<rparr>
          in (UserStore_Save written (store \<lparr> us_Users :=
                replace_where (\<lambda>user. u_Id user = ident) bumped (us_Users store) \<rparr>), u_TokenVersion bumped))"

section \<open>The first administrator\<close>

definition MIN_PASSWORD_LENGTH :: nat where "MIN_PASSWORD_LENGTH = 12"

definition ValidatePasswordPolicy :: "string \<Rightarrow> string option" where
  "ValidatePasswordPolicy password =
     (if length password < MIN_PASSWORD_LENGTH then Some ''Password must be at least 12 characters'' else None)"

definition BootstrapAdminWithHash ::
    "bool \<Rightarrow> string \<Rightarrow> string \<Rightarrow> string \<Rightarrow> UserStore \<Rightarrow> UserStore \<times> outcome" where
  "BootstrapAdminWithHash written new_uuid username password_hash users =
     (if us_Users users \<noteq> [] then (users, Refused ''Setup has already been completed'')
      else if username = [] then (users, Refused ''Username is required'')
      else UserStore_Create written new_uuid
             (new_user \<lparr> u_Username := username, u_PasswordHash := password_hash, u_Groups := [ADMINISTRATORS] \<rparr>)
             users)"

definition BootstrapAdmin ::
    "(string \<Rightarrow> string) \<Rightarrow> bool \<Rightarrow> string \<Rightarrow> string \<Rightarrow> string \<Rightarrow> UserStore \<Rightarrow> UserStore \<times> outcome" where
  "BootstrapAdmin Hash written new_uuid username password users =
     (case ValidatePasswordPolicy password of
        Some policy_error \<Rightarrow> (users, Refused policy_error)
      | None \<Rightarrow> BootstrapAdminWithHash written new_uuid username (Hash password) users)"

section \<open>Accounts stay apart and an administrator stays\<close>

definition lower :: "string \<Rightarrow> string" where "lower s = map tolower s"

lemma UsernameEquals_lower: "UsernameEquals lhs rhs \<longleftrightarrow> lower lhs = lower rhs"
  unfolding UsernameEquals_def lower_def by (subst list.rel_eq [symmetric]) (simp add: list.rel_map)

definition users_ok :: "UserStore \<Rightarrow> bool" where
  "users_ok store \<longleftrightarrow> distinct (map u_Id (us_Users store)) \<and> distinct (map (lower \<circ> u_Username) (us_Users store))"

lemma FindByUsername_None: "FindByUsername n store = None \<longleftrightarrow> lower n \<notin> (lower \<circ> u_Username) ` set (us_Users store)"
  by (force simp: FindByUsername_def find_None_iff UsernameEquals_lower)

lemma Save_users [simp]: "us_Users (UserStore_Save written store) = us_Users store"
  by (simp add: UserStore_Save_def)

lemma FindById_split:
  assumes "FindById i store = Some x"
  obtains us vs where "us_Users store = us @ x # vs" "u_Id x = i" "\<forall>u \<in> set us. u_Id u \<noteq> i"
    "\<forall>y. replace_where (\<lambda>user. u_Id user = i) y (us_Users store) = us @ y # vs"
    "erase_where (\<lambda>user. u_Id user = i) (us_Users store) = us @ vs"
  using replace_where_split [OF assms [unfolded FindById_def]] by blast

lemma would_lose_exact:
  assumes "distinct (map u_Id (us_Users store))" "us_Users store = us @ x # vs"
  shows "WouldLoseLastAdmin x replacement registry store \<longleftrightarrow>
    HasEnabledAdmin registry store
    \<and> \<not> HasEnabledAdmin registry (store \<lparr> us_Users := us @ (case replacement of None \<Rightarrow> [] | Some y \<Rightarrow> [y]) @ vs \<rparr>)"
proof -
  have "u_Id u \<noteq> u_Id x" if "u \<in> set us \<union> set vs" for u using assms that by (auto simp: image_iff)
  then show ?thesis
    using assms(2) by (auto simp: WouldLoseLastAdmin_def Let_def filter_empty_conv HasEnabledAdmin_def list_ex_iff
        split: option.splits)
qed

text \<open>One operation on the store; a created account brings no id or one that is not in use.\<close>

inductive user_step :: "GroupRegistry \<Rightarrow> UserStore \<Rightarrow> UserStore \<Rightarrow> bool" for registry where
  create: "UserStore_Create written new_uuid user st = (st', result) \<Longrightarrow>
     {new_uuid, u_Id user} \<inter> u_Id ` set (us_Users st) = {} \<Longrightarrow> user_step registry st st'"
| update: "UserStore_Update written user registry st = (st', result) \<Longrightarrow> user_step registry st st'"
| remove: "UserStore_Remove written i registry st = (st', result) \<Longrightarrow> user_step registry st st'"
| bump: "BumpTokenVersion written i st = (st', v) \<Longrightarrow> user_step registry st st'"

lemma update_users_ok:
  assumes "users_ok st" "us_Users st = us @ x # vs" "u_Id y = u_Id x"
    and "lower (u_Username y) = lower (u_Username x) \<or> lower (u_Username y) \<notin> (lower \<circ> u_Username) ` set (us_Users st)"
  shows "users_ok (st \<lparr> us_Users := us @ y # vs \<rparr>)"
  using assms by (auto simp: users_ok_def image_iff)

lemma step_keeps_users_ok: "user_step registry st st' \<Longrightarrow> users_ok st \<Longrightarrow> users_ok st'"
proof (induction rule: user_step.induct)
  case (create written new_uuid user st st' result)
  then show ?case
    by (auto simp: UserStore_Create_def Let_def users_ok_def FindByUsername_None split: if_splits)
next
  case (update written user st st' result)
  show ?case
  proof (cases "FindById (u_Id user) st")
    case (Some x)
    from Some obtain us vs where sp: "us_Users st = us @ x # vs" "u_Id x = u_Id user"
      "\<forall>y. replace_where (\<lambda>e. u_Id e = u_Id user) y (us_Users st) = us @ y # vs"
      by (rule FindById_split) blast
    have "lower (u_Username user) = lower (u_Username x)"
      if d: "FindByUsername (u_Username user) st = Some d" "u_Id d = u_Id user" for d
    proof -
      have "d \<in> set (us_Users st)" "lower (u_Username d) = lower (u_Username user)"
        using d by (auto simp: FindByUsername_def find_Some_iff UsernameEquals_lower)
      moreover have "d = x" if "d \<in> set (us_Users st)"
        using that d(2) sp update.prems by (auto simp: users_ok_def image_iff)
      ultimately show ?thesis by simp
    qed
    then have "users_ok (st \<lparr> us_Users := us @ user # vs \<rparr>)"
      if "\<not> (case FindByUsername (u_Username user) st of None \<Rightarrow> False | Some d \<Rightarrow> u_Id d \<noteq> u_Id user)"
      using that update.prems sp FindByUsername_None [of "u_Username user" st]
      by (intro update_users_ok [of _ _ x]) (auto split: option.splits)
    with Some update sp(3) show ?thesis
      by (auto simp: UserStore_Update_def users_ok_def split: if_splits)
  qed (use update in \<open>simp add: UserStore_Update_def\<close>)
next
  case (remove written i st st' result)
  show ?case
  proof (cases "FindById i st")
    case (Some x)
    then obtain us vs where "us_Users st = us @ x # vs"
      "erase_where (\<lambda>user. u_Id user = i) (us_Users st) = us @ vs" by (rule FindById_split) blast
    with Some remove show ?thesis
      by (auto simp: UserStore_Remove_def users_ok_def split: if_splits)
  qed (use remove in \<open>simp add: UserStore_Remove_def\<close>)
next
  case (bump written i st st' v)
  show ?case
  proof (cases "FindById i st")
    case (Some x)
    then obtain us vs where "us_Users st = us @ x # vs"
      "\<forall>y. replace_where (\<lambda>user. u_Id user = i) y (us_Users st) = us @ y # vs" by (rule FindById_split) blast
    with Some bump show ?thesis by (auto simp: BumpTokenVersion_def users_ok_def Let_def)
  qed (use bump in \<open>simp add: BumpTokenVersion_def\<close>)
qed

lemma step_keeps_admin:
  "user_step registry st st' \<Longrightarrow> users_ok st \<Longrightarrow> HasEnabledAdmin registry st \<Longrightarrow> HasEnabledAdmin registry st'"
proof (induction rule: user_step.induct)
  case (create written new_uuid user st st' result)
  then show ?case
    by (auto simp: UserStore_Create_def Let_def HasEnabledAdmin_def split: if_splits)
next
  case (update written user st st' result)
  show ?case
  proof (cases "FindById (u_Id user) st")
    case (Some x)
    from Some obtain us vs where sp: "us_Users st = us @ x # vs"
      "\<forall>y. replace_where (\<lambda>e. u_Id e = u_Id user) y (us_Users st) = us @ y # vs"
      by (rule FindById_split) blast
    with Some update would_lose_exact [OF _ sp(1), of "Some user" registry] show ?thesis
      by (auto simp: UserStore_Update_def users_ok_def HasEnabledAdmin_def split: if_splits option.splits)
  qed (use update in \<open>simp add: UserStore_Update_def\<close>)
next
  case (remove written i st st' result)
  show ?case
  proof (cases "FindById i st")
    case (Some x)
    from Some obtain us vs where sp: "us_Users st = us @ x # vs"
      "erase_where (\<lambda>user. u_Id user = i) (us_Users st) = us @ vs" by (rule FindById_split) blast
    with Some remove would_lose_exact [OF _ sp(1), of None registry] show ?thesis
      by (auto simp: UserStore_Remove_def users_ok_def HasEnabledAdmin_def split: if_splits)
  qed (use remove in \<open>simp add: UserStore_Remove_def\<close>)
next
  case (bump written i st st' v)
  show ?case
  proof (cases "FindById i st")
    case (Some x)
    then obtain us vs where "us_Users st = us @ x # vs"
      "\<forall>y. replace_where (\<lambda>user. u_Id user = i) y (us_Users st) = us @ y # vs" by (rule FindById_split) blast
    with Some bump show ?thesis
      by (auto simp: BumpTokenVersion_def Let_def HasEnabledAdmin_def ResolvesSystemAdmin_def)
  qed (use bump in \<open>simp add: BumpTokenVersion_def\<close>)
qed

text \<open>
  C28: whatever operations a store goes through, each applied, refused or interrupted by a failing
  write, ids stay different, names stay different without regard to case, and once an enabled account
  resolves to administrator there always is one.
\<close>

theorem last_admin_protected:
  assumes "(user_step registry)\<^sup>*\<^sup>* st st'" "users_ok st"
  shows "users_ok st' \<and> (HasEnabledAdmin registry st \<longrightarrow> HasEnabledAdmin registry st')"
  using assms
proof (induction rule: rtranclp_induct)
  case (step y z)
  then show ?case using step_keeps_users_ok step_keeps_admin by blast
qed simp


section \<open>What the protection does not cover\<close>

text \<open>The rest of a registry: every group but the given one.\<close>

definition others :: "string \<Rightarrow> GroupRegistry \<Rightarrow> GroupRegistry" where
  "others n groups = filter (\<lambda>gr. g_Name gr \<noteq> n) groups"

lemma Find_others: "Registry_Find m (others n groups) = (if m = n then None else Registry_Find m groups)"
  unfolding others_def Registry_Find_def by (induction groups) auto

lemma granted_emptied:
  "g_Name gr = n \<Longrightarrow> g_Entitlements gr = [] \<Longrightarrow>
   granted (Registry_Upsert gr groups) direct memberships = granted (others n groups) direct memberships"
  by (auto simp: granted_def Find_Upsert Find_others split: if_splits)

text \<open>
  The protection of the last administrator looks at changes of accounts only. When no enabled
  account would be an administrator without the group \<open>Administrators\<close>, the store of groups still
  accepts an empty set for that built-in group, and then there is no enabled administrator left.
\<close>

theorem group_edit_loses_admin:
  assumes "list_all (\<lambda>u. u_Disabled u \<or> \<not> ResolvesSystemAdmin u (others ADMINISTRATORS (gs_Registry groups)))
             (us_Users users)"
    and "g_Name gr = ADMINISTRATORS" "g_Entitlements gr = []"
  shows "snd (GroupStore_Upsert True gr groups) = Applied
     \<and> \<not> HasEnabledAdmin (gs_Registry (fst (GroupStore_Upsert True gr groups))) users"
  using assms
  by (auto simp: GroupStore_Upsert_def Let_def Save_file saved_outcome_def HasEnabledAdmin_def list_ex_iff
      list_all_iff ResolvesSystemAdmin_def Permits_covers granted_emptied)

definition sample_admin :: UserRecord where
  "sample_admin = new_user \<lparr> u_Id := ''u1'', u_Username := ''Ann'', u_PasswordHash := ''h'', u_Groups := [ADMINISTRATORS] \<rparr>"

definition sample_users :: UserStore where
  "sample_users = fst (BootstrapAdminWithHash True ''u1'' ''Ann'' ''h'' (UserStore_Load None))"

lemma sample_users_list: "us_Users sample_users = [sample_admin]"
  by (simp add: sample_users_def BootstrapAdminWithHash_def UserStore_Load_def UserStore_Create_def
      FindByUsername_def Let_def sample_admin_def new_user_def)

lemma sample_admin_resolves: "ResolvesSystemAdmin sample_admin WithBuiltIns"
  by (auto simp: ResolvesSystemAdmin_def Permits_covers granted_def sample_admin_def WithBuiltIns_list
      Registry_Find_def covers_def)

lemma same_names: "lower ''Ann'' = lower ''aNN''"
  by code_simp

theorem last_admin_protected_witness:
  "UserStore_Create True ''u2'' (new_user \<lparr> u_Username := ''aNN'', u_PasswordHash := ''x'' \<rparr>) sample_users
     = (sample_users, Refused ''Username already exists'')
   \<and> HasEnabledAdmin WithBuiltIns (fst (UserStore_Remove True ''u1'' WithBuiltIns sample_users))"
proof
  show "UserStore_Create True ''u2'' (new_user \<lparr> u_Username := ''aNN'', u_PasswordHash := ''x'' \<rparr>) sample_users
     = (sample_users, Refused ''Username already exists'')"
    using same_names by (simp add: UserStore_Create_def FindByUsername_def sample_users_list UsernameEquals_lower
        sample_admin_def)
next
  have ok: "users_ok sample_users" by (simp add: users_ok_def sample_users_list)
  have "user_step WithBuiltIns sample_users (fst (UserStore_Remove True ''u1'' WithBuiltIns sample_users))"
    by (rule user_step.remove [OF prod.collapse [symmetric]])
  then have "(user_step WithBuiltIns)\<^sup>*\<^sup>* sample_users (fst (UserStore_Remove True ''u1'' WithBuiltIns sample_users))"
    by blast
  from last_admin_protected [OF this ok]
  show "HasEnabledAdmin WithBuiltIns (fst (UserStore_Remove True ''u1'' WithBuiltIns sample_users))"
    using sample_admin_resolves
    by (simp add: HasEnabledAdmin_def [of WithBuiltIns sample_users] sample_users_list sample_admin_def new_user_def)
qed

theorem group_edit_loses_admin_witness:
  "HasEnabledAdmin (gs_Registry (the (GroupStore_Load True None))) sample_users
   \<and> \<not> HasEnabledAdmin (gs_Registry (fst (GroupStore_Upsert True
          \<lparr> g_Name = ADMINISTRATORS, g_Entitlements = [], g_BuiltIn = False \<rparr> (the (GroupStore_Load True None))))) sample_users"
proof -
  have r: "gs_Registry (the (GroupStore_Load True None)) = WithBuiltIns"
    by (simp add: GroupStore_Load_def Save_file)
  have "\<not> ResolvesSystemAdmin sample_admin (others ADMINISTRATORS WithBuiltIns)"
    by (auto simp: ResolvesSystemAdmin_def Permits_covers granted_def sample_admin_def WithBuiltIns_list
        Registry_Find_def others_def new_user_def)
  then show ?thesis
    using group_edit_loses_admin [of "the (GroupStore_Load True None)" sample_users
        "\<lparr> g_Name = ADMINISTRATORS, g_Entitlements = [], g_BuiltIn = False \<rparr>"] sample_admin_resolves
    by (simp add: r sample_users_list HasEnabledAdmin_def [of WithBuiltIns sample_users])
      (simp add: sample_admin_def new_user_def)
qed

end
