(* ===== verification/Credential_Store.thy ===== *)
theory Credential_Store
  imports Main
begin

text \<open>
  The contract between a store of credentials and whoever relies on a revocation: its steps never bring
  a dead credential back, and a dead credential is not accepted. The session store and the store of API
  keys provide it for the digest of a secret.
\<close>

locale credential_store =
  fixes step :: "'s \<Rightarrow> 's \<Rightarrow> bool"
    and dead :: "'s \<Rightarrow> bool"
    and accepts :: "'s \<Rightarrow> bool"
  assumes dead_step: "step st st' \<Longrightarrow> dead st \<Longrightarrow> dead st'"
    and dead_refused: "dead st \<Longrightarrow> \<not> accepts st"
begin

lemma stays_dead: "step\<^sup>*\<^sup>* st st' \<Longrightarrow> dead st \<Longrightarrow> dead st'"
  by (induction rule: rtranclp_induct) (auto intro: dead_step)

lemma never_accepted: "dead st \<Longrightarrow> step\<^sup>*\<^sup>* st st' \<Longrightarrow> \<not> accepts st'"
  using stays_dead dead_refused by blast

end

end
