(* ===== verification/Session_Store.thy ===== *)
theory Session_Store
  imports User_Store Credential_Store
begin

text \<open>
  Refresh sessions (\<open>session_store.cpp\<close>): one record per login, holding the digest of the current
  refresh secret and of the one before it. The digest function (SHA-256 of OpenSSL), the random bytes a
  secret is made of, fresh ids and whether a write succeeds are parameters. A draw of random bytes that
  fails, like a failing write, throws out of the operation.
\<close>

section \<open>Records\<close>

record SessionRecord =
  n_Id :: string
  n_UserId :: string
  n_RefreshDigest :: string
  n_PreviousDigest :: string
  n_IssuedUnix :: int
  n_ExpiryUnix :: int
  n_LastSeenUnix :: int
  n_UserAgent :: string
  n_PeerIp :: string

record SessionStore =
  ns_Sessions :: "SessionRecord list"
  ns_File :: "SessionRecord list option"

text \<open>What a call comes to for its caller: a value, or an exception.\<close>

datatype 'a attempt = Returned 'a | Thrown

definition HEX_DIGITS :: string where "HEX_DIGITS = ''0123456789abcdef''"

definition REFRESH_PREFIX :: string where "REFRESH_PREFIX = ''art_''"

fun ToHex :: "u8 list \<Rightarrow> string" where
  "ToHex [] = []"
| "ToHex (b # bytes) = HEX_DIGITS ! unat (drop_bit 4 b) # HEX_DIGITS ! unat (and b 0x0F) # ToHex bytes"

text \<open>\<open>GenerateSecret\<close> on the bytes drawn; \<open>None\<close> when the draw failed.\<close>

definition GenerateSecret :: "u8 list option \<Rightarrow> string option" where
  "GenerateSecret random_bytes = map_option (\<lambda>bytes. REFRESH_PREFIX @ ToHex bytes) random_bytes"

section \<open>Operations\<close>

definition SessionStore_Load :: "SessionRecord list option \<Rightarrow> SessionStore" where
  "SessionStore_Load file =
     \<lparr> ns_Sessions = (case file of Some sessions \<Rightarrow> sessions | None \<Rightarrow> []), ns_File = file \<rparr>"

definition SessionStore_Save :: "bool \<Rightarrow> SessionStore \<Rightarrow> SessionStore" where
  "SessionStore_Save written store =
     (if written then store \<lparr> ns_File := Some (ns_Sessions store) \<rparr> else store)"

definition saved :: "bool \<Rightarrow> 'a \<Rightarrow> 'a attempt" where
  "saved written result = (if written then Returned result else Thrown)"

definition ForUser :: "string \<Rightarrow> SessionStore \<Rightarrow> SessionRecord list" where
  "ForUser user_id store = filter (\<lambda>s. n_UserId s = user_id) (ns_Sessions store)"

definition SessionStore_Create ::
    "(string \<Rightarrow> string) \<Rightarrow> u8 list option \<Rightarrow> string \<Rightarrow> bool \<Rightarrow> string \<Rightarrow> int \<Rightarrow> string \<Rightarrow> string \<Rightarrow> int
     \<Rightarrow> SessionStore \<Rightarrow> SessionStore \<times> (string \<times> string) attempt" where
  "SessionStore_Create Sha256Hex random new_uuid written user_id expiry_unix user_agent peer_ip now_unix store =
     (case GenerateSecret random of
        None \<Rightarrow> (store, Thrown)
      | Some secret \<Rightarrow>
          let session = \<lparr> n_Id = new_uuid, n_UserId = user_id, n_RefreshDigest = Sha256Hex secret,
                n_PreviousDigest = [], n_IssuedUnix = now_unix, n_ExpiryUnix = expiry_unix,
                n_LastSeenUnix = now_unix, n_UserAgent = user_agent, n_PeerIp = peer_ip \<rparr>
          in (SessionStore_Save written (store \<lparr> ns_Sessions := ns_Sessions store @ [session] \<rparr>),
              saved written (secret, new_uuid)))"

record RotateResult =
  Success :: bool
  ReuseDetected :: bool
  NewRefreshSecret :: string
  SessionId :: string
  UserId :: string

definition no_rotation :: RotateResult where
  "no_rotation = \<lparr> Success = False, ReuseDetected = False, NewRefreshSecret = [], SessionId = [], UserId = [] \<rparr>"

definition Rotate ::
    "(string \<Rightarrow> string) \<Rightarrow> u8 list option \<Rightarrow> bool \<Rightarrow> string \<Rightarrow> int
     \<Rightarrow> SessionStore \<Rightarrow> SessionStore \<times> RotateResult attempt" where
  "Rotate Sha256Hex random written presented_secret now_unix store =
     (if presented_secret = [] then (store, Returned no_rotation)
      else
        let digest = Sha256Hex presented_secret
        in case find (\<lambda>s. n_PreviousDigest s = digest) (ns_Sessions store) of
             Some reused \<Rightarrow>
               (SessionStore_Save written (store \<lparr> ns_Sessions :=
                  erase_where (\<lambda>s. n_PreviousDigest s = digest) (ns_Sessions store) \<rparr>),
                saved written (no_rotation \<lparr> ReuseDetected := True, SessionId := n_Id reused,
                                             UserId := n_UserId reused \<rparr>))
           | None \<Rightarrow>
               (case find (\<lambda>s. n_RefreshDigest s = digest) (ns_Sessions store) of
                  None \<Rightarrow> (store, Returned no_rotation)
                | Some it \<Rightarrow>
                    if now_unix \<ge> n_ExpiryUnix it
                    then (SessionStore_Save written (store \<lparr> ns_Sessions :=
                            erase_where (\<lambda>s. n_RefreshDigest s = digest) (ns_Sessions store) \<rparr>),
                          saved written no_rotation)
                    else
                      case GenerateSecret random of
                        None \<Rightarrow> (store, Thrown)
                      | Some new_secret \<Rightarrow>
                          let rotated = it \<lparr> n_PreviousDigest := n_RefreshDigest it,
                                             n_RefreshDigest := Sha256Hex new_secret,
                                             n_LastSeenUnix := now_unix \<rparr>
                          in (SessionStore_Save written (store \<lparr> ns_Sessions :=
                                replace_where (\<lambda>s. n_RefreshDigest s = digest) rotated (ns_Sessions store) \<rparr>),
                              saved written \<lparr> Success = True, ReuseDetected = False,
                                NewRefreshSecret = new_secret, SessionId = n_Id it, UserId = n_UserId it \<rparr>)))"

text \<open>\<open>erase_if\<close> and a write when it removed something; the result is the number removed.\<close>

definition erase_sessions ::
    "bool \<Rightarrow> (SessionRecord \<Rightarrow> bool) \<Rightarrow> SessionStore \<Rightarrow> SessionStore \<times> nat attempt" where
  "erase_sessions written p store =
     (let kept = filter (\<lambda>s. \<not> p s) (ns_Sessions store);
          removed = length (ns_Sessions store) - length kept
      in if removed > 0 then (SessionStore_Save written (store \<lparr> ns_Sessions := kept \<rparr>), saved written removed)
         else (store, Returned removed))"

fun removed_any :: "nat attempt \<Rightarrow> bool attempt" where
  "removed_any (Returned n) = Returned (n > 0)"
| "removed_any Thrown = Thrown"

definition RevokeByRefresh ::
    "(string \<Rightarrow> string) \<Rightarrow> bool \<Rightarrow> string \<Rightarrow> SessionStore \<Rightarrow> SessionStore \<times> bool attempt" where
  "RevokeByRefresh Sha256Hex written presented_secret store =
     (let digest = Sha256Hex presented_secret
      in map_prod (\<lambda>st. st) removed_any (erase_sessions written (\<lambda>s. n_RefreshDigest s = digest) store))"

definition RevokeById :: "bool \<Rightarrow> string \<Rightarrow> SessionStore \<Rightarrow> SessionStore \<times> bool attempt" where
  "RevokeById written session_id store =
     map_prod (\<lambda>st. st) removed_any (erase_sessions written (\<lambda>s. n_Id s = session_id) store)"

definition RevokeAllForUser :: "bool \<Rightarrow> string \<Rightarrow> SessionStore \<Rightarrow> SessionStore \<times> nat attempt" where
  "RevokeAllForUser written user_id store = erase_sessions written (\<lambda>s. n_UserId s = user_id) store"

definition PruneExpired :: "bool \<Rightarrow> int \<Rightarrow> SessionStore \<Rightarrow> SessionStore \<times> nat attempt" where
  "PruneExpired written now_unix store = erase_sessions written (\<lambda>s. now_unix \<ge> n_ExpiryUnix s) store"

section \<open>A refresh secret works once\<close>

definition refresh_digests :: "SessionStore \<Rightarrow> string list" where
  "refresh_digests store = map n_RefreshDigest (ns_Sessions store)"

text \<open>
  A step of the store whose fresh secret, if one is drawn, does not have the given digest: opening,
  rotating, the revocations, pruning, and a restart from the file.
\<close>

inductive session_step :: "(string \<Rightarrow> string) \<Rightarrow> string \<Rightarrow> SessionStore \<Rightarrow> SessionStore \<Rightarrow> bool"
  for Sha256Hex d where
  create: "SessionStore_Create Sha256Hex random new_uuid written user_id expiry ua ip now st = (st', result) \<Longrightarrow>
     map_option Sha256Hex (GenerateSecret random) \<noteq> Some d \<Longrightarrow> session_step Sha256Hex d st st'"
| rotate: "Rotate Sha256Hex random written presented now st = (st', rotation) \<Longrightarrow>
     map_option Sha256Hex (GenerateSecret random) \<noteq> Some d \<Longrightarrow> session_step Sha256Hex d st st'"
| logout: "RevokeByRefresh Sha256Hex written presented st = (st', revoked) \<Longrightarrow> session_step Sha256Hex d st st'"
| revoke: "RevokeById written i st = (st', revoked) \<Longrightarrow> session_step Sha256Hex d st st'"
| revoke_user: "RevokeAllForUser written u st = (st', count) \<Longrightarrow> session_step Sha256Hex d st st'"
| prune: "PruneExpired written now st = (st', count) \<Longrightarrow> session_step Sha256Hex d st st'"
| restart: "st' = SessionStore_Load (ns_File st) \<Longrightarrow> session_step Sha256Hex d st st'"

definition digest_gone :: "string \<Rightarrow> SessionStore \<Rightarrow> bool" where
  "digest_gone d store \<longleftrightarrow>
     d \<notin> n_RefreshDigest ` set (ns_Sessions store)
     \<and> (\<forall>file. ns_File store = Some file \<longrightarrow> d \<notin> n_RefreshDigest ` set file)"

lemma digest_gone_save:
  "digest_gone d st \<Longrightarrow> d \<notin> n_RefreshDigest ` set xs \<Longrightarrow>
   digest_gone d (SessionStore_Save written (st \<lparr> ns_Sessions := xs \<rparr>))"
  by (auto simp: digest_gone_def SessionStore_Save_def)

lemma digest_gone_erase_where:
  "digest_gone d st \<Longrightarrow>
   digest_gone d (SessionStore_Save written (st \<lparr> ns_Sessions := erase_where p (ns_Sessions st) \<rparr>))"
  using set_erase_where [of p "ns_Sessions st"] by (intro digest_gone_save) (auto simp: digest_gone_def)

lemma digest_gone_replace_where:
  "digest_gone d st \<Longrightarrow> n_RefreshDigest s \<noteq> d \<Longrightarrow>
   digest_gone d (SessionStore_Save written (st \<lparr> ns_Sessions := replace_where p s (ns_Sessions st) \<rparr>))"
  using set_replace_where [of p s "ns_Sessions st"] by (intro digest_gone_save) (auto simp: digest_gone_def)

lemma digest_gone_erase: "digest_gone d st \<Longrightarrow> digest_gone d (fst (erase_sessions written p st))"
  by (auto simp: erase_sessions_def Let_def digest_gone_def SessionStore_Save_def)

text \<open>The branches of \<open>Rotate\<close>.\<close>

lemma rotate_empty: "Rotate Sha256Hex random written [] now st = (st, Returned no_rotation)"
  by (simp add: Rotate_def)

lemma rotate_reuse:
  "presented \<noteq> [] \<Longrightarrow> find (\<lambda>s. n_PreviousDigest s = Sha256Hex presented) (ns_Sessions st) = Some x \<Longrightarrow>
   Rotate Sha256Hex random written presented now st =
     (SessionStore_Save written (st \<lparr> ns_Sessions :=
        erase_where (\<lambda>s. n_PreviousDigest s = Sha256Hex presented) (ns_Sessions st) \<rparr>),
      saved written (no_rotation \<lparr> ReuseDetected := True, SessionId := n_Id x, UserId := n_UserId x \<rparr>))"
  by (simp add: Rotate_def)

lemma rotate_unknown:
  "presented \<noteq> [] \<Longrightarrow> find (\<lambda>s. n_PreviousDigest s = Sha256Hex presented) (ns_Sessions st) = None \<Longrightarrow>
   find (\<lambda>s. n_RefreshDigest s = Sha256Hex presented) (ns_Sessions st) = None \<Longrightarrow>
   Rotate Sha256Hex random written presented now st = (st, Returned no_rotation)"
  by (simp add: Rotate_def)

lemma rotate_expired:
  "presented \<noteq> [] \<Longrightarrow> find (\<lambda>s. n_PreviousDigest s = Sha256Hex presented) (ns_Sessions st) = None \<Longrightarrow>
   find (\<lambda>s. n_RefreshDigest s = Sha256Hex presented) (ns_Sessions st) = Some x \<Longrightarrow> now \<ge> n_ExpiryUnix x \<Longrightarrow>
   Rotate Sha256Hex random written presented now st =
     (SessionStore_Save written (st \<lparr> ns_Sessions :=
        erase_where (\<lambda>s. n_RefreshDigest s = Sha256Hex presented) (ns_Sessions st) \<rparr>), saved written no_rotation)"
  by (simp add: Rotate_def)

lemma rotate_no_random:
  "presented \<noteq> [] \<Longrightarrow> find (\<lambda>s. n_PreviousDigest s = Sha256Hex presented) (ns_Sessions st) = None \<Longrightarrow>
   find (\<lambda>s. n_RefreshDigest s = Sha256Hex presented) (ns_Sessions st) = Some x \<Longrightarrow> now < n_ExpiryUnix x \<Longrightarrow>
   GenerateSecret random = None \<Longrightarrow> Rotate Sha256Hex random written presented now st = (st, Thrown)"
  by (simp add: Rotate_def)

lemma rotate_rotated:
  "presented \<noteq> [] \<Longrightarrow> find (\<lambda>s. n_PreviousDigest s = Sha256Hex presented) (ns_Sessions st) = None \<Longrightarrow>
   find (\<lambda>s. n_RefreshDigest s = Sha256Hex presented) (ns_Sessions st) = Some x \<Longrightarrow> now < n_ExpiryUnix x \<Longrightarrow>
   GenerateSecret random = Some secret \<Longrightarrow>
   Rotate Sha256Hex random written presented now st =
     (SessionStore_Save written (st \<lparr> ns_Sessions :=
        replace_where (\<lambda>s. n_RefreshDigest s = Sha256Hex presented)
          (x \<lparr> n_PreviousDigest := n_RefreshDigest x, n_RefreshDigest := Sha256Hex secret, n_LastSeenUnix := now \<rparr>)
          (ns_Sessions st) \<rparr>),
      saved written \<lparr> Success = True, ReuseDetected = False, NewRefreshSecret = secret, SessionId = n_Id x,
                      UserId = n_UserId x \<rparr>)"
  by (simp add: Rotate_def Let_def)

lemma rotate_exhaust:
  fixes Sha256Hex :: "string \<Rightarrow> string"
  obtains (empty) "presented = []"
  | (reuse) x where "presented \<noteq> []" "find (\<lambda>s. n_PreviousDigest s = Sha256Hex presented) (ns_Sessions st) = Some x"
  | (unknown) "presented \<noteq> []" "find (\<lambda>s. n_PreviousDigest s = Sha256Hex presented) (ns_Sessions st) = None"
      "find (\<lambda>s. n_RefreshDigest s = Sha256Hex presented) (ns_Sessions st) = None"
  | (expired) x where "presented \<noteq> []" "find (\<lambda>s. n_PreviousDigest s = Sha256Hex presented) (ns_Sessions st) = None"
      "find (\<lambda>s. n_RefreshDigest s = Sha256Hex presented) (ns_Sessions st) = Some x" "now \<ge> n_ExpiryUnix x"
  | (no_random) x where "presented \<noteq> []" "find (\<lambda>s. n_PreviousDigest s = Sha256Hex presented) (ns_Sessions st) = None"
      "find (\<lambda>s. n_RefreshDigest s = Sha256Hex presented) (ns_Sessions st) = Some x" "now < n_ExpiryUnix x"
      "GenerateSecret random = None"
  | (rotated) x secret where "presented \<noteq> []"
      "find (\<lambda>s. n_PreviousDigest s = Sha256Hex presented) (ns_Sessions st) = None"
      "find (\<lambda>s. n_RefreshDigest s = Sha256Hex presented) (ns_Sessions st) = Some x" "now < n_ExpiryUnix x"
      "GenerateSecret random = Some secret"
  by (metis not_None_eq not_less)

lemma digest_gone_rotate:
  assumes "Rotate Sha256Hex random written presented now st = (st', result)" "digest_gone d st"
    and "map_option Sha256Hex (GenerateSecret random) \<noteq> Some d"
  shows "digest_gone d st'"
proof (cases rule: rotate_exhaust [of presented _ Sha256Hex st now random])
  case empty
  then show ?thesis using assms by (simp add: rotate_empty)
next
  case (reuse x)
  then show ?thesis using assms digest_gone_erase_where by (simp add: rotate_reuse) blast
next
  case unknown
  then show ?thesis using assms by (simp add: rotate_unknown)
next
  case (expired x)
  then show ?thesis using assms digest_gone_erase_where by (simp add: rotate_expired) blast
next
  case (no_random x)
  then show ?thesis using assms by (simp add: rotate_no_random)
next
  case (rotated x secret)
  let ?x = "x \<lparr> n_PreviousDigest := n_RefreshDigest x, n_RefreshDigest := Sha256Hex secret, n_LastSeenUnix := now \<rparr>"
  have "digest_gone d (SessionStore_Save written (st \<lparr> ns_Sessions :=
      replace_where (\<lambda>s. n_RefreshDigest s = Sha256Hex presented) ?x (ns_Sessions st) \<rparr>))"
    using rotated assms by (intro digest_gone_replace_where) auto
  with rotated assms(1) show ?thesis by (simp add: rotate_rotated)
qed

lemma revocations_erase [simp]:
  "fst (RevokeByRefresh Sha256Hex written presented st)
     = fst (erase_sessions written (\<lambda>s. n_RefreshDigest s = Sha256Hex presented) st)"
  "fst (RevokeById written i st) = fst (erase_sessions written (\<lambda>s. n_Id s = i) st)"
  "fst (RevokeAllForUser written u st) = fst (erase_sessions written (\<lambda>s. n_UserId s = u) st)"
  "fst (PruneExpired written now st) = fst (erase_sessions written (\<lambda>s. now \<ge> n_ExpiryUnix s) st)"
  by (simp_all add: RevokeByRefresh_def RevokeById_def RevokeAllForUser_def PruneExpired_def Let_def)

lemma digest_gone_step: "session_step Sha256Hex d st st' \<Longrightarrow> digest_gone d st \<Longrightarrow> digest_gone d st'"
proof (induction rule: session_step.induct)
  case (create random new_uuid written user_id expiry ua ip now st st' result)
  show ?case
  proof (cases "GenerateSecret random")
    case None
    with create show ?thesis by (simp add: SessionStore_Create_def)
  next
    case (Some secret)
    from create have "digest_gone d (SessionStore_Save written (st \<lparr> ns_Sessions := ns_Sessions st @
        [\<lparr> n_Id = new_uuid, n_UserId = user_id, n_RefreshDigest = Sha256Hex secret, n_PreviousDigest = [],
           n_IssuedUnix = now, n_ExpiryUnix = expiry, n_LastSeenUnix = now, n_UserAgent = ua, n_PeerIp = ip \<rparr>] \<rparr>))"
      using Some by (intro digest_gone_save) (auto simp: digest_gone_def)
    with Some create show ?thesis by (simp add: SessionStore_Create_def Let_def)
  qed
next
  case (rotate random written presented now st st' rotation)
  from rotate(1,3,2) show ?case by (rule digest_gone_rotate)
next
  case (logout written presented st st' revoked)
  then show ?case using digest_gone_erase revocations_erase(1) by (metis fst_conv)
next
  case (revoke written i st st' revoked)
  then show ?case using digest_gone_erase revocations_erase(2) by (metis fst_conv)
next
  case (revoke_user written u st st' count)
  then show ?case using digest_gone_erase revocations_erase(3) by (metis fst_conv)
next
  case (prune written now st st' count)
  then show ?case using digest_gone_erase revocations_erase(4) by (metis fst_conv)
next
  case (restart st' st)
  then show ?case by (auto simp: digest_gone_def SessionStore_Load_def split: option.splits)
qed

lemma rotate_success:
  assumes "Rotate Sha256Hex random written presented now st = (st', Returned r)" "Success r"
  obtains it secret us vs where "presented \<noteq> []" "GenerateSecret random = Some secret"
    "ns_Sessions st = us @ it # vs" "n_RefreshDigest it = Sha256Hex presented" "now < n_ExpiryUnix it"
    "r = \<lparr> Success = True, ReuseDetected = False, NewRefreshSecret = secret, SessionId = n_Id it, UserId = n_UserId it \<rparr>"
    "ns_Sessions st' = us @ it \<lparr> n_PreviousDigest := Sha256Hex presented, n_RefreshDigest := Sha256Hex secret,
                                  n_LastSeenUnix := now \<rparr> # vs"
    "ns_File st' = Some (ns_Sessions st')"
    "\<forall>s \<in> set (ns_Sessions st). n_PreviousDigest s \<noteq> Sha256Hex presented"
proof (cases rule: rotate_exhaust [of presented _ Sha256Hex st now random])
  case (rotated x secret)
  from replace_where_split [OF rotated(3)] obtain us vs where sp: "ns_Sessions st = us @ x # vs"
    "n_RefreshDigest x = Sha256Hex presented"
    "\<forall>y. replace_where (\<lambda>s. n_RefreshDigest s = Sha256Hex presented) y (ns_Sessions st) = us @ y # vs"
    by blast
  have w: "written" using assms rotated by (simp add: rotate_rotated saved_def split: if_splits)
  have fresh: "\<forall>s \<in> set (ns_Sessions st). n_PreviousDigest s \<noteq> Sha256Hex presented"
    using rotated(2) by (simp add: find_None_iff)
  show thesis
    using assms(1) rotated sp w fresh
    by (intro that [of secret us x vs]) (auto simp: rotate_rotated saved_def SessionStore_Save_def)
qed (use assms in \<open>auto simp: rotate_empty rotate_reuse rotate_unknown rotate_expired rotate_no_random
  no_rotation_def saved_def split: if_splits\<close>)

definition rotates :: "(string \<Rightarrow> string) \<Rightarrow> string \<Rightarrow> SessionStore \<Rightarrow> bool" where
  "rotates Sha256Hex presented st \<longleftrightarrow>
     (\<exists>random written now st' r. Rotate Sha256Hex random written presented now st = (st', Returned r) \<and> Success r)"

lemma gone_not_rotated: "digest_gone (Sha256Hex presented) st \<Longrightarrow> \<not> rotates Sha256Hex presented st"
  by (auto simp: rotates_def digest_gone_def elim: rotate_success)

interpretation refresh_secrets: credential_store "session_step Sha256Hex (Sha256Hex presented)"
    "digest_gone (Sha256Hex presented)" "rotates Sha256Hex presented" for Sha256Hex presented
  by unfold_locales (erule digest_gone_step, assumption, erule gone_not_rotated)

text \<open>
  C15: a refresh secret works once. After a rotation succeeded with it, no later rotation with it
  succeeds, whatever the store goes through in between - logins, rotations, revocations, pruning,
  restarts, writes that fail - as long as no fresh secret has its digest; and when it is presented
  again while its session still holds it as the one before, the session is revoked at once: the attempt
  is reported as a reuse, and the secret that replaced it is gone as well.
\<close>

theorem refresh_secret_single_use:
  assumes "distinct (refresh_digests st)"
    and "Rotate Sha256Hex random written presented now st = (st1, Returned r)" "Success r"
    and "Sha256Hex (NewRefreshSecret r) \<notin> set (refresh_digests st)"
    and "(session_step Sha256Hex (Sha256Hex presented))\<^sup>*\<^sup>* st1 st2"
  shows "(\<forall>random' written' now' st3 r'.
            Rotate Sha256Hex random' written' presented now' st2 = (st3, Returned r') \<longrightarrow> \<not> Success r')
     \<and> snd (Rotate Sha256Hex random' True presented now' st1)
         = Returned (no_rotation \<lparr> ReuseDetected := True, SessionId := SessionId r, UserId := UserId r \<rparr>)
     \<and> digest_gone (Sha256Hex (NewRefreshSecret r)) (fst (Rotate Sha256Hex random' True presented now' st1))"
proof -
  let ?d = "Sha256Hex presented" and ?new = "Sha256Hex (NewRefreshSecret r)"
  from assms(2,3) obtain it secret us vs where r: "presented \<noteq> []" "ns_Sessions st = us @ it # vs"
    "n_RefreshDigest it = ?d" "NewRefreshSecret r = secret" "SessionId r = n_Id it" "UserId r = n_UserId it"
    "ns_Sessions st1 = us @ it \<lparr> n_PreviousDigest := ?d, n_RefreshDigest := Sha256Hex secret, n_LastSeenUnix := now \<rparr> # vs"
    "ns_File st1 = Some (ns_Sessions st1)" "\<forall>s \<in> set (ns_Sessions st). n_PreviousDigest s \<noteq> ?d"
    by (elim rotate_success) auto
  let ?it = "it \<lparr> n_PreviousDigest := ?d, n_RefreshDigest := Sha256Hex secret, n_LastSeenUnix := now \<rparr>"
  have fresh: "Sha256Hex secret \<noteq> ?d" using assms(4) r by (auto simp: refresh_digests_def)
  have "digest_gone ?d st1" using assms(1) r fresh by (auto simp: digest_gone_def refresh_digests_def)
  from refresh_secrets.never_accepted [OF this assms(5)]
  have 1: "\<not> Success r'" if "Rotate Sha256Hex random' written' presented now' st2 = (st3, Returned r')"
    for random' written' now' st3 r'
    using that unfolding rotates_def by blast
  have "find (\<lambda>s. n_PreviousDigest s = ?d) us = None" using r(2,9) by (auto simp: find_None_iff)
  then have reused: "find (\<lambda>s. n_PreviousDigest s = ?d) (ns_Sessions st1) = Some ?it"
    by (simp add: r(7) find_append)
  have "erase_where (\<lambda>s. n_PreviousDigest s = ?d) (ns_Sessions st1) = us @ vs"
    using r(2,7,9) by (simp add: erase_where_skip)
  then have "digest_gone ?new (SessionStore_Save True (st1 \<lparr> ns_Sessions :=
      erase_where (\<lambda>s. n_PreviousDigest s = ?d) (ns_Sessions st1) \<rparr>))"
    using assms(4) r(2,4) by (auto simp: digest_gone_def SessionStore_Save_def refresh_digests_def)
  with 1 reused r show ?thesis
    by (simp add: rotate_reuse saved_def)
qed

definition sample_digest :: "string \<Rightarrow> string" where "sample_digest s = CHR ''#'' # s"

definition sample_sessions :: SessionStore where
  "sample_sessions = fst (SessionStore_Create sample_digest (Some [0x4F]) ''s1'' True ''u1'' 1000 ''curl'' ''::1'' 10
     (SessionStore_Load None))"

theorem refresh_secret_single_use_witness:
  "(\<exists>r. snd (Rotate sample_digest (Some [0xA0]) True ''art_4f'' 20 sample_sessions) = Returned r \<and> Success r)
   \<and> (\<exists>r. snd (Rotate sample_digest (Some [0xB0]) True ''art_4f'' 30
        (fst (Rotate sample_digest (Some [0xA0]) True ''art_4f'' 20 sample_sessions))) = Returned r
      \<and> ReuseDetected r \<and> \<not> Success r)"
proof -
  let ?r = "\<lparr> Success = True, ReuseDetected = False, NewRefreshSecret = ''art_a0'', SessionId = ''s1'', UserId = ''u1'' \<rparr>"
  have s: "ns_Sessions sample_sessions = [\<lparr> n_Id = ''s1'', n_UserId = ''u1'', n_RefreshDigest = ''#art_4f'',
      n_PreviousDigest = [], n_IssuedUnix = 10, n_ExpiryUnix = 1000, n_LastSeenUnix = 10, n_UserAgent = ''curl'',
      n_PeerIp = ''::1'' \<rparr>]"
    by code_simp
  have g: "GenerateSecret (Some [0xA0]) = Some ''art_a0''" by code_simp
  have rot: "snd (Rotate sample_digest (Some [0xA0]) True ''art_4f'' 20 sample_sessions) = Returned ?r"
    by (simp add: Rotate_def s g sample_digest_def saved_def)
  have "distinct (refresh_digests sample_sessions)" "sample_digest (NewRefreshSecret ?r) \<notin> set (refresh_digests sample_sessions)"
    by (simp_all add: refresh_digests_def s sample_digest_def)
  from refresh_secret_single_use [OF this(1) prod.collapse [symmetric, of "Rotate sample_digest (Some [0xA0]) True ''art_4f'' 20 sample_sessions", unfolded rot]
      _ this(2) rtranclp.rtrancl_refl, of "Some [0xB0]" 30] rot
  show ?thesis by (simp add: no_rotation_def)
qed

end
