(* ===== verification/Token_Codec.thy ===== *)
theory Token_Codec
  imports Session_Store "HOL-Library.Countable"
begin

text \<open>
  Access tokens: the store of signing keys (\<open>jwt_key_store.cpp\<close>) and the codec
  (\<open>jwt_codec.cpp\<close>). The token library is a record of its operations: signing a payload under a
  secret and a key id, decoding without a check, and the check of signature, issuer, audience and times;
  \<open>jwt_laws\<close> is what it documents about a token of its own. Times are nanoseconds of the system
  clock, the times in a token whole seconds.
\<close>

section \<open>Signing keys\<close>

record SigningKey =
  Kid :: string
  Secret :: "u8 list"
  CreatedUnix :: int

record key_entry =
  y_kid :: string
  y_secret_hex :: string
  y_created :: int

record JwtKeyStore =
  ks_Keys :: "SigningKey list"
  ks_File :: "key_entry list option"

definition SECRET_BYTES :: nat where "SECRET_BYTES = 32"
definition KID_HEX_CHARS :: nat where "KID_HEX_CHARS = 16"
definition MAX_RETAINED_KEYS :: nat where "MAX_RETAINED_KEYS = 2"

definition nibble :: "char \<Rightarrow> int" where
  "nibble ch =
     (if CHR ''0'' \<le> ch \<and> ch \<le> CHR ''9'' then of_char ch - 48
      else if CHR ''a'' \<le> ch \<and> ch \<le> CHR ''f'' then 10 + (of_char ch - 97)
      else if CHR ''A'' \<le> ch \<and> ch \<le> CHR ''F'' then 10 + (of_char ch - 65)
      else -1)"

fun FromHex_loop :: "string \<Rightarrow> u8 list option" where
  "FromHex_loop (h # l # rest) =
     (let hi = nibble h; lo = nibble l
      in if hi < 0 \<or> lo < 0 then None
         else map_option ((#) (word_of_int (or (push_bit 4 hi) lo))) (FromHex_loop rest))"
| "FromHex_loop _ = Some []"

definition FromHex :: "string \<Rightarrow> u8 list option" where
  "FromHex hex = (if length hex mod 2 \<noteq> 0 then None else FromHex_loop hex)"

text \<open>The digest of a secret is a parameter, as a list of bytes.\<close>

definition DeriveKid :: "(u8 list \<Rightarrow> u8 list) \<Rightarrow> u8 list \<Rightarrow> string" where
  "DeriveKid SHA256 secret = take KID_HEX_CHARS (ToHex (SHA256 secret))"

definition GenerateKey :: "(u8 list \<Rightarrow> u8 list) \<Rightarrow> u8 list option \<Rightarrow> int \<Rightarrow> SigningKey option" where
  "GenerateKey SHA256 random now_unix =
     map_option (\<lambda>secret. \<lparr> Kid = DeriveKid SHA256 secret, Secret = secret, CreatedUnix = now_unix \<rparr>) random"

definition KeyStore_Save :: "bool \<Rightarrow> JwtKeyStore \<Rightarrow> JwtKeyStore" where
  "KeyStore_Save written store =
     (if written
      then store \<lparr> ks_File := Some (map (\<lambda>k. \<lparr> y_kid = Kid k, y_secret_hex = ToHex (Secret k),
                                                y_created = CreatedUnix k \<rparr>) (ks_Keys store)) \<rparr>
      else store)"

definition read_key :: "key_entry \<Rightarrow> SigningKey option" where
  "read_key entry =
     (case FromHex (y_secret_hex entry) of
        None \<Rightarrow> None
      | Some secret \<Rightarrow>
          if y_kid entry = [] \<or> secret = [] then None
          else Some \<lparr> Kid = y_kid entry, Secret = secret, CreatedUnix = y_created entry \<rparr>)"

definition LoadOrCreate ::
    "(u8 list \<Rightarrow> u8 list) \<Rightarrow> u8 list option \<Rightarrow> int \<Rightarrow> bool \<Rightarrow> key_entry list option \<Rightarrow> JwtKeyStore attempt" where
  "LoadOrCreate SHA256 random now_unix written file =
     (case file of
        Some entries \<Rightarrow>
          (case those (map read_key entries) of
             None \<Rightarrow> Thrown
           | Some keys \<Rightarrow> if keys = [] then Thrown else Returned \<lparr> ks_Keys = keys, ks_File = file \<rparr>)
      | None \<Rightarrow>
          (case GenerateKey SHA256 random now_unix of
             None \<Rightarrow> Thrown
           | Some key \<Rightarrow> saved written (KeyStore_Save written \<lparr> ks_Keys = [key], ks_File = None \<rparr>)))"

definition Active :: "JwtKeyStore \<Rightarrow> SigningKey" where
  "Active store = hd (ks_Keys store)"

definition Find_key :: "string \<Rightarrow> JwtKeyStore \<Rightarrow> SigningKey option" where
  "Find_key kid store = find (\<lambda>k. Kid k = kid) (ks_Keys store)"

definition KeyStore_Rotate ::
    "(u8 list \<Rightarrow> u8 list) \<Rightarrow> u8 list option \<Rightarrow> int \<Rightarrow> bool \<Rightarrow> JwtKeyStore \<Rightarrow> JwtKeyStore \<times> unit attempt" where
  "KeyStore_Rotate SHA256 random now_unix written store =
     (case GenerateKey SHA256 random now_unix of
        None \<Rightarrow> (store, Thrown)
      | Some key \<Rightarrow>
          let keys = key # ks_Keys store;
              keys = (if length keys > MAX_RETAINED_KEYS then take MAX_RETAINED_KEYS keys else keys)
          in (KeyStore_Save written (store \<lparr> ks_Keys := keys \<rparr>), saved written ()))"

section \<open>Tokens\<close>

record payload =
  p_iss :: string
  p_aud :: string
  p_sub :: string
  p_iat :: int
  p_exp :: int
  p_prv :: string
  p_tokver :: "32 word"
  p_grp :: "string list"
  p_ent :: "string list option"
  p_entof :: bool

record jwt_api =
  jwt_sign :: "u8 list \<Rightarrow> string \<Rightarrow> payload \<Rightarrow> string"
  jwt_decode :: "string \<Rightarrow> (string \<times> payload) option"
  jwt_verify :: "u8 list \<Rightarrow> string \<Rightarrow> string \<Rightarrow> int \<Rightarrow> int \<Rightarrow> string \<Rightarrow> bool"
  json_dump_size :: "string list \<Rightarrow> nat"

definition jwt_laws :: "jwt_api \<Rightarrow> bool" where
  "jwt_laws J \<longleftrightarrow>
     (\<forall>secret kid p. jwt_decode J (jwt_sign J secret kid p) = Some (kid, p))
     \<and> (\<forall>secret kid p iss aud leeway now.
          jwt_verify J secret iss aud leeway now (jwt_sign J secret kid p)
            \<longleftrightarrow> p_iss p = iss \<and> p_aud p = aud \<and> p_iat p - leeway \<le> now \<and> now \<le> p_exp p + leeway)"

record TokenClaims =
  c_Subject :: string
  c_Provider :: SubjectProvider
  c_TokenVersion :: "32 word"
  c_Groups :: "string list"
  c_Entitlements :: "string list"
  c_EntitlementsInToken :: bool
  c_IssuedAt :: int
  c_ExpiresAt :: int

record CodecConfig =
  Issuer :: string
  Audience :: string
  AccessTokenTtl :: int
  LeewaySeconds :: int
  EntClaimBudgetBytes :: nat

definition default_codec :: CodecConfig where
  "default_codec = \<lparr> Issuer = ''aqualink-automate'', Audience = ''aqualink-automate'', AccessTokenTtl = 15 * 60,
     LeewaySeconds = 60, EntClaimBudgetBytes = 2048 \<rparr>"

definition ticks :: "int \<Rightarrow> int" where "ticks seconds = seconds * 1000000000"
definition NowUnix :: "int \<Rightarrow> int" where "NowUnix now = now div 1000000000"

definition provider_names :: "(string \<times> SubjectProvider) list" where
  "provider_names = [(''Anonymous'', Anonymous), (''Local'', Local), (''ApiKey'', ApiKey), (''Oidc'', Oidc),
     (''Proxy'', Proxy), (''KioskPin'', KioskPin)]"

definition provider_name :: "SubjectProvider \<Rightarrow> string" where
  "provider_name p = (case find (\<lambda>x. snd x = p) provider_names of Some x \<Rightarrow> fst x | None \<Rightarrow> [])"

definition Sign :: "jwt_api \<Rightarrow> CodecConfig \<Rightarrow> JwtKeyStore \<Rightarrow> int \<Rightarrow> TokenClaims \<Rightarrow> string" where
  "Sign J config keys now claims =
     (let key = Active keys;
          in_token = json_dump_size J (c_Entitlements claims) \<le> EntClaimBudgetBytes config
      in jwt_sign J (Secret key) (Kid key)
           \<lparr> p_iss = Issuer config, p_aud = Audience config, p_sub = c_Subject claims,
             p_iat = NowUnix now, p_exp = NowUnix (now + ticks (AccessTokenTtl config)),
             p_prv = provider_name (c_Provider claims), p_tokver = c_TokenVersion claims,
             p_grp = c_Groups claims,
             p_ent = (if in_token then Some (c_Entitlements claims) else None), p_entof = \<not> in_token \<rparr>)"

definition Verify :: "jwt_api \<Rightarrow> CodecConfig \<Rightarrow> JwtKeyStore \<Rightarrow> int \<Rightarrow> string \<Rightarrow> TokenClaims option" where
  "Verify J config keys now token =
     (case jwt_decode J token of
        None \<Rightarrow> None
      | Some (kid, payload) \<Rightarrow>
          (case Find_key kid keys of
             None \<Rightarrow> None
           | Some key \<Rightarrow>
               if \<not> jwt_verify J (Secret key) (Issuer config) (Audience config) (LeewaySeconds config) (NowUnix now) token
               then None
               else
                 (case map_of provider_names (p_prv payload) of
                    None \<Rightarrow> None
                  | Some provider \<Rightarrow>
                      Some \<lparr> c_Subject = p_sub payload, c_Provider = provider, c_TokenVersion = p_tokver payload,
                             c_Groups = p_grp payload,
                             c_Entitlements = (case p_ent payload of Some ent \<Rightarrow> ent | None \<Rightarrow> []),
                             c_EntitlementsInToken = (p_ent payload \<noteq> None),
                             c_IssuedAt = ticks (p_iat payload), c_ExpiresAt = ticks (p_exp payload) \<rparr>)))"

section \<open>Keys and tokens are read back\<close>

lemma those_map_Some: "those (map Some xs) = Some xs"
  by (induction xs) simp_all

lemma provider_name_read [simp]: "map_of provider_names (provider_name p) = Some p"
  by (cases p) (simp_all add: provider_names_def provider_name_def)

lemma nibble_digit:
  assumes "n < 16" shows "nibble (HEX_DIGITS ! n) = int n"
proof -
  have "list_all (\<lambda>n. nibble (HEX_DIGITS ! n) = int n) [0..<16]" by code_simp
  with assms show ?thesis by (simp add: list_all_iff)
qed

lemma nibbles_byte:
  fixes b :: u8
  shows "word_of_int (or (push_bit 4 (int (unat (drop_bit 4 b)))) (int (unat (and b 0x0F)))) = b"
proof -
  have "word_of_int (or (push_bit 4 (int (unat (drop_bit 4 b)))) (int (unat (and b 0x0F))))
      = or (push_bit 4 (drop_bit 4 b)) (and b 0x0F)"
    by (rule bit_word_eqI) (auto simp: bit_simps)
  also have "\<dots> = or (push_bit 4 (drop_bit 4 b)) (take_bit 4 b)"
    by (simp add: take_bit_eq_mask mask_eq_exp_minus_1)
  also have "\<dots> = b" by (rule bit_word_eqI) (auto simp: bit_simps)
  finally show ?thesis .
qed

lemma nibble_parts [simp]:
  "nibble (HEX_DIGITS ! unat (drop_bit 4 (b :: u8))) = int (unat (drop_bit 4 b))"
  "nibble (HEX_DIGITS ! unat (and b (0x0F :: u8))) = int (unat (and b 0x0F))"
proof -
  have "unat (drop_bit 4 b) = unat b div 16" by (simp add: drop_bit_eq_div unat_div)
  moreover have "unat b < 256" using unsigned_less [of b] by simp
  ultimately have "unat (drop_bit 4 b) < 16" by simp
  moreover have "unat (and b 0x0F) < 16"
  proof -
    have "and b 0x0F = take_bit 4 b" by (simp add: take_bit_eq_mask mask_eq_exp_minus_1)
    then show ?thesis using take_bit_nat_less_exp [of 4 "unat b"] by (simp add: unsigned_take_bit_eq)
  qed
  ultimately show "nibble (HEX_DIGITS ! unat (drop_bit 4 b)) = int (unat (drop_bit 4 b))"
    "nibble (HEX_DIGITS ! unat (and b (0x0F :: u8))) = int (unat (and b 0x0F))"
    by (simp_all add: nibble_digit)
qed

lemma FromHex_ToHex: "FromHex (ToHex bytes) = Some bytes"
proof -
  have "FromHex_loop (ToHex bytes) = Some bytes" by (induction bytes) (simp_all add: Let_def nibbles_byte [simplified])
  moreover have "length (ToHex bytes) = 2 * length bytes" by (induction bytes) auto
  ultimately show ?thesis by (simp add: FromHex_def)
qed

text \<open>Every key of a store has an id and a secret, and no two share their id.\<close>

definition keys_ok :: "JwtKeyStore \<Rightarrow> bool" where
  "keys_ok store \<longleftrightarrow> ks_Keys store \<noteq> [] \<and> distinct (map Kid (ks_Keys store))
     \<and> (\<forall>k \<in> set (ks_Keys store). Kid k \<noteq> [] \<and> Secret k \<noteq> [])"

lemma keys_restart:
  assumes "keys_ok store"
  shows "LoadOrCreate SHA256 random now written (ks_File (KeyStore_Save True store))
     = Returned (KeyStore_Save True store)"
proof -
  have "map read_key (map (\<lambda>k. \<lparr> y_kid = Kid k, y_secret_hex = ToHex (Secret k), y_created = CreatedUnix k \<rparr>)
      (ks_Keys store)) = map Some (ks_Keys store)"
    using assms by (auto simp: keys_ok_def read_key_def FromHex_ToHex)
  then have "those (map read_key (map (\<lambda>k. \<lparr> y_kid = Kid k, y_secret_hex = ToHex (Secret k), y_created = CreatedUnix k \<rparr>)
      (ks_Keys store))) = Some (ks_Keys store)"
    by (simp only: those_map_Some)
  then show ?thesis using assms by (simp add: LoadOrCreate_def KeyStore_Save_def keys_ok_def)
qed

lemma Find_active: "ks_Keys store \<noteq> [] \<Longrightarrow> Find_key (Kid (Active store)) store = Some (Active store)"
  by (cases "ks_Keys store") (simp_all add: Find_key_def Active_def)

lemma rotate_keys:
  assumes "ks_Keys store \<noteq> []"
  shows "ks_Keys (fst (KeyStore_Rotate SHA256 (Some secret) t written store))
     = [\<lparr> Kid = DeriveKid SHA256 secret, Secret = secret, CreatedUnix = t \<rparr>, Active store]"
  using assms
  by (cases "ks_Keys store"; cases "tl (ks_Keys store)")
    (auto simp: KeyStore_Rotate_def GenerateKey_def Let_def KeyStore_Save_def MAX_RETAINED_KEYS_def Active_def
      numeral_2_eq_2)

lemma verify_signed:
  assumes "jwt_laws J" "ks_Keys keys \<noteq> []" "Find_key (Kid (Active keys)) keys' = Some (Active keys)"
    and "NowUnix signed_at - LeewaySeconds config \<le> NowUnix now"
    and "NowUnix now \<le> NowUnix (signed_at + ticks (AccessTokenTtl config)) + LeewaySeconds config"
  shows "Verify J config keys' now (Sign J config keys signed_at claims)
     = Some (let in_token = json_dump_size J (c_Entitlements claims) \<le> EntClaimBudgetBytes config
             in claims \<lparr> c_Entitlements := (if in_token then c_Entitlements claims else []),
                  c_EntitlementsInToken := in_token, c_IssuedAt := ticks (NowUnix signed_at),
                  c_ExpiresAt := ticks (NowUnix (signed_at + ticks (AccessTokenTtl config))) \<rparr>)"
  using assms by (cases claims) (simp add: Verify_def Sign_def Let_def jwt_laws_def)



text \<open>
  A token library that meets the laws: a token is the numeral, in unary, of key id, secret and payload.
\<close>

type_synonym payload_fields =
  "string \<times> string \<times> string \<times> int \<times> int \<times> string \<times> u32 \<times> string list \<times> string list option \<times> bool"

definition payload_fields :: "payload \<Rightarrow> payload_fields" where
  "payload_fields p = (p_iss p, p_aud p, p_sub p, p_iat p, p_exp p, p_prv p, p_tokver p, p_grp p, p_ent p, p_entof p)"

definition payload_of :: "payload_fields \<Rightarrow> payload" where
  "payload_of = (\<lambda>(iss, aud, sub, iat, ex, prv, ver, grp, ent, ov).
     \<lparr> p_iss = iss, p_aud = aud, p_sub = sub, p_iat = iat, p_exp = ex, p_prv = prv, p_tokver = ver, p_grp = grp,
       p_ent = ent, p_entof = ov \<rparr>)"

definition unary_decode :: "string \<Rightarrow> (string \<times> payload) option" where
  "unary_decode token = (let (kid, fields) = from_nat (length token - 1) in Some (kid, payload_of fields))"

definition unary_jwt :: jwt_api where
  "unary_jwt =
     \<lparr> jwt_sign = (\<lambda>secret kid p. replicate (to_nat (kid, payload_fields p) + 1) (CHR ''1'')),
       jwt_decode = unary_decode,
       jwt_verify = (\<lambda>secret iss aud leeway now token.
         case unary_decode token of
           None \<Rightarrow> False
         | Some (kid, p) \<Rightarrow> p_iss p = iss \<and> p_aud p = aud \<and> p_iat p - leeway \<le> now \<and> now \<le> p_exp p + leeway),
       json_dump_size = (\<lambda>texts. 2 + sum_list (map (\<lambda>t. length t + 3) texts)) \<rparr>"

lemma unary_jwt_laws: "jwt_laws unary_jwt"
  by (simp add: jwt_laws_def unary_jwt_def unary_decode_def payload_of_def payload_fields_def)

definition sample_keys :: JwtKeyStore where
  "sample_keys = \<lparr> ks_Keys = [\<lparr> Kid = ''k0'', Secret = [7], CreatedUnix = 0 \<rparr>], ks_File = None \<rparr>"

definition sample_claims :: TokenClaims where
  "sample_claims = \<lparr> c_Subject = ''u1'', c_Provider = Local, c_TokenVersion = 3, c_Groups = [GUEST],
     c_Entitlements = [''equipment.view''], c_EntitlementsInToken = True, c_IssuedAt = 0, c_ExpiresAt = 0 \<rparr>"


end
