(* ===== verification/Session_Service.thy ===== *)
theory Session_Service
  imports Token_Codec Schedule
begin

text \<open>
  Login, refresh, logout (\<open>session_service.cpp\<close>) and the kiosk PIN (\<open>kiosk_store.cpp\<close>,
  \<open>kiosk_service.cpp\<close>). The services share the stores, so their state is one record. Verifying a
  password is work for another thread: a login is two steps, the one that captures what the
  verification needs and the completion that gets its verdict, and other operations may come between
  them. Times are nanoseconds; the file writes of an operation succeed or fail as its arguments
  \<open>w1\<close>, \<open>w2\<close>, \<open>w3\<close> say, in order.
\<close>

section \<open>State\<close>

record AuditEvent =
  v_SubjectId :: string
  v_Provider :: string
  v_Action :: string
  v_Decision :: string
  v_PeerIp :: string
  v_Detail :: string

record FailureEntry =
  f_Count :: u32
  f_LockedUntil :: int

definition no_failures :: FailureEntry where
  "no_failures = \<lparr> f_Count = 0, f_LockedUntil = 0 \<rparr>"

record KioskStore =
  kk_Enabled :: bool
  kk_PinHash :: string
  kk_TargetGroup :: string
  kk_TokenVersion :: u32
  kk_File :: "(bool \<times> string \<times> string \<times> u32) option"

record auth_state =
  x_Users :: UserStore
  x_Groups :: GroupStore
  x_Sessions :: SessionStore
  x_Keys :: JwtKeyStore
  x_Kiosk :: KioskStore
  x_Failures :: "string \<rightharpoonup> FailureEntry"
  x_KioskFailure :: FailureEntry
  x_Audit :: "AuditEvent list"

record ServiceConfig =
  RefreshTtl :: int
  MaxFailures :: u32
  Lockout :: int
  MinPinLength :: nat

definition default_service :: ServiceConfig where
  "default_service = \<lparr> RefreshTtl = 24 * 14 * 3600, MaxFailures = 5, Lockout = 15 * 60, MinPinLength = 4 \<rparr>"

text \<open>The libraries and the configuration the services are built with.\<close>

record auth_env =
  env_jwt :: jwt_api
  env_codec :: CodecConfig
  env_config :: ServiceConfig
  env_sha :: "string \<Rightarrow> string"
  env_password :: "string \<Rightarrow> string \<Rightarrow> bool"
  env_decoy :: string

definition MakeAuthEvent :: "string \<Rightarrow> string \<Rightarrow> string \<Rightarrow> string \<Rightarrow> string \<Rightarrow> AuditEvent" where
  "MakeAuthEvent action subject_id decision peer_ip detail =
     \<lparr> v_SubjectId = subject_id, v_Provider = ''Local'', v_Action = action, v_Decision = decision,
       v_PeerIp = peer_ip, v_Detail = detail \<rparr>"

definition Record :: "AuditEvent \<Rightarrow> auth_state \<Rightarrow> auth_state" where
  "Record event st = st \<lparr> x_Audit := x_Audit st @ [event] \<rparr>"

section \<open>Sessions of accounts\<close>

definition LowercaseKey :: "string \<Rightarrow> string" where "LowercaseKey username = map tolower username"

record LoginResult =
  r_Success :: bool
  r_LockedOut :: bool
  r_Error :: string
  r_AccessToken :: string
  r_RefreshToken :: string
  r_SessionId :: string

definition no_login :: LoginResult where
  "no_login = \<lparr> r_Success = False, r_LockedOut = False, r_Error = [], r_AccessToken = [], r_RefreshToken = [],
     r_SessionId = [] \<rparr>"

text \<open>What the completion of a login has captured, and the hash the verification compares with.\<close>

record pending_login =
  l_Usable :: bool
  l_User :: "UserRecord option"
  l_Username :: string
  l_Key :: string
  l_PeerIp :: string
  l_UserAgent :: string
  l_Password :: string
  l_Hash :: string

definition MintAccessToken :: "auth_env \<Rightarrow> int \<Rightarrow> UserRecord \<Rightarrow> auth_state \<Rightarrow> string" where
  "MintAccessToken env now user st =
     (let r = (case FindById (u_Id user) (x_Users st) of Some current \<Rightarrow> current | None \<Rightarrow> user)
      in Sign (env_jwt env) (env_codec env) (x_Keys st) now
           \<lparr> c_Subject = u_Id r, c_Provider = Local, c_TokenVersion = u_TokenVersion r, c_Groups = u_Groups r,
             c_Entitlements = ToStrings (ResolveEffectiveEntitlements (gs_Registry (x_Groups st))
                                           (u_DirectEntitlements r) (u_Groups r)),
             c_EntitlementsInToken = True, c_IssuedAt = 0, c_ExpiresAt = 0 \<rparr>)"

definition IsLockedOut :: "string \<Rightarrow> int \<Rightarrow> auth_state \<Rightarrow> bool" where
  "IsLockedOut username_key now st =
     (case x_Failures st username_key of None \<Rightarrow> False | Some entry \<Rightarrow> now < f_LockedUntil entry)"

definition RecordFailure :: "auth_env \<Rightarrow> string \<Rightarrow> int \<Rightarrow> auth_state \<Rightarrow> auth_state" where
  "RecordFailure env username_key now st =
     (let entry = (case x_Failures st username_key of Some e \<Rightarrow> e | None \<Rightarrow> no_failures);
          entry = entry \<lparr> f_Count := f_Count entry + 1 \<rparr>
      in if f_Count entry \<ge> MaxFailures (env_config env)
         then Record (MakeAuthEvent ''auth.lockout'' username_key ''failure'' []
                (''account locked for '' @ nat_string (nat (Lockout (env_config env))) @ ''s after repeated failures''))
              (st \<lparr> x_Failures := (x_Failures st)(username_key \<mapsto>
                 \<lparr> f_Count = 0, f_LockedUntil = now + ticks (Lockout (env_config env)) \<rparr>) \<rparr>)
         else st \<lparr> x_Failures := (x_Failures st)(username_key \<mapsto> entry) \<rparr>)"

definition Login_begin ::
    "auth_env \<Rightarrow> int \<Rightarrow> string \<Rightarrow> string \<Rightarrow> string \<Rightarrow> string \<Rightarrow> auth_state
     \<Rightarrow> auth_state \<times> (LoginResult + pending_login)" where
  "Login_begin env now username password peer_ip user_agent st =
     (let username_key = LowercaseKey username
      in if IsLockedOut username_key now st
         then (Record (MakeAuthEvent ''auth.login'' username ''failure'' peer_ip ''account locked out'') st,
               Inl (no_login \<lparr> r_LockedOut := True, r_Error := ''Too many failed attempts; try again later'' \<rparr>))
         else
           let user = FindByUsername username (x_Users st);
               usable = (case user of None \<Rightarrow> False | Some u \<Rightarrow> \<not> u_Disabled u);
               hash = (case user of Some u \<Rightarrow> if usable then u_PasswordHash u else env_decoy env | None \<Rightarrow> env_decoy env)
           in (st, Inr \<lparr> l_Usable = usable, l_User = user, l_Username = username, l_Key = username_key,
                 l_PeerIp = peer_ip, l_UserAgent = user_agent, l_Password = password, l_Hash = hash \<rparr>))"

definition Verified :: "auth_env \<Rightarrow> pending_login \<Rightarrow> bool" where
  "Verified env pending = env_password env (l_Password pending) (l_Hash pending)"

definition FinishLogin ::
    "auth_env \<Rightarrow> int \<Rightarrow> u8 list option \<Rightarrow> string \<Rightarrow> bool \<Rightarrow> UserRecord \<Rightarrow> string \<Rightarrow> string \<Rightarrow> auth_state
     \<Rightarrow> auth_state \<times> LoginResult attempt" where
  "FinishLogin env now random new_uuid w1 user peer_ip user_agent st =
     (let access = MintAccessToken env now user st
      in case SessionStore_Create (env_sha env) random new_uuid w1 (u_Id user)
                (NowUnix now + RefreshTtl (env_config env)) user_agent peer_ip (NowUnix now) (x_Sessions st) of
           (sessions, Thrown) \<Rightarrow> (st \<lparr> x_Sessions := sessions \<rparr>, Thrown)
         | (sessions, Returned (refresh, session_id)) \<Rightarrow>
             (Record (MakeAuthEvent ''auth.login'' (u_Id user) ''success'' peer_ip (''session '' @ session_id))
                (st \<lparr> x_Sessions := sessions \<rparr>),
              Returned \<lparr> r_Success = True, r_LockedOut = False, r_Error = [], r_AccessToken = access,
                r_RefreshToken = refresh, r_SessionId = session_id \<rparr>))"

definition Login_complete ::
    "auth_env \<Rightarrow> int \<Rightarrow> u8 list option \<Rightarrow> string \<Rightarrow> bool \<Rightarrow> pending_login \<Rightarrow> bool \<Rightarrow> auth_state
     \<Rightarrow> auth_state \<times> LoginResult attempt" where
  "Login_complete env now random new_uuid w1 pending verified st =
     (if \<not> l_Usable pending \<or> \<not> verified
      then (Record (MakeAuthEvent ''auth.login'' (l_Username pending) ''failure'' (l_PeerIp pending)
              (if l_Usable pending then ''wrong password'' else ''unknown or disabled account''))
              (RecordFailure env (l_Key pending) now st),
            Returned (no_login \<lparr> r_Error := ''Invalid username or password'' \<rparr>))
      else FinishLogin env now random new_uuid w1 (the (l_User pending)) (l_PeerIp pending) (l_UserAgent pending)
             (st \<lparr> x_Failures := (x_Failures st)(l_Key pending := None) \<rparr>))"

record RefreshResult =
  h_Success :: bool
  h_Error :: string
  h_AccessToken :: string
  h_RefreshToken :: string

definition no_refresh :: "string \<Rightarrow> RefreshResult" where
  "no_refresh error = \<lparr> h_Success = False, h_Error = error, h_AccessToken = [], h_RefreshToken = [] \<rparr>"

definition Refresh ::
    "auth_env \<Rightarrow> int \<Rightarrow> u8 list option \<Rightarrow> bool \<Rightarrow> bool \<Rightarrow> string \<Rightarrow> string \<Rightarrow> auth_state
     \<Rightarrow> auth_state \<times> RefreshResult attempt" where
  "Refresh env now random w1 w2 refresh_token peer_ip st =
     (case Rotate (env_sha env) random w1 refresh_token (NowUnix now) (x_Sessions st) of
        (sessions, Thrown) \<Rightarrow> (st \<lparr> x_Sessions := sessions \<rparr>, Thrown)
      | (sessions, Returned rotation) \<Rightarrow>
          let st = st \<lparr> x_Sessions := sessions \<rparr>
          in if ReuseDetected rotation
             then (Record (MakeAuthEvent ''auth.refresh'' (UserId rotation) ''failure'' peer_ip
                     (''rotated-out refresh token replayed; session '' @ SessionId rotation @ '' revoked'')) st,
                   Returned (no_refresh ''Session revoked''))
             else if \<not> Success rotation then (st, Returned (no_refresh ''Invalid or expired session''))
             else
               let user = FindById (UserId rotation) (x_Users st)
               in if (case user of None \<Rightarrow> True | Some u \<Rightarrow> u_Disabled u)
                  then
                    (case RevokeById w2 (SessionId rotation) (x_Sessions st) of
                       (sessions, Thrown) \<Rightarrow> (st \<lparr> x_Sessions := sessions \<rparr>, Thrown)
                     | (sessions, Returned _) \<Rightarrow>
                         (Record (MakeAuthEvent ''auth.refresh'' (UserId rotation) ''failure'' peer_ip
                            ''account missing or disabled'') (st \<lparr> x_Sessions := sessions \<rparr>),
                          Returned (no_refresh ''Invalid or expired session'')))
                  else (st, Returned \<lparr> h_Success = True, h_Error = [],
                          h_AccessToken = MintAccessToken env now (the user) st,
                          h_RefreshToken = NewRefreshSecret rotation \<rparr>))"

definition Logout :: "auth_env \<Rightarrow> bool \<Rightarrow> string \<Rightarrow> string \<Rightarrow> auth_state \<Rightarrow> auth_state \<times> bool attempt" where
  "Logout env w1 refresh_token peer_ip st =
     (case RevokeByRefresh (env_sha env) w1 refresh_token (x_Sessions st) of
        (sessions, Thrown) \<Rightarrow> (st \<lparr> x_Sessions := sessions \<rparr>, Thrown)
      | (sessions, Returned revoked) \<Rightarrow>
          ((if revoked then Record (MakeAuthEvent ''auth.logout'' ''-'' ''success'' peer_ip []) else (\<lambda>st. st))
             (st \<lparr> x_Sessions := sessions \<rparr>), Returned revoked))"

text \<open>A bump of the token version as the services call it: an exception when it cannot be written.\<close>

definition bump_user :: "bool \<Rightarrow> string \<Rightarrow> auth_state \<Rightarrow> auth_state \<times> unit attempt" where
  "bump_user w user_id st =
     (let (users, v) = BumpTokenVersion w user_id (x_Users st)
      in (st \<lparr> x_Users := users \<rparr>,
          if FindById user_id (x_Users st) = None then Returned () else saved w ()))"

definition LogoutAll :: "bool \<Rightarrow> bool \<Rightarrow> string \<Rightarrow> string \<Rightarrow> auth_state \<Rightarrow> auth_state \<times> nat attempt" where
  "LogoutAll w1 w2 user_id peer_ip st =
     (case RevokeAllForUser w1 user_id (x_Sessions st) of
        (sessions, Thrown) \<Rightarrow> (st \<lparr> x_Sessions := sessions \<rparr>, Thrown)
      | (sessions, Returned dropped) \<Rightarrow>
          (case bump_user w2 user_id (st \<lparr> x_Sessions := sessions \<rparr>) of
             (st, Thrown) \<Rightarrow> (st, Thrown)
           | (st, Returned _) \<Rightarrow>
               (Record (MakeAuthEvent ''auth.logout_all'' user_id ''success'' peer_ip
                  (nat_string dropped @ '' sessions revoked'')) st, Returned dropped)))"

definition DisableUser :: "bool \<Rightarrow> bool \<Rightarrow> bool \<Rightarrow> string \<Rightarrow> auth_state \<Rightarrow> auth_state \<times> outcome" where
  "DisableUser w1 w2 w3 user_id st =
     (case FindById user_id (x_Users st) of
        None \<Rightarrow> (st, Refused ''User not found'')
      | Some user \<Rightarrow>
          (case UserStore_Update w1 (user \<lparr> u_Disabled := True \<rparr>) (gs_Registry (x_Groups st)) (x_Users st) of
             (users, Applied) \<Rightarrow>
               (case bump_user w2 user_id (st \<lparr> x_Users := users \<rparr>) of
                  (st, Thrown) \<Rightarrow> (st, StoreError)
                | (st, Returned _) \<Rightarrow>
                    (case RevokeAllForUser w3 user_id (x_Sessions st) of
                       (sessions, Thrown) \<Rightarrow> (st \<lparr> x_Sessions := sessions \<rparr>, StoreError)
                     | (sessions, Returned _) \<Rightarrow>
                         (Record (MakeAuthEvent ''auth.user_disabled'' user_id ''success'' [] [])
                            (st \<lparr> x_Sessions := sessions \<rparr>), Applied)))
           | (users, refused) \<Rightarrow> (st \<lparr> x_Users := users \<rparr>, refused)))"

section \<open>The kiosk\<close>

definition KIOSK_SUBJECT :: string where "KIOSK_SUBJECT = ''kiosk''"

definition KioskStore_Load :: "(bool \<times> string \<times> string \<times> u32) option \<Rightarrow> KioskStore" where
  "KioskStore_Load file =
     (case file of
        None \<Rightarrow> \<lparr> kk_Enabled = False, kk_PinHash = [], kk_TargetGroup = [], kk_TokenVersion = 1, kk_File = None \<rparr>
      | Some (enabled, pin_hash, target_group, token_version) \<Rightarrow>
          \<lparr> kk_Enabled = enabled, kk_PinHash = pin_hash, kk_TargetGroup = target_group,
            kk_TokenVersion = token_version, kk_File = file \<rparr>)"

definition KioskStore_Save :: "bool \<Rightarrow> KioskStore \<Rightarrow> KioskStore" where
  "KioskStore_Save written k =
     (if written then k \<lparr> kk_File := Some (kk_Enabled k, kk_PinHash k, kk_TargetGroup k, kk_TokenVersion k) \<rparr> else k)"

definition Configure :: "bool \<Rightarrow> string \<Rightarrow> string \<Rightarrow> KioskStore \<Rightarrow> KioskStore" where
  "Configure written pin_hash target_group k =
     KioskStore_Save written (k \<lparr> kk_Enabled := True, kk_PinHash := pin_hash, kk_TargetGroup := target_group,
                                  kk_TokenVersion := kk_TokenVersion k + 1 \<rparr>)"

definition Disable :: "bool \<Rightarrow> KioskStore \<Rightarrow> KioskStore" where
  "Disable written k =
     KioskStore_Save written (k \<lparr> kk_Enabled := False, kk_PinHash := [], kk_TargetGroup := [],
                                  kk_TokenVersion := kk_TokenVersion k + 1 \<rparr>)"

definition MakeKioskEvent :: "string \<Rightarrow> string \<Rightarrow> string \<Rightarrow> string \<Rightarrow> string \<Rightarrow> AuditEvent" where
  "MakeKioskEvent action decision peer_ip actor_id detail =
     \<lparr> v_SubjectId = (if actor_id = [] then KIOSK_SUBJECT else actor_id), v_Provider = ''KioskPin'',
       v_Action = action, v_Decision = decision, v_PeerIp = peer_ip, v_Detail = detail \<rparr>"

text \<open>\<open>SetPin\<close> up to the hashing of the PIN; \<open>None\<close> lets the hashing start.\<close>

definition SetPin_begin ::
    "auth_env \<Rightarrow> string \<Rightarrow> string \<Rightarrow> string \<Rightarrow> string \<Rightarrow> auth_state \<Rightarrow> auth_state \<times> string option" where
  "SetPin_begin env raw_pin target_group actor_id peer_ip st =
     (if length raw_pin < MinPinLength (env_config env)
      then (Record (MakeKioskEvent ''auth.kiosk_configure'' ''failure'' peer_ip actor_id ''PIN too short'') st,
            Some (''PIN must be at least '' @ nat_string (MinPinLength (env_config env)) @ '' characters''))
      else if Registry_Find target_group (gs_Registry (x_Groups st)) = None
      then (Record (MakeKioskEvent ''auth.kiosk_configure'' ''failure'' peer_ip actor_id ''unknown target group'') st,
            Some ''Unknown target group'')
      else (st, None))"

definition drop_kiosk_sessions :: "bool \<Rightarrow> AuditEvent \<Rightarrow> auth_state \<Rightarrow> auth_state \<times> unit attempt" where
  "drop_kiosk_sessions w event st =
     (case RevokeAllForUser w KIOSK_SUBJECT (x_Sessions st) of
        (sessions, Thrown) \<Rightarrow> (st \<lparr> x_Sessions := sessions \<rparr>, Thrown)
      | (sessions, Returned _) \<Rightarrow> (Record event (st \<lparr> x_Sessions := sessions \<rparr>), Returned ()))"

definition SetPin_complete ::
    "bool \<Rightarrow> bool \<Rightarrow> string \<Rightarrow> string \<Rightarrow> string \<Rightarrow> string \<Rightarrow> auth_state \<Rightarrow> auth_state \<times> unit attempt" where
  "SetPin_complete w1 w2 pin_hash target_group actor_id peer_ip st =
     (let st = st \<lparr> x_Kiosk := Configure w1 pin_hash target_group (x_Kiosk st) \<rparr>
      in if \<not> w1 then (st, Thrown)
         else drop_kiosk_sessions w2
                (MakeKioskEvent ''auth.kiosk_configure'' ''success'' peer_ip actor_id (''target group '' @ target_group)) st)"

definition ClearPin :: "bool \<Rightarrow> bool \<Rightarrow> string \<Rightarrow> string \<Rightarrow> auth_state \<Rightarrow> auth_state \<times> unit attempt" where
  "ClearPin w1 w2 actor_id peer_ip st =
     (let st = st \<lparr> x_Kiosk := Disable w1 (x_Kiosk st) \<rparr>
      in if \<not> w1 then (st, Thrown)
         else drop_kiosk_sessions w2 (MakeKioskEvent ''auth.kiosk_disable'' ''success'' peer_ip actor_id []) st)"

definition Kiosk_IsLockedOut :: "int \<Rightarrow> auth_state \<Rightarrow> auth_state \<times> bool" where
  "Kiosk_IsLockedOut now st =
     (let entry = x_KioskFailure st
      in if f_LockedUntil entry = 0 then (st, False)
         else if now \<ge> f_LockedUntil entry then (st \<lparr> x_KioskFailure := no_failures \<rparr>, False)
         else (st, True))"

definition Kiosk_RecordFailure :: "auth_env \<Rightarrow> int \<Rightarrow> auth_state \<Rightarrow> auth_state" where
  "Kiosk_RecordFailure env now st =
     (let entry = x_KioskFailure st; entry = entry \<lparr> f_Count := f_Count entry + 1 \<rparr>;
          entry = (if f_Count entry \<ge> MaxFailures (env_config env)
                   then entry \<lparr> f_LockedUntil := now + ticks (Lockout (env_config env)) \<rparr> else entry)
      in st \<lparr> x_KioskFailure := entry \<rparr>)"

text \<open>\<open>LoginWithPin\<close> up to the verification: refused, or usable or not and the hash to compare with.\<close>

definition LoginWithPin_begin ::
    "auth_env \<Rightarrow> int \<Rightarrow> string \<Rightarrow> auth_state \<Rightarrow> auth_state \<times> (LoginResult + bool \<times> string)" where
  "LoginWithPin_begin env now peer_ip st =
     (let (st, locked) = Kiosk_IsLockedOut now st
      in if locked
         then (Record (MakeKioskEvent ''auth.kiosk_login'' ''failure'' peer_ip [] ''kiosk PIN locked out'') st,
               Inl (no_login \<lparr> r_LockedOut := True, r_Error := ''Too many failed attempts; try again later'' \<rparr>))
         else
           let usable = kk_Enabled (x_Kiosk st) \<and> kk_PinHash (x_Kiosk st) \<noteq> []
           in (st, Inr (usable, if usable then kk_PinHash (x_Kiosk st) else env_decoy env)))"

definition MintKioskToken :: "auth_env \<Rightarrow> int \<Rightarrow> auth_state \<Rightarrow> string" where
  "MintKioskToken env now st =
     (let groups = [kk_TargetGroup (x_Kiosk st)]
      in Sign (env_jwt env) (env_codec env) (x_Keys st) now
           \<lparr> c_Subject = KIOSK_SUBJECT, c_Provider = KioskPin, c_TokenVersion = kk_TokenVersion (x_Kiosk st),
             c_Groups = groups,
             c_Entitlements = ToStrings (ResolveEffectiveEntitlements (gs_Registry (x_Groups st)) [] groups),
             c_EntitlementsInToken = True, c_IssuedAt = 0, c_ExpiresAt = 0 \<rparr>)"

definition HandlePinVerified ::
    "auth_env \<Rightarrow> int \<Rightarrow> u8 list option \<Rightarrow> string \<Rightarrow> bool \<Rightarrow> bool \<Rightarrow> bool \<Rightarrow> string \<Rightarrow> string \<Rightarrow> auth_state
     \<Rightarrow> auth_state \<times> LoginResult attempt" where
  "HandlePinVerified env now random new_uuid w1 verified usable peer_ip user_agent st =
     (if \<not> usable \<or> \<not> verified
      then (Record (MakeKioskEvent ''auth.kiosk_login'' ''failure'' peer_ip []
              (if usable then ''wrong PIN'' else ''kiosk PIN not enabled'')) (Kiosk_RecordFailure env now st),
            Returned (no_login \<lparr> r_Error := ''Incorrect PIN'' \<rparr>))
      else
        let st = st \<lparr> x_KioskFailure := no_failures \<rparr>; access = MintKioskToken env now st
        in case SessionStore_Create (env_sha env) random new_uuid w1 KIOSK_SUBJECT
                  (NowUnix now + RefreshTtl (env_config env)) user_agent peer_ip (NowUnix now) (x_Sessions st) of
             (sessions, Thrown) \<Rightarrow> (st \<lparr> x_Sessions := sessions \<rparr>, Thrown)
           | (sessions, Returned (refresh, session_id)) \<Rightarrow>
               (Record (MakeKioskEvent ''auth.kiosk_login'' ''success'' peer_ip [] (''session '' @ session_id))
                  (st \<lparr> x_Sessions := sessions \<rparr>),
                Returned \<lparr> r_Success = True, r_LockedOut = False, r_Error = [], r_AccessToken = access,
                  r_RefreshToken = refresh, r_SessionId = session_id \<rparr>))"

section \<open>Guessing a password\<close>

text \<open>
  One attempt after the other, each completed before the next begins, and whether its password was
  checked at all.
\<close>

definition guess :: "auth_env \<Rightarrow> string \<Rightarrow> int \<times> string \<Rightarrow> auth_state \<Rightarrow> auth_state \<times> bool" where
  "guess env username g st =
     (case Login_begin env (fst g) username (snd g) [] [] st of
        (st, Inl _) \<Rightarrow> (st, False)
      | (st, Inr pending) \<Rightarrow>
          (fst (Login_complete env (fst g) None [] True pending (Verified env pending) st), True))"

primrec guesses_checked :: "auth_env \<Rightarrow> string \<Rightarrow> (int \<times> string) list \<Rightarrow> auth_state \<Rightarrow> nat" where
  "guesses_checked env username [] st = 0"
| "guesses_checked env username (g # gs) st =
     (let (st', checked) = guess env username g st
      in (if checked then 1 else 0) + guesses_checked env username gs st')"

definition wrong_guess :: "auth_env \<Rightarrow> string \<Rightarrow> UserStore \<Rightarrow> string \<Rightarrow> bool" where
  "wrong_guess env username users password \<longleftrightarrow>
     (case FindByUsername username users of
        None \<Rightarrow> True | Some u \<Rightarrow> u_Disabled u \<or> \<not> env_password env password (u_PasswordHash u))"

definition failures_ok :: "auth_env \<Rightarrow> auth_state \<Rightarrow> bool" where
  "failures_ok env st \<longleftrightarrow> (\<forall>key e. x_Failures st key = Some e \<longrightarrow> f_Count e < MaxFailures (env_config env))"

lemma Record_frame [simp]:
  "x_Users (Record e st) = x_Users st" "x_Groups (Record e st) = x_Groups st"
  "x_Sessions (Record e st) = x_Sessions st" "x_Keys (Record e st) = x_Keys st"
  "x_Kiosk (Record e st) = x_Kiosk st" "x_Failures (Record e st) = x_Failures st"
  "x_KioskFailure (Record e st) = x_KioskFailure st"
  by (simp_all add: Record_def)

lemma wrong_guess_checked:
  assumes "wrong_guess env username (x_Users st) (snd g)" "\<not> IsLockedOut (LowercaseKey username) (fst g) st"
  shows "snd (guess env username g st)"
    and "x_Failures (fst (guess env username g st))
           = x_Failures (RecordFailure env (LowercaseKey username) (fst g) st)"
    and "x_Users (fst (guess env username g st)) = x_Users (RecordFailure env (LowercaseKey username) (fst g) st)"
  using assms
  by (auto simp: guess_def Login_begin_def Let_def Login_complete_def Verified_def wrong_guess_def
      split: option.splits)

lemma guess_refused:
  assumes "IsLockedOut (LowercaseKey username) (fst g) st"
  shows "\<not> snd (guess env username g st)" "x_Failures (fst (guess env username g st)) = x_Failures st"
    "x_Users (fst (guess env username g st)) = x_Users st"
  using assms by (simp_all add: guess_def Login_begin_def Let_def)

lemma RecordFailure_users [simp]: "x_Users (RecordFailure env key now st) = x_Users st"
  by (simp add: RecordFailure_def Let_def)

lemma locked_guesses:
  "x_Failures st (LowercaseKey username) = Some e \<Longrightarrow> \<forall>g \<in> set gs. fst g < f_LockedUntil e \<Longrightarrow>
   guesses_checked env username gs st = 0"
proof (induction gs arbitrary: st)
  case (Cons g gs)
  then have "IsLockedOut (LowercaseKey username) (fst g) st" by (simp add: IsLockedOut_def)
  from guess_refused [OF this, of env] Cons show ?case by (simp add: split_def Let_def)
qed simp

definition count_of :: "auth_state \<Rightarrow> string \<Rightarrow> u32" where
  "count_of st key = (case x_Failures st key of None \<Rightarrow> 0 | Some e \<Rightarrow> f_Count e)"

lemma RecordFailure_entry:
  "x_Failures (RecordFailure env key now st) key =
     Some (if count_of st key + 1 \<ge> MaxFailures (env_config env)
           then \<lparr> f_Count = 0, f_LockedUntil = now + ticks (Lockout (env_config env)) \<rparr>
           else (case x_Failures st key of None \<Rightarrow> no_failures | Some e \<Rightarrow> e) \<lparr> f_Count := count_of st key + 1 \<rparr>)"
  by (auto simp: RecordFailure_def Let_def count_of_def no_failures_def split: option.split)

lemma u32_less: "unat (w :: u32) < 4294967296"
  using unsigned_less [of w] by simp

lemma guesses_bounded:
  assumes "count_of st (LowercaseKey username) < MaxFailures (env_config env)"
    and "\<forall>g \<in> set gs. t0 \<le> fst g \<and> fst g < t0 + ticks (Lockout (env_config env))
           \<and> wrong_guess env username (x_Users st) (snd g)"
  shows "guesses_checked env username gs st
     \<le> unat (MaxFailures (env_config env)) - unat (count_of st (LowercaseKey username))"
  using assms
proof (induction gs arbitrary: st)
  case (Cons g gs)
  let ?key = "LowercaseKey username" and ?max = "MaxFailures (env_config env)"
  show ?case
  proof (cases "IsLockedOut ?key (fst g) st")
    case True
    have "count_of (fst (guess env username g st)) ?key = count_of st ?key"
      using guess_refused [OF True, of env] by (simp add: count_of_def)
    moreover from this guess_refused [OF True, of env] Cons.prems
    have "guesses_checked env username gs (fst (guess env username g st))
        \<le> unat ?max - unat (count_of (fst (guess env username g st)) ?key)"
      by (intro Cons.IH) auto
    ultimately show ?thesis using guess_refused [OF True, of env] by (simp add: split_def Let_def)
  next
    case False
    let ?st = "fst (guess env username g st)"
    have w: "wrong_guess env username (x_Users st) (snd g)" using Cons.prems by simp
    note checked = wrong_guess_checked [OF w False]
    have lt: "unat (count_of st ?key) < unat ?max" using Cons.prems(1) by (simp add: word_less_nat_alt)
    then have c: "unat (count_of st ?key + 1) = unat (count_of st ?key) + 1"
      using u32_less [of ?max] by (simp add: unat_word_ariths)
    show ?thesis
    proof (cases "count_of st ?key + 1 \<ge> ?max")
      case True
      with checked RecordFailure_entry [of env ?key "fst g" st]
      have "x_Failures ?st ?key = Some \<lparr> f_Count = 0, f_LockedUntil = fst g + ticks (Lockout (env_config env)) \<rparr>"
        by simp
      then have "guesses_checked env username gs ?st = 0"
        using Cons.prems(2) by (rule_tac locked_guesses) auto
      with lt checked show ?thesis by (simp add: split_def Let_def)
    next
      case False
      with checked RecordFailure_entry [of env ?key "fst g" st]
      have "count_of ?st ?key = count_of st ?key + 1" by (simp add: count_of_def)
      moreover from this False checked Cons.prems
      have "guesses_checked env username gs ?st \<le> unat ?max - unat (count_of ?st ?key)"
        by (intro Cons.IH) (auto simp: not_le)
      ultimately show ?thesis using checked(1) c lt by (simp add: split_def Let_def)
    qed
  qed
qed simp

text \<open>
  C35: whoever guesses one attempt at a time gets no more than \<open>MaxFailures\<close> wrong passwords for an
  account checked within any window of the length of the lockout, however many attempts are made and
  whether the account exists, is disabled or enabled; all others are refused without looking at them.
\<close>

theorem lockout_bounds_guesses:
  assumes "failures_ok env st" "0 < MaxFailures (env_config env)"
    and "\<forall>g \<in> set gs. t0 \<le> fst g \<and> fst g < t0 + ticks (Lockout (env_config env))
           \<and> wrong_guess env username (x_Users st) (snd g)"
  shows "guesses_checked env username gs st \<le> unat (MaxFailures (env_config env))"
proof -
  have "count_of st (LowercaseKey username) < MaxFailures (env_config env)"
    using assms(1,2) by (auto simp: failures_ok_def count_of_def split: option.split)
  from guesses_bounded [OF this assms(3)] show ?thesis by simp
qed


text \<open>An environment for examples: a password is its own hash, digests and tokens as in the earlier theories.\<close>

definition sample_env :: auth_env where
  "sample_env = \<lparr> env_jwt = unary_jwt, env_codec = default_codec, env_config = default_service,
     env_sha = sample_digest, env_password = (\<lambda>password hash. password = hash), env_decoy = ''?'' \<rparr>"

definition sample_state :: auth_state where
  "sample_state = \<lparr> x_Users = sample_users, x_Groups = the (GroupStore_Load True None),
     x_Sessions = SessionStore_Load None, x_Keys = sample_keys, x_Kiosk = KioskStore_Load None,
     x_Failures = Map.empty, x_KioskFailure = no_failures, x_Audit = [] \<rparr>"

theorem lockout_bounds_guesses_witness:
  "guesses_checked sample_env ''ANN'' (map (\<lambda>n. (int n, replicate n CHR ''x'')) [0..<100]) sample_state \<le> 5"
proof -
  have not_h: "replicate n CHR ''x'' \<noteq> ''h''" for n by (cases n) simp_all
  have u: "FindByUsername ''ANN'' sample_users = Some sample_admin"
  proof -
    have "lower ''Ann'' = lower ''ANN''" by code_simp
    then show ?thesis by (simp add: FindByUsername_def sample_users_list UsernameEquals_lower sample_admin_def)
  qed
  have "failures_ok sample_env sample_state" by (simp add: failures_ok_def sample_state_def)
  moreover have "0 < MaxFailures (env_config sample_env)" by (simp add: sample_env_def default_service_def)
  moreover have "\<forall>g \<in> set (map (\<lambda>n. (int n, replicate n CHR ''x'')) [0..<100]).
      0 \<le> fst g \<and> fst g < 0 + ticks (Lockout (env_config sample_env))
      \<and> wrong_guess sample_env ''ANN'' (x_Users sample_state) (snd g)"
    by (auto simp: sample_env_def default_service_def ticks_def wrong_guess_def sample_state_def u sample_admin_def
        not_h)
  ultimately show ?thesis
    using lockout_bounds_guesses [of sample_env sample_state "map (\<lambda>n. (int n, replicate n CHR ''x'')) [0..<100]" 0 "''ANN''"]
    by (simp add: sample_env_def default_service_def)
qed

text \<open>The completions of several logins with wrong passwords, all begun in the same state.\<close>

definition begun :: "auth_env \<Rightarrow> int \<Rightarrow> string \<Rightarrow> auth_state \<Rightarrow> string \<Rightarrow> pending_login" where
  "begun env now username st password = projr (snd (Login_begin env now username password [] [] st))"

definition complete_begun ::
    "auth_env \<Rightarrow> int \<Rightarrow> int \<Rightarrow> string \<Rightarrow> auth_state \<Rightarrow> string \<Rightarrow> auth_state \<Rightarrow> auth_state" where
  "complete_begun env now now' username st password st' =
     fst (Login_complete env now' None [] True (begun env now username st password)
            (Verified env (begun env now username st password)) st')"

lemma begun_ok:
  "\<not> IsLockedOut (LowercaseKey username) now st \<Longrightarrow>
   Login_begin env now username password [] [] st = (st, Inr (begun env now username st password))"
  by (simp add: begun_def Login_begin_def Let_def)

lemma begun_fields:
  "\<not> IsLockedOut (LowercaseKey username) now st \<Longrightarrow> FindByUsername username (x_Users st) = Some u \<Longrightarrow>
   \<not> u_Disabled u \<Longrightarrow>
   begun env now username st password = \<lparr> l_Usable = True, l_User = Some u, l_Username = username,
     l_Key = LowercaseKey username, l_PeerIp = [], l_UserAgent = [], l_Password = password, l_Hash = u_PasswordHash u \<rparr>"
  by (simp add: begun_def Login_begin_def Let_def)

definition locked_to :: "auth_env \<Rightarrow> string \<Rightarrow> int \<Rightarrow> auth_state \<Rightarrow> bool" where
  "locked_to env key now st \<longleftrightarrow>
     (\<exists>e. x_Failures st key = Some e \<and> f_LockedUntil e = now + ticks (Lockout (env_config env)))"

lemma locked_stays: "locked_to env key now st \<Longrightarrow> locked_to env key now (RecordFailure env key now st)"
  by (auto simp: locked_to_def RecordFailure_entry)

lemma failures_lock:
  "count_of st key < MaxFailures (env_config env) \<Longrightarrow>
   unat (MaxFailures (env_config env)) \<le> unat (count_of st key) + n \<or> locked_to env key now st \<Longrightarrow>
   locked_to env key now (((RecordFailure env key now) ^^ n) st)"
proof (induction n arbitrary: st)
  case 0
  then show ?case by (auto simp: word_less_nat_alt)
next
  case (Suc n)
  let ?max = "MaxFailures (env_config env)" and ?st = "RecordFailure env key now st"
  have c: "unat (count_of st key + 1) = unat (count_of st key) + 1"
    using Suc.prems(1) u32_less [of ?max] by (simp add: unat_word_ariths word_less_nat_alt)
  have pos: "0 < ?max" using Suc.prems(1) by (simp add: word_less_nat_alt)
  have "locked_to env key now ((RecordFailure env key now ^^ n) ?st)"
  proof (rule Suc.IH)
    show "count_of ?st key < ?max"
      using Suc.prems(1) pos by (auto simp: count_of_def [of ?st] RecordFailure_entry not_le)
    show "unat ?max \<le> unat (count_of ?st key) + n \<or> locked_to env key now ?st"
    proof (cases "count_of st key + 1 \<ge> ?max")
      case True
      then show ?thesis by (simp add: locked_to_def RecordFailure_entry)
    next
      case False
      then have "count_of ?st key = count_of st key + 1" by (simp add: count_of_def [of ?st] RecordFailure_entry)
      then show ?thesis using Suc.prems(2) c locked_stays by auto
    qed
  qed
  then show ?case by (simp add: funpow_swap1)
qed


lemma create_session:
  "SessionStore_Create H (Some bytes) uuid True user_id expiry user_agent peer_ip now store =
     (\<lparr> ns_Sessions = ns_Sessions store @ [\<lparr> n_Id = uuid, n_UserId = user_id,
          n_RefreshDigest = H (REFRESH_PREFIX @ ToHex bytes), n_PreviousDigest = [], n_IssuedUnix = now,
          n_ExpiryUnix = expiry, n_LastSeenUnix = now, n_UserAgent = user_agent, n_PeerIp = peer_ip \<rparr>],
        ns_File = Some (ns_Sessions store @ [\<lparr> n_Id = uuid, n_UserId = user_id,
          n_RefreshDigest = H (REFRESH_PREFIX @ ToHex bytes), n_PreviousDigest = [], n_IssuedUnix = now,
          n_ExpiryUnix = expiry, n_LastSeenUnix = now, n_UserAgent = user_agent, n_PeerIp = peer_ip \<rparr>]) \<rparr>,
      Returned (REFRESH_PREFIX @ ToHex bytes, uuid))"
  by (cases store) (simp add: SessionStore_Create_def GenerateSecret_def saved_def SessionStore_Save_def Let_def)

lemma erase_sessions_kept [simp]:
  "ns_Sessions (fst (erase_sessions written p st)) = filter (\<lambda>s. \<not> p s) (ns_Sessions st)"
proof (cases "length (filter (\<lambda>s. \<not> p s) (ns_Sessions st)) < length (ns_Sessions st)")
  case False
  then have "\<forall>s \<in> set (ns_Sessions st). \<not> p s" using length_filter_less by metis
  with False show ?thesis by (simp add: erase_sessions_def Let_def)
qed (simp add: erase_sessions_def Let_def SessionStore_Save_def)

lemma erase_sessions_returns: "\<exists>n. snd (erase_sessions True p st) = Returned n"
  by (simp add: erase_sessions_def Let_def saved_def)

lemma revoke_by_id:
  obtains store' n where "RevokeById True i store = (store', Returned n)" "i \<notin> n_Id ` set (ns_Sessions store')"
proof -
  obtain k where "snd (erase_sessions True (\<lambda>s. n_Id s = i) store) = Returned k"
    using erase_sessions_returns by blast
  then have "RevokeById True i store = (fst (erase_sessions True (\<lambda>s. n_Id s = i) store), Returned (k > 0))"
    by (simp add: RevokeById_def map_prod_def split_def)
  then show thesis by (rule that) auto
qed

lemma finish_login_ok:
  "x_Failures (fst (FinishLogin env now (Some bytes) uuid True user peer_ip user_agent st)) = x_Failures st"
  "\<exists>r. snd (FinishLogin env now (Some bytes) uuid True user peer_ip user_agent st) = Returned r \<and> r_Success r"
  by (simp_all add: FinishLogin_def Let_def create_session)

lemma completions_fail:
  assumes "\<not> IsLockedOut (LowercaseKey username) now st" "FindByUsername username (x_Users st) = Some u"
    and "\<not> u_Disabled u" "\<forall>pw \<in> set wrong. \<not> env_password env pw (u_PasswordHash u)"
  shows "x_Failures (fold (complete_begun env now now' username st) wrong st')
       = x_Failures ((RecordFailure env (LowercaseKey username) now' ^^ length wrong) st')"
  using assms(4)
proof (induction wrong arbitrary: st')
  case (Cons pw wrong)
  let ?st = "complete_begun env now now' username st pw st'"
  let ?key = "LowercaseKey username"
  have one: "x_Failures ?st = x_Failures (RecordFailure env ?key now' st')"
    using assms(1-3) Cons.prems by (simp add: complete_begun_def begun_fields Verified_def Login_complete_def)
  have same: "x_Failures ((RecordFailure env ?key now' ^^ n) a) = x_Failures ((RecordFailure env ?key now' ^^ n) b)"
    if "x_Failures a = x_Failures b" for a b n
    using that by (induction n) (auto simp: RecordFailure_def Let_def)
  from Cons show ?case using same [OF one] by (simp add: funpow_swap1)
qed simp

text \<open>
  The lockout holds back only logins that begin after it. Any number of logins for an account can be
  begun before the first of them completes: none is refused, each has its password checked; and when as
  many wrong ones as the limit have locked the account, the completion of one with the right password
  still opens a session, and it removes the lock.
\<close>

theorem parallel_logins_unlimited:
  assumes "\<not> IsLockedOut (LowercaseKey username) now st" "failures_ok env st"
    and "FindByUsername username (x_Users st) = Some u" "\<not> u_Disabled u"
    and "list_all (\<lambda>pw. \<not> env_password env pw (u_PasswordHash u)) wrong"
    and "0 < MaxFailures (env_config env)" "unat (MaxFailures (env_config env)) \<le> length wrong"
    and "env_password env right (u_PasswordHash u)"
    and "attacked = fold (complete_begun env now now' username st) wrong st"
    and "now' \<le> now''" "now'' < now' + ticks (Lockout (env_config env))"
    and "Login_complete env now'' (Some bytes) uuid True (begun env now username st right)
           (Verified env (begun env now username st right)) attacked = (final, result)"
  shows "list_all (\<lambda>pw. Login_begin env now username pw [] [] st = (st, Inr (begun env now username st pw))) (wrong @ [right])
     \<and> IsLockedOut (LowercaseKey username) now'' attacked
     \<and> (\<exists>r. result = Returned r \<and> r_Success r)
     \<and> \<not> IsLockedOut (LowercaseKey username) now'' final"
proof -
  let ?key = "LowercaseKey username"
  have "count_of st ?key < MaxFailures (env_config env)"
    using assms(2,6) by (auto simp: failures_ok_def count_of_def split: option.split)
  then have "locked_to env ?key now' ((RecordFailure env ?key now' ^^ length wrong) st)"
    using assms(7) by (intro failures_lock) auto
  moreover have "x_Failures attacked = x_Failures ((RecordFailure env ?key now' ^^ length wrong) st)"
    unfolding assms(9) using assms(1,3,4,5) by (intro completions_fail) (auto simp: list_all_iff)
  ultimately have "IsLockedOut ?key now'' attacked"
    using assms(11) by (auto simp: locked_to_def IsLockedOut_def)
  moreover define unlocked where "unlocked = attacked \<lparr> x_Failures := (x_Failures attacked)(?key := None) \<rparr>"
  have "(final, result) = FinishLogin env now'' (Some bytes) uuid True u [] [] unlocked"
    using assms(8,12) begun_fields [OF assms(1,3,4), of env right]
    by (simp add: Login_complete_def Verified_def unlocked_def)
  then have "final = fst (FinishLogin env now'' (Some bytes) uuid True u [] [] unlocked)"
    "result = snd (FinishLogin env now'' (Some bytes) uuid True u [] [] unlocked)" by (simp_all add: prod_eq_iff)
  then have "(\<exists>r. result = Returned r \<and> r_Success r) \<and> x_Failures final ?key = None"
    using finish_login_ok by (simp add: unlocked_def)
  ultimately show ?thesis
    using begun_ok [OF assms(1)] by (auto simp: list_all_iff IsLockedOut_def split: option.split)
qed

text \<open>
  A kiosk session cannot be refreshed. A login with the PIN returns a refresh secret like any other,
  but unless an account happens to have the id of the kiosk, presenting the secret before the session
  expires rotates it, then looks for that account, refuses and removes the session.
\<close>

theorem kiosk_session_not_refreshed:
  assumes "FindById KIOSK_SUBJECT (x_Users st) = None"
    and "HandlePinVerified env now (Some bytes) new_uuid True True True peer_ip user_agent st = (st1, Returned r)"
    and "\<forall>s \<in> set (ns_Sessions (x_Sessions st)). env_sha env (r_RefreshToken r) \<notin> {n_RefreshDigest s, n_PreviousDigest s}"
    and "env_sha env (r_RefreshToken r) \<noteq> []" "r_RefreshToken r \<noteq> []"
    and "NowUnix later < NowUnix now + RefreshTtl (env_config env)"
  shows "r_Success r
     \<and> new_uuid \<in> n_Id ` set (ns_Sessions (x_Sessions st1))
     \<and> (\<exists>st2. Refresh env later (Some fresh) True True (r_RefreshToken r) peer_ip st1
              = (st2, Returned (no_refresh ''Invalid or expired session''))
            \<and> new_uuid \<notin> n_Id ` set (ns_Sessions (x_Sessions st2)))"
proof -
  let ?d = "env_sha env (r_RefreshToken r)"
  let ?new = "\<lparr> n_Id = new_uuid, n_UserId = KIOSK_SUBJECT, n_RefreshDigest = ?d, n_PreviousDigest = [],
     n_IssuedUnix = NowUnix now, n_ExpiryUnix = NowUnix now + RefreshTtl (env_config env),
     n_LastSeenUnix = NowUnix now, n_UserAgent = user_agent, n_PeerIp = peer_ip \<rparr>"
  from assms(2) have r: "r_Success r" "x_Users st1 = x_Users st"
    "ns_Sessions (x_Sessions st1) = ns_Sessions (x_Sessions st) @ [?new]"
    by (auto simp: HandlePinVerified_def Let_def create_session)
  have p: "find (\<lambda>s. n_PreviousDigest s = ?d) (ns_Sessions (x_Sessions st1)) = None"
    using assms(3,4) by (auto simp: find_None_iff r(3))
  have n: "find (\<lambda>s. n_RefreshDigest s = ?d) (ns_Sessions (x_Sessions st)) = None"
    using assms(3) by (auto simp: find_None_iff)
  then have f: "find (\<lambda>s. n_RefreshDigest s = ?d) (ns_Sessions (x_Sessions st1)) = Some ?new"
    by (simp add: r(3) find_append)
  have "\<exists>store. Rotate (env_sha env) (Some fresh) True (r_RefreshToken r) (NowUnix later) (x_Sessions st1)
      = (store, Returned \<lparr> Success = True, ReuseDetected = False, NewRefreshSecret = REFRESH_PREFIX @ ToHex fresh,
                           SessionId = new_uuid, UserId = KIOSK_SUBJECT \<rparr>)"
    using rotate_rotated [where Sha256Hex = "env_sha env" and presented = "r_RefreshToken r" and st = "x_Sessions st1"
        and x = ?new and now = "NowUnix later" and random = "Some fresh"] assms(5,6) p f
    by (simp add: GenerateSecret_def saved_def)
  then obtain store where rot: "Rotate (env_sha env) (Some fresh) True (r_RefreshToken r) (NowUnix later) (x_Sessions st1)
      = (store, Returned \<lparr> Success = True, ReuseDetected = False, NewRefreshSecret = REFRESH_PREFIX @ ToHex fresh,
                           SessionId = new_uuid, UserId = KIOSK_SUBJECT \<rparr>)" by blast
  obtain store' n where rev: "RevokeById True new_uuid store = (store', Returned n)"
    "new_uuid \<notin> n_Id ` set (ns_Sessions store')"
    by (rule revoke_by_id)
  then show ?thesis
    using r assms(1) by (auto simp: Refresh_def rot)
qed


theorem parallel_logins_unlimited_witness:
  "IsLockedOut ''ann'' 9 (fold (complete_begun sample_env 0 5 ''ANN'' sample_state) (replicate 7 ''guess'') sample_state)
   \<and> (\<exists>r. snd (Login_complete sample_env 9 (Some [1]) ''s2'' True (begun sample_env 0 ''ANN'' sample_state ''h'')
              (Verified sample_env (begun sample_env 0 ''ANN'' sample_state ''h''))
              (fold (complete_begun sample_env 0 5 ''ANN'' sample_state) (replicate 7 ''guess'') sample_state))
          = Returned r \<and> r_Success r)"
proof -
  have lower: "lower ''Ann'' = lower ''ANN''" "LowercaseKey ''ANN'' = ''ann''" by code_simp+
  then have u: "FindByUsername ''ANN'' (x_Users sample_state) = Some sample_admin"
    by (simp add: FindByUsername_def sample_state_def sample_users_list UsernameEquals_lower sample_admin_def)
  have "\<not> IsLockedOut (LowercaseKey ''ANN'') 0 sample_state" "failures_ok sample_env sample_state"
    by (simp_all add: IsLockedOut_def failures_ok_def sample_state_def)
  moreover have "\<not> u_Disabled sample_admin" "u_PasswordHash sample_admin = ''h''"
    by (simp_all add: sample_admin_def new_user_def)
  ultimately show ?thesis
    using parallel_logins_unlimited [where env = sample_env and username = "''ANN''" and now = 0 and now' = 5
        and now'' = 9 and st = sample_state and u = sample_admin and wrong = "replicate 7 ''guess''"
        and right = "''h''" and bytes = "[1]" and uuid = "''s2''", OF _ _ u _ _ _ _ _ refl _ _ prod.collapse [symmetric]]
    by (simp add: lower(2)) (simp add: sample_env_def default_service_def ticks_def list_all_iff)
qed

definition kiosk_state :: auth_state where
  "kiosk_state = fst (SetPin_complete True True ''4711'' GUEST [] ''::1'' sample_state)"

theorem kiosk_session_not_refreshed_witness:
  "\<exists>r. snd (HandlePinVerified sample_env 0 (Some [1]) ''s9'' True True True ''::1'' ''tab'' kiosk_state) = Returned r
     \<and> r_Success r
     \<and> snd (Refresh sample_env 5 (Some [2]) True True (r_RefreshToken r) ''::1''
              (fst (HandlePinVerified sample_env 0 (Some [1]) ''s9'' True True True ''::1'' ''tab'' kiosk_state)))
         = Returned (no_refresh ''Invalid or expired session'')"
proof -
  let ?login = "HandlePinVerified sample_env 0 (Some [1]) ''s9'' True True True ''::1'' ''tab'' kiosk_state"
  have s: "x_Users kiosk_state = sample_users" "ns_Sessions (x_Sessions kiosk_state) = []"
    by (simp_all add: kiosk_state_def SetPin_complete_def Let_def drop_kiosk_sessions_def sample_state_def
        SessionStore_Load_def RevokeAllForUser_def erase_sessions_def)
  obtain r where r: "snd ?login = Returned r" "r_RefreshToken r = REFRESH_PREFIX @ ToHex [1]"
    by (simp add: HandlePinVerified_def Let_def create_session)
  have "?login = (fst ?login, Returned r)" by (simp add: r(1) [symmetric])
  from kiosk_session_not_refreshed [OF _ this, where later = 5 and fresh = "[2]"] r
  show ?thesis
    by (auto simp: s FindById_def sample_users_list sample_admin_def KIOSK_SUBJECT_def sample_env_def sample_digest_def
        REFRESH_PREFIX_def NowUnix_def default_service_def)
qed

end
