(* ===== verification/Subject_Resolver.thy ===== *)
theory Subject_Resolver
  imports Session_Service
begin

text \<open>
  From a request to a decision: API keys (\<open>api_key_store.cpp\<close>), the credential in the headers and
  the subject it stands for (\<open>subject_resolver.cpp\<close>), the group routes that push changes to
  outstanding tokens (\<open>webroute_groups.cpp\<close>, \<open>webroute_group.cpp\<close>) and the check of what a
  schedule may do (\<open>schedule_authorization.cpp\<close>). Of a request the two headers the resolver reads
  are modelled.
\<close>

section \<open>API keys\<close>

record ApiKeyRecord =
  ak_Id :: string
  ak_Label :: string
  ak_SecretSha256Hex :: string
  ak_Entitlements :: EntitlementSet
  ak_ExpiryUnix :: int
  ak_LastUsedUnix :: int
  ak_Revoked :: bool

record ApiKeyStore =
  as_Keys :: "ApiKeyRecord list"
  as_File :: "(ApiKeyRecord \<times> string list) list option"

definition KEY_PREFIX :: string where "KEY_PREFIX = ''aak_''"
definition BOOTSTRAP_KEY_ID :: string where "BOOTSTRAP_KEY_ID = ''bootstrap-legacy-token''"

text \<open>The file holds each record with its entitlements as texts; reading it parses them.\<close>

definition ApiKeyStore_Save :: "bool \<Rightarrow> ApiKeyStore \<Rightarrow> ApiKeyStore" where
  "ApiKeyStore_Save written store =
     (if written
      then store \<lparr> as_File := Some (map (\<lambda>k. (k \<lparr> ak_Entitlements := [] \<rparr>, ToStrings (ak_Entitlements k))) (as_Keys store)) \<rparr>
      else store)"

definition ApiKeyStore_Load :: "(ApiKeyRecord \<times> string list) list option \<Rightarrow> ApiKeyStore" where
  "ApiKeyStore_Load file =
     \<lparr> as_Keys = (case file of
          Some keys \<Rightarrow> map (\<lambda>(k, texts). k \<lparr> ak_Entitlements := fst (EntitlementSet_Parse texts) \<rparr>) keys
        | None \<Rightarrow> []),
       as_File = file \<rparr>"

definition ApiKey_Create ::
    "(string \<Rightarrow> string) \<Rightarrow> u8 list option \<Rightarrow> string \<Rightarrow> bool \<Rightarrow> string \<Rightarrow> EntitlementSet \<Rightarrow> int
     \<Rightarrow> ApiKeyStore \<Rightarrow> ApiKeyStore \<times> (string \<times> string) attempt" where
  "ApiKey_Create DigestOf random new_uuid written label entitlements expiry_unix store =
     (case random of
        None \<Rightarrow> (store, Thrown)
      | Some random_bytes \<Rightarrow>
          let secret = KEY_PREFIX @ ToHex random_bytes;
              key = \<lparr> ak_Id = new_uuid, ak_Label = label, ak_SecretSha256Hex = DigestOf secret,
                      ak_Entitlements = entitlements, ak_ExpiryUnix = expiry_unix, ak_LastUsedUnix = 0,
                      ak_Revoked = False \<rparr>
          in (ApiKeyStore_Save written (store \<lparr> as_Keys := as_Keys store @ [key] \<rparr>), saved written (secret, new_uuid)))"

definition SeedBootstrapKey ::
    "(string \<Rightarrow> string) \<Rightarrow> bool \<Rightarrow> string \<Rightarrow> ApiKeyStore \<Rightarrow> ApiKeyStore \<times> unit attempt" where
  "SeedBootstrapKey DigestOf written legacy_token store =
     (if legacy_token = [] then (store, Returned ())
      else
        let digest = DigestOf legacy_token;
            it = find (\<lambda>k. ak_Id k = BOOTSTRAP_KEY_ID) (as_Keys store)
        in if (case it of None \<Rightarrow> False | Some k \<Rightarrow> ak_SecretSha256Hex k = digest) then (store, Returned ())
           else
             let bootstrap = \<lparr> ak_Id = BOOTSTRAP_KEY_ID, ak_Label = ''Legacy --api-auth-token (bootstrap)'',
                     ak_SecretSha256Hex = digest,
                     ak_Entitlements = Add [] \<lparr> e_Action = SYSTEM_ADMIN, e_Selector = None \<rparr>,
                     ak_ExpiryUnix = 0, ak_LastUsedUnix = 0, ak_Revoked = False \<rparr>;
                 keys = (if it \<noteq> None then replace_where (\<lambda>k. ak_Id k = BOOTSTRAP_KEY_ID) bootstrap (as_Keys store)
                         else as_Keys store @ [bootstrap])
             in (ApiKeyStore_Save written (store \<lparr> as_Keys := keys \<rparr>), saved written ()))"

definition Authenticate ::
    "(string \<Rightarrow> string) \<Rightarrow> bool \<Rightarrow> string \<Rightarrow> int \<Rightarrow> ApiKeyStore \<Rightarrow> ApiKeyStore \<times> ApiKeyRecord option attempt" where
  "Authenticate DigestOf written presented_secret now_unix store =
     (if presented_secret = [] then (store, Returned None)
      else
        let digest = DigestOf presented_secret
        in case find (\<lambda>k. ak_SecretSha256Hex k = digest) (as_Keys store) of
             None \<Rightarrow> (store, Returned None)
           | Some it \<Rightarrow>
               if ak_Revoked it \<or> (ak_ExpiryUnix it \<noteq> 0 \<and> now_unix \<ge> ak_ExpiryUnix it) then (store, Returned None)
               else
                 let used = it \<lparr> ak_LastUsedUnix := now_unix \<rparr>
                 in (ApiKeyStore_Save written (store \<lparr> as_Keys :=
                       replace_where (\<lambda>k. ak_SecretSha256Hex k = digest) used (as_Keys store) \<rparr>),
                     saved written (Some used)))"

definition ApiKey_Revoke :: "bool \<Rightarrow> string \<Rightarrow> ApiKeyStore \<Rightarrow> ApiKeyStore \<times> outcome" where
  "ApiKey_Revoke written ident store =
     (case find (\<lambda>k. ak_Id k = ident) (as_Keys store) of
        None \<Rightarrow> (store, Refused ''API key not found'')
      | Some it \<Rightarrow>
          (ApiKeyStore_Save written (store \<lparr> as_Keys :=
             replace_where (\<lambda>k. ak_Id k = ident) (it \<lparr> ak_Revoked := True \<rparr>) (as_Keys store) \<rparr>),
           saved_outcome written))"

section \<open>The credential of a request\<close>

definition BEARER_PREFIX :: string where "BEARER_PREFIX = ''Bearer ''"
definition WS_BEARER_ENTRY_PREFIX :: string where "WS_BEARER_ENTRY_PREFIX = ''bearer.''"

record request_headers =
  q_authorization :: "string option"
  q_sec_websocket_protocol :: "string option"

definition blank :: "char \<Rightarrow> bool" where "blank c \<longleftrightarrow> c = CHR '' '' \<or> c = CHR 0x09"

definition trim_entry :: "string \<Rightarrow> string" where
  "trim_entry entry = rev (dropWhile blank (rev (dropWhile blank entry)))"

text \<open>The loop over the entries between commas; the argument is the header from \<open>pos\<close> on.\<close>

function ws_token_loop :: "string \<Rightarrow> string" where
  "ws_token_loop header =
     (let comma = find_char (CHR '','') header;
          entry = trim_entry (case comma of None \<Rightarrow> header | Some p \<Rightarrow> take p header)
      in if starts_with WS_BEARER_ENTRY_PREFIX entry then drop (length WS_BEARER_ENTRY_PREFIX) entry
         else case comma of None \<Rightarrow> [] | Some p \<Rightarrow> ws_token_loop (drop (p + 1) header))"
  by pat_completeness auto

lemma find_char_less: "find_char c s = Some p \<Longrightarrow> p < length s"
  by (auto simp: find_char_def Let_def split: if_splits)

termination ws_token_loop
  by (relation "measure length") (auto dest!: find_char_less [OF sym])

declare ws_token_loop.simps [simp del]

definition WebSocketSubprotocolBearerToken :: "request_headers \<Rightarrow> string" where
  "WebSocketSubprotocolBearerToken req =
     (case q_sec_websocket_protocol req of None \<Rightarrow> [] | Some header \<Rightarrow> ws_token_loop header)"

definition BearerToken :: "request_headers \<Rightarrow> bool \<Rightarrow> string" where
  "BearerToken req is_websocket_upgrade =
     (if is_websocket_upgrade then WebSocketSubprotocolBearerToken req
      else case q_authorization req of
             None \<Rightarrow> []
           | Some header \<Rightarrow> if \<not> starts_with BEARER_PREFIX header then [] else drop (length BEARER_PREFIX) header)"

section \<open>The subject of a request\<close>

text \<open>The stores the resolver was built with; a missing pointer skips its step.\<close>

record resolver_deps =
  d_Groups :: GroupRegistry
  d_Codec :: "(jwt_api \<times> CodecConfig \<times> JwtKeyStore) option"
  d_Users :: "UserStore option"
  d_ApiKeys :: "ApiKeyStore option"
  d_Kiosk :: "KioskStore option"
  d_DigestOf :: "string \<Rightarrow> string"

definition GrantImplicitSelfEntitlements :: "Subject \<Rightarrow> Subject" where
  "GrantImplicitSelfEntitlements subject =
     subject \<lparr> j_Entitlements := Add (j_Entitlements subject) \<lparr> e_Action = PREFS_SELF, e_Selector = None \<rparr> \<rparr>"

definition AnonymousGuest :: "GroupRegistry \<Rightarrow> Subject" where
  "AnonymousGuest groups =
     Subject_Anonymous \<lparr> j_Groups := [GUEST], j_Entitlements := ResolveEffectiveEntitlements groups [] [GUEST] \<rparr>"

text \<open>The entitlements of a token: its own, or those the groups give when they were left out.\<close>

definition token_entitlements :: "GroupRegistry \<Rightarrow> TokenClaims \<Rightarrow> EntitlementSet \<Rightarrow> string list \<Rightarrow> EntitlementSet" where
  "token_entitlements groups claims direct memberships =
     (if c_EntitlementsInToken claims then fst (EntitlementSet_Parse (c_Entitlements claims))
      else ResolveEffectiveEntitlements groups direct memberships)"

definition ResolveJwt :: "resolver_deps \<Rightarrow> int \<Rightarrow> string \<Rightarrow> Subject option" where
  "ResolveJwt deps now token =
     (case d_Codec deps of
        None \<Rightarrow> None
      | Some (J, config, keys) \<Rightarrow>
          (case Verify J config keys now token of
             None \<Rightarrow> None
           | Some claims \<Rightarrow>
               let subject = Subject_Anonymous \<lparr> j_Id := c_Subject claims, j_Authenticated := True,
                     j_Provider := c_Provider claims, j_Groups := c_Groups claims, j_TokenVersion := c_TokenVersion claims \<rparr>
               in if c_Provider claims = KioskPin
                  then
                    (case d_Kiosk deps of
                       None \<Rightarrow> None
                     | Some kiosk \<Rightarrow>
                         if \<not> kk_Enabled kiosk \<or> kk_TokenVersion kiosk \<noteq> c_TokenVersion claims then None
                         else Some (subject \<lparr> j_Entitlements :=
                                token_entitlements (d_Groups deps) claims [] (j_Groups subject) \<rparr>))
                  else
                    (case d_Users deps of
                       Some users \<Rightarrow>
                         (case FindById (c_Subject claims) users of
                            None \<Rightarrow> None
                          | Some user \<Rightarrow>
                              if u_Disabled user \<or> u_TokenVersion user \<noteq> c_TokenVersion claims then None
                              else Some (GrantImplicitSelfEntitlements (subject \<lparr> j_Groups := u_Groups user,
                                     j_Username := u_Username user,
                                     j_Entitlements := token_entitlements (d_Groups deps) claims
                                       (u_DirectEntitlements user) (u_Groups user) \<rparr>)))
                     | None \<Rightarrow>
                         Some (GrantImplicitSelfEntitlements (subject \<lparr> j_Entitlements :=
                           token_entitlements (d_Groups deps) claims [] (j_Groups subject) \<rparr>)))))"

definition ResolveApiKey :: "resolver_deps \<Rightarrow> int \<Rightarrow> bool \<Rightarrow> string \<Rightarrow> resolver_deps \<times> Subject option attempt" where
  "ResolveApiKey deps now written token =
     (case d_ApiKeys deps of
        None \<Rightarrow> (deps, Returned None)
      | Some keys \<Rightarrow>
          (case Authenticate (d_DigestOf deps) written token (NowUnix now) keys of
             (keys, Thrown) \<Rightarrow> (deps \<lparr> d_ApiKeys := Some keys \<rparr>, Thrown)
           | (keys, Returned key) \<Rightarrow>
               (deps \<lparr> d_ApiKeys := Some keys \<rparr>,
                Returned (map_option (\<lambda>key. Subject_Anonymous \<lparr> j_Id := ak_Id key, j_Username := ak_Label key,
                  j_Authenticated := True, j_Provider := ApiKey, j_Entitlements := ak_Entitlements key \<rparr>) key))))"

definition ResolveSubject ::
    "resolver_deps \<Rightarrow> int \<Rightarrow> bool \<Rightarrow> request_headers \<Rightarrow> bool \<Rightarrow> resolver_deps \<times> Subject attempt" where
  "ResolveSubject deps now written req is_websocket_upgrade =
     (let token = BearerToken req is_websocket_upgrade
      in if token = [] then (deps, Returned (AnonymousGuest (d_Groups deps)))
         else
           case ResolveJwt deps now token of
             Some subject \<Rightarrow> (deps, Returned subject)
           | None \<Rightarrow>
               (case ResolveApiKey deps now written token of
                  (deps, Thrown) \<Rightarrow> (deps, Thrown)
                | (deps, Returned (Some subject)) \<Rightarrow> (deps, Returned subject)
                | (deps, Returned None) \<Rightarrow> (deps, Returned (AnonymousGuest (d_Groups deps)))))"

text \<open>The resolver of the running system: every store is there.\<close>

definition deps_of :: "auth_env \<Rightarrow> ApiKeyStore \<Rightarrow> auth_state \<Rightarrow> resolver_deps" where
  "deps_of env keys st = \<lparr> d_Groups = gs_Registry (x_Groups st),
     d_Codec = Some (env_jwt env, env_codec env, x_Keys st), d_Users = Some (x_Users st),
     d_ApiKeys = Some keys, d_Kiosk = Some (x_Kiosk st), d_DigestOf = env_sha env \<rparr>"

section \<open>The group routes\<close>

text \<open>The loop that makes the tokens of the members of a group stale; the writes succeed.\<close>

definition bump_members :: "string \<Rightarrow> auth_state \<Rightarrow> auth_state" where
  "bump_members name st =
     foldl (\<lambda>st user. if name \<in> set (u_Groups user) then fst (bump_user True (u_Id user) st) else st)
       st (us_Users (x_Users st))"

definition Groups_post :: "string \<Rightarrow> EntitlementSet \<Rightarrow> auth_state \<Rightarrow> auth_state \<times> outcome" where
  "Groups_post name entitlements st =
     (let previous = Registry_Find name (gs_Registry (x_Groups st));
          entitlement_change = (case previous of None \<Rightarrow> True | Some gr \<Rightarrow> g_Entitlements gr \<noteq> entitlements)
      in case GroupStore_Upsert True \<lparr> g_Name = name, g_Entitlements = entitlements, g_BuiltIn = False \<rparr> (x_Groups st) of
           (groups, Applied) \<Rightarrow>
             (let st = st \<lparr> x_Groups := groups \<rparr>
              in ((if entitlement_change then bump_members name st else st), Applied))
         | (groups, refused) \<Rightarrow> (st \<lparr> x_Groups := groups \<rparr>, refused))"

definition Group_delete :: "string \<Rightarrow> auth_state \<Rightarrow> auth_state \<times> outcome" where
  "Group_delete name st =
     (case GroupStore_Remove True name (x_Groups st) of
        (groups, Applied) \<Rightarrow> (bump_members name (st \<lparr> x_Groups := groups \<rparr>), Applied)
      | (groups, refused) \<Rightarrow> (st \<lparr> x_Groups := groups \<rparr>, refused))"

section \<open>What a schedule may do\<close>

definition ActionEntitlement :: "ActionType \<Rightarrow> string" where
  "ActionEntitlement type =
     (case type of
        PoolSetpoint \<Rightarrow> EQUIPMENT_CONTROL_SETPOINTS
      | SpaSetpoint \<Rightarrow> EQUIPMENT_CONTROL_SETPOINTS
      | ChlorinatorPercent \<Rightarrow> EQUIPMENT_CONTROL_CHLORINATOR
      | CirculationMode \<Rightarrow> EQUIPMENT_CONTROL_CIRCULATION
      | _ \<Rightarrow> EQUIPMENT_CONTROL_AUX)"

text \<open>\<open>FindByLabel\<close> gives the ids of the devices of a label; the result is the error text, if any.\<close>

definition quoted :: "string \<Rightarrow> string" where
  "quoted s = CHR 0x27 # s @ [CHR 0x27]"

definition schedule_rule :: string where
  "schedule_rule = '' '' @ [CHR 0xE2, CHR 0x80, CHR 0x94] @ '' a schedule may only perform actions you can perform directly''"

definition AuthorizeScheduleAction ::
    "Subject \<Rightarrow> Schedule \<Rightarrow> (string \<Rightarrow> string list) \<Rightarrow> bool \<Rightarrow> string option" where
  "AuthorizeScheduleAction subject schedule FindByLabel auth_enabled =
     (let env = \<lparr> AuthEnabled = auth_enabled \<rparr>;
          act = s_action schedule;
          entitlement = ActionEntitlement (a_type act)
      in if IsButtonAction (a_type act)
         then
           let devices = FindByLabel (a_target act)
           in if devices = []
              then (if \<not> auth_enabled then None
                    else Some (''schedule targets an unknown device '' @ quoted (a_target act)))
              else if list_ex (\<lambda>device_id. Decide subject entitlement \<lparr> Kind = ''aux'', Id = device_id \<rparr> env \<noteq> Permit) devices
              then Some (''not entitled to control '' @ quoted (a_target act) @ schedule_rule)
              else None
         else if Decide subject entitlement \<lparr> Kind = [], Id = [] \<rparr> env \<noteq> Permit
         then Some (''not entitled to '' @ quoted entitlement @ schedule_rule)
         else None)"

section \<open>Revocation takes effect at once\<close>

lemma find_replaced:
  "u_Id y = j \<Longrightarrow> find (\<lambda>u. u_Id u = i) (replace_where (\<lambda>u. u_Id u = j) y xs)
     = (if i = j then map_option (\<lambda>_. y) (find (\<lambda>u. u_Id u = i) xs) else find (\<lambda>u. u_Id u = i) xs)"
  by (induction xs) auto

lemma FindById_id: "FindById i store = Some u \<Longrightarrow> u_Id u = i"
  by (auto simp: FindById_def find_Some_iff)

lemma FindById_Save [simp]: "FindById i (UserStore_Save w store) = FindById i store"
  by (simp add: FindById_def)

lemma bump_find:
  "FindById i (x_Users (fst (bump_user w j st)))
     = map_option (\<lambda>u. if i = j then u \<lparr> u_TokenVersion := u_TokenVersion u + 1 \<rparr> else u) (FindById i (x_Users st))"
proof (cases "FindById j (x_Users st)")
  case None
  then show ?thesis
    by (cases "FindById i (x_Users st)") (auto simp: bump_user_def BumpTokenVersion_def)
next
  case (Some u)
  then show ?thesis using FindById_id [OF Some]
    by (auto simp: bump_user_def BumpTokenVersion_def Let_def find_replaced option.map_id0 [unfolded id_def]
        FindById_def)
qed

lemma bump_frame [simp]:
  "x_Groups (fst (bump_user w j st)) = x_Groups st" "x_Sessions (fst (bump_user w j st)) = x_Sessions st"
  "x_Keys (fst (bump_user w j st)) = x_Keys st" "x_Kiosk (fst (bump_user w j st)) = x_Kiosk st"
  by (simp_all add: bump_user_def Let_def split_def)

lemma logout_all:
  assumes "LogoutAll w1 w2 u ip st = (st', Returned n)"
  shows "FindById u (x_Users st') = map_option (\<lambda>r. r \<lparr> u_TokenVersion := u_TokenVersion r + 1 \<rparr>) (FindById u (x_Users st))"
    and "ForUser u (x_Sessions st') = []" "x_Keys st' = x_Keys st"
proof -
  obtain sessions a where a: "RevokeAllForUser w1 u (x_Sessions st) = (sessions, Returned a)"
    using assms by (cases "RevokeAllForUser w1 u (x_Sessions st)") (auto simp: LogoutAll_def split: attempt.splits)
  obtain st1 v where b: "bump_user w2 u (st \<lparr> x_Sessions := sessions \<rparr>) = (st1, Returned v)"
    using assms by (cases "bump_user w2 u (st \<lparr> x_Sessions := sessions \<rparr>)") (auto simp: LogoutAll_def a split: attempt.splits)
  from assms a b obtain e where st': "st' = Record e st1" by (auto simp: LogoutAll_def)
  have "sessions = fst (RevokeAllForUser w1 u (x_Sessions st))" "st1 = fst (bump_user w2 u (st \<lparr> x_Sessions := sessions \<rparr>))"
    using a b by simp_all
  then show "FindById u (x_Users st') = map_option (\<lambda>r. r \<lparr> u_TokenVersion := u_TokenVersion r + 1 \<rparr>) (FindById u (x_Users st))"
    "ForUser u (x_Sessions st') = []" "x_Keys st' = x_Keys st"
    by (simp_all add: bump_find ForUser_def st')
qed

lemma update_find:
  assumes "UserStore_Update w user registry store = (store', Applied)"
  shows "FindById (u_Id user) store' = Some user"
proof (cases "FindById (u_Id user) store")
  case (Some x)
  then have "us_Users store' = replace_where (\<lambda>e. u_Id e = u_Id user) user (us_Users store)"
    using assms by (auto simp: UserStore_Update_def split: if_splits)
  with Some show ?thesis by (simp add: FindById_def find_replaced)
qed (use assms in \<open>simp add: UserStore_Update_def\<close>)

lemma disable_user:
  assumes "DisableUser w1 w2 w3 u st = (st', Applied)"
  shows "\<exists>r. FindById u (x_Users st') = Some r \<and> u_Disabled r" "ForUser u (x_Sessions st') = []"
proof -
  from assms obtain r where r: "FindById u (x_Users st) = Some r"
    by (cases "FindById u (x_Users st)") (auto simp: DisableUser_def)
  then have i: "u_Id r = u" by (rule FindById_id)
  obtain users where up: "UserStore_Update w1 (r \<lparr> u_Disabled := True \<rparr>) (gs_Registry (x_Groups st)) (x_Users st) = (users, Applied)"
    using assms r
    by (cases "UserStore_Update w1 (r \<lparr> u_Disabled := True \<rparr>) (gs_Registry (x_Groups st)) (x_Users st)";
        cases "snd (UserStore_Update w1 (r \<lparr> u_Disabled := True \<rparr>) (gs_Registry (x_Groups st)) (x_Users st))")
      (auto simp: DisableUser_def)
  obtain st1 v where b: "bump_user w2 u (st \<lparr> x_Users := users \<rparr>) = (st1, Returned v)"
    using assms r up by (cases "bump_user w2 u (st \<lparr> x_Users := users \<rparr>)") (auto simp: DisableUser_def split: attempt.splits)
  obtain sessions n where c: "RevokeAllForUser w3 u (x_Sessions st1) = (sessions, Returned n)"
    using assms r up b
    by (cases "RevokeAllForUser w3 u (x_Sessions st1)") (auto simp: DisableUser_def split: attempt.splits)
  from assms r up b c obtain e where st': "st' = Record e (st1 \<lparr> x_Sessions := sessions \<rparr>)"
    by (auto simp: DisableUser_def)
  have "st1 = fst (bump_user w2 u (st \<lparr> x_Users := users \<rparr>))" "sessions = fst (RevokeAllForUser w3 u (x_Sessions st1))"
    using b c by simp_all
  moreover have "FindById u users = Some (r \<lparr> u_Disabled := True \<rparr>)" using update_find [OF up] i by simp
  ultimately show "\<exists>r. FindById u (x_Users st') = Some r \<and> u_Disabled r" "ForUser u (x_Sessions st') = []"
    by (simp_all add: st' bump_find ForUser_def)
qed



section \<open>From login to decision\<close>

text \<open>The period in which a token signed at a time is accepted.\<close>

definition token_alive :: "auth_env \<Rightarrow> int \<Rightarrow> int \<Rightarrow> bool" where
  "token_alive env signed_at now \<longleftrightarrow>
     NowUnix signed_at - LeewaySeconds (env_codec env) \<le> NowUnix now
     \<and> NowUnix now \<le> NowUnix (signed_at + ticks (AccessTokenTtl (env_codec env))) + LeewaySeconds (env_codec env)"

definition token_fits :: "auth_env \<Rightarrow> string list \<Rightarrow> bool" where
  "token_fits env texts \<longleftrightarrow> json_dump_size (env_jwt env) texts \<le> EntClaimBudgetBytes (env_codec env)"

definition resolved :: "UserRecord \<Rightarrow> auth_state \<Rightarrow> EntitlementSet" where
  "resolved user st = ResolveEffectiveEntitlements (gs_Registry (x_Groups st)) (u_DirectEntitlements user) (u_Groups user)"

lemma verify_minted:
  assumes "jwt_laws (env_jwt env)" "ks_Keys (x_Keys st) \<noteq> []" "token_alive env signed_at now"
    and "FindById (u_Id user) (x_Users st) = Some user"
  shows "\<exists>claims. Verify (env_jwt env) (env_codec env) (x_Keys st) now (MintAccessToken env signed_at user st) = Some claims
     \<and> c_Subject claims = u_Id user \<and> c_Provider claims = Local \<and> c_TokenVersion claims = u_TokenVersion user
     \<and> c_EntitlementsInToken claims = token_fits env (ToStrings (resolved user st))
     \<and> c_Entitlements claims = (if token_fits env (ToStrings (resolved user st)) then ToStrings (resolved user st) else [])"
  using verify_signed [OF assms(1,2) Find_active [OF assms(2)], of signed_at "env_codec env" now] assms(3,4)
  by (simp add: token_alive_def MintAccessToken_def Let_def resolved_def token_fits_def)

lemma resolve_minted:
  assumes "jwt_laws (env_jwt env)" "ks_Keys (x_Keys st) \<noteq> []" "token_alive env signed_at now"
    and "FindById (u_Id user) (x_Users st) = Some user"
    and "FindById (u_Id user) (x_Users st') = Some user'" "x_Keys st' = x_Keys st"
    and "\<forall>e \<in> set (resolved user st). well_formed e"
  shows "if u_Disabled user' \<or> u_TokenVersion user' \<noteq> u_TokenVersion user
     then ResolveJwt (deps_of env keys st') now (MintAccessToken env signed_at user st) = None
     else \<exists>s. ResolveJwt (deps_of env keys st') now (MintAccessToken env signed_at user st) = Some s
       \<and> set (j_Entitlements s) = insert \<lparr> e_Action = PREFS_SELF, e_Selector = None \<rparr>
           (set (if token_fits env (ToStrings (resolved user st)) then resolved user st else resolved user' st'))"
proof -
  obtain claims where c: "Verify (env_jwt env) (env_codec env) (x_Keys st) now (MintAccessToken env signed_at user st) = Some claims"
    "c_Subject claims = u_Id user" "c_Provider claims = Local" "c_TokenVersion claims = u_TokenVersion user"
    "c_EntitlementsInToken claims = token_fits env (ToStrings (resolved user st))"
    "c_Entitlements claims = (if token_fits env (ToStrings (resolved user st)) then ToStrings (resolved user st) else [])"
    using verify_minted [OF assms(1-4)] by blast
  have "set (fst (EntitlementSet_Parse (ToStrings (resolved user st)))) = set (resolved user st)"
    using assms(7) by (rule EntitlementSet_Parse_ToStrings)
  with c assms(5,6) show ?thesis
    by (auto simp: ResolveJwt_def deps_of_def Let_def GrantImplicitSelfEntitlements_def token_entitlements_def
        resolved_def)
qed


section \<open>How far a change of a group reaches\<close>

lemma bump_members_find:
  "FindById i (x_Users (foldl (\<lambda>st user. if name \<in> set (u_Groups user) then fst (bump_user True (u_Id user) st) else st) st users))
     = map_option (\<lambda>u. u \<lparr> u_TokenVersion := u_TokenVersion u
         + of_nat (length (filter (\<lambda>v. u_Id v = i \<and> name \<in> set (u_Groups v)) users)) \<rparr>) (FindById i (x_Users st))"
proof (induction users arbitrary: st)
  case Nil
  then show ?case by (cases "FindById i (x_Users st)") simp_all
next
  case (Cons v users)
  then show ?case
    by (cases "FindById i (x_Users st)") (auto simp: bump_find algebra_simps)
qed

lemma bump_members_frame:
  "x_Groups (foldl (\<lambda>st user. if name \<in> set (u_Groups user) then fst (bump_user True (u_Id user) st) else st) st users) = x_Groups st
   \<and> x_Keys (foldl (\<lambda>st user. if name \<in> set (u_Groups user) then fst (bump_user True (u_Id user) st) else st) st users) = x_Keys st
   \<and> x_Kiosk (foldl (\<lambda>st user. if name \<in> set (u_Groups user) then fst (bump_user True (u_Id user) st) else st) st users) = x_Kiosk st"
  by (induction users arbitrary: st) auto

lemma members_once:
  assumes "distinct (map u_Id users)" "user \<in> set users"
  shows "length (filter (\<lambda>v. u_Id v = u_Id user \<and> name \<in> set (u_Groups v)) users)
     = (if name \<in> set (u_Groups user) then 1 else 0)"
  using assms
proof (induction users)
  case (Cons v users)
  then show ?case
  proof (cases "u_Id v = u_Id user")
    case True
    then have "v = user" using Cons.prems by (auto simp: image_iff)
    moreover from this have "filter (\<lambda>w. u_Id w = u_Id user \<and> name \<in> set (u_Groups w)) users = []"
      using Cons.prems(1) by (auto simp: filter_empty_conv image_iff)
    ultimately show ?thesis by simp
  qed auto
qed simp

lemma bump_members_user:
  assumes "distinct (map u_Id (us_Users (x_Users st)))" "FindById (u_Id user) (x_Users st) = Some user"
  shows "FindById (u_Id user) (x_Users (bump_members name st))
     = Some (if name \<in> set (u_Groups user) then user \<lparr> u_TokenVersion := u_TokenVersion user + 1 \<rparr> else user)"
proof -
  have "user \<in> set (us_Users (x_Users st))" using assms(2) by (auto simp: FindById_def find_Some_iff)
  from members_once [OF assms(1) this] show ?thesis
    using assms(2) by (simp add: bump_members_def bump_members_find)
qed

text \<open>
  A change of the entitlements of a group reaches the outstanding tokens of the accounts that list
  the group, and of no others. A token of such an account is refused after the change; a token, carrying
  its entitlements, of any other account still stands for what was granted when it was issued - also
  when the changed group is \<open>Everyone\<close>, whose entitlements every account holds without listing it.
\<close>

theorem group_edit_reach:
  assumes "jwt_laws (env_jwt env)" "ks_Keys (x_Keys st) \<noteq> []" "token_alive env signed_at now"
    and "FindById (u_Id user) (x_Users st) = Some user" "\<not> u_Disabled user"
    and "\<forall>e \<in> granted (gs_Registry (x_Groups st)) (u_DirectEntitlements user) (u_Groups user). well_formed e"
    and "distinct (map u_Id (us_Users (x_Users st)))"
    and "token_fits env (ToStrings (resolved user st))"
    and "Registry_Find name (gs_Registry (x_Groups st)) = Some gr" "g_Entitlements gr \<noteq> new" "name \<noteq> []"
    and "Groups_post name new st = (st', result)"
  shows "result = Applied
     \<and> (if name \<in> set (u_Groups user)
        then ResolveJwt (deps_of env keys st') now (MintAccessToken env signed_at user st) = None
        else \<exists>s. ResolveJwt (deps_of env keys st') now (MintAccessToken env signed_at user st) = Some s
          \<and> set (j_Entitlements s) = insert \<lparr> e_Action = PREFS_SELF, e_Selector = None \<rparr>
              (granted (gs_Registry (x_Groups st)) (u_DirectEntitlements user) (u_Groups user)))"
proof -
  let ?gr = "\<lparr> g_Name = name, g_Entitlements = new, g_BuiltIn = IsBuiltInName name \<rparr>"
  define st1 where "st1 = st \<lparr> x_Groups := GroupStore_Save True (x_Groups st
      \<lparr> gs_Registry := Registry_Upsert ?gr (gs_Registry (x_Groups st)) \<rparr>) \<rparr>"
  have r: "result = Applied" "st' = bump_members name st1"
    using assms(9-12) by (auto simp: Groups_post_def GroupStore_Upsert_def saved_outcome_def st1_def)
  have "FindById (u_Id user) (x_Users st')
     = Some (if name \<in> set (u_Groups user) then user \<lparr> u_TokenVersion := u_TokenVersion user + 1 \<rparr> else user)"
    unfolding r(2) using assms(4,7) by (intro bump_members_user) (simp_all add: st1_def)
  moreover have "x_Keys st' = x_Keys st"
    unfolding r(2) bump_members_def using bump_members_frame [of name st1 "us_Users (x_Users st1)"]
    by (simp add: st1_def)
  ultimately show ?thesis
    using resolve_minted [OF assms(1-4), of st' _ keys] assms(5,6,8) r(1)
    by (auto simp: resolved_def split: if_splits)
qed


section \<open>Revoked keys\<close>

text \<open>A step of the key store that neither draws nor seeds a secret with the given digest.\<close>

inductive key_step :: "(string \<Rightarrow> string) \<Rightarrow> string \<Rightarrow> ApiKeyStore \<Rightarrow> ApiKeyStore \<Rightarrow> bool" for DigestOf d where
  create: "ApiKey_Create DigestOf random new_uuid written label entitlements expiry st = (st', result) \<Longrightarrow>
     map_option (\<lambda>bytes. DigestOf (KEY_PREFIX @ ToHex bytes)) random \<noteq> Some d \<Longrightarrow> key_step DigestOf d st st'"
| seed: "SeedBootstrapKey DigestOf written legacy_token st = (st', seeded) \<Longrightarrow> DigestOf legacy_token \<noteq> d \<Longrightarrow>
     key_step DigestOf d st st'"
| authenticate: "Authenticate DigestOf written presented now st = (st', key) \<Longrightarrow> key_step DigestOf d st st'"
| revoke: "ApiKey_Revoke written i st = (st', revoked) \<Longrightarrow> key_step DigestOf d st st'"

definition digest_dead :: "string \<Rightarrow> ApiKeyStore \<Rightarrow> bool" where
  "digest_dead d store \<longleftrightarrow> (\<forall>k \<in> set (as_Keys store). ak_SecretSha256Hex k = d \<longrightarrow> ak_Revoked k)"

lemma Save_keys [simp]: "as_Keys (ApiKeyStore_Save written store) = as_Keys store"
  by (simp add: ApiKeyStore_Save_def)

lemma digest_dead_replace:
  "digest_dead d st \<Longrightarrow> (ak_SecretSha256Hex y = d \<Longrightarrow> ak_Revoked y) \<Longrightarrow>
   digest_dead d (ApiKeyStore_Save w (st \<lparr> as_Keys := replace_where p y (as_Keys st) \<rparr>))"
  using set_replace_where [of p y "as_Keys st"] by (auto simp: digest_dead_def)

lemma digest_dead_step: "key_step DigestOf d st st' \<Longrightarrow> digest_dead d st \<Longrightarrow> digest_dead d st'"
proof (induction rule: key_step.induct)
  case (create random new_uuid written label entitlements expiry st st' result)
  then show ?case by (cases random) (auto simp: ApiKey_Create_def Let_def digest_dead_def)
next
  case (seed written legacy_token st st' seeded)
  then show ?case
    by (auto simp: SeedBootstrapKey_def Let_def digest_dead_def split: if_splits
        dest!: set_replace_where [THEN subsetD])
next
  case (authenticate written presented now st st' key)
  show ?case
  proof (cases "find (\<lambda>k. ak_SecretSha256Hex k = DigestOf presented) (as_Keys st)")
    case (Some it)
    then have "it \<in> set (as_Keys st)" by (auto simp: find_Some_iff)
    with authenticate.prems have "ak_SecretSha256Hex it = d \<Longrightarrow> ak_Revoked it" by (auto simp: digest_dead_def)
    then have "digest_dead d (ApiKeyStore_Save written (st \<lparr> as_Keys :=
        replace_where (\<lambda>k. ak_SecretSha256Hex k = DigestOf presented) (it \<lparr> ak_LastUsedUnix := now \<rparr>) (as_Keys st) \<rparr>))"
      using authenticate.prems by (intro digest_dead_replace) auto
    with Some authenticate show ?thesis by (auto simp: Authenticate_def Let_def split: if_splits)
  qed (use authenticate in \<open>auto simp: Authenticate_def Let_def split: if_splits\<close>)
next
  case (revoke written i st st' revoked)
  show ?case
  proof (cases "find (\<lambda>k. ak_Id k = i) (as_Keys st)")
    case (Some it)
    have "digest_dead d (ApiKeyStore_Save written (st \<lparr> as_Keys :=
        replace_where (\<lambda>k. ak_Id k = i) (it \<lparr> ak_Revoked := True \<rparr>) (as_Keys st) \<rparr>))"
      using revoke.prems by (intro digest_dead_replace) auto
    with Some revoke show ?thesis by (simp add: ApiKey_Revoke_def)
  qed (use revoke in \<open>simp add: ApiKey_Revoke_def\<close>)
qed

definition authenticates :: "(string \<Rightarrow> string) \<Rightarrow> string \<Rightarrow> ApiKeyStore \<Rightarrow> bool" where
  "authenticates DigestOf secret st \<longleftrightarrow> (\<exists>w now. Authenticate DigestOf w secret now st \<noteq> (st, Returned None))"

lemma dead_not_authenticated:
  "digest_dead (DigestOf secret) st \<Longrightarrow> Authenticate DigestOf w secret now st = (st, Returned None)"
  by (auto simp: Authenticate_def Let_def digest_dead_def find_Some_iff split: option.split)

interpretation api_keys: credential_store "key_step DigestOf (DigestOf secret)" "digest_dead (DigestOf secret)"
    "authenticates DigestOf secret" for DigestOf secret
  by unfold_locales (auto simp: authenticates_def dead_not_authenticated intro: digest_dead_step)

text \<open>
  A revoked API key stays revoked. Once the key with a digest that no other key has was revoked, no
  later request with its secret is authenticated, whatever keys are created, seeded, used or revoked in
  between, as long as none is made from a secret with that digest - even when the revocation could not
  be written to the file.
\<close>

theorem revoked_key_dead:
  assumes "find (\<lambda>k. ak_Id k = i) (as_Keys st) = Some key" "ak_SecretSha256Hex key = DigestOf secret"
    and "distinct (map ak_SecretSha256Hex (as_Keys st))"
    and "ApiKey_Revoke w i st = (st1, revoked)" "(key_step DigestOf (DigestOf secret))\<^sup>*\<^sup>* st1 st2"
  shows "Authenticate DigestOf w2 secret now st2 = (st2, Returned None)"
proof -
  from replace_where_split [OF assms(1)] obtain us vs where sp: "as_Keys st = us @ key # vs"
    "\<forall>y. replace_where (\<lambda>k. ak_Id k = i) y (as_Keys st) = us @ y # vs" by blast
  have "as_Keys st1 = us @ key \<lparr> ak_Revoked := True \<rparr> # vs"
    using assms(1,4) sp by (auto simp: ApiKey_Revoke_def)
  then have "digest_dead (DigestOf secret) st1"
    using assms(2,3) sp by (auto simp: digest_dead_def image_iff)
  from api_keys.never_accepted [OF this assms(5)] show ?thesis unfolding authenticates_def by blast
qed

section \<open>The token in the WebSocket header\<close>

lemma trim_entry_id: "e \<noteq> [] \<Longrightarrow> \<not> blank (hd e) \<Longrightarrow> \<not> blank (last e) \<Longrightarrow> trim_entry (CHR '' '' # e) = e"
proof -
  assume a: "e \<noteq> []" "\<not> blank (hd e)" "\<not> blank (last e)"
  then have "dropWhile blank e = e" "dropWhile blank (rev e) = rev e"
    by (simp_all add: dropWhile_eq_self_iff hd_rev)
  moreover have "blank (CHR '' '')" by (simp add: blank_def)
  ultimately show ?thesis by (simp add: trim_entry_def)
qed

lemma ws_token_offered:
  assumes "CHR '','' \<notin> set protocol" "\<not> starts_with WS_BEARER_ENTRY_PREFIX (trim_entry protocol)"
    and "CHR '','' \<notin> set token" "token \<noteq> []" "\<not> blank (last token)"
  shows "ws_token_loop (protocol @ '', bearer.'' @ token) = token"
proof -
  have p: "find_char (CHR '','') (protocol @ '', bearer.'' @ token) = Some (length protocol)"
    using find_char_at [of "CHR '',''" protocol "'' bearer.'' @ token"] assms(1) by simp
  have "find_char (CHR '','') ('' bearer.'' @ token) = None"
    using assms(3) by (simp add: find_char_none)
  moreover have "trim_entry ('' bearer.'' @ token) = ''bearer.'' @ token"
    using trim_entry_id [of "''bearer.'' @ token"] assms(4,5) by (simp add: blank_def)
  ultimately have "ws_token_loop ('' bearer.'' @ token) = token"
    by (subst ws_token_loop.simps) (simp add: starts_with_def WS_BEARER_ENTRY_PREFIX_def)
  then show ?thesis
    using assms(2) p by (subst ws_token_loop.simps) simp
qed


section \<open>Examples\<close>

definition sample_token :: string where
  "sample_token = MintAccessToken sample_env 0 sample_admin sample_state"

lemma sample_parts:
  "x_Users sample_state = sample_users" "x_Keys sample_state = sample_keys"
  "gs_Registry (x_Groups sample_state) = WithBuiltIns" "env_jwt sample_env = unary_jwt"
  "env_codec sample_env = default_codec" "FindById ''u1'' sample_users = Some sample_admin"
  "\<not> u_Disabled sample_admin" "u_Groups sample_admin = [ADMINISTRATORS]" "u_DirectEntitlements sample_admin = []" "u_Id sample_admin = ''u1''"
  "ks_Keys sample_keys \<noteq> []" "token_alive sample_env 0 (ticks 5)"
  by (simp_all add: sample_state_def GroupStore_Load_def Save_file sample_env_def FindById_def sample_users_list
      sample_admin_def new_user_def sample_keys_def token_alive_def NowUnix_def ticks_def default_codec_def)

lemma sample_granted:
  "granted WithBuiltIns [] [ADMINISTRATORS] = {\<lparr> e_Action = SYSTEM_ADMIN, e_Selector = None \<rparr>}"
  by (auto simp: granted_def WithBuiltIns_list Registry_Find_def)

lemma sample_token_verifies:
  "\<exists>claims. Verify unary_jwt default_codec sample_keys (ticks 5) sample_token = Some claims
     \<and> c_Subject claims = ''u1'' \<and> c_Provider claims = Local \<and> c_TokenVersion claims = u_TokenVersion sample_admin"
  using verify_minted [of sample_env sample_state 0 "ticks 5" sample_admin] unary_jwt_laws
  by (auto simp: sample_parts sample_token_def)



theorem group_edit_reach_witness:
  "\<exists>s. ResolveJwt (deps_of sample_env (ApiKeyStore_Load None)
          (fst (Groups_post EVERYONE [\<lparr> e_Action = EQUIPMENT_VIEW, e_Selector = None \<rparr>] sample_state)))
        (ticks 5) sample_token = Some s
     \<and> \<lparr> e_Action = EQUIPMENT_VIEW, e_Selector = None \<rparr> \<notin> set (j_Entitlements s)"
proof -
  have r: "set (resolved sample_admin sample_state) = {\<lparr> e_Action = SYSTEM_ADMIN, e_Selector = None \<rparr>}"
    by (simp add: resolved_def sample_parts sample_granted)
  have "resolved sample_admin sample_state = [\<lparr> e_Action = SYSTEM_ADMIN, e_Selector = None \<rparr>]"
    unfolding resolved_def sample_parts
    by (simp add: ResolveEffectiveEntitlements_def WithBuiltIns_list Registry_Find_def sample_admin_def new_user_def
        Merge_def Add_def Contains_def)
  then have "token_fits sample_env (ToStrings (resolved sample_admin sample_state))"
    by (simp add: token_fits_def sample_parts ToStrings_def Entitlement_ToString_def unary_jwt_def default_codec_def
        SYSTEM_ADMIN_def)
  moreover have "Registry_Find EVERYONE WithBuiltIns = Some \<lparr> g_Name = EVERYONE, g_Entitlements = [], g_BuiltIn = True \<rparr>"
    by (simp add: WithBuiltIns_list Registry_Find_def)
  moreover have "jwt_laws (env_jwt sample_env)" "distinct (map u_Id (us_Users (x_Users sample_state)))"
    "FindById (u_Id sample_admin) (x_Users sample_state) = Some sample_admin" "ks_Keys (x_Keys sample_state) \<noteq> []"
    "\<forall>e \<in> granted (gs_Registry (x_Groups sample_state)) (u_DirectEntitlements sample_admin) (u_Groups sample_admin). well_formed e"
    using unary_jwt_laws admin_well_formed by (simp_all add: sample_parts sample_granted sample_users_list)
  ultimately have "\<exists>s. ResolveJwt (deps_of sample_env (ApiKeyStore_Load None)
          (fst (Groups_post EVERYONE [\<lparr> e_Action = EQUIPMENT_VIEW, e_Selector = None \<rparr>] sample_state)))
        (ticks 5) (MintAccessToken sample_env 0 sample_admin sample_state) = Some s
     \<and> set (j_Entitlements s) = insert \<lparr> e_Action = PREFS_SELF, e_Selector = None \<rparr>
         (granted (gs_Registry (x_Groups sample_state)) (u_DirectEntitlements sample_admin) (u_Groups sample_admin))"
    using group_edit_reach [of sample_env sample_state 0 "ticks 5" sample_admin EVERYONE
        "\<lparr> g_Name = EVERYONE, g_Entitlements = [], g_BuiltIn = True \<rparr>"
        "[\<lparr> e_Action = EQUIPMENT_VIEW, e_Selector = None \<rparr>]", OF _ _ sample_parts(12) _ sample_parts(7) _ _ _ _ _ _ prod.collapse [symmetric],
        of "ApiKeyStore_Load None"]
    by (simp add: sample_parts(3,8))
  moreover have "\<lparr> e_Action = EQUIPMENT_VIEW, e_Selector = None \<rparr> \<notin> insert \<lparr> e_Action = PREFS_SELF, e_Selector = None \<rparr>
      (granted (gs_Registry (x_Groups sample_state)) (u_DirectEntitlements sample_admin) (u_Groups sample_admin))"
    unfolding sample_parts sample_granted by (simp add: EQUIPMENT_VIEW_def PREFS_SELF_def SYSTEM_ADMIN_def)
  ultimately show ?thesis unfolding sample_token_def by metis
qed

definition sample_api_keys :: ApiKeyStore where
  "sample_api_keys = fst (ApiKey_Create sample_digest (Some [0x5A]) ''k1'' True ''probe'' [] 0 (ApiKeyStore_Load None))"

theorem revoked_key_dead_witness:
  "snd (Authenticate sample_digest True ''aak_5a'' 7 sample_api_keys) \<noteq> Returned None
   \<and> snd (Authenticate sample_digest True ''aak_5a'' 8 (fst (ApiKey_Revoke False ''k1'' sample_api_keys))) = Returned None"
proof -
  have k: "as_Keys sample_api_keys = [\<lparr> ak_Id = ''k1'', ak_Label = ''probe'', ak_SecretSha256Hex = ''#aak_5a'',
      ak_Entitlements = [], ak_ExpiryUnix = 0, ak_LastUsedUnix = 0, ak_Revoked = False \<rparr>]"
    by code_simp
  have "Authenticate sample_digest True ''aak_5a'' 8 (fst (ApiKey_Revoke False ''k1'' sample_api_keys))
      = (fst (ApiKey_Revoke False ''k1'' sample_api_keys), Returned None)"
    by (rule revoked_key_dead [OF _ _ _ prod.collapse [symmetric] rtranclp.rtrancl_refl, of "''k1''" _ "hd (as_Keys sample_api_keys)"])
      (simp_all add: k sample_digest_def)
  then show ?thesis by (simp add: Authenticate_def k sample_digest_def saved_def Let_def)
qed

end
