(* ===== verification/Screen_Page.thy ===== *)
theory Screen_Page
  imports Prelude
begin

text \<open>
  The text screen of a Jandy panel as the emulated keypads keep it: the page and its operations
  (\<open>jandy/utility/screen_data_page.h\<close> and \<open>.cpp\<close>), the events that update it
  (\<open>screen_data_page_updater.h\<close>), the page processors (\<open>screen_data_page_processor.cpp\<close>) and the
  screen capability that runs them (\<open>jandy/devices/capabilities/screen.cpp\<close>).

  A page is the list of its rows. A row's text is the line the controller sent; line numbers are the
  bytes of the messages.
\<close>

section \<open>Rows and pages\<close>

datatype HighlightStates = Normal | Highlighted | PartiallyHighlighted

record HighlightRangeType =
  Start :: u8
  Stop :: u8

record RowType =
  Text :: string
  HighlightState :: HighlightStates
  HighlightRange :: "HighlightRangeType option"

type_synonym ScreenDataPage = "RowType list"

definition DEFAULT_ROW_DATA :: RowType where
  "DEFAULT_ROW_DATA = \<lparr> Text = [], HighlightState = Normal, HighlightRange = None \<rparr>"

definition CLEAR_HIGHLIGHTS :: u8 where "CLEAR_HIGHLIGHTS = 0xFF"

definition new_page :: "nat \<Rightarrow> ScreenDataPage" where
  "new_page row_count = replicate row_count DEFAULT_ROW_DATA"

datatype ShiftDirections = Up | Down

definition Clear :: "ScreenDataPage \<Rightarrow> ScreenDataPage" where
  "Clear page = map (\<lambda>row. DEFAULT_ROW_DATA) page"

definition plain_row :: "RowType \<Rightarrow> RowType" where
  "plain_row row = row \<lparr> HighlightState := Normal, HighlightRange := None \<rparr>"

definition Highlight :: "ScreenDataPage \<Rightarrow> u8 \<Rightarrow> ScreenDataPage" where
  "Highlight page line_index =
     (if line_index = CLEAR_HIGHLIGHTS then map plain_row page
      else if length page \<le> unat line_index then page
      else let rows = map plain_row page
           in rows[unat line_index := (rows ! unat line_index)
                \<lparr> HighlightState := Highlighted, HighlightRange := None \<rparr>])"

definition HighlightChars :: "ScreenDataPage \<Rightarrow> u8 \<Rightarrow> u8 \<Rightarrow> u8 \<Rightarrow> ScreenDataPage" where
  "HighlightChars page line_index start_index stop_index =
     (if length page \<le> unat line_index then page
      else page[unat line_index := (page ! unat line_index)
             \<lparr> HighlightState := PartiallyHighlighted,
               HighlightRange := Some \<lparr> Start = start_index, Stop = stop_index \<rparr> \<rparr>])"

text \<open>
  \<open>std::rotate(first, middle, last)\<close> moves the rows from \<open>middle\<close> on to the front of the range. The
  iterator range \<open>[start, end)\<close> of the code is \<open>span\<close>, what lies before and after it is kept.
\<close>

definition std_rotate :: "nat \<Rightarrow> 'a list \<Rightarrow> 'a list" where
  "std_rotate middle xs = drop middle xs @ take middle xs"

definition shift_span :: "ShiftDirections \<Rightarrow> nat \<Rightarrow> RowType list \<Rightarrow> RowType list" where
  "shift_span direction shifts span =
     (let offset = (case direction of Up \<Rightarrow> shifts | Down \<Rightarrow> length span - shifts);
          rotated = std_rotate offset span
      in case direction of
           Up \<Rightarrow> take (length span - shifts) rotated @ replicate shifts DEFAULT_ROW_DATA
         | Down \<Rightarrow> replicate shifts DEFAULT_ROW_DATA @ drop shifts rotated)"

definition ShiftLines :: "ScreenDataPage \<Rightarrow> ShiftDirections \<Rightarrow> u8 \<Rightarrow> u8 \<Rightarrow> u8 \<Rightarrow> ScreenDataPage" where
  "ShiftLines page direction start_id end_id lines_to_shift =
     (let s = unat start_id; e = unat end_id; shifts = unat lines_to_shift; span_size = e - s + 1
      in if length page < 2 \<or> s > length page - 2 then page
         else if e > length page - 1 then page
         else if s \<ge> e then page
         else if shifts = 0 \<or> shifts > span_size then page
         else take s page @ shift_span direction shifts (take span_size (drop s page))
                @ drop (e + 1) page)"

section \<open>Updates\<close>

text \<open>
  The updater is a state machine with the single state \<open>Tracking\<close>: each event acts on the page and
  leads back to it.
\<close>

datatype screen_event =
    evSequenceStart
  | evSequenceEnd
  | evClear
  | evHighlight u8
  | evHighlightChars u8 u8 u8
  | evShift ShiftDirections u8 u8 u8
  | evUpdate u8 string

fun react :: "screen_event \<Rightarrow> ScreenDataPage \<Rightarrow> ScreenDataPage" where
  "react evSequenceStart page = page"
| "react evSequenceEnd page = page"
| "react evClear page = Clear page"
| "react (evHighlight line_id) page = Highlight page line_id"
| "react (evHighlightChars line_id start_index stop_index) page =
     HighlightChars page line_id start_index stop_index"
| "react (evShift direction first_line last_line shifts) page =
     ShiftLines page direction first_line last_line shifts"
| "react (evUpdate line_id line_text) page =
     (if unat line_id \<ge> length page then page
      else page[unat line_id := (page ! unat line_id) \<lparr> Text := line_text \<rparr>])"

section \<open>Page types and processors\<close>

datatype ScreenDataPageTypes =
    Page_System | Page_Service | Page_TimeOut | Page_OneTouch | Page_EquipmentOnOff
  | Page_EquipmentStatus | Page_SelectSpeed | Page_MenuHelp | Page_HelpSubmenu | Page_SetPoolHeat
  | Page_SetSpaHeat | Page_SetTemperature | Page_SetTime | Page_SystemSetup | Page_FreezeProtect
  | Page_Boost | Page_SetAquapure | Page_Version | Page_DiagnosticsSensors | Page_DiagnosticsRemotes
  | Page_DiagnosticsErrors | Page_DiagnosticsIAQStatus | Page_DiagnosticsIAQRSSI | Page_LabelAuxList
  | Page_LabelAux | Page_MoreOneTouch | Page_Program | Page_DisplayLight | Page_Lockouts
  | Page_PasswordSettings | Page_ProgramGroup | Page_GeneralLabels | Page_LightLabels
  | Page_WaterfallLabels | Page_CustomLabel | Page_EnterPassword | Page_HelpKeys | Page_StartUp
  | Page_SystemStatus | Page_CloudLink | Page_SpaSwitch | Page_Unknown

text \<open>
  What a processor does with a page acts on the state of its owner, of type \<open>'a\<close>: the callback is a
  field of the record. \<open>CanProcess\<close> searches case-insensitively; \<open>std::search\<close> with an empty needle
  returns \<open>begin()\<close>, which differs from \<open>end()\<close> only on a non-empty line.
\<close>

record 'a ScreenDataPage_Processor =
  m_PageType :: ScreenDataPageTypes
  m_MenuMatcher :: "u8 \<times> string"
  m_MenuProcessor :: "ScreenDataPage \<Rightarrow> 'a \<Rightarrow> 'a"

definition CanProcess :: "'a ScreenDataPage_Processor \<Rightarrow> ScreenDataPage \<Rightarrow> bool" where
  "CanProcess processor page =
     (let (line, needle) = m_MenuMatcher processor in
      if unat line \<ge> length page then False
      else let haystack = map toupper (Text (page ! unat line))
           in search_pos (map toupper needle) haystack \<noteq> length haystack)"

definition Process :: "'a ScreenDataPage_Processor \<Rightarrow> ScreenDataPage \<Rightarrow> 'a \<Rightarrow> 'a" where
  "Process processor page = m_MenuProcessor processor page"

section \<open>The screen capability\<close>

datatype ScreenModes = ModeNormal | Updating | UpdateComplete

record 'a Screen =
  m_DisplayedPage :: ScreenDataPage
  m_DisplayedPageType :: ScreenDataPageTypes
  m_ScreenMode :: ScreenModes
  m_DisplayedPageProcessors :: "'a ScreenDataPage_Processor list"

definition new_screen :: "u8 \<Rightarrow> 'a Screen" where
  "new_screen screen_lines =
     \<lparr> m_DisplayedPage = new_page (unat screen_lines), m_DisplayedPageType = Page_Unknown,
       m_ScreenMode = ModeNormal, m_DisplayedPageProcessors = [] \<rparr>"

definition ProcessScreenEvent :: "'a Screen \<Rightarrow> screen_event \<Rightarrow> 'a Screen" where
  "ProcessScreenEvent screen event =
     screen \<lparr> m_DisplayedPage := react event (m_DisplayedPage screen) \<rparr>"

fun process_loop ::
    "'a ScreenDataPage_Processor list \<Rightarrow> ScreenDataPage \<Rightarrow> ScreenDataPageTypes \<times> 'a \<Rightarrow> ScreenDataPageTypes \<times> 'a" where
  "process_loop [] page (page_type, owner) = (page_type, owner)"
| "process_loop (processor # rest) page (page_type, owner) =
     process_loop rest page (m_PageType processor, Process processor page owner)"

definition ProcessScreenUpdates :: "'a Screen \<Rightarrow> 'a \<Rightarrow> 'a Screen \<times> 'a" where
  "ProcessScreenUpdates screen owner =
     (case m_ScreenMode screen of
        ModeNormal \<Rightarrow> (screen, owner)
      | Updating \<Rightarrow> (screen, owner)
      | UpdateComplete \<Rightarrow>
          (let page = m_DisplayedPage screen;
               actionable_processors = [p \<leftarrow> m_DisplayedPageProcessors screen. CanProcess p page];
               (page_type, owner') = process_loop actionable_processors page (Page_Unknown, owner)
           in (screen \<lparr> m_DisplayedPageType := page_type, m_ScreenMode := ModeNormal \<rparr>, owner')))"

definition DescribeScreen :: "'a Screen \<Rightarrow> ScreenDataPageTypes \<times> ScreenModes \<times> string list" where
  "DescribeScreen screen =
     (m_DisplayedPageType screen, m_ScreenMode screen, map Text (m_DisplayedPage screen))"


section \<open>Shifting\<close>

text \<open>The rotation followed by the clearing of the rows that came round is a shift that fills up.\<close>

lemma shift_up: "k \<le> length span \<Longrightarrow> shift_span Up k span = drop k span @ replicate k DEFAULT_ROW_DATA"
  by (simp add: shift_span_def std_rotate_def)

lemma shift_down:
  "k \<le> length span \<Longrightarrow> shift_span Down k span = replicate k DEFAULT_ROW_DATA @ take (length span - k) span"
  by (simp add: shift_span_def std_rotate_def)

lemma length_shift_span [simp]: "k \<le> length span \<Longrightarrow> length (shift_span direction k span) = length span"
  by (cases direction) (simp_all add: shift_up shift_down)

lemma length_ShiftLines [simp]: "length (ShiftLines page direction a b k) = length page"
  by (auto simp: ShiftLines_def Let_def)

lemma length_page_ops [simp]:
  "length (Clear page) = length page"
  "length (Highlight page line) = length page"
  "length (HighlightChars page line a b) = length page"
  by (simp_all add: Clear_def Highlight_def HighlightChars_def Let_def)

lemma length_react [simp]: "length (react event page) = length page"
  by (cases event) simp_all

section \<open>One cursor\<close>

text \<open>The rows that are highlighted as a whole; the keypad has one cursor, so there is at most one.\<close>

definition cursors :: "ScreenDataPage \<Rightarrow> nat" where
  "cursors page = length [row \<leftarrow> page. HighlightState row = Highlighted]"

lemma cursors_simps [simp]:
  "cursors [] = 0"
  "cursors (row # page) = (if HighlightState row = Highlighted then 1 else 0) + cursors page"
  "cursors (xs @ ys) = cursors xs + cursors ys"
  by (simp_all add: cursors_def)

lemma cursors_plain [simp]: "cursors (map plain_row page) = 0"
  by (induction page) (simp_all add: plain_row_def)

lemma cursors_default [simp]: "cursors (replicate k DEFAULT_ROW_DATA) = 0"
  by (induction k) (simp_all add: DEFAULT_ROW_DATA_def)

lemma cursors_split: "cursors xs = cursors (take k xs) + cursors (drop k xs)"
  by (metis append_take_drop_id cursors_simps(3))

lemma cursors_update:
  "i < length page \<Longrightarrow>
   cursors (page[i := row]) \<le> cursors page + (if HighlightState row = Highlighted then 1 else 0)"
  by (simp add: upd_conv_take_nth_drop cursors_split [of page i] Cons_nth_drop_Suc [symmetric])

lemma cursors_same_state:
  "i < length page \<Longrightarrow> HighlightState row = HighlightState (page ! i) \<Longrightarrow> cursors (page[i := row]) = cursors page"
  by (simp add: upd_conv_take_nth_drop cursors_split [of page i] Cons_nth_drop_Suc [symmetric])

lemma cursors_shift: "k \<le> length span \<Longrightarrow> cursors (shift_span direction k span) \<le> cursors span"
  using cursors_split [of span k] cursors_split [of span "length span - k"]
  by (cases direction) (simp_all add: shift_up shift_down)

lemma cursors_ShiftLines: "cursors (ShiftLines page direction a b k) \<le> cursors page"
proof -
  let ?s = "unat a" and ?e = "unat b" and ?n = "unat b - unat a + 1"
  have "cursors (ShiftLines page direction a b k) \<le> cursors page" if
    run: "2 \<le> length page" "?s \<le> length page - 2" "?e \<le> length page - 1" "?s < ?e"
      "unat k \<noteq> 0" "unat k \<le> ?n"
  proof -
    have span: "length (take ?n (drop ?s page)) = ?n" using run by simp
    have "cursors page = cursors (take ?s page) + cursors (take ?n (drop ?s page)) + cursors (drop (?e + 1) page)"
      using cursors_split [of page ?s] cursors_split [of "drop ?s page" ?n] run by simp
    moreover have "cursors (shift_span direction (unat k) (take ?n (drop ?s page))) \<le> cursors (take ?n (drop ?s page))"
      using run by (intro cursors_shift) (simp only: span)
    ultimately show ?thesis using run by (simp add: ShiftLines_def Let_def)
  qed
  then show ?thesis by (auto simp: ShiftLines_def Let_def not_less not_le)
qed

definition screen_ok :: "nat \<Rightarrow> ScreenDataPage \<Rightarrow> bool" where
  "screen_ok rows page \<longleftrightarrow> length page = rows \<and> cursors page \<le> 1"

lemma cursors_Clear [simp]: "cursors (Clear page) = 0"
  by (simp add: Clear_def map_replicate_const)

lemma cursors_Highlight: "cursors page \<le> 1 \<Longrightarrow> cursors (Highlight page line) \<le> 1"
proof (cases "length page \<le> unat line")
  case False
  have "cursors ((map plain_row page)[unat line := row]) \<le> 1" for row
    using cursors_update [of "unat line" "map plain_row page" row] False by (simp split: if_splits)
  then show "cursors page \<le> 1 \<Longrightarrow> ?thesis" using False by (simp add: Highlight_def Let_def)
qed (simp add: Highlight_def)

lemma cursors_HighlightChars: "cursors page \<le> 1 \<Longrightarrow> cursors (HighlightChars page line a b) \<le> 1"
proof (cases "length page \<le> unat line")
  case False
  assume "cursors page \<le> 1"
  with False show ?thesis
    unfolding HighlightChars_def if_not_P [OF False]
    by (intro le_trans [OF cursors_update]) simp_all
qed (simp add: HighlightChars_def)

lemma react_ok: "screen_ok rows page \<Longrightarrow> screen_ok rows (react event page)"
proof (cases event)
  case (evUpdate line line_text)
  assume "screen_ok rows page"
  with evUpdate show ?thesis by (simp add: screen_ok_def cursors_same_state)
qed (simp_all add: screen_ok_def cursors_Highlight [simplified] cursors_HighlightChars [simplified]
       le_trans [OF cursors_ShiftLines])

lemma screen_events_ok: "screen_ok rows page \<Longrightarrow> screen_ok rows (fold react events page)"
  by (induction events arbitrary: page) (simp_all add: react_ok)

lemma new_page_ok: "screen_ok rows (new_page rows)"
  by (simp add: screen_ok_def new_page_def)


end
