(* ===== verification/Menu_Model.thy ===== *)
theory Menu_Model
  imports Screen_Page
begin

text \<open>
  The graph of menu pages that the emulated OneTouch keypad walks
  (\<open>jandy/navigation/menu_model.h\<close> and \<open>.cpp\<close>): pages with their detection patterns and edges, the
  recognition of the page on the screen, and the breadth-first search for a key sequence.

  \<open>m_Pages\<close> is a \<open>std::unordered_map\<close>, so the order of a loop over it is unspecified: it is the
  argument \<open>order\<close> of the operations that loop, a list of the registered ids. Pointers to edges are
  the edges themselves; the model never changes an edge after registration.
\<close>

section \<open>Pages and edges\<close>

datatype PageId =
    Unknown | System | OneTouch | MoreOneTouch | MenuHelp | HelpSubmenu | HelpKeys | HelpService
  | DiagnosticsSensors | DiagnosticsRemotes | DiagnosticsErrors | DiagnosticsIAQStatus
  | DiagnosticsIAQRSSI | SystemSetup | LabelAuxList | LabelAux | GeneralLabels | LightLabels
  | WaterfallLabels | CustomLabel | EquipmentOnOff | EquipmentStatus | SetTemperature | SetPoolHeat
  | SetSpaHeat | SetTime | FreezeProtect | Boost | SetAquapure | SelectSpeed | Program
  | DisplayLight | Lockouts | PasswordSettings | ProgramGroup | StartUp | Service | TimeOut
  | Version | EnterPassword

record Detector =
  d_line :: u8
  d_pattern :: string

datatype EdgeTrigger =
  Select | Back | LineUp | LineDown | PageUp | PageDown | SystemTimeout | SystemService

record MenuEdge =
  e_trigger :: EdgeTrigger
  e_source :: PageId
  e_target :: PageId
  e_line :: u8
  e_label :: string

definition IsSelfLoop :: "MenuEdge \<Rightarrow> bool" where
  "IsSelfLoop edge \<longleftrightarrow> e_source edge = e_target edge"

definition IsPageTransition :: "MenuEdge \<Rightarrow> bool" where
  "IsPageTransition edge \<longleftrightarrow> \<not> IsSelfLoop edge"

record MenuPage =
  p_id :: PageId
  p_name :: string
  p_type :: ScreenDataPageTypes
  p_detectors :: "Detector list"
  p_edges :: "MenuEdge list"
  p_max_content_lines :: "u8 option"
  p_multi_instance :: bool
  p_transient :: bool

fun first_back :: "MenuEdge list \<Rightarrow> PageId option" where
  "first_back [] = None"
| "first_back (edge # rest) = (if e_trigger edge = Back then Some (e_target edge) else first_back rest)"

definition BackTarget :: "MenuPage \<Rightarrow> PageId option" where
  "BackTarget page = first_back (p_edges page)"

definition SupportsKey :: "MenuPage \<Rightarrow> EdgeTrigger \<Rightarrow> bool" where
  "SupportsKey page trigger \<longleftrightarrow> list_ex (\<lambda>edge. e_trigger edge = trigger) (p_edges page)"

record MenuModel =
  m_Pages :: "PageId \<Rightarrow> MenuPage option"
  m_GlobalEdges :: "MenuEdge list"

definition empty_model :: MenuModel where
  "empty_model = \<lparr> m_Pages = (\<lambda>_. None), m_GlobalEdges = [] \<rparr>"

definition RegisterPage :: "MenuPage \<Rightarrow> MenuModel \<Rightarrow> MenuModel" where
  "RegisterPage page m = m \<lparr> m_Pages := (m_Pages m)(p_id page \<mapsto> page) \<rparr>"

definition RegisterGlobalEdge :: "MenuEdge \<Rightarrow> MenuModel \<Rightarrow> MenuModel" where
  "RegisterGlobalEdge edge m = m \<lparr> m_GlobalEdges := m_GlobalEdges m @ [edge] \<rparr>"

definition GetPage :: "MenuModel \<Rightarrow> PageId \<Rightarrow> MenuPage option" where
  "GetPage m page = m_Pages m page"

section \<open>Recognising a page\<close>

definition detector_matches :: "ScreenDataPage \<Rightarrow> Detector \<Rightarrow> bool" where
  "detector_matches content detector \<longleftrightarrow>
     unat (d_line detector) < length content \<and>
     occurs (d_pattern detector) (Text (content ! unat (d_line detector)))"

text \<open>The counter of the non-empty lines is a \<open>uint8_t\<close>.\<close>

definition non_empty_count :: "ScreenDataPage \<Rightarrow> u8" where
  "non_empty_count content = of_nat (length [row \<leftarrow> content. Text row \<noteq> []])"

definition page_matches :: "ScreenDataPage \<Rightarrow> MenuPage \<Rightarrow> bool" where
  "page_matches content page \<longleftrightarrow>
     p_detectors page \<noteq> [] \<and> list_all (detector_matches content) (p_detectors page) \<and>
     (case p_max_content_lines page of None \<Rightarrow> True | Some limit \<Rightarrow> \<not> limit < non_empty_count content)"

definition pattern_length :: "MenuPage \<Rightarrow> nat" where
  "pattern_length page = sum_list (map (length \<circ> d_pattern) (p_detectors page))"

fun detect_loop :: "MenuModel \<Rightarrow> ScreenDataPage \<Rightarrow> PageId list \<Rightarrow> PageId \<times> nat \<times> nat \<Rightarrow> PageId" where
  "detect_loop m content [] (best_match, _) = best_match"
| "detect_loop m content (page_id # rest) (best_match, best_count, best_length) =
     (case m_Pages m page_id of
        None \<Rightarrow> detect_loop m content rest (best_match, best_count, best_length)
      | Some page \<Rightarrow>
          (if page_matches content page \<and>
              (length (p_detectors page) > best_count \<or>
               (length (p_detectors page) = best_count \<and> pattern_length page > best_length))
           then detect_loop m content rest (page_id, length (p_detectors page), pattern_length page)
           else detect_loop m content rest (best_match, best_count, best_length)))"

definition DetectPage :: "PageId list \<Rightarrow> MenuModel \<Rightarrow> ScreenDataPage \<Rightarrow> PageId" where
  "DetectPage order m content = detect_loop m content order (Unknown, 0, 0)"

definition FindPageByDetection :: "PageId list \<Rightarrow> MenuModel \<Rightarrow> ScreenDataPage \<Rightarrow> MenuPage option" where
  "FindPageByDetection order m content =
     (let detected = DetectPage order m content
      in if detected = Unknown then None else GetPage m detected)"

definition FindPageIdByType :: "PageId list \<Rightarrow> MenuModel \<Rightarrow> ScreenDataPageTypes \<Rightarrow> PageId" where
  "FindPageIdByType order m page_type =
     (case find (\<lambda>i. case m_Pages m i of None \<Rightarrow> False | Some page \<Rightarrow> p_type page = page_type) order of
        Some i \<Rightarrow> i | None \<Rightarrow> Unknown)"

section \<open>Finding a path\<close>

text \<open>
  The map from a visited page to the edge that reached it; the sentinel of the start is \<open>Some None\<close>.
  The search keeps the queue and this map. Going over the edges of one page either reaches the
  destination (\<open>Inl\<close>) or extends both (\<open>Inr\<close>).
\<close>

type_synonym predecessors = "PageId \<Rightarrow> MenuEdge option option"

fun scan_edges ::
    "PageId \<Rightarrow> MenuEdge list \<Rightarrow> PageId list \<Rightarrow> predecessors \<Rightarrow>
     (MenuEdge \<times> predecessors) + (PageId list \<times> predecessors)" where
  "scan_edges dest [] queue predecessor = Inr (queue, predecessor)"
| "scan_edges dest (edge # rest) queue predecessor =
     (if \<not> IsPageTransition edge then scan_edges dest rest queue predecessor
      else if predecessor (e_target edge) \<noteq> None then scan_edges dest rest queue predecessor
      else let predecessor' = predecessor(e_target edge \<mapsto> Some edge)
           in if e_target edge = dest then Inl (edge, predecessor')
              else scan_edges dest rest (queue @ [e_target edge]) predecessor')"

definition page_list :: "PageId list" where
  "page_list =
     [Unknown, System, OneTouch, MoreOneTouch, MenuHelp, HelpSubmenu, HelpKeys, HelpService,
      DiagnosticsSensors, DiagnosticsRemotes, DiagnosticsErrors, DiagnosticsIAQStatus,
      DiagnosticsIAQRSSI, SystemSetup, LabelAuxList, LabelAux, GeneralLabels, LightLabels,
      WaterfallLabels, CustomLabel, EquipmentOnOff, EquipmentStatus, SetTemperature, SetPoolHeat,
      SetSpaHeat, SetTime, FreezeProtect, Boost, SetAquapure, SelectSpeed, Program,
      DisplayLight, Lockouts, PasswordSettings, ProgramGroup, StartUp, Service, TimeOut,
      Version, EnterPassword]"

lemma page_list_all: "p \<in> set page_list"
  by (cases p) (simp_all add: page_list_def)

instantiation PageId :: finite
begin
instance by standard (rule finite_subset [of _ "set page_list"], auto intro: page_list_all)
end

text \<open>Every page that enters the queue leaves the set of unvisited pages, so the search ends.\<close>

lemma scan_measure:
  "scan_edges dest es queue P = Inr (queue', P') \<Longrightarrow>
   length queue' + card (- dom P') = length queue + card (- dom P)"
proof (induction es arbitrary: queue P)
  case Nil
  then show ?case by simp
next
  case (Cons edge rest)
  show ?case
  proof (cases "IsPageTransition edge \<and> P (e_target edge) = None")
    case True
    then have unvisited: "e_target edge \<in> - dom P" by auto
    have "- dom (P(e_target edge \<mapsto> Some edge)) = - dom P - {e_target edge}" by auto
    then have "card (- dom P) = Suc (card (- dom (P(e_target edge \<mapsto> Some edge))))"
      using card_Suc_Diff1 [OF finite unvisited] by simp
    with Cons True show ?thesis by (fastforce simp: Let_def split: if_splits)
  qed (use Cons in \<open>auto split: if_splits\<close>)
qed

function bfs :: "MenuModel \<Rightarrow> PageId \<Rightarrow> PageId list \<Rightarrow> predecessors \<Rightarrow> (MenuEdge \<times> predecessors) option" where
  "bfs m dest [] predecessor = None"
| "bfs m dest (current # queue) predecessor =
     (case GetPage m current of
        None \<Rightarrow> bfs m dest queue predecessor
      | Some page \<Rightarrow>
          (case scan_edges dest (p_edges page) queue predecessor of
             Inl found \<Rightarrow> Some found
           | Inr (queue', predecessor') \<Rightarrow> bfs m dest queue' predecessor'))"
  by pat_completeness auto
termination
  by (relation "measure (\<lambda>(m, dest, queue, P). length queue + card (- dom P))")
     (auto dest!: scan_measure)

text \<open>
  Walking back to the start: \<open>predecessor.at\<close> throws for a page without an entry, and a cycle of
  predecessors would never end; both are \<open>None\<close>.
\<close>

partial_function (option) ReconstructPath ::
    "predecessors \<Rightarrow> MenuEdge \<Rightarrow> MenuEdge list \<Rightarrow> MenuEdge list option" where
  [code]: "ReconstructPath predecessor reaching path =
     (case predecessor (e_source reaching) of
        None \<Rightarrow> None
      | Some None \<Rightarrow> Some (reaching # path)
      | Some (Some edge) \<Rightarrow> ReconstructPath predecessor edge (reaching # path))"

definition FindPath :: "MenuModel \<Rightarrow> PageId \<Rightarrow> PageId \<Rightarrow> MenuEdge list option" where
  "FindPath m from_page dest =
     (if from_page = dest then Some []
      else case bfs m dest [from_page] [from_page \<mapsto> None] of
             None \<Rightarrow> Some []
           | Some (edge, predecessor) \<Rightarrow> ReconstructPath predecessor edge [])"

section \<open>System events and incoming edges\<close>

definition FindSystemEvent :: "MenuModel \<Rightarrow> PageId \<Rightarrow> MenuEdge option" where
  "FindSystemEvent m detected_page = find (\<lambda>edge. e_target edge = detected_page) (m_GlobalEdges m)"

text \<open>
  The memoised index is the list of the Select transitions into each page, in the order of the loop
  over the pages; it is rebuilt whenever the pages have changed since.
\<close>

definition page_edges :: "MenuModel \<Rightarrow> PageId \<Rightarrow> MenuEdge list" where
  "page_edges m i = (case GetPage m i of None \<Rightarrow> [] | Some page \<Rightarrow> p_edges page)"

definition GetIncomingSelectEdges :: "PageId list \<Rightarrow> MenuModel \<Rightarrow> PageId \<Rightarrow> MenuEdge list" where
  "GetIncomingSelectEdges order m dest =
     [edge \<leftarrow> concat (map (page_edges m) order).
        e_trigger edge = Select \<and> IsPageTransition edge \<and> e_target edge = dest]"


section \<open>The best match\<close>

text \<open>
  What the recognition promises, whatever the iteration order: the page it returns matches and no
  matching page is more specific. Specificity is the number of detectors, then their total length.
\<close>

definition specificity :: "MenuPage \<Rightarrow> nat \<times> nat" where
  "specificity page = (length (p_detectors page), pattern_length page)"

definition more_specific :: "nat \<times> nat \<Rightarrow> nat \<times> nat \<Rightarrow> bool" where
  "more_specific a b \<longleftrightarrow> fst b < fst a \<or> (fst a = fst b \<and> snd b < snd a)"

definition is_match :: "MenuModel \<Rightarrow> ScreenDataPage \<Rightarrow> PageId \<Rightarrow> MenuPage \<Rightarrow> bool" where
  "is_match m content i page \<longleftrightarrow> m_Pages m i = Some page \<and> page_matches content page"

definition best_of :: "MenuModel \<Rightarrow> ScreenDataPage \<Rightarrow> PageId set \<Rightarrow> PageId \<times> nat \<times> nat \<Rightarrow> bool" where
  "best_of m content seen best \<longleftrightarrow>
     (best = (Unknown, 0, 0) \<and> (\<forall>i \<in> seen. \<forall>page. \<not> is_match m content i page)) \<or>
     (\<exists>page. fst best \<in> seen \<and> is_match m content (fst best) page \<and> snd best = specificity page \<and>
        (\<forall>i \<in> seen. \<forall>other. is_match m content i other \<longrightarrow> \<not> more_specific (specificity other) (snd best)))"

lemma match_nonempty: "is_match m content i page \<Longrightarrow> more_specific (specificity page) (0, 0)"
  by (auto simp: is_match_def page_matches_def more_specific_def specificity_def)

lemma more_specific_simps:
  "\<not> more_specific a a"
  "more_specific a b \<Longrightarrow> \<not> more_specific c a \<Longrightarrow> \<not> more_specific c b \<Longrightarrow> \<not> more_specific c a"
  "more_specific a b \<Longrightarrow> \<not> more_specific c b \<Longrightarrow> \<not> more_specific c a"
  by (auto simp: more_specific_def)

lemma best_of_insert:
  assumes "best_of m content seen best"
  shows "best_of m content (insert i seen)
    (case m_Pages m i of None \<Rightarrow> best
     | Some page \<Rightarrow> if page_matches content page \<and> more_specific (specificity page) (snd best)
                    then (i, specificity page) else best)"
proof (cases "\<exists>page. is_match m content i page")
  case False
  then show ?thesis using assms by (auto simp: best_of_def is_match_def split: option.split)
next
  case True
  then obtain page where page: "is_match m content i page" by blast
  then have only: "is_match m content i other \<longleftrightarrow> other = page" for other by (auto simp: is_match_def)
  show ?thesis
  proof (cases "more_specific (specificity page) (snd best)")
    case better: True
    have "\<not> more_specific (specificity other) (specificity page)"
      if "j \<in> insert i seen" "is_match m content j other" for j other
    proof (cases "j = i")
      case True
      then show ?thesis using that only by (simp add: more_specific_simps)
    next
      case False
      then have "\<not> more_specific (specificity other) (snd best)"
        using that assms unfolding best_of_def by blast
      then show ?thesis by (rule more_specific_simps(3) [OF better])
    qed
    then have "best_of m content (insert i seen) (i, specificity page)"
      using page unfolding best_of_def by auto
    then show ?thesis using page better by (simp add: is_match_def)
  next
    case False
    then have "best \<noteq> (Unknown, 0, 0)" using match_nonempty [OF page] by auto
    then show ?thesis using assms page only False by (auto simp: best_of_def is_match_def)
  qed
qed

lemma detect_loop_best:
  "best_of m content seen best \<Longrightarrow>
   \<exists>best'. best_of m content (seen \<union> set order) best' \<and> detect_loop m content order best = fst best'"
proof (induction order arbitrary: seen best)
  case Nil
  then show ?case by (cases best) auto
next
  case (Cons i rest)
  obtain best_id best_count best_length where best: "best = (best_id, best_count, best_length)"
    by (cases best)
  from Cons.IH [OF best_of_insert [OF Cons.prems, of i]] show ?case
    by (simp add: best more_specific_def specificity_def split: option.splits if_splits) metis+
qed

definition enumerates :: "PageId list \<Rightarrow> MenuModel \<Rightarrow> bool" where
  "enumerates order m \<longleftrightarrow> distinct order \<and> set order = dom (m_Pages m)"

lemma DetectPage_best:
  assumes "enumerates order m"
  shows "(DetectPage order m content = Unknown \<and> (\<forall>i page. \<not> is_match m content i page)) \<or>
    (\<exists>page. is_match m content (DetectPage order m content) page \<and>
       (\<forall>i other. is_match m content i other \<longrightarrow> \<not> more_specific (specificity other) (specificity page)))"
proof -
  have "best_of m content {} (Unknown, 0, 0)" by (simp add: best_of_def)
  from detect_loop_best [OF this, of order] obtain best where
    best: "best_of m content (set order) best" and eq: "DetectPage order m content = fst best"
    by (auto simp: DetectPage_def)
  have registered: "i \<in> set order" if "is_match m content i page" for i page
    using assms that by (auto simp: enumerates_def is_match_def)
  from best show ?thesis unfolding best_of_def
  proof (elim disjE)
    assume "best = (Unknown, 0, 0) \<and> (\<forall>i \<in> set order. \<forall>page. \<not> is_match m content i page)"
    then show ?thesis using registered unfolding eq by auto
  next
    assume "\<exists>page. fst best \<in> set order \<and> is_match m content (fst best) page \<and> snd best = specificity page \<and>
      (\<forall>i \<in> set order. \<forall>other. is_match m content i other \<longrightarrow> \<not> more_specific (specificity other) (snd best))"
    then show ?thesis using registered unfolding eq by metis
  qed
qed

section \<open>Shortest paths\<close>

text \<open>A walk is a sequence of page transitions that the pages offer.\<close>

fun walk :: "MenuModel \<Rightarrow> PageId \<Rightarrow> MenuEdge list \<Rightarrow> PageId \<Rightarrow> bool" where
  "walk m p [] q \<longleftrightarrow> p = q"
| "walk m p (edge # es) q \<longleftrightarrow>
     edge \<in> set (page_edges m p) \<and> IsPageTransition edge \<and> walk m (e_target edge) es q"

lemma walk_append: "walk m p (es @ fs) q \<longleftrightarrow> (\<exists>r. walk m p es r \<and> walk m r fs q)"
  by (induction es arbitrary: p) auto

definition well_linked :: "MenuModel \<Rightarrow> bool" where
  "well_linked m \<longleftrightarrow>
     (\<forall>i page. m_Pages m i = Some page \<longrightarrow> p_id page = i \<and> (\<forall>edge \<in> set (p_edges page). e_source edge = i))"

lemma well_linked_source: "well_linked m \<Longrightarrow> edge \<in> set (page_edges m p) \<Longrightarrow> e_source edge = p"
  by (cases "m_Pages m p") (auto simp: well_linked_def page_edges_def GetPage_def)

text \<open>The predecessor map is a tree rooted at the start; \<open>depth\<close> is the level of each visited page.\<close>

definition search_tree :: "MenuModel \<Rightarrow> PageId \<Rightarrow> predecessors \<Rightarrow> (PageId \<Rightarrow> nat) \<Rightarrow> bool" where
  "search_tree m start P depth \<longleftrightarrow> P start = Some None \<and> depth start = 0 \<and>
     (\<forall>v. P v = Some None \<longrightarrow> v = start) \<and>
     (\<forall>v edge. P v = Some (Some edge) \<longrightarrow>
        e_target edge = v \<and> edge \<in> set (page_edges m (e_source edge)) \<and> IsPageTransition edge \<and>
        P (e_source edge) \<noteq> None \<and> depth v = Suc (depth (e_source edge)))"

definition scanned :: "predecessors \<Rightarrow> (PageId \<Rightarrow> nat) \<Rightarrow> nat \<Rightarrow> MenuEdge \<Rightarrow> bool" where
  "scanned P depth d edge \<longleftrightarrow>
     (IsPageTransition edge \<longrightarrow> P (e_target edge) \<noteq> None \<and> depth (e_target edge) \<le> Suc d)"

definition finished :: "MenuModel \<Rightarrow> predecessors \<Rightarrow> (PageId \<Rightarrow> nat) \<Rightarrow> PageId \<Rightarrow> bool" where
  "finished m P depth v \<longleftrightarrow> (\<forall>edge \<in> set (page_edges m v). scanned P depth (depth v) edge)"

definition frontier :: "predecessors \<Rightarrow> (PageId \<Rightarrow> nat) \<Rightarrow> PageId list \<Rightarrow> bool" where
  "frontier P depth queue \<longleftrightarrow>
     sorted (map depth queue) \<and> (queue \<noteq> [] \<longrightarrow> (\<forall>v \<in> dom P. depth v \<le> Suc (depth (hd queue))))"

definition bfs_inv ::
    "MenuModel \<Rightarrow> PageId \<Rightarrow> PageId \<Rightarrow> PageId list \<Rightarrow> predecessors \<Rightarrow> (PageId \<Rightarrow> nat) \<Rightarrow> bool" where
  "bfs_inv m start dest queue P depth \<longleftrightarrow>
     search_tree m start P depth \<and> P dest = None \<and> set queue \<subseteq> dom P \<and> frontier P depth queue \<and>
     (\<forall>v \<in> dom P - set queue. finished m P depth v)"

text \<open>No walk to an unvisited page is shorter than the level of the unfinished pages allows.\<close>

lemma walk_lower_bound:
  assumes "P dest = None" "\<forall>v \<in> dom P - unfinished. finished m P depth v" "\<forall>v \<in> unfinished. d \<le> depth v"
    and "P p \<noteq> None" "walk m p es dest"
  shows "Suc d \<le> depth p + length es"
  using assms(4,5)
proof (induction es arbitrary: p)
  case Nil
  then show ?case using assms(1) by simp
next
  case (Cons edge es)
  show ?case
  proof (cases "p \<in> unfinished")
    case True
    then show ?thesis using assms(3) by (simp add: trans_le_add1)
  next
    case False
    then have "finished m P depth p" using assms(2) Cons.prems by auto
    then have "P (e_target edge) \<noteq> None" "depth (e_target edge) \<le> Suc (depth p)"
      using Cons.prems by (auto simp: finished_def scanned_def)
    then show ?thesis using Cons.IH [of "e_target edge"] Cons.prems by simp
  qed
qed

lemma ReconstructPath_tree:
  assumes "search_tree m start P depth" "edge \<in> set (page_edges m (e_source edge))"
    "IsPageTransition edge" "P (e_source edge) \<noteq> None"
  shows "\<exists>path. ReconstructPath P edge acc = Some (path @ acc) \<and> walk m start path (e_target edge) \<and>
     length path = Suc (depth (e_source edge))"
  using assms(2-4)
proof (induction "depth (e_source edge)" arbitrary: edge acc rule: less_induct)
  case less
  let ?s = "e_source edge"
  show ?case
  proof (cases "P ?s")
    case None
    then show ?thesis using less.prems by simp
  next
    case (Some entry)
    show ?thesis
    proof (cases entry)
      case None
      with Some assms(1) have "?s = start" "depth ?s = 0" by (auto simp: search_tree_def)
      with Some None less.prems show ?thesis
        by (intro exI [of _ "[edge]"]) (subst ReconstructPath.simps, simp)
    next
      case (Some before)
      with \<open>P ?s = Some entry\<close> have entry: "P ?s = Some (Some before)" by simp
      with assms(1) have before: "e_target before = ?s" "before \<in> set (page_edges m (e_source before))"
        "IsPageTransition before" "P (e_source before) \<noteq> None" "depth ?s = Suc (depth (e_source before))"
        by (auto simp: search_tree_def)
      from less.hyps [of before "edge # acc"] before obtain path where
        "ReconstructPath P before (edge # acc) = Some (path @ edge # acc)"
        "walk m start path ?s" "length path = depth ?s" by auto
      moreover from this less.prems have "walk m start (path @ [edge]) (e_target edge)"
        by (auto simp: walk_append)
      ultimately show ?thesis using entry
        by (intro exI [of _ "path @ [edge]"]) (subst ReconstructPath.simps, simp)
    qed
  qed
qed



lemma frontier_extend:
  assumes "frontier P depth (c # queue)" "set (c # queue) \<subseteq> dom P" "P v = None"
  shows "frontier (P(v \<mapsto> x)) (depth(v := Suc (depth c))) (c # queue @ [v])"
proof -
  let ?depth = "depth(v := Suc (depth c))"
  have fresh: "v \<notin> set (c # queue)" using assms(2,3) by auto
  then have same: "map ?depth (c # queue) = map depth (c # queue)" by auto
  have "\<forall>w \<in> set (c # queue). depth w \<le> Suc (depth c)" using assms(1,2) by (auto simp: frontier_def)
  then have "sorted (map ?depth (c # queue) @ [?depth v])"
    unfolding sorted_append same using assms(1) by (simp add: frontier_def)
  moreover have "?depth w \<le> Suc (?depth c)" if "w \<in> dom (P(v \<mapsto> x))" for w
    using that assms(1) fresh by (auto simp: frontier_def)
  ultimately show ?thesis unfolding frontier_def by simp
qed

lemma frontier_tl: "frontier P depth (c # queue) \<Longrightarrow> frontier P depth queue"
  by (cases queue) (auto simp: frontier_def intro: le_trans)

text \<open>While the edges of \<open>c\<close> are scanned, \<open>c\<close> still counts as unfinished; \<open>past\<close> are the edges done.\<close>

definition scan_inv ::
    "MenuModel \<Rightarrow> PageId \<Rightarrow> PageId \<Rightarrow> PageId \<Rightarrow> MenuEdge list \<Rightarrow> PageId list \<Rightarrow> predecessors \<Rightarrow> (PageId \<Rightarrow> nat) \<Rightarrow> bool"
  where
  "scan_inv m start dest c past queue P depth \<longleftrightarrow>
     bfs_inv m start dest (c # queue) P depth \<and> (\<forall>edge \<in> set past. scanned P depth (depth c) edge)"

lemma tree_extend:
  assumes "search_tree m start P depth" "P v = None" "e_target edge = v" "e_source edge = c"
    "edge \<in> set (page_edges m c)" "IsPageTransition edge" "P c \<noteq> None"
  shows "search_tree m start (P(v \<mapsto> Some edge)) (depth(v := Suc (depth c)))"
proof -
  let ?P = "P(v \<mapsto> Some edge)" and ?depth = "depth(v := Suc (depth c))"
  have root: "P start = Some None" "depth start = 0" "\<And>w. P w = Some None \<Longrightarrow> w = start"
    and node: "\<And>w other. P w = Some (Some other) \<Longrightarrow>
      e_target other = w \<and> other \<in> set (page_edges m (e_source other)) \<and> IsPageTransition other \<and>
        P (e_source other) \<noteq> None \<and> depth w = Suc (depth (e_source other))"
    using assms(1) unfolding search_tree_def by blast+
  have new: "v \<noteq> c" "v \<noteq> start" using assms(2,7) root(1) by auto
  have "e_target other = w \<and> other \<in> set (page_edges m (e_source other)) \<and> IsPageTransition other \<and>
      ?P (e_source other) \<noteq> None \<and> ?depth w = Suc (?depth (e_source other))"
    if entry: "?P w = Some (Some other)" for w other
  proof (cases "w = v")
    case True
    then show ?thesis using entry assms new by simp
  next
    case False
    then have old: "P w = Some (Some other)" using entry by simp
    then have "e_source other \<noteq> v" using node [OF old] assms(2) by metis
    then show ?thesis using node [OF old] False by simp
  qed
  moreover have "w = start" if "?P w = Some None" for w
    using that root(3) by (simp split: if_splits)
  ultimately show ?thesis using root(1,2) new unfolding search_tree_def by simp
qed

lemma scanned_extend:
  "scanned P depth d edge \<Longrightarrow> P v = None \<Longrightarrow> scanned (P(v \<mapsto> x)) (depth(v := n)) d edge"
  by (auto simp: scanned_def)

lemma scan_inv_extend:
  assumes "scan_inv m start dest c past queue P depth" "P v = None" "v \<noteq> dest" "e_target edge = v"
    "e_source edge = c" "edge \<in> set (page_edges m c)" "IsPageTransition edge"
  shows "scan_inv m start dest c (past @ [edge]) (queue @ [v]) (P(v \<mapsto> Some edge)) (depth(v := Suc (depth c)))"
proof -
  let ?P = "P(v \<mapsto> Some edge)" and ?depth = "depth(v := Suc (depth c))"
  have inv: "search_tree m start P depth" "P dest = None" "set (c # queue) \<subseteq> dom P" "frontier P depth (c # queue)"
    "\<forall>w \<in> dom P - set (c # queue). finished m P depth w" "\<forall>e \<in> set past. scanned P depth (depth c) e"
    using assms(1) by (auto simp: scan_inv_def bfs_inv_def)
  then have fresh: "v \<notin> set (c # queue)" using assms(2) by auto
  have "frontier ?P ?depth (c # queue @ [v])" using inv(3,4) assms(2) by (intro frontier_extend)
  moreover have "finished m ?P ?depth w" if "w \<in> dom ?P - set (c # queue @ [v])" for w
  proof -
    have "w \<in> dom P - set (c # queue)" "w \<noteq> v" using that by auto
    then show ?thesis using inv(5) assms(2) by (auto simp: finished_def intro: scanned_extend)
  qed
  moreover have "search_tree m start ?P ?depth"
    using inv assms by (intro tree_extend) auto
  moreover have "scanned ?P ?depth (?depth c) e" if "e \<in> set (past @ [edge])" for e
    using that inv(6) assms fresh by (auto simp: scanned_extend) (auto simp: scanned_def)
  ultimately show ?thesis using inv assms by (auto simp: scan_inv_def bfs_inv_def)
qed

lemma scan_edges_inv:
  assumes "\<forall>e \<in> set (page_edges m c). e_source e = c"
    and "scan_inv m start dest c past queue P depth" "page_edges m c = past @ es"
  shows "case scan_edges dest es queue P of
     Inl (edge, P') \<Rightarrow> e_target edge = dest \<and>
        (\<exists>path. ReconstructPath P' edge [] = Some path \<and> walk m start path dest \<and>
           (\<forall>es. walk m start es dest \<longrightarrow> length path \<le> length es))
   | Inr (queue', P') \<Rightarrow> \<exists>depth'. bfs_inv m start dest queue' P' depth'"
  using assms(2,3)
proof (induction es arbitrary: past queue P depth)
  case Nil
  then have inv: "bfs_inv m start dest (c # queue) P depth" "\<forall>e \<in> set (page_edges m c). scanned P depth (depth c) e"
    by (simp_all add: scan_inv_def)
  then have "finished m P depth v" if "v \<in> dom P - set queue" for v
    using that by (cases "v = c") (auto simp: bfs_inv_def finished_def)
  with inv have "bfs_inv m start dest queue P depth"
    by (auto simp: bfs_inv_def intro: frontier_tl)
  then show ?case by auto
next
  case (Cons edge rest)
  have edge: "edge \<in> set (page_edges m c)" "e_source edge = c" using Cons.prems(2) assms(1) by auto
  note inv = Cons.prems(1)
  have split: "page_edges m c = (past @ [edge]) @ rest" using Cons.prems(2) by simp
  show ?case
  proof (cases "IsPageTransition edge \<and> P (e_target edge) = None")
    case False
    have "scanned P depth (depth c) edge"
      using inv False by (auto simp: scan_inv_def bfs_inv_def frontier_def scanned_def)
    then have "scan_inv m start dest c (past @ [edge]) queue P depth" using inv by (simp add: scan_inv_def)
    from Cons.IH [OF this split] False show ?thesis by auto
  next
    case True
    let ?v = "e_target edge" and ?P = "P(e_target edge \<mapsto> Some edge)"
    show ?thesis
    proof (cases "?v = dest")
      case found: True
      have tree: "search_tree m start P depth" "P c \<noteq> None" "P start \<noteq> None" "depth start = 0"
        using inv by (auto simp: scan_inv_def bfs_inv_def search_tree_def)
      have "?P = P(dest \<mapsto> Some edge)" using found by simp
      have "search_tree m start ?P (depth(?v := Suc (depth c)))"
        using tree edge True by (intro tree_extend) auto
      moreover have "?v \<noteq> c" using tree True by auto
      ultimately obtain path where path: "ReconstructPath ?P edge [] = Some path" "walk m start path dest"
        "length path = Suc (depth c)"
        using ReconstructPath_tree [of m start ?P "depth(?v := Suc (depth c))" edge "[]"] edge True found tree
        by auto
      have "Suc (depth c) \<le> length es" if "walk m start es dest" for es
      proof -
        have "Suc (depth c) \<le> depth start + length es"
          using inv tree that
          by (intro walk_lower_bound [of P dest "set (c # queue)" m depth "depth c" start es])
             (auto simp: scan_inv_def bfs_inv_def frontier_def)
        then show ?thesis using tree by simp
      qed
      then show ?thesis using path True found by (auto simp: Let_def)
    next
      case other: False
      have "scan_inv m start dest c (past @ [edge]) (queue @ [?v]) ?P (depth(?v := Suc (depth c)))"
        using inv edge True other by (intro scan_inv_extend) auto
      from Cons.IH [OF this split] True other show ?thesis by (simp add: Let_def del: fun_upd_apply)
    qed
  qed
qed



lemma bfs_correct:
  "well_linked m \<Longrightarrow> bfs_inv m start dest queue P depth \<Longrightarrow>
   case bfs m dest queue P of
     None \<Rightarrow> \<forall>es. \<not> walk m start es dest
   | Some (edge, P') \<Rightarrow> e_target edge = dest \<and>
        (\<exists>path. ReconstructPath P' edge [] = Some path \<and> walk m start path dest \<and>
           (\<forall>es. walk m start es dest \<longrightarrow> length path \<le> length es))"
proof (induction m dest queue P arbitrary: depth rule: bfs.induct)
  case (1 m dest P)
  have False if "walk m start es dest" for es
  proof -
    have "Suc (length es) \<le> depth start + length es"
      using 1 that by (intro walk_lower_bound [of P dest "{}"]) (auto simp: bfs_inv_def search_tree_def)
    then show False using 1 by (simp add: bfs_inv_def search_tree_def)
  qed
  then show ?case by auto
next
  case (2 m dest c queue P)
  note inv = "2.prems"(2)
  show ?case
  proof (cases "GetPage m c")
    case None
    then have "page_edges m c = []" by (simp add: page_edges_def)
    then have "finished m P depth c" by (simp add: finished_def)
    then have "bfs_inv m start dest queue P depth"
      using inv by (auto simp: bfs_inv_def intro: frontier_tl)
    from "2.IH"(1) [OF None "2.prems"(1) this] None show ?thesis by simp
  next
    case (Some page)
    have "\<forall>e \<in> set (page_edges m c). e_source e = c"
      using well_linked_source [OF "2.prems"(1)] by blast
    moreover have "page_edges m c = [] @ p_edges page" using Some by (simp add: page_edges_def)
    moreover have "scan_inv m start dest c [] queue P depth" using inv by (simp add: scan_inv_def)
    ultimately have scan: "case scan_edges dest (p_edges page) queue P of
       Inl (edge, P') \<Rightarrow> e_target edge = dest \<and>
          (\<exists>path. ReconstructPath P' edge [] = Some path \<and> walk m start path dest \<and>
             (\<forall>es. walk m start es dest \<longrightarrow> length path \<le> length es))
     | Inr (queue', P') \<Rightarrow> \<exists>depth'. bfs_inv m start dest queue' P' depth'"
      using scan_edges_inv by blast
    show ?thesis
    proof (cases "scan_edges dest (p_edges page) queue P")
      case (Inl found)
      with scan Some show ?thesis by (cases found) simp
    next
      case (Inr scan_result)
      obtain queue' P' where "scan_result = (queue', P')" by (cases scan_result)
      with Inr have step: "scan_edges dest (p_edges page) queue P = Inr (queue', P')" by simp
      with scan obtain depth' where "bfs_inv m start dest queue' P' depth'" by auto
      from "2.IH"(2) [OF Some step refl "2.prems"(1) this] Some step show ?thesis by simp
    qed
  qed
qed

text \<open>What \<open>FindPath\<close> promises: the path is a shortest walk, and there is none exactly when it is empty.\<close>

lemma FindPath_shortest:
  assumes "well_linked m"
  shows "\<exists>path. FindPath m start dest = Some path \<and>
    (if path = [] then start = dest \<or> (\<forall>es. \<not> walk m start es dest)
     else start \<noteq> dest \<and> walk m start path dest \<and> (\<forall>es. walk m start es dest \<longrightarrow> length path \<le> length es))"
proof (cases "start = dest")
  case True
  then show ?thesis by (simp add: FindPath_def)
next
  case False
  then have "bfs_inv m start dest [start] [start \<mapsto> None] (\<lambda>_. 0)"
    by (auto simp: bfs_inv_def search_tree_def frontier_def)
  note search = bfs_correct [OF assms this]
  show ?thesis
  proof (cases "bfs m dest [start] [start \<mapsto> None]")
    case None
    with False search show ?thesis by (simp add: FindPath_def)
  next
    case (Some found)
    with search obtain edge P' path where "bfs m dest [start] [start \<mapsto> None] = Some (edge, P')"
      "ReconstructPath P' edge [] = Some path" "walk m start path dest"
      "\<forall>es. walk m start es dest \<longrightarrow> length path \<le> length es" by (cases found) auto
    moreover from this have "path \<noteq> []" using False by auto
    ultimately show ?thesis using False by (simp add: FindPath_def)
  qed
qed

definition reachable :: "MenuModel \<Rightarrow> PageId \<Rightarrow> PageId \<Rightarrow> bool" where
  "reachable m p q \<longleftrightarrow> (\<exists>es. walk m p es q)"

lemma reachable_refl [simp]: "reachable m p p"
  unfolding reachable_def by (rule exI [of _ "[]"]) simp

lemma reachable_trans: "reachable m p q \<Longrightarrow> reachable m q r \<Longrightarrow> reachable m p r"
  unfolding reachable_def using walk_append by blast

lemma FindPath_reachable:
  assumes "well_linked m" "reachable m p q" "p \<noteq> q"
  obtains edge path where "FindPath m p q = Some (edge # path)" "walk m p (edge # path) q"
proof -
  from FindPath_shortest [OF assms(1), of p q] obtain path where
    "FindPath m p q = Some path" "if path = [] then p = q \<or> (\<forall>es. \<not> walk m p es q) else walk m p path q"
    by (auto split: if_splits)
  with assms show thesis by (cases path) (auto simp: reachable_def intro: that)
qed

lemma FindPath_unreachable:
  assumes "well_linked m" "\<not> reachable m p q"
  shows "FindPath m p q = Some []"
  using FindPath_shortest [OF assms(1), of p q] assms(2) by (auto simp: reachable_def split: if_splits)


text \<open>One page transition.\<close>

definition step :: "MenuModel \<Rightarrow> PageId \<Rightarrow> PageId \<Rightarrow> bool" where
  "step m p q \<longleftrightarrow> list_ex (\<lambda>edge. IsPageTransition edge \<and> e_target edge = q) (page_edges m p)"

lemma step_walk: "step m p q \<longleftrightarrow> (\<exists>edge. walk m p [edge] q)"
  by (auto simp: step_def list_ex_iff)

lemma step_reachable: "step m p q \<Longrightarrow> reachable m p q"
  unfolding step_walk reachable_def by blast

lemma reachable_step: "reachable m p q \<Longrightarrow> step m q r \<Longrightarrow> reachable m p r"
  by (blast intro: step_reachable reachable_trans)

lemma step_reachable_to: "step m p q \<Longrightarrow> reachable m q r \<Longrightarrow> reachable m p r"
  by (blast intro: step_reachable reachable_trans)

text \<open>A set of pages that is closed under transitions is left by no walk.\<close>

lemma reachable_closed:
  assumes "\<And>q r. q \<in> S \<Longrightarrow> step m q r \<Longrightarrow> r \<in> S" "p \<in> S" "reachable m p q"
  shows "q \<in> S"
proof -
  have "walk m p es q \<Longrightarrow> p \<in> S \<Longrightarrow> q \<in> S" for es
  proof (induction es arbitrary: p)
    case (Cons edge es)
    then have "step m p (e_target edge)" by (auto simp: step_def list_ex_iff)
    with Cons assms(1) show ?case by auto
  qed simp
  with assms(2,3) show ?thesis by (auto simp: reachable_def)
qed


text \<open>Shortest walks visit no page twice, so they are short.\<close>

lemma walk_suffix:
  "walk m p es q \<Longrightarrow> r \<in> set (p # map e_target es) \<Longrightarrow>
   \<exists>fs. walk m r fs q \<and> (\<exists>before. p # map e_target es = before @ r # map e_target fs)"
proof (induction es arbitrary: p)
  case Nil
  then show ?case by (intro exI [of _ "[]"]) auto
next
  case (Cons edge es)
  show ?case
  proof (cases "r = p")
    case True
    then show ?thesis using Cons.prems(1) by (intro exI [of _ "edge # es"]) auto
  next
    case False
    then obtain fs before where fs: "walk m r fs q" "e_target edge # map e_target es = before @ r # map e_target fs"
      using Cons.IH [of "e_target edge"] Cons.prems by auto
    then have "p # map e_target (edge # es) = (p # before) @ r # map e_target fs" by simp
    then show ?thesis using fs(1) by blast
  qed
qed

lemma walk_distinct:
  "walk m p es q \<Longrightarrow> \<exists>fs. walk m p fs q \<and> distinct (p # map e_target fs)"
proof (induction es arbitrary: p)
  case Nil
  then show ?case by (intro exI [of _ "[]"]) simp
next
  case (Cons edge es)
  then obtain fs where fs: "walk m (e_target edge) fs q" "distinct (e_target edge # map e_target fs)" by fastforce
  show ?case
  proof (cases "p \<in> set (e_target edge # map e_target fs)")
    case True
    then obtain gs before where "walk m p gs q" "e_target edge # map e_target fs = before @ p # map e_target gs"
      using walk_suffix [OF fs(1)] by blast
    moreover from this have "distinct (p # map e_target gs)" using fs(2) by (metis distinct_append)
    ultimately show ?thesis by blast
  next
    case False
    then show ?thesis using fs Cons.prems by (intro exI [of _ "edge # fs"]) auto
  qed
qed

lemma card_PageId: "card (UNIV :: PageId set) \<le> 40"
proof -
  have "card (UNIV :: PageId set) \<le> card (set page_list)"
    by (intro card_mono) (auto intro: page_list_all)
  also have "\<dots> \<le> length page_list" by (rule card_length)
  finally show ?thesis by (simp add: page_list_def)
qed

lemma FindPath_length:
  assumes "well_linked m" "FindPath m p q = Some path"
  shows "length path < 40"
proof (cases "path = []")
  case False
  then have path: "walk m p path q" "\<forall>es. walk m p es q \<longrightarrow> length path \<le> length es"
    using FindPath_shortest [OF assms(1), of p q] assms(2) by auto
  then obtain fs where fs: "walk m p fs q" "distinct (p # map e_target fs)" using walk_distinct by blast
  have "card (set (p # map e_target fs)) = Suc (length fs)"
    using distinct_card [OF fs(2)] by simp
  moreover have "card (set (p # map e_target fs)) \<le> card (UNIV :: PageId set)" by (intro card_mono) simp_all
  ultimately show ?thesis using path(2) fs(1) card_PageId by fastforce
qed simp


end
