(* ===== verification/OneTouch_Menu.thy ===== *)
theory OneTouch_Menu
  imports Menu_Model
begin

text \<open>
  The menu of the OneTouch keypad, \<open>CreateOneTouchMenuModel\<close> of
  \<open>jandy/navigation/onetouch_menu_model.cpp\<close>: one definition per registered page, in the order of
  the registrations, then the facts about this graph that the navigator's proofs use. The order of
  registration does not matter to the hash map; the loops over it take their order as an argument.
\<close>

section \<open>The pages\<close>

definition on_line :: "u8 \<Rightarrow> string \<Rightarrow> Detector" where
  "on_line line pattern = \<lparr> d_line = line, d_pattern = pattern \<rparr>"

definition link :: "EdgeTrigger \<Rightarrow> PageId \<Rightarrow> PageId \<Rightarrow> u8 \<Rightarrow> string \<Rightarrow> MenuEdge" where
  "link trigger from_page dest line label =
     \<lparr> e_trigger = trigger, e_source = from_page, e_target = dest, e_line = line, e_label = label \<rparr>"

text \<open>The members that a registration leaves out keep their defaults.\<close>

definition menu_page ::
    "PageId \<Rightarrow> string \<Rightarrow> ScreenDataPageTypes \<Rightarrow> Detector list \<Rightarrow> MenuEdge list \<Rightarrow> MenuPage" where
  "menu_page i name page_type detectors edges =
     \<lparr> p_id = i, p_name = name, p_type = page_type, p_detectors = detectors, p_edges = edges,
       p_max_content_lines = None, p_multi_instance = False, p_transient = False \<rparr>"

definition System_page :: MenuPage where
  "System_page = menu_page System ''System'' Page_System
     [on_line 9 ''Equipment ON/OFF'']
     [link Select System EquipmentOnOff 9 ''Equipment ON/OFF'',
      link Select System OneTouch 10 ''OneTouch ON/OFF'',
      link Select System MenuHelp 11 ''Menu/Help'',
      link LineUp System System 0 [],
      link LineDown System System 0 []]"

definition OneTouch_page :: MenuPage where
  "OneTouch_page = menu_page OneTouch ''OneTouch'' Page_OneTouch
     [on_line 11 ''System'']
     [link Select OneTouch System 11 ''System'',
      link LineUp OneTouch OneTouch 0 [],
      link LineDown OneTouch OneTouch 0 []]"

definition MoreOneTouch_page :: MenuPage where
  "MoreOneTouch_page = menu_page MoreOneTouch ''MoreOneTouch'' Page_MoreOneTouch
     [on_line 10 ''OneTouch ON/OFF'']
     [link Select MoreOneTouch OneTouch 10 ''OneTouch ON/OFF'',
      link Select MoreOneTouch System 11 ''System'',
      link LineUp MoreOneTouch MoreOneTouch 0 [],
      link LineDown MoreOneTouch MoreOneTouch 0 []]"

definition MenuHelp_page :: MenuPage where
  "MenuHelp_page = menu_page MenuHelp ''Menu'' Page_MenuHelp
     [on_line 0 ''Menu'']
     [link Select MenuHelp HelpSubmenu 1 ''Help'',
      link Select MenuHelp Program 2 ''Program'',
      link Select MenuHelp SetTemperature 3 ''Set Temp'',
      link Select MenuHelp SetTime 4 ''Set Time'',
      link Select MenuHelp SetAquapure 5 ''Set AquaPure'',
      link Select MenuHelp DisplayLight 6 ''Display Light'',
      link Select MenuHelp Lockouts 7 ''Lockouts'',
      link Select MenuHelp PasswordSettings 8 ''Password'',
      link Select MenuHelp ProgramGroup 9 ''Program Group'',
      link Select MenuHelp SystemSetup 10 ''System Setup'',
      link Select MenuHelp Boost 11 ''Boost Pool'',
      link Back MenuHelp System 0 [],
      link LineUp MenuHelp MenuHelp 0 [],
      link LineDown MenuHelp MenuHelp 0 []]"

definition HelpSubmenu_page :: MenuPage where
  "HelpSubmenu_page = menu_page HelpSubmenu ''Help'' Page_HelpSubmenu
     [on_line 0 ''Help'', on_line 7 ''Keys'']
     [link Select HelpSubmenu HelpKeys 7 ''Keys'',
      link Select HelpSubmenu HelpService 8 ''Service'',
      link Select HelpSubmenu DiagnosticsSensors 9 ''Diagnostics'',
      link Back HelpSubmenu MenuHelp 0 [],
      link LineUp HelpSubmenu HelpSubmenu 0 [],
      link LineDown HelpSubmenu HelpSubmenu 0 []]"

definition HelpKeys_page :: MenuPage where
  "HelpKeys_page = menu_page HelpKeys ''HelpKeys'' Page_HelpKeys
     [on_line 0 ''Key Help'', on_line 11 ''Continue'']
     [link Back HelpKeys HelpSubmenu 0 [],
      link LineUp HelpKeys HelpKeys 0 [],
      link LineDown HelpKeys HelpKeys 0 []]"

definition HelpService_page :: MenuPage where
  "HelpService_page = menu_page HelpService ''HelpService'' Page_Version
     [on_line 0 ''Service Help'']
     [link Back HelpService HelpSubmenu 0 [],
      link LineUp HelpService HelpService 0 [],
      link LineDown HelpService HelpService 0 []]"

definition DiagnosticsSensors_page :: MenuPage where
  "DiagnosticsSensors_page = menu_page DiagnosticsSensors ''DiagnosticsSensors'' Page_DiagnosticsSensors
     [on_line 6 ''Sensors'']
     [link Select DiagnosticsSensors DiagnosticsRemotes 0 ''Next'',
      link Back DiagnosticsSensors HelpSubmenu 0 [],
      link LineUp DiagnosticsSensors DiagnosticsSensors 0 [],
      link LineDown DiagnosticsSensors DiagnosticsSensors 0 []]"

definition DiagnosticsRemotes_page :: MenuPage where
  "DiagnosticsRemotes_page = menu_page DiagnosticsRemotes ''DiagnosticsRemotes'' Page_DiagnosticsRemotes
     [on_line 0 ''Remotes'']
     [link Select DiagnosticsRemotes DiagnosticsErrors 0 ''Next'',
      link Back DiagnosticsRemotes DiagnosticsSensors 0 [],
      link LineUp DiagnosticsRemotes DiagnosticsRemotes 0 [],
      link LineDown DiagnosticsRemotes DiagnosticsRemotes 0 []]"

definition DiagnosticsErrors_page :: MenuPage where
  "DiagnosticsErrors_page = menu_page DiagnosticsErrors ''DiagnosticsErrors'' Page_DiagnosticsErrors
     [on_line 0 ''Errors'']
     [link Select DiagnosticsErrors DiagnosticsIAQStatus 0 ''Continue'',
      link Back DiagnosticsErrors DiagnosticsRemotes 0 [],
      link LineUp DiagnosticsErrors DiagnosticsErrors 0 [],
      link LineDown DiagnosticsErrors DiagnosticsErrors 0 []]"

definition DiagnosticsIAQStatus_page :: MenuPage where
  "DiagnosticsIAQStatus_page = menu_page DiagnosticsIAQStatus ''DiagnosticsIAQStatus'' Page_DiagnosticsIAQStatus
     [on_line 0 ''iAquaLink Status'']
     [link Select DiagnosticsIAQStatus DiagnosticsIAQRSSI 0 ''Continue'',
      link Back DiagnosticsIAQStatus DiagnosticsErrors 0 [],
      link LineUp DiagnosticsIAQStatus DiagnosticsIAQStatus 0 [],
      link LineDown DiagnosticsIAQStatus DiagnosticsIAQStatus 0 []]"

definition DiagnosticsIAQRSSI_page :: MenuPage where
  "DiagnosticsIAQRSSI_page = menu_page DiagnosticsIAQRSSI ''DiagnosticsIAQRSSI'' Page_DiagnosticsIAQRSSI
     [on_line 0 ''iAquaLink RSSI'']
     [link Select DiagnosticsIAQRSSI HelpSubmenu 0 ''Continue'',
      link Back DiagnosticsIAQRSSI DiagnosticsIAQStatus 0 [],
      link LineUp DiagnosticsIAQRSSI DiagnosticsIAQRSSI 0 [],
      link LineDown DiagnosticsIAQRSSI DiagnosticsIAQRSSI 0 []]"

definition SystemSetup_page :: MenuPage where
  "SystemSetup_page = menu_page SystemSetup ''SystemSetup'' Page_SystemSetup
     [on_line 0 ''System Setup'']
     [link Select SystemSetup LabelAuxList 2 ''Label Aux'',
      link Back SystemSetup MenuHelp 0 [],
      link LineUp SystemSetup SystemSetup 0 [],
      link LineDown SystemSetup SystemSetup 0 []]"

definition LabelAuxList_page :: MenuPage where
  "LabelAuxList_page = menu_page LabelAuxList ''LabelAuxList'' Page_LabelAuxList
     [on_line 0 ''Label Aux'']
     [link Select LabelAuxList LabelAux 2 ''Aux1'',
      link Select LabelAuxList LabelAux 3 ''Aux2'',
      link Select LabelAuxList LabelAux 4 ''Aux3'',
      link Select LabelAuxList LabelAux 5 ''Aux4'',
      link Select LabelAuxList LabelAux 6 ''Aux5'',
      link Select LabelAuxList LabelAux 7 ''Aux6'',
      link Select LabelAuxList LabelAux 8 ''Aux7'',
      link Select LabelAuxList LabelAux 9 ''Aux B1'',
      link Select LabelAuxList LabelAux 10 ''Aux B2'',
      link Select LabelAuxList LabelAux 11 ''Aux B3'',
      link Select LabelAuxList LabelAux 12 ''Aux B4'',
      link Select LabelAuxList LabelAux 13 ''Aux B5'',
      link Select LabelAuxList LabelAux 14 ''Aux B6'',
      link Select LabelAuxList LabelAux 15 ''Aux B7'',
      link Select LabelAuxList LabelAux 16 ''Aux B8'',
      link Select LabelAuxList LabelAux 17 ''Aux C1'',
      link Select LabelAuxList LabelAux 18 ''Aux C2'',
      link Select LabelAuxList LabelAux 19 ''Aux C3'',
      link Select LabelAuxList LabelAux 20 ''Aux C4'',
      link Select LabelAuxList LabelAux 21 ''Aux C5'',
      link Select LabelAuxList LabelAux 22 ''Aux C6'',
      link Select LabelAuxList LabelAux 23 ''Aux C7'',
      link Select LabelAuxList LabelAux 24 ''Aux C8'',
      link Select LabelAuxList LabelAux 25 ''Aux D1'',
      link Select LabelAuxList LabelAux 26 ''Aux D2'',
      link Select LabelAuxList LabelAux 27 ''Aux D3'',
      link Select LabelAuxList LabelAux 28 ''Aux D4'',
      link Select LabelAuxList LabelAux 29 ''Aux D5'',
      link Select LabelAuxList LabelAux 30 ''Aux D6'',
      link Select LabelAuxList LabelAux 31 ''Aux D7'',
      link Select LabelAuxList LabelAux 32 ''Aux D8'',
      link Back LabelAuxList SystemSetup 0 [],
      link LineUp LabelAuxList LabelAuxList 0 [],
      link LineDown LabelAuxList LabelAuxList 0 [],
      link PageUp LabelAuxList LabelAuxList 0 [],
      link PageDown LabelAuxList LabelAuxList 0 []]"

definition LabelAux_page :: MenuPage where
  "LabelAux_page = menu_page LabelAux ''LabelAux'' Page_LabelAux
     [on_line 2 ''Current Label'']
     [link Select LabelAux GeneralLabels 5 ''General Labels'',
      link Select LabelAux LightLabels 6 ''Light   Labels'',
      link Select LabelAux WaterfallLabels 7 ''Waterfall Labels'',
      link Back LabelAux LabelAuxList 0 [],
      link LineUp LabelAux LabelAux 0 [],
      link LineDown LabelAux LabelAux 0 []]
     \<lparr> p_multi_instance := True \<rparr>"

definition GeneralLabels_page :: MenuPage where
  "GeneralLabels_page = menu_page GeneralLabels ''GeneralLabels'' Page_GeneralLabels
     [on_line 1 ''General Labels'']
     [link Back GeneralLabels LabelAux 0 [],
      link LineUp GeneralLabels GeneralLabels 0 [],
      link LineDown GeneralLabels GeneralLabels 0 []]"

definition LightLabels_page :: MenuPage where
  "LightLabels_page = menu_page LightLabels ''LightLabels'' Page_LightLabels
     [on_line 1 ''Light Labels'']
     [link Back LightLabels LabelAux 0 [],
      link LineUp LightLabels LightLabels 0 [],
      link LineDown LightLabels LightLabels 0 []]"

definition WaterfallLabels_page :: MenuPage where
  "WaterfallLabels_page = menu_page WaterfallLabels ''WaterfallLabels'' Page_WaterfallLabels
     [on_line 1 ''Wtrfall Labels'']
     [link Back WaterfallLabels LabelAux 0 [],
      link LineUp WaterfallLabels WaterfallLabels 0 [],
      link LineDown WaterfallLabels WaterfallLabels 0 []]"

definition CustomLabel_page :: MenuPage where
  "CustomLabel_page = menu_page CustomLabel ''CustomLabel'' Page_CustomLabel
     [on_line 7 ''Use Arrow Keys'']
     [link Back CustomLabel LabelAux 0 []]"

definition EquipmentOnOff_page :: MenuPage where
  "EquipmentOnOff_page = menu_page EquipmentOnOff ''EquipmentOnOff'' Page_EquipmentOnOff
     [on_line 0 ''Filter Pump'']
     [link Select EquipmentOnOff System 11 ''System'',
      link LineUp EquipmentOnOff EquipmentOnOff 0 [],
      link LineDown EquipmentOnOff EquipmentOnOff 0 [],
      link PageUp EquipmentOnOff EquipmentOnOff 0 [],
      link PageDown EquipmentOnOff EquipmentOnOff 0 []]"

definition EquipmentStatus_page :: MenuPage where
  "EquipmentStatus_page = menu_page EquipmentStatus ''EquipmentStatus'' Page_EquipmentStatus
     [on_line 0 ''EQUIPMENT STATUS'']
     [link Back EquipmentStatus System 0 [],
      link LineUp EquipmentStatus EquipmentStatus 0 [],
      link LineDown EquipmentStatus EquipmentStatus 0 []]"

definition SetTemperature_page :: MenuPage where
  "SetTemperature_page = menu_page SetTemperature ''SetTemperature'' Page_SetTemperature
     [on_line 0 ''Set Temp'']
     [link Back SetTemperature MenuHelp 0 [],
      link LineUp SetTemperature SetTemperature 0 [],
      link LineDown SetTemperature SetTemperature 0 []]"

definition SetTime_page :: MenuPage where
  "SetTime_page = menu_page SetTime ''SetTime'' Page_SetTime
     [on_line 0 ''Set Time'', on_line 7 ''Use Arrow Keys'']
     [link Back SetTime MenuHelp 0 [],
      link LineUp SetTime SetTime 0 [],
      link LineDown SetTime SetTime 0 []]"

definition FreezeProtect_page :: MenuPage where
  "FreezeProtect_page = menu_page FreezeProtect ''FreezeProtect'' Page_FreezeProtect
     [on_line 0 ''Freeze Protect'']
     [link Back FreezeProtect MenuHelp 0 [],
      link LineUp FreezeProtect FreezeProtect 0 [],
      link LineDown FreezeProtect FreezeProtect 0 []]"

definition Boost_page :: MenuPage where
  "Boost_page = menu_page Boost ''Boost'' Page_Boost
     [on_line 0 ''Boost Pool'']
     [link Back Boost MenuHelp 0 [],
      link LineUp Boost Boost 0 [],
      link LineDown Boost Boost 0 []]"

definition SetAquapure_page :: MenuPage where
  "SetAquapure_page = menu_page SetAquapure ''SetAquapure'' Page_SetAquapure
     [on_line 0 ''Set AquaPure'']
     [link Back SetAquapure MenuHelp 0 [],
      link LineUp SetAquapure SetAquapure 0 [],
      link LineDown SetAquapure SetAquapure 0 []]"

definition SelectSpeed_page :: MenuPage where
  "SelectSpeed_page = menu_page SelectSpeed ''SelectSpeed'' Page_SelectSpeed
     [on_line 0 ''Select Speed'']
     [link Back SelectSpeed EquipmentOnOff 0 [],
      link LineUp SelectSpeed SelectSpeed 0 [],
      link LineDown SelectSpeed SelectSpeed 0 []]"

definition Program_page :: MenuPage where
  "Program_page = menu_page Program ''Program'' Page_Program
     [on_line 0 ''Program'']
     [link Back Program MenuHelp 0 [],
      link LineUp Program Program 0 [],
      link LineDown Program Program 0 []]"

definition DisplayLight_page :: MenuPage where
  "DisplayLight_page = menu_page DisplayLight ''DisplayLight'' Page_DisplayLight
     [on_line 0 ''Display Light'']
     [link Back DisplayLight MenuHelp 0 [],
      link LineUp DisplayLight DisplayLight 0 [],
      link LineDown DisplayLight DisplayLight 0 []]"

definition Lockouts_page :: MenuPage where
  "Lockouts_page = menu_page Lockouts ''Lockouts'' Page_Lockouts
     [on_line 0 ''Lockout'']
     [link Back Lockouts MenuHelp 0 [],
      link LineUp Lockouts Lockouts 0 [],
      link LineDown Lockouts Lockouts 0 []]"

definition PasswordSettings_page :: MenuPage where
  "PasswordSettings_page = menu_page PasswordSettings ''PasswordSettings'' Page_PasswordSettings
     [on_line 0 ''Password'']
     [link Back PasswordSettings MenuHelp 0 [],
      link LineUp PasswordSettings PasswordSettings 0 [],
      link LineDown PasswordSettings PasswordSettings 0 []]"

definition ProgramGroup_page :: MenuPage where
  "ProgramGroup_page = menu_page ProgramGroup ''ProgramGroup'' Page_ProgramGroup
     [on_line 0 ''Program Group'']
     [link Back ProgramGroup MenuHelp 0 [],
      link LineUp ProgramGroup ProgramGroup 0 [],
      link LineDown ProgramGroup ProgramGroup 0 []]"

definition StartUp_page :: MenuPage where
  "StartUp_page = menu_page StartUp ''StartUp'' Page_StartUp
     [on_line 7 ''REV '', on_line 5 ''-'']
     []
     \<lparr> p_max_content_lines := Some 4, p_transient := True \<rparr>"

definition Service_page :: MenuPage where
  "Service_page = menu_page Service ''Service'' Page_Service
     [on_line 3 ''Service Mode'']
     []"

definition TimeOut_page :: MenuPage where
  "TimeOut_page = menu_page TimeOut ''TimeOut'' Page_TimeOut
     [on_line 3 ''Timeout Mode'']
     []"

definition EnterPassword_page :: MenuPage where
  "EnterPassword_page = menu_page EnterPassword ''EnterPassword'' Page_EnterPassword
     [on_line 0 ''Enter Password'']
     [link Back EnterPassword MenuHelp 0 [],
      link LineUp EnterPassword EnterPassword 0 [],
      link LineDown EnterPassword EnterPassword 0 []]"

definition onetouch_pages :: "MenuPage list" where
  "onetouch_pages =
     [System_page, OneTouch_page, MoreOneTouch_page,
      MenuHelp_page, HelpSubmenu_page, HelpKeys_page,
      HelpService_page, DiagnosticsSensors_page, DiagnosticsRemotes_page,
      DiagnosticsErrors_page, DiagnosticsIAQStatus_page, DiagnosticsIAQRSSI_page,
      SystemSetup_page, LabelAuxList_page, LabelAux_page,
      GeneralLabels_page, LightLabels_page, WaterfallLabels_page,
      CustomLabel_page, EquipmentOnOff_page, EquipmentStatus_page,
      SetTemperature_page, SetTime_page, FreezeProtect_page,
      Boost_page, SetAquapure_page, SelectSpeed_page,
      Program_page, DisplayLight_page, Lockouts_page,
      PasswordSettings_page, ProgramGroup_page, StartUp_page,
      Service_page, TimeOut_page, EnterPassword_page]"

definition onetouch_global_edges :: "MenuEdge list" where
  "onetouch_global_edges =
     [link SystemTimeout Unknown TimeOut 0 ''Timeout'', link SystemService Unknown Service 0 ''Service Mode'']"

definition CreateOneTouchMenuModel :: MenuModel where
  "CreateOneTouchMenuModel = fold RegisterGlobalEdge onetouch_global_edges (fold RegisterPage onetouch_pages empty_model)"

fun OneTouchPageCapabilityRequirement :: "PageId \<Rightarrow> string option" where
  "OneTouchPageCapabilityRequirement DiagnosticsIAQStatus = Some ''requires iAqualink''"
| "OneTouchPageCapabilityRequirement DiagnosticsIAQRSSI = Some ''requires iAqualink''"
| "OneTouchPageCapabilityRequirement Boost = Some ''requires a salt chlorinator''"
| "OneTouchPageCapabilityRequirement SetAquapure = Some ''requires a salt chlorinator''"
| "OneTouchPageCapabilityRequirement _ = None"

section \<open>The graph\<close>

lemmas onetouch_page_defs =
  System_page_def OneTouch_page_def MoreOneTouch_page_def MenuHelp_page_def HelpSubmenu_page_def
  HelpKeys_page_def HelpService_page_def DiagnosticsSensors_page_def DiagnosticsRemotes_page_def
  DiagnosticsErrors_page_def DiagnosticsIAQStatus_page_def DiagnosticsIAQRSSI_page_def
  SystemSetup_page_def LabelAuxList_page_def LabelAux_page_def GeneralLabels_page_def
  LightLabels_page_def WaterfallLabels_page_def CustomLabel_page_def EquipmentOnOff_page_def
  EquipmentStatus_page_def SetTemperature_page_def SetTime_page_def FreezeProtect_page_def
  Boost_page_def SetAquapure_page_def SelectSpeed_page_def Program_page_def DisplayLight_page_def
  Lockouts_page_def PasswordSettings_page_def ProgramGroup_page_def StartUp_page_def
  Service_page_def TimeOut_page_def EnterPassword_page_def

lemma link_sel [simp]:
  "e_trigger (link t a b l s) = t" "e_source (link t a b l s) = a" "e_target (link t a b l s) = b"
  "e_line (link t a b l s) = l" "e_label (link t a b l s) = s"
  by (simp_all add: link_def)

lemma IsPageTransition_link [simp]: "IsPageTransition (link t a b l s) \<longleftrightarrow> a \<noteq> b"
  by (simp add: IsPageTransition_def IsSelfLoop_def)

lemma menu_page_sel [simp]:
  "p_id (menu_page i n ty ds es) = i" "p_type (menu_page i n ty ds es) = ty"
  "p_detectors (menu_page i n ty ds es) = ds" "p_edges (menu_page i n ty ds es) = es"
  "p_multi_instance (menu_page i n ty ds es) = False" "p_transient (menu_page i n ty ds es) = False"
  "p_max_content_lines (menu_page i n ty ds es) = None"
  by (simp_all add: menu_page_def)

text \<open>Registering a list of pages with different ids maps each id to its page.\<close>

lemma fold_RegisterPage: "m_Pages (fold RegisterPage pages m) = m_Pages m ++ map_of (rev (map (\<lambda>p. (p_id p, p)) pages))"
  by (induction pages arbitrary: m) (simp_all add: RegisterPage_def)

lemma fold_RegisterGlobalEdge:
  "m_Pages (fold RegisterGlobalEdge edges m) = m_Pages m"
  "m_GlobalEdges (fold RegisterGlobalEdge edges m) = m_GlobalEdges m @ edges"
  by (induction edges arbitrary: m) (simp_all add: RegisterGlobalEdge_def)

lemma distinct_page_ids: "distinct (map p_id onetouch_pages)"
  by (simp add: onetouch_pages_def onetouch_page_defs)

lemma onetouch_Pages: "m_Pages CreateOneTouchMenuModel = map_of (map (\<lambda>p. (p_id p, p)) onetouch_pages)"
proof -
  let ?entries = "map (\<lambda>p. (p_id p, p)) onetouch_pages"
  have "distinct (map fst ?entries)" using distinct_page_ids by (simp add: comp_def)
  then have "map_of (rev ?entries) = map_of ?entries"
    by (subst map_of_inject_set) (simp_all add: rev_map [symmetric])
  then show ?thesis
    by (simp add: CreateOneTouchMenuModel_def fold_RegisterPage fold_RegisterGlobalEdge empty_model_def)
qed

lemma onetouch_lookup [simp]:
  "m_Pages CreateOneTouchMenuModel System = Some System_page"
  "m_Pages CreateOneTouchMenuModel OneTouch = Some OneTouch_page"
  "m_Pages CreateOneTouchMenuModel MoreOneTouch = Some MoreOneTouch_page"
  "m_Pages CreateOneTouchMenuModel MenuHelp = Some MenuHelp_page"
  "m_Pages CreateOneTouchMenuModel HelpSubmenu = Some HelpSubmenu_page"
  "m_Pages CreateOneTouchMenuModel HelpKeys = Some HelpKeys_page"
  "m_Pages CreateOneTouchMenuModel HelpService = Some HelpService_page"
  "m_Pages CreateOneTouchMenuModel DiagnosticsSensors = Some DiagnosticsSensors_page"
  "m_Pages CreateOneTouchMenuModel DiagnosticsRemotes = Some DiagnosticsRemotes_page"
  "m_Pages CreateOneTouchMenuModel DiagnosticsErrors = Some DiagnosticsErrors_page"
  "m_Pages CreateOneTouchMenuModel DiagnosticsIAQStatus = Some DiagnosticsIAQStatus_page"
  "m_Pages CreateOneTouchMenuModel DiagnosticsIAQRSSI = Some DiagnosticsIAQRSSI_page"
  "m_Pages CreateOneTouchMenuModel SystemSetup = Some SystemSetup_page"
  "m_Pages CreateOneTouchMenuModel LabelAuxList = Some LabelAuxList_page"
  "m_Pages CreateOneTouchMenuModel LabelAux = Some LabelAux_page"
  "m_Pages CreateOneTouchMenuModel GeneralLabels = Some GeneralLabels_page"
  "m_Pages CreateOneTouchMenuModel LightLabels = Some LightLabels_page"
  "m_Pages CreateOneTouchMenuModel WaterfallLabels = Some WaterfallLabels_page"
  "m_Pages CreateOneTouchMenuModel CustomLabel = Some CustomLabel_page"
  "m_Pages CreateOneTouchMenuModel EquipmentOnOff = Some EquipmentOnOff_page"
  "m_Pages CreateOneTouchMenuModel EquipmentStatus = Some EquipmentStatus_page"
  "m_Pages CreateOneTouchMenuModel SetTemperature = Some SetTemperature_page"
  "m_Pages CreateOneTouchMenuModel SetTime = Some SetTime_page"
  "m_Pages CreateOneTouchMenuModel FreezeProtect = Some FreezeProtect_page"
  "m_Pages CreateOneTouchMenuModel Boost = Some Boost_page"
  "m_Pages CreateOneTouchMenuModel SetAquapure = Some SetAquapure_page"
  "m_Pages CreateOneTouchMenuModel SelectSpeed = Some SelectSpeed_page"
  "m_Pages CreateOneTouchMenuModel Program = Some Program_page"
  "m_Pages CreateOneTouchMenuModel DisplayLight = Some DisplayLight_page"
  "m_Pages CreateOneTouchMenuModel Lockouts = Some Lockouts_page"
  "m_Pages CreateOneTouchMenuModel PasswordSettings = Some PasswordSettings_page"
  "m_Pages CreateOneTouchMenuModel ProgramGroup = Some ProgramGroup_page"
  "m_Pages CreateOneTouchMenuModel StartUp = Some StartUp_page"
  "m_Pages CreateOneTouchMenuModel Service = Some Service_page"
  "m_Pages CreateOneTouchMenuModel TimeOut = Some TimeOut_page"
  "m_Pages CreateOneTouchMenuModel EnterPassword = Some EnterPassword_page"
  "m_Pages CreateOneTouchMenuModel Unknown = None"
  "m_Pages CreateOneTouchMenuModel SetPoolHeat = None"
  "m_Pages CreateOneTouchMenuModel SetSpaHeat = None"
  "m_Pages CreateOneTouchMenuModel Version = None"
  by (simp_all add: onetouch_Pages onetouch_pages_def onetouch_page_defs)

text \<open>The transitions of each page, and the pages that a path from the home page reaches.\<close>

lemma onetouch_step:
  "step CreateOneTouchMenuModel System q \<longleftrightarrow> q = EquipmentOnOff \<or> q = OneTouch \<or> q = MenuHelp"
  "step CreateOneTouchMenuModel OneTouch q \<longleftrightarrow> q = System"
  "step CreateOneTouchMenuModel MoreOneTouch q \<longleftrightarrow> q = OneTouch \<or> q = System"
  "step CreateOneTouchMenuModel MenuHelp q \<longleftrightarrow> q = HelpSubmenu \<or> q = Program \<or> q = SetTemperature \<or> q = SetTime \<or> q = SetAquapure \<or> q = DisplayLight \<or> q = Lockouts \<or> q = PasswordSettings \<or> q = ProgramGroup \<or> q = SystemSetup \<or> q = Boost \<or> q = System"
  "step CreateOneTouchMenuModel HelpSubmenu q \<longleftrightarrow> q = HelpKeys \<or> q = HelpService \<or> q = DiagnosticsSensors \<or> q = MenuHelp"
  "step CreateOneTouchMenuModel HelpKeys q \<longleftrightarrow> q = HelpSubmenu"
  "step CreateOneTouchMenuModel HelpService q \<longleftrightarrow> q = HelpSubmenu"
  "step CreateOneTouchMenuModel DiagnosticsSensors q \<longleftrightarrow> q = DiagnosticsRemotes \<or> q = HelpSubmenu"
  "step CreateOneTouchMenuModel DiagnosticsRemotes q \<longleftrightarrow> q = DiagnosticsErrors \<or> q = DiagnosticsSensors"
  "step CreateOneTouchMenuModel DiagnosticsErrors q \<longleftrightarrow> q = DiagnosticsIAQStatus \<or> q = DiagnosticsRemotes"
  "step CreateOneTouchMenuModel DiagnosticsIAQStatus q \<longleftrightarrow> q = DiagnosticsIAQRSSI \<or> q = DiagnosticsErrors"
  "step CreateOneTouchMenuModel DiagnosticsIAQRSSI q \<longleftrightarrow> q = HelpSubmenu \<or> q = DiagnosticsIAQStatus"
  "step CreateOneTouchMenuModel SystemSetup q \<longleftrightarrow> q = LabelAuxList \<or> q = MenuHelp"
  "step CreateOneTouchMenuModel LabelAuxList q \<longleftrightarrow> q = LabelAux \<or> q = SystemSetup"
  "step CreateOneTouchMenuModel LabelAux q \<longleftrightarrow> q = GeneralLabels \<or> q = LightLabels \<or> q = WaterfallLabels \<or> q = LabelAuxList"
  "step CreateOneTouchMenuModel GeneralLabels q \<longleftrightarrow> q = LabelAux"
  "step CreateOneTouchMenuModel LightLabels q \<longleftrightarrow> q = LabelAux"
  "step CreateOneTouchMenuModel WaterfallLabels q \<longleftrightarrow> q = LabelAux"
  "step CreateOneTouchMenuModel CustomLabel q \<longleftrightarrow> q = LabelAux"
  "step CreateOneTouchMenuModel EquipmentOnOff q \<longleftrightarrow> q = System"
  "step CreateOneTouchMenuModel EquipmentStatus q \<longleftrightarrow> q = System"
  "step CreateOneTouchMenuModel SetTemperature q \<longleftrightarrow> q = MenuHelp"
  "step CreateOneTouchMenuModel SetTime q \<longleftrightarrow> q = MenuHelp"
  "step CreateOneTouchMenuModel FreezeProtect q \<longleftrightarrow> q = MenuHelp"
  "step CreateOneTouchMenuModel Boost q \<longleftrightarrow> q = MenuHelp"
  "step CreateOneTouchMenuModel SetAquapure q \<longleftrightarrow> q = MenuHelp"
  "step CreateOneTouchMenuModel SelectSpeed q \<longleftrightarrow> q = EquipmentOnOff"
  "step CreateOneTouchMenuModel Program q \<longleftrightarrow> q = MenuHelp"
  "step CreateOneTouchMenuModel DisplayLight q \<longleftrightarrow> q = MenuHelp"
  "step CreateOneTouchMenuModel Lockouts q \<longleftrightarrow> q = MenuHelp"
  "step CreateOneTouchMenuModel PasswordSettings q \<longleftrightarrow> q = MenuHelp"
  "step CreateOneTouchMenuModel ProgramGroup q \<longleftrightarrow> q = MenuHelp"
  "step CreateOneTouchMenuModel StartUp q \<longleftrightarrow> False"
  "step CreateOneTouchMenuModel Service q \<longleftrightarrow> False"
  "step CreateOneTouchMenuModel TimeOut q \<longleftrightarrow> False"
  "step CreateOneTouchMenuModel EnterPassword q \<longleftrightarrow> q = MenuHelp"
  "step CreateOneTouchMenuModel Unknown q \<longleftrightarrow> False"
  "step CreateOneTouchMenuModel SetPoolHeat q \<longleftrightarrow> False"
  "step CreateOneTouchMenuModel SetSpaHeat q \<longleftrightarrow> False"
  "step CreateOneTouchMenuModel Version q \<longleftrightarrow> False"
  by (auto simp: step_def page_edges_def GetPage_def onetouch_page_defs)

lemma onetouch_well_linked: "well_linked CreateOneTouchMenuModel"
  unfolding well_linked_def
proof (intro allI impI)
  fix i page
  assume "m_Pages CreateOneTouchMenuModel i = Some page"
  then show "p_id page = i \<and> (\<forall>edge \<in> set (p_edges page). e_source edge = i)"
    by (cases i) (auto simp: onetouch_page_defs)
qed

definition from_home :: "PageId list" where
  "from_home =
     [System, EquipmentOnOff, OneTouch, MenuHelp, HelpSubmenu, Program,
      SetTemperature, SetTime, SetAquapure, DisplayLight, Lockouts, PasswordSettings,
      ProgramGroup, SystemSetup, Boost, HelpKeys, HelpService, DiagnosticsSensors,
      LabelAuxList, DiagnosticsRemotes, LabelAux, DiagnosticsErrors, GeneralLabels, LightLabels,
      WaterfallLabels, DiagnosticsIAQStatus, DiagnosticsIAQRSSI]"

definition no_way_home :: "PageId list" where
  "no_way_home = [Unknown, SetPoolHeat, SetSpaHeat, Version, StartUp, Service, TimeOut]"

lemma reachable_from_home: "reachable CreateOneTouchMenuModel System p \<longleftrightarrow> p \<in> set from_home"
proof
  assume "p \<in> set from_home"
  have EquipmentOnOff: "reachable CreateOneTouchMenuModel System EquipmentOnOff"
    by (rule step_reachable) (simp add: onetouch_step)
  have OneTouch: "reachable CreateOneTouchMenuModel System OneTouch"
    by (rule step_reachable) (simp add: onetouch_step)
  have MenuHelp: "reachable CreateOneTouchMenuModel System MenuHelp"
    by (rule step_reachable) (simp add: onetouch_step)
  have HelpSubmenu: "reachable CreateOneTouchMenuModel System HelpSubmenu"
    by (rule reachable_step [OF MenuHelp]) (simp add: onetouch_step)
  have Program: "reachable CreateOneTouchMenuModel System Program"
    by (rule reachable_step [OF MenuHelp]) (simp add: onetouch_step)
  have SetTemperature: "reachable CreateOneTouchMenuModel System SetTemperature"
    by (rule reachable_step [OF MenuHelp]) (simp add: onetouch_step)
  have SetTime: "reachable CreateOneTouchMenuModel System SetTime"
    by (rule reachable_step [OF MenuHelp]) (simp add: onetouch_step)
  have SetAquapure: "reachable CreateOneTouchMenuModel System SetAquapure"
    by (rule reachable_step [OF MenuHelp]) (simp add: onetouch_step)
  have DisplayLight: "reachable CreateOneTouchMenuModel System DisplayLight"
    by (rule reachable_step [OF MenuHelp]) (simp add: onetouch_step)
  have Lockouts: "reachable CreateOneTouchMenuModel System Lockouts"
    by (rule reachable_step [OF MenuHelp]) (simp add: onetouch_step)
  have PasswordSettings: "reachable CreateOneTouchMenuModel System PasswordSettings"
    by (rule reachable_step [OF MenuHelp]) (simp add: onetouch_step)
  have ProgramGroup: "reachable CreateOneTouchMenuModel System ProgramGroup"
    by (rule reachable_step [OF MenuHelp]) (simp add: onetouch_step)
  have SystemSetup: "reachable CreateOneTouchMenuModel System SystemSetup"
    by (rule reachable_step [OF MenuHelp]) (simp add: onetouch_step)
  have Boost: "reachable CreateOneTouchMenuModel System Boost"
    by (rule reachable_step [OF MenuHelp]) (simp add: onetouch_step)
  have HelpKeys: "reachable CreateOneTouchMenuModel System HelpKeys"
    by (rule reachable_step [OF HelpSubmenu]) (simp add: onetouch_step)
  have HelpService: "reachable CreateOneTouchMenuModel System HelpService"
    by (rule reachable_step [OF HelpSubmenu]) (simp add: onetouch_step)
  have DiagnosticsSensors: "reachable CreateOneTouchMenuModel System DiagnosticsSensors"
    by (rule reachable_step [OF HelpSubmenu]) (simp add: onetouch_step)
  have LabelAuxList: "reachable CreateOneTouchMenuModel System LabelAuxList"
    by (rule reachable_step [OF SystemSetup]) (simp add: onetouch_step)
  have DiagnosticsRemotes: "reachable CreateOneTouchMenuModel System DiagnosticsRemotes"
    by (rule reachable_step [OF DiagnosticsSensors]) (simp add: onetouch_step)
  have LabelAux: "reachable CreateOneTouchMenuModel System LabelAux"
    by (rule reachable_step [OF LabelAuxList]) (simp add: onetouch_step)
  have DiagnosticsErrors: "reachable CreateOneTouchMenuModel System DiagnosticsErrors"
    by (rule reachable_step [OF DiagnosticsRemotes]) (simp add: onetouch_step)
  have GeneralLabels: "reachable CreateOneTouchMenuModel System GeneralLabels"
    by (rule reachable_step [OF LabelAux]) (simp add: onetouch_step)
  have LightLabels: "reachable CreateOneTouchMenuModel System LightLabels"
    by (rule reachable_step [OF LabelAux]) (simp add: onetouch_step)
  have WaterfallLabels: "reachable CreateOneTouchMenuModel System WaterfallLabels"
    by (rule reachable_step [OF LabelAux]) (simp add: onetouch_step)
  have DiagnosticsIAQStatus: "reachable CreateOneTouchMenuModel System DiagnosticsIAQStatus"
    by (rule reachable_step [OF DiagnosticsErrors]) (simp add: onetouch_step)
  have DiagnosticsIAQRSSI: "reachable CreateOneTouchMenuModel System DiagnosticsIAQRSSI"
    by (rule reachable_step [OF DiagnosticsIAQStatus]) (simp add: onetouch_step)
  from \<open>p \<in> set from_home\<close> show "reachable CreateOneTouchMenuModel System p"
    unfolding from_home_def using EquipmentOnOff OneTouch MenuHelp HelpSubmenu Program SetTemperature SetTime SetAquapure DisplayLight Lockouts PasswordSettings ProgramGroup SystemSetup Boost HelpKeys HelpService DiagnosticsSensors LabelAuxList DiagnosticsRemotes LabelAux DiagnosticsErrors GeneralLabels LightLabels WaterfallLabels DiagnosticsIAQStatus DiagnosticsIAQRSSI
    by (simp only: list.set insert_iff empty_iff) (elim disjE FalseE; simp)
next
  assume "reachable CreateOneTouchMenuModel System p"
  then show "p \<in> set from_home"
    by (rule reachable_closed [rotated 2]) (auto simp: from_home_def onetouch_step)
qed

lemma home_reachable: "reachable CreateOneTouchMenuModel p System \<longleftrightarrow> p \<notin> set no_way_home"
proof
  assume reach: "reachable CreateOneTouchMenuModel p System"
  show "p \<notin> set no_way_home"
  proof
    assume "p \<in> set no_way_home"
    then have "System \<in> set no_way_home"
      using reach by (rule reachable_closed [rotated 1]) (auto simp: no_way_home_def onetouch_step)
    then show False by (simp add: no_way_home_def)
  qed
next
  have OneTouch: "reachable CreateOneTouchMenuModel OneTouch System"
    by (rule step_reachable) (simp add: onetouch_step)
  have MoreOneTouch: "reachable CreateOneTouchMenuModel MoreOneTouch System"
    by (rule step_reachable) (simp add: onetouch_step)
  have MenuHelp: "reachable CreateOneTouchMenuModel MenuHelp System"
    by (rule step_reachable) (simp add: onetouch_step)
  have EquipmentOnOff: "reachable CreateOneTouchMenuModel EquipmentOnOff System"
    by (rule step_reachable) (simp add: onetouch_step)
  have EquipmentStatus: "reachable CreateOneTouchMenuModel EquipmentStatus System"
    by (rule step_reachable) (simp add: onetouch_step)
  have HelpSubmenu: "reachable CreateOneTouchMenuModel HelpSubmenu System"
    by (rule step_reachable_to [OF _ MenuHelp]) (simp add: onetouch_step)
  have SystemSetup: "reachable CreateOneTouchMenuModel SystemSetup System"
    by (rule step_reachable_to [OF _ MenuHelp]) (simp add: onetouch_step)
  have SetTemperature: "reachable CreateOneTouchMenuModel SetTemperature System"
    by (rule step_reachable_to [OF _ MenuHelp]) (simp add: onetouch_step)
  have SetTime: "reachable CreateOneTouchMenuModel SetTime System"
    by (rule step_reachable_to [OF _ MenuHelp]) (simp add: onetouch_step)
  have FreezeProtect: "reachable CreateOneTouchMenuModel FreezeProtect System"
    by (rule step_reachable_to [OF _ MenuHelp]) (simp add: onetouch_step)
  have Boost: "reachable CreateOneTouchMenuModel Boost System"
    by (rule step_reachable_to [OF _ MenuHelp]) (simp add: onetouch_step)
  have SetAquapure: "reachable CreateOneTouchMenuModel SetAquapure System"
    by (rule step_reachable_to [OF _ MenuHelp]) (simp add: onetouch_step)
  have Program: "reachable CreateOneTouchMenuModel Program System"
    by (rule step_reachable_to [OF _ MenuHelp]) (simp add: onetouch_step)
  have DisplayLight: "reachable CreateOneTouchMenuModel DisplayLight System"
    by (rule step_reachable_to [OF _ MenuHelp]) (simp add: onetouch_step)
  have Lockouts: "reachable CreateOneTouchMenuModel Lockouts System"
    by (rule step_reachable_to [OF _ MenuHelp]) (simp add: onetouch_step)
  have PasswordSettings: "reachable CreateOneTouchMenuModel PasswordSettings System"
    by (rule step_reachable_to [OF _ MenuHelp]) (simp add: onetouch_step)
  have ProgramGroup: "reachable CreateOneTouchMenuModel ProgramGroup System"
    by (rule step_reachable_to [OF _ MenuHelp]) (simp add: onetouch_step)
  have EnterPassword: "reachable CreateOneTouchMenuModel EnterPassword System"
    by (rule step_reachable_to [OF _ MenuHelp]) (simp add: onetouch_step)
  have SelectSpeed: "reachable CreateOneTouchMenuModel SelectSpeed System"
    by (rule step_reachable_to [OF _ EquipmentOnOff]) (simp add: onetouch_step)
  have HelpKeys: "reachable CreateOneTouchMenuModel HelpKeys System"
    by (rule step_reachable_to [OF _ HelpSubmenu]) (simp add: onetouch_step)
  have HelpService: "reachable CreateOneTouchMenuModel HelpService System"
    by (rule step_reachable_to [OF _ HelpSubmenu]) (simp add: onetouch_step)
  have DiagnosticsSensors: "reachable CreateOneTouchMenuModel DiagnosticsSensors System"
    by (rule step_reachable_to [OF _ HelpSubmenu]) (simp add: onetouch_step)
  have DiagnosticsIAQRSSI: "reachable CreateOneTouchMenuModel DiagnosticsIAQRSSI System"
    by (rule step_reachable_to [OF _ HelpSubmenu]) (simp add: onetouch_step)
  have LabelAuxList: "reachable CreateOneTouchMenuModel LabelAuxList System"
    by (rule step_reachable_to [OF _ SystemSetup]) (simp add: onetouch_step)
  have DiagnosticsRemotes: "reachable CreateOneTouchMenuModel DiagnosticsRemotes System"
    by (rule step_reachable_to [OF _ DiagnosticsSensors]) (simp add: onetouch_step)
  have DiagnosticsIAQStatus: "reachable CreateOneTouchMenuModel DiagnosticsIAQStatus System"
    by (rule step_reachable_to [OF _ DiagnosticsIAQRSSI]) (simp add: onetouch_step)
  have LabelAux: "reachable CreateOneTouchMenuModel LabelAux System"
    by (rule step_reachable_to [OF _ LabelAuxList]) (simp add: onetouch_step)
  have DiagnosticsErrors: "reachable CreateOneTouchMenuModel DiagnosticsErrors System"
    by (rule step_reachable_to [OF _ DiagnosticsRemotes]) (simp add: onetouch_step)
  have GeneralLabels: "reachable CreateOneTouchMenuModel GeneralLabels System"
    by (rule step_reachable_to [OF _ LabelAux]) (simp add: onetouch_step)
  have LightLabels: "reachable CreateOneTouchMenuModel LightLabels System"
    by (rule step_reachable_to [OF _ LabelAux]) (simp add: onetouch_step)
  have WaterfallLabels: "reachable CreateOneTouchMenuModel WaterfallLabels System"
    by (rule step_reachable_to [OF _ LabelAux]) (simp add: onetouch_step)
  have CustomLabel: "reachable CreateOneTouchMenuModel CustomLabel System"
    by (rule step_reachable_to [OF _ LabelAux]) (simp add: onetouch_step)
  assume "p \<notin> set no_way_home"
  then show "reachable CreateOneTouchMenuModel p System"
    using OneTouch MoreOneTouch MenuHelp EquipmentOnOff EquipmentStatus HelpSubmenu SystemSetup SetTemperature SetTime FreezeProtect Boost SetAquapure Program DisplayLight Lockouts PasswordSettings ProgramGroup EnterPassword SelectSpeed HelpKeys HelpService DiagnosticsSensors DiagnosticsIAQRSSI LabelAuxList DiagnosticsRemotes DiagnosticsIAQStatus LabelAux DiagnosticsErrors GeneralLabels LightLabels WaterfallLabels CustomLabel
    by (cases p) (simp_all add: no_way_home_def)
qed


end
