(* ===== verification/Navigator.thy ===== *)
theory Navigator
  imports OneTouch_Menu
begin

text \<open>
  The navigator of the emulated keypad (\<open>jandy/navigation/navigator.h\<close> and \<open>.cpp\<close>): a state
  machine that is fed each screen update and each status message and answers with the next key.

  \<open>ExecuteNextStep\<close>, \<open>MoveCursorToTarget\<close> and \<open>RecoveryNext\<close> call each other, always as the last
  thing they do. Each is a definition here whose outcome is to return a key, to go on with another of
  the three, or to throw; \<open>run_calls\<close> follows the calls. It is a partial function: a chain of calls
  without end, and an exception, are \<open>None\<close>. Counters are \<open>uint32_t\<close> and lines \<open>uint8_t\<close>, as in the
  class. Log output is left out, as is the counter that only the log shows.
\<close>

section \<open>State\<close>

datatype NavKeyCommand =
  NoCommand | PageDown_Or_Select1 | Key_Back | PageUp_Or_Select3 | Key_Select | Key_LineDown | Key_LineUp

datatype NavState =
  Idle | Syncing | Navigating | WaitingForPage | MovingCursor | EnteringPassword | Reorienting
  | AtDestination | Failed

definition MAX_RECOVERY_ATTEMPTS :: u32 where "MAX_RECOVERY_ATTEMPTS = 3"
definition MAX_BACK_PRESSES :: u32 where "MAX_BACK_PRESSES = 10"
definition MAX_RECOMPUTE_COUNT :: u32 where "MAX_RECOMPUTE_COUNT = 50"
definition MAX_STUCK_RECOMPUTES :: u32 where "MAX_STUCK_RECOMPUTES = 3"
definition MAX_WAIT_CYCLES :: u32 where "MAX_WAIT_CYCLES = 100"
definition MAX_TRANSIENT_WAITS :: u32 where "MAX_TRANSIENT_WAITS = 20"
definition MAX_CURSOR_MOVES :: u32 where "MAX_CURSOR_MOVES = 15"
definition SYNC_REQUIRED_CONSISTENT_COUNT :: u32 where "SYNC_REQUIRED_CONSISTENT_COUNT = 3"
definition CURSOR_LINE_NONE :: u8 where "CURSOR_LINE_NONE = 0xFF"
definition MAX_ITEM_SCROLL_ATTEMPTS :: u32 where "MAX_ITEM_SCROLL_ATTEMPTS = 6"
definition MAX_CURSOR_STUCK_COUNT :: u32 where "MAX_CURSOR_STUCK_COUNT = 5"

record Navigator =
  nv_State :: NavState
  nv_CurrentPage :: PageId
  nv_TargetPage :: PageId
  nv_CursorLine :: u8
  nv_TargetCursorLine :: u8
  nv_Path :: "MenuEdge list"
  nv_PathIndex :: nat
  nv_Pending :: u32
  nv_RecoveryAttempts :: u32
  nv_RecoveryBackPresses :: u32
  nv_NavigatingToItem :: bool
  nv_TargetItemLine :: u8
  nv_ItemLabel :: string
  nv_SelectTarget :: PageId
  nv_ItemScrollAttempts :: u32
  nv_PreviousCursorLine :: u8
  nv_CursorStuckCount :: u32
  nv_SkipCursorCheck :: bool
  nv_Content :: "ScreenDataPage option"
  nv_CurrentEdge :: "MenuEdge option"
  nv_CursorMoveCount :: u32
  nv_Password :: string
  nv_PasswordDigitIndex :: u8
  nv_WaitCycleCount :: u32
  nv_RecomputeCount :: u32
  nv_LastRecomputeActual :: PageId
  nv_LastRecomputeTarget :: PageId
  nv_StuckRecomputeCount :: u32
  nv_TransientWaitCount :: u32
  nv_SyncDetectedPage :: PageId
  nv_SyncConsistentCount :: u32

definition new_navigator :: Navigator where
  "new_navigator =
     \<lparr> nv_State = Idle, nv_CurrentPage = Unknown, nv_TargetPage = Unknown, nv_CursorLine = 0,
       nv_TargetCursorLine = 0, nv_Path = [], nv_PathIndex = 0, nv_Pending = 0,
       nv_RecoveryAttempts = 0, nv_RecoveryBackPresses = 0, nv_NavigatingToItem = False,
       nv_TargetItemLine = 0, nv_ItemLabel = [], nv_SelectTarget = Unknown, nv_ItemScrollAttempts = 0,
       nv_PreviousCursorLine = 0, nv_CursorStuckCount = 0, nv_SkipCursorCheck = False,
       nv_Content = None, nv_CurrentEdge = None, nv_CursorMoveCount = 0, nv_Password = [],
       nv_PasswordDigitIndex = 0, nv_WaitCycleCount = 0, nv_RecomputeCount = 0,
       nv_LastRecomputeActual = Unknown, nv_LastRecomputeTarget = Unknown, nv_StuckRecomputeCount = 0,
       nv_TransientWaitCount = 0, nv_SyncDetectedPage = Unknown, nv_SyncConsistentCount = 0 \<rparr>"

section \<open>Requests\<close>

definition SetPassword :: "string \<Rightarrow> Navigator \<Rightarrow> Navigator" where
  "SetPassword password nav = nav \<lparr> nv_Password := password \<rparr>"

definition StartSync :: "Navigator \<Rightarrow> Navigator" where
  "StartSync nav = nav
     \<lparr> nv_State := Syncing, nv_CurrentPage := Unknown, nv_SyncDetectedPage := Unknown,
       nv_SyncConsistentCount := 0, nv_TransientWaitCount := 0 \<rparr>"

definition NavigateTo :: "PageId \<Rightarrow> Navigator \<Rightarrow> Navigator" where
  "NavigateTo dest nav = nav
     \<lparr> nv_TargetPage := dest, nv_NavigatingToItem := False, nv_SelectTarget := Unknown,
       nv_PathIndex := 0, nv_Path := [], nv_State := Navigating, nv_Pending := 0,
       nv_RecomputeCount := 0, nv_StuckRecomputeCount := 0, nv_LastRecomputeActual := Unknown,
       nv_LastRecomputeTarget := Unknown, nv_RecoveryAttempts := 0, nv_RecoveryBackPresses := 0,
       nv_TransientWaitCount := 0 \<rparr>"

definition NavigateToItem :: "PageId \<Rightarrow> u8 \<Rightarrow> string \<Rightarrow> PageId \<Rightarrow> Navigator \<Rightarrow> Navigator" where
  "NavigateToItem page menu_item_line item_label select_target nav = nav
     \<lparr> nv_TargetPage := page, nv_NavigatingToItem := True, nv_TargetItemLine := menu_item_line,
       nv_ItemLabel := item_label, nv_SelectTarget := select_target, nv_ItemScrollAttempts := 0,
       nv_PathIndex := 0, nv_Path := [], nv_State := Navigating, nv_Pending := 0,
       nv_RecomputeCount := 0, nv_StuckRecomputeCount := 0, nv_LastRecomputeActual := Unknown,
       nv_LastRecomputeTarget := Unknown, nv_RecoveryAttempts := 0, nv_RecoveryBackPresses := 0,
       nv_TransientWaitCount := 0 \<rparr>"

definition OnStatusMessageReceived :: "Navigator \<Rightarrow> Navigator" where
  "OnStatusMessageReceived nav =
     (if nv_Pending nav > 0 then nav \<lparr> nv_Pending := nv_Pending nav - 1 \<rparr> else nav)"

definition IsSynced :: "Navigator \<Rightarrow> bool" where
  "IsSynced nav \<longleftrightarrow> nv_CurrentPage nav \<noteq> Unknown"

definition IsComplete :: "Navigator \<Rightarrow> bool" where
  "IsComplete nav \<longleftrightarrow> nv_State nav = AtDestination \<or> nv_State nav = Failed"

definition IsSuccess :: "Navigator \<Rightarrow> bool" where
  "IsSuccess nav \<longleftrightarrow> nv_State nav = AtDestination"

definition Reset :: "Navigator \<Rightarrow> Navigator" where
  "Reset nav = nav
     \<lparr> nv_State := Idle, nv_CurrentPage := Unknown, nv_TargetPage := Unknown, nv_Path := [],
       nv_PathIndex := 0, nv_Pending := 0, nv_RecoveryAttempts := 0, nv_RecoveryBackPresses := 0,
       nv_NavigatingToItem := False, nv_SelectTarget := Unknown, nv_CursorStuckCount := 0,
       nv_PreviousCursorLine := 0, nv_SkipCursorCheck := False, nv_PasswordDigitIndex := 0,
       nv_WaitCycleCount := 0, nv_RecomputeCount := 0, nv_StuckRecomputeCount := 0,
       nv_LastRecomputeActual := Unknown, nv_LastRecomputeTarget := Unknown,
       nv_TransientWaitCount := 0, nv_SyncDetectedPage := Unknown, nv_SyncConsistentCount := 0,
       nv_Content := None, nv_CurrentEdge := None, nv_CursorMoveCount := 0 \<rparr>"

section \<open>Synchronisation\<close>

definition HandleSyncing :: "PageId \<Rightarrow> Navigator \<Rightarrow> Navigator \<times> NavKeyCommand option" where
  "HandleSyncing detected nav =
     (if detected = Unknown then
        (nav \<lparr> nv_SyncConsistentCount := 0, nv_SyncDetectedPage := Unknown \<rparr>, None)
      else if detected = StartUp \<or> detected = Service \<or> detected = TimeOut then
        (nav \<lparr> nv_SyncConsistentCount := 0, nv_SyncDetectedPage := Unknown \<rparr>, None)
      else
        let nav = (if detected = nv_SyncDetectedPage nav
                   then nav \<lparr> nv_SyncConsistentCount := nv_SyncConsistentCount nav + 1 \<rparr>
                   else nav \<lparr> nv_SyncDetectedPage := detected, nv_SyncConsistentCount := 1 \<rparr>)
        in if nv_SyncConsistentCount nav \<ge> SYNC_REQUIRED_CONSISTENT_COUNT
           then (nav \<lparr> nv_CurrentPage := nv_SyncDetectedPage nav, nv_State := Idle,
                       nv_SyncDetectedPage := Unknown, nv_SyncConsistentCount := 0 \<rparr>, None)
           else (nav, None))"

section \<open>Finding a line by its text\<close>

definition trim_blanks :: "string \<Rightarrow> string" where
  "trim_blanks s = trim_with blank_or_tab s"

definition label_matches :: "string \<Rightarrow> string \<Rightarrow> bool" where
  "label_matches label row_text \<longleftrightarrow>
     (let trimmed = trim_blanks row_text; n = length label in
      trimmed \<noteq> [] \<and> n \<le> length trimmed \<and> map tolower (take n trimmed) = map tolower label \<and>
      \<not> (n < length trimmed \<and> isalnum (trimmed ! n)))"

fun find_line :: "string \<Rightarrow> RowType list \<Rightarrow> nat \<Rightarrow> u8 option" where
  "find_line label [] i = None"
| "find_line label (row # rest) i =
     (if label_matches label (Text row) then Some (of_nat i) else find_line label rest (Suc i))"

definition FindLineByLabel :: "Navigator \<Rightarrow> string \<Rightarrow> u8 option" where
  "FindLineByLabel nav label =
     (case nv_Content nav of
        None \<Rightarrow> None
      | Some content \<Rightarrow> if label = [] then None else find_line label content 0)"

text \<open>The line to press Select on: the label's line on the screen, otherwise the model's line.\<close>

definition resolve_line :: "Navigator \<Rightarrow> MenuEdge \<Rightarrow> u8" where
  "resolve_line nav edge =
     (if e_label edge \<noteq> [] then
        (case FindLineByLabel nav (e_label edge) of Some line \<Rightarrow> line | None \<Rightarrow> e_line edge)
      else e_line edge)"

section \<open>Recovery and path computation\<close>

definition IsBlockingPage :: "PageId \<Rightarrow> bool" where
  "IsBlockingPage page \<longleftrightarrow> page = Service \<or> page = TimeOut"

definition IsTransientPage :: "MenuModel \<Rightarrow> PageId \<Rightarrow> bool" where
  "IsTransientPage m page \<longleftrightarrow> (case GetPage m page of None \<Rightarrow> False | Some p \<Rightarrow> p_transient p)"

definition InitiateRecovery :: "Navigator \<Rightarrow> Navigator" where
  "InitiateRecovery nav =
     (let nav = nav \<lparr> nv_RecoveryAttempts := nv_RecoveryAttempts nav + 1 \<rparr>
      in if nv_RecoveryAttempts nav > MAX_RECOVERY_ATTEMPTS then nav \<lparr> nv_State := Failed \<rparr>
         else nav \<lparr> nv_State := Reorienting, nv_RecoveryBackPresses := 0, nv_Path := [], nv_PathIndex := 0 \<rparr>)"

definition ComputePath :: "MenuModel \<Rightarrow> Navigator \<Rightarrow> Navigator option" where
  "ComputePath m nav =
     (if nv_CurrentPage nav = Unknown then Some (InitiateRecovery nav)
      else case FindPath m (nv_CurrentPage nav) (nv_TargetPage nav) of
             None \<Rightarrow> None
           | Some path \<Rightarrow>
               (let nav = nav \<lparr> nv_Path := path, nv_PathIndex := 0 \<rparr>
                in if path = [] \<and> nv_CurrentPage nav \<noteq> nv_TargetPage nav
                   then Some (InitiateRecovery nav) else Some nav))"

datatype call = Call_ExecuteNextStep | Call_MoveCursorToTarget | Call_RecoveryNext

datatype nav_outcome = Returns Navigator "NavKeyCommand option" | Continues call Navigator | Throws


section \<open>The three mutually calling steps\<close>

text \<open>On the target page: an item may have to be found, reached and selected.\<close>

definition arrive :: "Navigator \<Rightarrow> nav_outcome" where
  "arrive nav = Returns (nav \<lparr> nv_State := AtDestination \<rparr>) None"

definition select_item :: "Navigator \<Rightarrow> nav_outcome" where
  "select_item nav = Returns
     (nav \<lparr> nv_TargetPage := nv_SelectTarget nav, nv_NavigatingToItem := False,
            nv_SelectTarget := Unknown, nv_Path := [], nv_PathIndex := 0, nv_Pending := 2,
            nv_State := WaitingForPage \<rparr>) (Some Key_Select)"

definition item_on_line :: "u8 \<Rightarrow> Navigator \<Rightarrow> nav_outcome" where
  "item_on_line line nav =
     (let nav = nav \<lparr> nv_TargetCursorLine := line \<rparr>
      in if nv_CursorLine nav \<noteq> nv_TargetCursorLine nav
         then Continues Call_MoveCursorToTarget (nav \<lparr> nv_State := MovingCursor \<rparr>)
         else if nv_SelectTarget nav \<noteq> Unknown then select_item nav
         else arrive nav)"

definition item_missing :: "MenuModel \<Rightarrow> Navigator \<Rightarrow> nav_outcome" where
  "item_missing m nav =
     (if (case GetPage m (nv_CurrentPage nav) of None \<Rightarrow> False | Some page \<Rightarrow> SupportsKey page PageDown)
         \<and> nv_ItemScrollAttempts nav < MAX_ITEM_SCROLL_ATTEMPTS
      then Returns (nav \<lparr> nv_ItemScrollAttempts := nv_ItemScrollAttempts nav + 1, nv_Pending := 1,
                          nv_State := WaitingForPage \<rparr>) (Some PageDown_Or_Select1)
      else Returns (nav \<lparr> nv_State := Failed \<rparr>) None)"

definition on_target_page :: "MenuModel \<Rightarrow> Navigator \<Rightarrow> nav_outcome" where
  "on_target_page m nav =
     (if nv_NavigatingToItem nav then
        if nv_ItemLabel nav \<noteq> [] then
          (case FindLineByLabel nav (nv_ItemLabel nav) of
             Some line \<Rightarrow> item_on_line line nav
           | None \<Rightarrow> item_missing m nav)
        else item_on_line (nv_TargetItemLine nav) nav
      else arrive nav)"

text \<open>Otherwise the next edge of the path is taken, a Select edge only with the cursor on its line.\<close>

definition send_key :: "MenuEdge \<Rightarrow> Navigator \<Rightarrow> nav_outcome" where
  "send_key edge nav =
     (let nav = nav \<lparr> nv_SkipCursorCheck := False, nv_PathIndex := nv_PathIndex nav + 1 \<rparr>;
          (pending, cmd) = (case e_trigger edge of
             Select \<Rightarrow> (2, Key_Select)
           | Back \<Rightarrow> (2, Key_Back)
           | LineUp \<Rightarrow> (1, Key_LineUp)
           | LineDown \<Rightarrow> (1, Key_LineDown)
           | PageUp \<Rightarrow> (1, PageUp_Or_Select3)
           | PageDown \<Rightarrow> (1, PageDown_Or_Select1)
           | SystemTimeout \<Rightarrow> (nv_Pending nav, NoCommand)
           | SystemService \<Rightarrow> (nv_Pending nav, NoCommand))
      in Returns (nav \<lparr> nv_Pending := pending, nv_State := WaitingForPage \<rparr>) (Some cmd))"

definition take_edge :: "Navigator \<Rightarrow> nav_outcome" where
  "take_edge nav =
     (if nv_PathIndex nav \<ge> length (nv_Path nav) then
        Continues Call_ExecuteNextStep (nav \<lparr> nv_Path := [] \<rparr>)
      else
        let edge = nv_Path nav ! nv_PathIndex nav
        in if e_trigger edge = Select \<and> \<not> nv_SkipCursorCheck nav \<and> nv_CursorLine nav \<noteq> resolve_line nav edge
           then Continues Call_MoveCursorToTarget
                  (nav \<lparr> nv_TargetCursorLine := resolve_line nav edge, nv_CurrentEdge := Some edge,
                         nv_CursorMoveCount := 0, nv_State := MovingCursor \<rparr>)
           else send_key edge nav)"

definition with_path :: "MenuModel \<Rightarrow> Navigator \<Rightarrow> nav_outcome" where
  "with_path m nav =
     (if nv_CurrentPage nav = nv_TargetPage nav then on_target_page m nav else take_edge nav)"

definition ExecuteNextStep :: "MenuModel \<Rightarrow> Navigator \<Rightarrow> nav_outcome" where
  "ExecuteNextStep m nav =
     (if nv_Path nav = [] \<and> nv_CurrentPage nav \<noteq> nv_TargetPage nav then
        (case ComputePath m nav of
           None \<Rightarrow> Throws
         | Some nav \<Rightarrow>
             if nv_State nav = Reorienting then Continues Call_RecoveryNext nav else with_path m nav)
      else with_path m nav)"

text \<open>Moving the cursor, with its two ways of giving up: a wrap after too many moves, and being stuck.\<close>

definition AttemptWrapRecovery :: "Navigator \<Rightarrow> Navigator option" where
  "AttemptWrapRecovery nav =
     (case nv_CurrentEdge nav of
        None \<Rightarrow> None
      | Some edge \<Rightarrow>
          if e_label edge = [] then None
          else case FindLineByLabel nav (e_label edge) of
                 None \<Rightarrow> None
               | Some line \<Rightarrow>
                   if line \<noteq> nv_TargetCursorLine nav
                   then Some (nav \<lparr> nv_TargetCursorLine := line, nv_CursorMoveCount := 0 \<rparr>) else None)"

definition accept_cursor :: "Navigator \<Rightarrow> nav_outcome" where
  "accept_cursor nav = Continues Call_ExecuteNextStep
     (nav \<lparr> nv_TargetCursorLine := nv_CursorLine nav, nv_SkipCursorCheck := True, nv_State := Navigating \<rparr>)"

definition GiveUpCursorMove :: "Navigator \<Rightarrow> nav_outcome" where
  "GiveUpCursorMove nav =
     (let nav = nav \<lparr> nv_CursorMoveCount := 0 \<rparr>
      in if nv_NavigatingToItem nav then Returns (nav \<lparr> nv_State := Failed \<rparr>) None else accept_cursor nav)"

definition press_towards :: "Navigator \<Rightarrow> nav_outcome" where
  "press_towards nav = Returns
     (nav \<lparr> nv_PreviousCursorLine := nv_CursorLine nav, nv_Pending := 1 \<rparr>)
     (Some (if nv_CursorLine nav < nv_TargetCursorLine nav then Key_LineDown else Key_LineUp))"

definition check_stuck :: "Navigator \<Rightarrow> nav_outcome" where
  "check_stuck nav =
     (if nv_CursorLine nav = nv_PreviousCursorLine nav \<and> nv_CursorStuckCount nav > 0 then
        let nav = nav \<lparr> nv_CursorStuckCount := nv_CursorStuckCount nav + 1 \<rparr>
        in if nv_CursorStuckCount nav \<ge> MAX_CURSOR_STUCK_COUNT then
             if nv_NavigatingToItem nav
             then Returns (nav \<lparr> nv_CursorStuckCount := 0, nv_State := Failed \<rparr>) None
             else accept_cursor (nav \<lparr> nv_CursorStuckCount := 0 \<rparr>)
           else press_towards nav
      else press_towards (nav \<lparr> nv_CursorStuckCount := 1 \<rparr>))"

definition MoveCursorToTarget :: "Navigator \<Rightarrow> nav_outcome" where
  "MoveCursorToTarget nav =
     (if nv_CursorLine nav = nv_TargetCursorLine nav then
        Continues Call_ExecuteNextStep
          (nav \<lparr> nv_CursorStuckCount := 0, nv_CursorMoveCount := 0, nv_State := Navigating \<rparr>)
      else if nv_Pending nav > 0 then Returns nav None
      else
        let nav = nav \<lparr> nv_CursorMoveCount := nv_CursorMoveCount nav + 1 \<rparr>
        in if nv_CursorMoveCount nav > MAX_CURSOR_MOVES then
             (case AttemptWrapRecovery nav of
                None \<Rightarrow> GiveUpCursorMove nav
              | Some nav \<Rightarrow>
                  if nv_CursorLine nav = nv_TargetCursorLine nav
                  then Continues Call_ExecuteNextStep (nav \<lparr> nv_CursorStuckCount := 0, nv_State := Navigating \<rparr>)
                  else check_stuck nav)
           else check_stuck nav)"

text \<open>Recovery: by Back to the home page, or over a System entry where there is no Back key.\<close>

definition system_link :: "MenuPage \<Rightarrow> MenuEdge option" where
  "system_link page = find (\<lambda>edge. e_trigger edge = Select \<and> e_target edge = System) (p_edges page)"

definition select_system :: "MenuPage \<Rightarrow> Navigator \<Rightarrow> nav_outcome" where
  "select_system page nav =
     (case system_link page of
        None \<Rightarrow> Returns (nav \<lparr> nv_State := Failed \<rparr>) None
      | Some edge \<Rightarrow>
          let line = resolve_line nav edge; nav = nav \<lparr> nv_TargetCursorLine := line \<rparr>
          in if nv_CursorLine nav \<noteq> line
             then Continues Call_MoveCursorToTarget
                    (nav \<lparr> nv_CurrentEdge := Some edge, nv_CursorMoveCount := 0, nv_State := MovingCursor \<rparr>)
             else Returns (nav \<lparr> nv_Pending := 2 \<rparr>) (Some Key_Select))"

definition press_back :: "Navigator \<Rightarrow> nav_outcome" where
  "press_back nav = Returns
     (nav \<lparr> nv_RecoveryBackPresses := nv_RecoveryBackPresses nav + 1, nv_Pending := 2 \<rparr>) (Some Key_Back)"

definition back_towards_home :: "Navigator \<Rightarrow> nav_outcome" where
  "back_towards_home nav =
     (if nv_RecoveryBackPresses nav \<ge> MAX_BACK_PRESSES then
        let nav = nav \<lparr> nv_RecoveryAttempts := nv_RecoveryAttempts nav + 1, nv_RecoveryBackPresses := 0 \<rparr>
        in if nv_RecoveryAttempts nav \<ge> MAX_RECOVERY_ATTEMPTS
           then Returns (nav \<lparr> nv_State := Failed \<rparr>) None else press_back nav
      else press_back nav)"

definition RecoveryNext :: "MenuModel \<Rightarrow> Navigator \<Rightarrow> nav_outcome" where
  "RecoveryNext m nav =
     (if nv_Pending nav > 0 then Returns nav None
      else if IsBlockingPage (nv_CurrentPage nav) then Returns (nav \<lparr> nv_State := Failed \<rparr>) None
      else if nv_CurrentPage nav = System then
        Continues Call_ExecuteNextStep
          (nav \<lparr> nv_State := Navigating, nv_RecoveryBackPresses := 0, nv_Path := [], nv_PathIndex := 0 \<rparr>)
      else
        (case GetPage m (nv_CurrentPage nav) of
           None \<Rightarrow> back_towards_home nav
         | Some page \<Rightarrow> if \<not> SupportsKey page Back then select_system page nav else back_towards_home nav))"

fun perform :: "MenuModel \<Rightarrow> call \<Rightarrow> Navigator \<Rightarrow> nav_outcome" where
  "perform m Call_ExecuteNextStep nav = ExecuteNextStep m nav"
| "perform m Call_MoveCursorToTarget nav = MoveCursorToTarget nav"
| "perform m Call_RecoveryNext nav = RecoveryNext m nav"

partial_function (option) run_calls ::
    "MenuModel \<Rightarrow> call \<Rightarrow> Navigator \<Rightarrow> (Navigator \<times> NavKeyCommand option) option" where
  [code]: "run_calls m c nav =
     (case perform m c nav of
        Returns nav' cmd \<Rightarrow> Some (nav', cmd)
      | Continues c' nav' \<Rightarrow> run_calls m c' nav'
      | Throws \<Rightarrow> None)"

section \<open>Unexpected pages\<close>

text \<open>\<open>Inl\<close>: the splash page is waited out; \<open>Inr\<close>: the page is handled as unexpected.\<close>

definition HandleTransientPage :: "MenuModel \<Rightarrow> PageId \<Rightarrow> Navigator \<Rightarrow> Navigator + Navigator" where
  "HandleTransientPage m actual nav =
     (if actual = Unknown \<or> \<not> IsTransientPage m actual then Inr nav
      else
        let nav = nav \<lparr> nv_CurrentPage := actual, nv_TransientWaitCount := nv_TransientWaitCount nav + 1 \<rparr>
        in if nv_TransientWaitCount nav \<le> MAX_TRANSIENT_WAITS
           then Inl (nav \<lparr> nv_State := WaitingForPage, nv_Pending := 0 \<rparr>) else Inr nav)"

definition DetectStuckRecompute :: "PageId \<Rightarrow> Navigator \<Rightarrow> Navigator + Navigator" where
  "DetectStuckRecompute actual nav =
     (if nv_TargetPage nav = nv_LastRecomputeTarget nav then
        let nav = nav \<lparr> nv_StuckRecomputeCount := nv_StuckRecomputeCount nav + 1 \<rparr>
        in if nv_StuckRecomputeCount nav \<ge> MAX_STUCK_RECOMPUTES
           then Inl (nav \<lparr> nv_StuckRecomputeCount := 0, nv_LastRecomputeActual := Unknown,
                           nv_LastRecomputeTarget := Unknown, nv_State := Failed \<rparr>)
           else Inr (nav \<lparr> nv_LastRecomputeActual := actual \<rparr>)
      else Inr (nav \<lparr> nv_StuckRecomputeCount := 1, nv_LastRecomputeTarget := nv_TargetPage nav,
                      nv_LastRecomputeActual := actual \<rparr>))"

definition recompute_path :: "MenuModel \<Rightarrow> PageId \<Rightarrow> Navigator \<Rightarrow> Navigator option" where
  "recompute_path m actual nav =
     (if actual \<noteq> Unknown then
        (case FindPath m actual (nv_TargetPage nav) of
           None \<Rightarrow> None
         | Some path \<Rightarrow>
             (let nav = nav \<lparr> nv_CurrentPage := actual, nv_PathIndex := 0, nv_Path := path \<rparr>
              in if path \<noteq> [] then Some (nav \<lparr> nv_State := Navigating \<rparr>) else Some (InitiateRecovery nav)))
      else Some (InitiateRecovery nav))"

definition HandleUnexpectedPage :: "MenuModel \<Rightarrow> PageId \<Rightarrow> Navigator \<Rightarrow> Navigator option" where
  "HandleUnexpectedPage m actual nav =
     (case HandleTransientPage m actual nav of
        Inl nav \<Rightarrow> Some nav
      | Inr nav \<Rightarrow>
          (case DetectStuckRecompute actual (nav \<lparr> nv_RecomputeCount := nv_RecomputeCount nav + 1 \<rparr>) of
             Inl nav \<Rightarrow> Some nav
           | Inr nav \<Rightarrow>
               if nv_RecomputeCount nav \<ge> MAX_RECOMPUTE_COUNT then Some (nav \<lparr> nv_State := Failed \<rparr>)
               else recompute_path m actual nav))"

definition HandleWaitingForPage :: "MenuModel \<Rightarrow> Navigator \<Rightarrow> (Navigator \<times> NavKeyCommand option) option" where
  "HandleWaitingForPage m nav =
     (if nv_Pending nav > 0 then Some (nav, None)
      else
        let unexpected =
              (nv_PathIndex nav > 0 \<and> nv_PathIndex nav \<le> length (nv_Path nav) \<and>
               (let last_edge = nv_Path nav ! (nv_PathIndex nav - 1)
                in nv_CurrentPage nav \<noteq> e_target last_edge \<and> e_target last_edge \<noteq> Unknown))
        in if unexpected then
             (case HandleUnexpectedPage m (nv_CurrentPage nav) nav of
                None \<Rightarrow> None
              | Some nav \<Rightarrow>
                  if nv_State nav = Navigating then run_calls m Call_ExecuteNextStep nav
                  else if nv_State nav = Reorienting then run_calls m Call_RecoveryNext nav
                  else Some (nav, None))
           else run_calls m Call_ExecuteNextStep (nav \<lparr> nv_State := Navigating \<rparr>))"

section \<open>Screen updates\<close>

definition HandlePasswordEntry :: "Navigator \<Rightarrow> Navigator \<times> NavKeyCommand option" where
  "HandlePasswordEntry nav =
     (nav \<lparr> nv_PasswordDigitIndex := 0, nv_Pending := 2, nv_State := WaitingForPage \<rparr>, Some Key_Back)"

definition HandleSpecialPage :: "PageId \<Rightarrow> Navigator \<Rightarrow> bool \<times> Navigator" where
  "HandleSpecialPage page nav =
     (case page of
        Service \<Rightarrow> (False, nav \<lparr> nv_State := Failed \<rparr>)
      | TimeOut \<Rightarrow> (False, nav \<lparr> nv_Pending := 2 \<rparr>)
      | _ \<Rightarrow> (True, nav))"

definition dispatch_state :: "MenuModel \<Rightarrow> Navigator \<Rightarrow> (Navigator \<times> NavKeyCommand option) option" where
  "dispatch_state m nav =
     (case nv_State nav of
        Idle \<Rightarrow> Some (nav, None)
      | AtDestination \<Rightarrow> Some (nav, None)
      | Failed \<Rightarrow> Some (nav, None)
      | WaitingForPage \<Rightarrow> HandleWaitingForPage m nav
      | MovingCursor \<Rightarrow> run_calls m Call_MoveCursorToTarget nav
      | Navigating \<Rightarrow> run_calls m Call_ExecuteNextStep nav
      | Reorienting \<Rightarrow> run_calls m Call_RecoveryNext nav
      | EnteringPassword \<Rightarrow> Some (HandlePasswordEntry nav)
      | Syncing \<Rightarrow> Some (nav, None))"

definition count_wait :: "MenuModel \<Rightarrow> Navigator \<Rightarrow> (Navigator \<times> NavKeyCommand option) option" where
  "count_wait m nav =
     (if nv_State nav = WaitingForPage \<and> nv_Pending nav > 0 then
        let nav = nav \<lparr> nv_WaitCycleCount := nv_WaitCycleCount nav + 1 \<rparr>
        in if nv_WaitCycleCount nav \<ge> MAX_WAIT_CYCLES
           then run_calls m Call_RecoveryNext (InitiateRecovery (nav \<lparr> nv_WaitCycleCount := 0 \<rparr>))
           else dispatch_state m nav
      else dispatch_state m (nav \<lparr> nv_WaitCycleCount := 0 \<rparr>))"

definition check_prompt :: "MenuModel \<Rightarrow> Navigator \<Rightarrow> (Navigator \<times> NavKeyCommand option) option" where
  "check_prompt m nav =
     (if nv_CurrentPage nav = EnterPassword \<and> nv_State nav \<noteq> EnteringPassword
      then Some (nav \<lparr> nv_Pending := 2 \<rparr>, Some Key_Back)
      else count_wait m nav)"

definition see_screen :: "ScreenDataPage \<Rightarrow> u8 \<Rightarrow> Navigator \<Rightarrow> Navigator" where
  "see_screen content highlighted_line nav =
     (let nav = nav \<lparr> nv_Content := Some content \<rparr>
      in if highlighted_line \<noteq> CURSOR_LINE_NONE then nav \<lparr> nv_CursorLine := highlighted_line \<rparr> else nav)"

definition OnPageUpdate ::
    "PageId list \<Rightarrow> MenuModel \<Rightarrow> ScreenDataPage \<Rightarrow> u8 \<Rightarrow> Navigator \<Rightarrow> (Navigator \<times> NavKeyCommand option) option"
  where
  "OnPageUpdate order m content highlighted_line nav =
     (let nav = see_screen content highlighted_line nav; detected = DetectPage order m content
      in if nv_State nav = Syncing then Some (HandleSyncing detected nav)
         else
           let nav = (if detected \<noteq> Unknown then nav \<lparr> nv_CurrentPage := detected \<rparr> else nav)
           in if IsBlockingPage (nv_CurrentPage nav)
              then (case HandleSpecialPage (nv_CurrentPage nav) nav of
                      (False, nav) \<Rightarrow> Some (nav, None)
                    | (True, nav) \<Rightarrow> check_prompt m nav)
              else check_prompt m nav)"


end
