(* ===== verification/Spider.thy ===== *)
theory Spider
  imports Navigation_Properties
begin

text \<open>
  The crawler that visits menu pages (\<open>jandy/navigation/spider_engine.h\<close> and \<open>.cpp\<close>) and its visit
  policies (\<open>visit_policies.h\<close> and \<open>.cpp\<close>). The engine drives the navigator it refers to, so its
  operations take and return both states; the calls of the policy's callbacks are recorded in
  \<open>sp_Log\<close>. As for the navigator, a call that does not return is \<open>None\<close>.
\<close>

section \<open>Visit policies\<close>

datatype VisitPolicy = FullDiscoveryVisitPolicy bool | TargetedVisitPolicy "PageId set"

fun IsLabelPage :: "PageId \<Rightarrow> bool" where
  "IsLabelPage LabelAuxList = True"
| "IsLabelPage LabelAux = True"
| "IsLabelPage GeneralLabels = True"
| "IsLabelPage LightLabels = True"
| "IsLabelPage WaterfallLabels = True"
| "IsLabelPage CustomLabel = True"
| "IsLabelPage _ = False"

fun ShouldVisit :: "VisitPolicy \<Rightarrow> PageId \<Rightarrow> bool" where
  "ShouldVisit (FullDiscoveryVisitPolicy skip_label_pages) page =
     (if page \<in> {Unknown, StartUp, Service, TimeOut, EnterPassword} then False
      else \<not> (skip_label_pages \<and> IsLabelPage page))"
| "ShouldVisit (TargetedVisitPolicy target_pages) page \<longleftrightarrow> page \<in> target_pages"

datatype policy_call = PageReached PageId ScreenDataPage | CrawlComplete

section \<open>The engine\<close>

datatype SpiderState =
  SpiderIdle | SpiderSyncing | NavigatingToNext | CapturingPage | CrawlDone | CrawlFailed

definition MAX_NAVIGATION_FAILURES :: u32 where "MAX_NAVIGATION_FAILURES = 3"

record SpiderEngine =
  sp_Policy :: "VisitPolicy option"
  sp_State :: SpiderState
  sp_Visited :: "PageId set"
  sp_Failed :: "PageId set"
  sp_CurrentTarget :: PageId
  sp_NavigationFailures :: u32
  sp_VisitedMultiEdges :: "PageId \<Rightarrow> (PageId \<times> u8) set option"
  sp_CurrentMultiEdge :: "MenuEdge option"
  sp_Log :: "policy_call list"

definition new_spider :: SpiderEngine where
  "new_spider =
     \<lparr> sp_Policy = None, sp_State = SpiderIdle, sp_Visited = {}, sp_Failed = {},
       sp_CurrentTarget = Unknown, sp_NavigationFailures = 0, sp_VisitedMultiEdges = (\<lambda>_. None),
       sp_CurrentMultiEdge = None, sp_Log = [] \<rparr>"

definition edge_key :: "MenuEdge \<Rightarrow> PageId \<times> u8" where
  "edge_key edge = (e_source edge, e_line edge)"

definition visited_keys :: "SpiderEngine \<Rightarrow> PageId \<Rightarrow> (PageId \<times> u8) set" where
  "visited_keys sp page = (case sp_VisitedMultiEdges sp page of None \<Rightarrow> {} | Some keys \<Rightarrow> keys)"

definition HasUnvisitedMultiEdges :: "PageId list \<Rightarrow> MenuModel \<Rightarrow> SpiderEngine \<Rightarrow> PageId \<Rightarrow> bool" where
  "HasUnvisitedMultiEdges order m sp page =
     (let incoming = GetIncomingSelectEdges order m page in
      if incoming = [] then False
      else case sp_VisitedMultiEdges sp page of
             None \<Rightarrow> True
           | Some visited \<Rightarrow> list_ex (\<lambda>edge. edge_key edge \<notin> visited) incoming)"

definition GetNextUnvisitedMultiEdge ::
    "PageId list \<Rightarrow> MenuModel \<Rightarrow> SpiderEngine \<Rightarrow> PageId \<Rightarrow> MenuEdge option" where
  "GetNextUnvisitedMultiEdge order m sp page =
     find (\<lambda>edge. case sp_VisitedMultiEdges sp page of None \<Rightarrow> True | Some visited \<Rightarrow> edge_key edge \<notin> visited)
       (GetIncomingSelectEdges order m page)"

definition wants :: "SpiderEngine \<Rightarrow> PageId \<Rightarrow> bool" where
  "wants sp page = (case sp_Policy sp of None \<Rightarrow> False | Some policy \<Rightarrow> ShouldVisit policy page)"

definition is_candidate :: "PageId list \<Rightarrow> MenuModel \<Rightarrow> SpiderEngine \<Rightarrow> PageId \<Rightarrow> bool" where
  "is_candidate order m sp page =
     (case GetPage m page of
        None \<Rightarrow> False
      | Some info \<Rightarrow>
          if page = Unknown then False
          else if p_multi_instance info then HasUnvisitedMultiEdges order m sp page \<and> wants sp page
          else page \<notin> sp_Visited sp \<and> wants sp page)"

definition SIZE_MAX :: nat where "SIZE_MAX = 18446744073709551615"

text \<open>The nearest candidate; \<open>None\<close> means that a path search threw.\<close>

fun nearest_loop ::
    "PageId list \<Rightarrow> MenuModel \<Rightarrow> SpiderEngine \<Rightarrow> PageId \<Rightarrow> PageId list \<Rightarrow> PageId \<Rightarrow> nat \<Rightarrow> PageId option option"
  where
  "nearest_loop order m sp current [] nearest shortest =
     Some (if nearest \<noteq> Unknown then Some nearest else None)"
| "nearest_loop order m sp current (candidate # rest) nearest shortest =
     (if (case GetPage m candidate of None \<Rightarrow> False | Some page \<Rightarrow> p_multi_instance page) then
        (case GetNextUnvisitedMultiEdge order m sp candidate of
           None \<Rightarrow> nearest_loop order m sp current rest nearest shortest
         | Some next_edge \<Rightarrow>
             (case FindPath m current (e_source next_edge) of
                None \<Rightarrow> None
              | Some path \<Rightarrow>
                  (let total = (if path = [] then (if current = e_source next_edge then 1 else SIZE_MAX)
                                else length path + 1)
                   in if total < shortest then nearest_loop order m sp current rest candidate total
                      else nearest_loop order m sp current rest nearest shortest)))
      else
        (case FindPath m current candidate of
           None \<Rightarrow> None
         | Some path \<Rightarrow>
             if path \<noteq> [] \<and> length path < shortest
             then nearest_loop order m sp current rest candidate (length path)
             else if current = candidate then Some (Some candidate)
             else nearest_loop order m sp current rest nearest shortest))"

definition ChooseNextTarget ::
    "PageId list \<Rightarrow> MenuModel \<Rightarrow> SpiderEngine \<Rightarrow> Navigator \<Rightarrow> PageId option option" where
  "ChooseNextTarget order m sp nav =
     (let current = nv_CurrentPage nav; candidates = filter (is_candidate order m sp) order
      in if current = Unknown then Some None
         else if candidates = [] then Some None
         else nearest_loop order m sp current candidates Unknown SIZE_MAX)"

type_synonym crawl = "SpiderEngine \<times> Navigator"

definition NavigateToNextTarget :: "PageId list \<Rightarrow> MenuModel \<Rightarrow> crawl \<Rightarrow> crawl option" where
  "NavigateToNextTarget order m crawl =
     (let (sp, nav) = crawl in
      case ChooseNextTarget order m sp nav of
        None \<Rightarrow> None
      | Some None \<Rightarrow>
          Some (sp \<lparr> sp_Log := sp_Log sp @ (if sp_Policy sp = None then [] else [CrawlComplete]),
                     sp_State := CrawlDone \<rparr>, nav)
      | Some (Some page) \<Rightarrow>
          (let sp = sp \<lparr> sp_CurrentTarget := page \<rparr>;
               multi = (case GetPage m page of None \<Rightarrow> False | Some info \<Rightarrow> p_multi_instance info)
           in case (if multi then GetNextUnvisitedMultiEdge order m sp page else None) of
                Some edge \<Rightarrow>
                  Some (sp \<lparr> sp_CurrentMultiEdge := Some edge, sp_State := NavigatingToNext \<rparr>,
                        NavigateToItem (e_source edge) (e_line edge) (e_label edge) page nav)
              | None \<Rightarrow>
                  if nv_CurrentPage nav = page then Some (sp \<lparr> sp_State := CapturingPage \<rparr>, nav)
                  else Some (sp \<lparr> sp_State := NavigatingToNext \<rparr>, NavigateTo page nav)))"

definition StartCrawl :: "PageId list \<Rightarrow> MenuModel \<Rightarrow> VisitPolicy \<Rightarrow> crawl \<Rightarrow> crawl option" where
  "StartCrawl order m policy crawl =
     (let (sp, nav) = crawl;
          sp = sp \<lparr> sp_Policy := Some policy, sp_Visited := {}, sp_Failed := {},
                    sp_VisitedMultiEdges := (\<lambda>_. None), sp_CurrentMultiEdge := None,
                    sp_CurrentTarget := Unknown, sp_NavigationFailures := 0 \<rparr>
      in if \<not> IsSynced nav then Some (sp \<lparr> sp_State := SpiderSyncing \<rparr>, StartSync nav)
         else NavigateToNextTarget order m (sp \<lparr> sp_State := NavigatingToNext \<rparr>, nav))"

definition mark_edge :: "MenuEdge \<Rightarrow> SpiderEngine \<Rightarrow> SpiderEngine" where
  "mark_edge edge sp =
     (let t = sp_CurrentTarget sp in
      sp \<lparr> sp_VisitedMultiEdges := (sp_VisitedMultiEdges sp)(t \<mapsto> insert (edge_key edge) (visited_keys sp t)),
           sp_CurrentMultiEdge := None \<rparr>)"

definition mark_page :: "SpiderEngine \<Rightarrow> SpiderEngine" where
  "mark_page sp = sp \<lparr> sp_Visited := insert (sp_CurrentTarget sp) (sp_Visited sp) \<rparr>"

definition mark_instance :: "PageId list \<Rightarrow> MenuModel \<Rightarrow> MenuEdge \<Rightarrow> SpiderEngine \<Rightarrow> SpiderEngine" where
  "mark_instance order m edge sp =
     (let sp = mark_edge edge sp
      in if \<not> HasUnvisitedMultiEdges order m sp (sp_CurrentTarget sp) then mark_page sp else sp)"

type_synonym step_result = "(crawl \<times> NavKeyCommand option) option"

text \<open>After a page is done: the next target, and at once its first key.\<close>

definition go_on ::
    "PageId list \<Rightarrow> MenuModel \<Rightarrow> ScreenDataPage \<Rightarrow> u8 \<Rightarrow> NavKeyCommand option \<Rightarrow> crawl \<Rightarrow> step_result" where
  "go_on order m content line otherwise crawl =
     (case NavigateToNextTarget order m crawl of
        None \<Rightarrow> None
      | Some (sp, nav) \<Rightarrow>
          if sp_State sp = NavigatingToNext then
            (case OnPageUpdate order m content line nav of
               None \<Rightarrow> None | Some (nav, cmd) \<Rightarrow> Some ((sp, nav), cmd))
          else Some ((sp, nav), otherwise))"

definition capture_page :: "PageId list \<Rightarrow> MenuModel \<Rightarrow> ScreenDataPage \<Rightarrow> u8 \<Rightarrow> crawl \<Rightarrow> step_result" where
  "capture_page order m content line crawl =
     (let (sp, nav) = crawl;
          sp = (if sp_Policy sp = None then sp
                else sp \<lparr> sp_Log := sp_Log sp @ [PageReached (sp_CurrentTarget sp) content] \<rparr>);
          multi = (case GetPage m (sp_CurrentTarget sp) of None \<Rightarrow> False | Some info \<Rightarrow> p_multi_instance info);
          sp = (case sp_CurrentMultiEdge sp of
                  Some edge \<Rightarrow> if multi then mark_instance order m edge sp else mark_page sp
                | None \<Rightarrow> mark_page sp)
      in go_on order m content line None (sp, nav))"

definition navigation_failed :: "PageId list \<Rightarrow> MenuModel \<Rightarrow> ScreenDataPage \<Rightarrow> u8 \<Rightarrow> crawl \<Rightarrow> step_result" where
  "navigation_failed order m content line crawl =
     (let (sp, nav) = crawl in
      case sp_CurrentMultiEdge sp of
        Some edge \<Rightarrow> go_on order m content line None (mark_instance order m edge sp, nav)
      | None \<Rightarrow>
          (let sp = sp \<lparr> sp_NavigationFailures := sp_NavigationFailures sp + 1 \<rparr>
           in if sp_NavigationFailures sp \<ge> MAX_NAVIGATION_FAILURES
              then Some ((sp \<lparr> sp_State := CrawlFailed \<rparr>, nav), None)
              else go_on order m content line None
                     ((mark_page sp) \<lparr> sp_Failed := insert (sp_CurrentTarget sp) (sp_Failed sp) \<rparr>, nav)))"

definition ProcessStep :: "PageId list \<Rightarrow> MenuModel \<Rightarrow> ScreenDataPage \<Rightarrow> u8 \<Rightarrow> crawl \<Rightarrow> step_result" where
  "ProcessStep order m content line crawl =
     (let (sp, nav) = crawl in
      case sp_State sp of
        SpiderIdle \<Rightarrow> Some (crawl, None)
      | CrawlDone \<Rightarrow> Some (crawl, None)
      | CrawlFailed \<Rightarrow> Some (crawl, None)
      | SpiderSyncing \<Rightarrow>
          (case OnPageUpdate order m content line nav of
             None \<Rightarrow> None
           | Some (nav, cmd) \<Rightarrow>
               if IsSynced nav
               then go_on order m content line cmd (sp \<lparr> sp_State := NavigatingToNext \<rparr>, nav)
               else Some ((sp, nav), cmd))
      | NavigatingToNext \<Rightarrow>
          (case OnPageUpdate order m content line nav of
             None \<Rightarrow> None
           | Some (nav, cmd) \<Rightarrow>
               if IsComplete nav then
                 (if IsSuccess nav
                  then capture_page order m content line
                         (sp \<lparr> sp_State := CapturingPage, sp_NavigationFailures := 0 \<rparr>, nav)
                  else navigation_failed order m content line (sp, nav))
               else Some ((sp, nav), cmd))
      | CapturingPage \<Rightarrow> capture_page order m content line crawl)"

text \<open>Status messages go to the navigator; the engine ignores them.\<close>

definition Spider_OnStatusReceived :: "SpiderEngine \<Rightarrow> SpiderEngine" where
  "Spider_OnStatusReceived sp = sp"

end
