(* ===== verification/Spider_Properties.thy ===== *)
theory Spider_Properties
  imports Spider
begin

text \<open>
  What a crawl guarantees: each ordinary page is reported at most once and each row of a
  multi-instance page at most once, so a crawl makes a bounded number of visits; and when it
  completes, everything the policy wants and the menu reaches has been visited or given up.
\<close>

section \<open>Choosing a target\<close>

definition is_multi :: "MenuModel \<Rightarrow> PageId \<Rightarrow> bool" where
  "is_multi m page \<longleftrightarrow> (case GetPage m page of None \<Rightarrow> False | Some info \<Rightarrow> p_multi_instance info)"

definition is_normal :: "MenuModel \<Rightarrow> PageId \<Rightarrow> bool" where
  "is_normal m page \<longleftrightarrow> (case GetPage m page of None \<Rightarrow> False | Some info \<Rightarrow> \<not> p_multi_instance info)"

definition open_edges :: "PageId list \<Rightarrow> MenuModel \<Rightarrow> SpiderEngine \<Rightarrow> PageId \<Rightarrow> (PageId \<times> u8) set" where
  "open_edges order m sp page = edge_key ` set (GetIncomingSelectEdges order m page) - visited_keys sp page"

lemma GetNext_None: "GetNextUnvisitedMultiEdge order m sp page = None \<longleftrightarrow> open_edges order m sp page = {}"
  by (cases "sp_VisitedMultiEdges sp page")
     (auto simp: GetNextUnvisitedMultiEdge_def open_edges_def visited_keys_def find_None_iff)

lemma GetNext_Some:
  "GetNextUnvisitedMultiEdge order m sp page = Some edge \<Longrightarrow>
   edge \<in> set (GetIncomingSelectEdges order m page) \<and> edge_key edge \<in> open_edges order m sp page"
  by (cases "sp_VisitedMultiEdges sp page")
     (auto simp: GetNextUnvisitedMultiEdge_def open_edges_def visited_keys_def find_Some_iff)

lemma HasUnvisited_iff: "HasUnvisitedMultiEdges order m sp page \<longleftrightarrow> open_edges order m sp page \<noteq> {}"
  by (cases "sp_VisitedMultiEdges sp page")
     (auto simp: HasUnvisitedMultiEdges_def open_edges_def visited_keys_def list_ex_iff Let_def)

lemma is_candidate_iff:
  "is_candidate order m sp page \<longleftrightarrow> page \<noteq> Unknown \<and> wants sp page \<and>
     (is_multi m page \<and> open_edges order m sp page \<noteq> {} \<or> is_normal m page \<and> page \<notin> sp_Visited sp)"
  by (auto simp: is_candidate_def is_multi_def is_normal_def HasUnvisited_iff split: option.split)

lemma nearest_loop_chosen:
  "nearest_loop order m sp current candidates nearest shortest = Some (Some page) \<Longrightarrow>
   page \<in> set candidates \<or> page = nearest"
proof (induction order m sp current candidates nearest shortest rule: nearest_loop.induct)
  case (2 order m sp current candidate rest nearest shortest)
  then show ?case by (auto simp: Let_def split: if_splits option.splits)
qed (auto split: if_splits)

lemma nearest_loop_unknown:
  "nearest_loop order m sp current candidates nearest shortest \<noteq> Some (Some Unknown) \<or> Unknown \<in> set candidates"
proof (induction order m sp current candidates nearest shortest rule: nearest_loop.induct)
  case (2 order m sp current candidate rest nearest shortest)
  then show ?case by (auto simp: Let_def split: option.split)
qed auto

lemma ChooseNextTarget_candidate:
  assumes "ChooseNextTarget order m sp nav = Some (Some page)"
  shows "page \<in> set order \<and> is_candidate order m sp page"
proof -
  have loop: "nearest_loop order m sp (nv_CurrentPage nav) (filter (is_candidate order m sp) order) Unknown SIZE_MAX
      = Some (Some page)"
    using assms by (auto simp: ChooseNextTarget_def Let_def split: if_splits)
  have "page \<noteq> Unknown"
    using loop nearest_loop_unknown [of order m sp "nv_CurrentPage nav" "filter (is_candidate order m sp) order" Unknown SIZE_MAX]
    by (auto simp: is_candidate_iff)
  then show ?thesis using nearest_loop_chosen [OF loop] by auto
qed

text \<open>Nothing is chosen only when no candidate can be reached.\<close>

definition way_to :: "PageId list \<Rightarrow> MenuModel \<Rightarrow> SpiderEngine \<Rightarrow> PageId \<Rightarrow> PageId \<Rightarrow> bool" where
  "way_to order m sp current page \<longleftrightarrow>
     (if is_multi m page
      then (case GetNextUnvisitedMultiEdge order m sp page of
              None \<Rightarrow> False | Some edge \<Rightarrow> reachable m current (e_source edge))
      else reachable m current page)"

lemma nearest_loop_none_unknown:
  "nearest_loop order m sp current candidates nearest shortest = Some None \<Longrightarrow> Unknown \<notin> set candidates \<Longrightarrow>
   nearest = Unknown"
proof (induction candidates arbitrary: nearest shortest)
  case (Cons candidate rest)
  have "candidate \<noteq> Unknown" "Unknown \<notin> set rest" using Cons.prems(2) by auto
  then have "nearest_loop order m sp current rest candidate k \<noteq> Some None" for k
    using Cons.IH [of candidate k] by auto
  moreover have "nearest = Unknown" if "nearest_loop order m sp current rest nearest shortest = Some None"
    using Cons.IH [OF that] \<open>Unknown \<notin> set rest\<close> by simp
  ultimately show ?case using Cons.prems(1) by (auto simp: Let_def split: if_splits option.splits)
qed (auto split: if_splits)

lemma FindPath_empty:
  assumes "well_linked m"
  shows "\<exists>path. FindPath m p q = Some path \<and> length path < 40 \<and> (path = [] \<longrightarrow> p = q \<or> \<not> reachable m p q)"
proof -
  obtain path where path: "FindPath m p q = Some path"
    "if path = [] then p = q \<or> (\<forall>es. \<not> walk m p es q)
     else p \<noteq> q \<and> walk m p path q \<and> (\<forall>es. walk m p es q \<longrightarrow> length path \<le> length es)"
    using FindPath_shortest [OF assms] by blast
  then show ?thesis using FindPath_length [OF assms path(1)] by (auto simp: reachable_def)
qed

lemma nearest_loop_none:
  assumes "well_linked m"
  shows "nearest_loop order m sp current candidates nearest shortest = Some None \<Longrightarrow> 50 < shortest \<Longrightarrow>
    Unknown \<notin> set candidates \<Longrightarrow> \<forall>page \<in> set candidates. \<not> way_to order m sp current page"
proof (induction candidates arbitrary: nearest shortest)
  case Nil
  then show ?case by simp
next
  case (Cons candidate rest)
  have real: "candidate \<noteq> Unknown" "Unknown \<notin> set rest" using Cons.prems(3) by auto
  have no_update: "nearest_loop order m sp current rest candidate k \<noteq> Some None" for k
    using nearest_loop_none_unknown [of order m sp current rest candidate k] real by auto
  note go_on = Cons.IH [OF _ Cons.prems(2) real(2)]
  show ?case
  proof (cases "is_multi m candidate")
    case True
    show ?thesis
    proof (cases "GetNextUnvisitedMultiEdge order m sp candidate")
      case None
      then have "nearest_loop order m sp current rest nearest shortest = Some None"
        using Cons.prems(1) True by (simp add: is_multi_def)
      moreover have "\<not> way_to order m sp current candidate" using None True by (simp add: way_to_def)
      ultimately show ?thesis using go_on [of nearest] by simp
    next
      case (Some edge)
      obtain path where path: "FindPath m current (e_source edge) = Some path" "length path < 40"
        "path = [] \<longrightarrow> current = e_source edge \<or> \<not> reachable m current (e_source edge)"
        using FindPath_empty [OF assms] by blast
      have "path = [] \<and> current \<noteq> e_source edge \<and> nearest_loop order m sp current rest nearest shortest = Some None"
        using Cons.prems(1,2) True Some path(1,2) no_update
        by (auto simp: is_multi_def Let_def split: if_splits)
      moreover from this have "\<not> way_to order m sp current candidate"
        using path(3) Some True by (simp add: way_to_def)
      ultimately show ?thesis using go_on [of nearest] by simp
    qed
  next
    case False
    obtain path where path: "FindPath m current candidate = Some path" "length path < 40"
      "path = [] \<longrightarrow> current = candidate \<or> \<not> reachable m current candidate"
      using FindPath_empty [OF assms] by blast
    have "path = [] \<and> current \<noteq> candidate \<and> nearest_loop order m sp current rest nearest shortest = Some None"
      using Cons.prems(1,2) False path(1,2) no_update
      by (auto simp: is_multi_def Let_def split: if_splits)
    moreover from this have "\<not> way_to order m sp current candidate"
      using path(3) False by (simp add: way_to_def)
    ultimately show ?thesis using go_on [of nearest] by simp
  qed
qed

lemma ChooseNextTarget_none:
  assumes "well_linked m" "ChooseNextTarget order m sp nav = Some None" "nv_CurrentPage nav \<noteq> Unknown"
    "page \<in> set order" "is_candidate order m sp page"
  shows "\<not> way_to order m sp (nv_CurrentPage nav) page"
proof -
  have "filter (is_candidate order m sp) order \<noteq> []" using assms(4,5) by (auto simp: filter_empty_conv)
  then have "nearest_loop order m sp (nv_CurrentPage nav) (filter (is_candidate order m sp) order) Unknown SIZE_MAX
      = Some None"
    using assms(2,3) by (simp add: ChooseNextTarget_def Let_def)
  moreover have "50 < SIZE_MAX" "Unknown \<notin> set (filter (is_candidate order m sp) order)"
    by (simp_all add: SIZE_MAX_def is_candidate_iff)
  ultimately have "\<forall>page \<in> set (filter (is_candidate order m sp) order). \<not> way_to order m sp (nv_CurrentPage nav) page"
    by (rule nearest_loop_none [OF assms(1)])
  then show ?thesis using assms(4,5) by simp
qed

lemma ChooseNextTarget_total:
  assumes "well_linked m"
  shows "ChooseNextTarget order m sp nav \<noteq> None"
proof -
  have "nearest_loop order m sp current candidates nearest shortest \<noteq> None" for current candidates nearest shortest
  proof (induction candidates arbitrary: nearest shortest)
    case (Cons candidate rest)
    have "\<forall>q. \<exists>path. FindPath m current q = Some path" using FindPath_empty [OF assms] by blast
    then obtain via where "\<forall>q. FindPath m current q = Some (via q)" by metis
    then show ?case using Cons by (simp add: Let_def split: option.split)
  qed simp
  then show ?thesis by (simp add: ChooseNextTarget_def Let_def)
qed

section \<open>The invariant of a crawl\<close>

text \<open>While a target is being approached or captured, it is still open.\<close>

definition target_open :: "PageId list \<Rightarrow> MenuModel \<Rightarrow> SpiderEngine \<Rightarrow> bool" where
  "target_open order m sp \<longleftrightarrow>
     (let t = sp_CurrentTarget sp in t \<in> set order \<and>
      (case sp_CurrentMultiEdge sp of
         None \<Rightarrow> is_normal m t \<and> t \<notin> sp_Visited sp
       | Some edge \<Rightarrow> is_multi m t \<and> edge_key edge \<in> open_edges order m sp t))"

definition crawl_inv :: "PageId list \<Rightarrow> MenuModel \<Rightarrow> SpiderEngine \<Rightarrow> bool" where
  "crawl_inv order m sp \<longleftrightarrow>
     (sp_State sp = NavigatingToNext \<or> sp_State sp = CapturingPage \<longrightarrow> target_open order m sp) \<and>
     (sp_State sp = SpiderSyncing \<longrightarrow> sp_CurrentMultiEdge sp = None)"

text \<open>What is left to visit: the ordinary pages, and the rows of the multi-instance pages.\<close>

definition left_pages :: "PageId list \<Rightarrow> MenuModel \<Rightarrow> SpiderEngine \<Rightarrow> PageId set" where
  "left_pages order m sp = {page \<in> set order. is_normal m page \<and> page \<notin> sp_Visited sp}"

definition left_rows :: "PageId list \<Rightarrow> MenuModel \<Rightarrow> SpiderEngine \<Rightarrow> (PageId \<times> PageId \<times> u8) set" where
  "left_rows order m sp = (SIGMA page:{page \<in> set order. is_multi m page}. open_edges order m sp page)"

definition remaining :: "PageId list \<Rightarrow> MenuModel \<Rightarrow> SpiderEngine \<Rightarrow> nat" where
  "remaining order m sp = card (left_pages order m sp) + card (left_rows order m sp)"

lemma finite_left [simp]: "finite (left_pages order m sp)" "finite (left_rows order m sp)"
  by (auto simp: left_pages_def left_rows_def open_edges_def)

text \<open>Only the visited sets and the target count.\<close>

lemma visited_keys_update [simp]:
  "visited_keys (sp \<lparr> sp_Log := l \<rparr>) = visited_keys sp" "visited_keys (sp \<lparr> sp_State := s \<rparr>) = visited_keys sp"
  "visited_keys (sp \<lparr> sp_NavigationFailures := n \<rparr>) = visited_keys sp"
  "visited_keys (sp \<lparr> sp_Failed := f \<rparr>) = visited_keys sp"
  by (simp_all add: visited_keys_def fun_eq_iff)

lemma open_edges_update [simp]:
  "open_edges order m (sp \<lparr> sp_Log := l \<rparr>) = open_edges order m sp"
  "open_edges order m (sp \<lparr> sp_State := s \<rparr>) = open_edges order m sp"
  "open_edges order m (sp \<lparr> sp_NavigationFailures := n \<rparr>) = open_edges order m sp"
  "open_edges order m (sp \<lparr> sp_Failed := f \<rparr>) = open_edges order m sp"
  by (simp_all add: open_edges_def fun_eq_iff)

lemma remaining_update [simp]:
  "remaining order m (sp \<lparr> sp_Log := l \<rparr>) = remaining order m sp"
  "remaining order m (sp \<lparr> sp_State := s \<rparr>) = remaining order m sp"
  "remaining order m (sp \<lparr> sp_NavigationFailures := n \<rparr>) = remaining order m sp"
  "remaining order m (sp \<lparr> sp_Failed := f \<rparr>) = remaining order m sp"
  by (simp_all add: remaining_def left_pages_def left_rows_def)

lemma target_open_update [simp]:
  "target_open order m (sp \<lparr> sp_Log := l \<rparr>) = target_open order m sp"
  "target_open order m (sp \<lparr> sp_State := s \<rparr>) = target_open order m sp"
  "target_open order m (sp \<lparr> sp_NavigationFailures := n \<rparr>) = target_open order m sp"
  "target_open order m (sp \<lparr> sp_Failed := f \<rparr>) = target_open order m sp"
  by (cases "sp_CurrentMultiEdge sp"; simp add: target_open_def Let_def)+

lemma GetNext_update [simp]:
  "GetNextUnvisitedMultiEdge order m (sp \<lparr> sp_CurrentTarget := t \<rparr>) page = GetNextUnvisitedMultiEdge order m sp page"
  by (simp add: GetNextUnvisitedMultiEdge_def)

text \<open>Marking the target done uses up one of them.\<close>

lemma normal_not_multi: "is_normal m page \<Longrightarrow> \<not> is_multi m page"
  by (simp add: is_normal_def is_multi_def split: option.splits)

lemma open_edges_mark_page [simp]: "open_edges order m (mark_page sp) page = open_edges order m sp page"
  by (simp add: open_edges_def visited_keys_def mark_page_def)

lemma remaining_mark_normal:
  assumes "sp_CurrentTarget sp \<in> left_pages order m sp"
  shows "remaining order m sp = Suc (remaining order m (mark_page sp))"
proof -
  have "left_pages order m (mark_page sp) = left_pages order m sp - {sp_CurrentTarget sp}"
    by (auto simp: left_pages_def mark_page_def)
  moreover have "left_rows order m (mark_page sp) = left_rows order m sp"
    by (simp add: left_rows_def)
  ultimately show ?thesis using card_Suc_Diff1 [OF finite_left(1) assms] by (simp add: remaining_def)
qed

lemma remaining_mark_multi:
  assumes "is_multi m (sp_CurrentTarget sp)"
  shows "remaining order m (mark_page sp) = remaining order m sp"
proof -
  have "left_pages order m (mark_page sp) = left_pages order m sp"
    using assms normal_not_multi by (auto simp: left_pages_def mark_page_def)
  then show ?thesis by (simp add: remaining_def left_rows_def)
qed

lemma visited_keys_mark_edge:
  "visited_keys (mark_edge edge sp) page =
     (if page = sp_CurrentTarget sp then insert (edge_key edge) (visited_keys sp page) else visited_keys sp page)"
  by (simp add: visited_keys_def mark_edge_def Let_def)

lemma remaining_mark_edge:
  assumes "sp_CurrentTarget sp \<in> set order" "is_multi m (sp_CurrentTarget sp)"
    "edge_key edge \<in> open_edges order m sp (sp_CurrentTarget sp)"
  shows "remaining order m sp = Suc (remaining order m (mark_edge edge sp))"
proof -
  let ?row = "(sp_CurrentTarget sp, edge_key edge)"
  have "left_rows order m (mark_edge edge sp) = left_rows order m sp - {?row}"
    by (auto simp: left_rows_def open_edges_def visited_keys_mark_edge split: if_splits)
  moreover have "?row \<in> left_rows order m sp" using assms by (simp add: left_rows_def)
  moreover have "left_pages order m (mark_edge edge sp) = left_pages order m sp"
    by (simp add: left_pages_def mark_edge_def Let_def)
  ultimately show ?thesis using card_Suc_Diff1 [OF finite_left(2)] by (fastforce simp: remaining_def)
qed

lemma mark_edge_fields [simp]:
  "sp_CurrentTarget (mark_edge edge sp) = sp_CurrentTarget sp"
  "sp_CurrentMultiEdge (mark_edge edge sp) = None" "sp_Log (mark_edge edge sp) = sp_Log sp"
  "sp_Visited (mark_edge edge sp) = sp_Visited sp" "sp_State (mark_edge edge sp) = sp_State sp"
  "sp_Policy (mark_edge edge sp) = sp_Policy sp"
  by (simp_all add: mark_edge_def Let_def)

lemma mark_page_fields [simp]:
  "sp_CurrentTarget (mark_page sp) = sp_CurrentTarget sp"
  "sp_CurrentMultiEdge (mark_page sp) = sp_CurrentMultiEdge sp" "sp_Log (mark_page sp) = sp_Log sp"
  "sp_Visited (mark_page sp) = insert (sp_CurrentTarget sp) (sp_Visited sp)" "sp_State (mark_page sp) = sp_State sp"
  "sp_Policy (mark_page sp) = sp_Policy sp"
  by (simp_all add: mark_page_def)

lemma mark_instance_done:
  assumes "target_open order m sp" "sp_CurrentMultiEdge sp = Some edge"
  shows "sp_CurrentMultiEdge (mark_instance order m edge sp) = None \<and>
    sp_Log (mark_instance order m edge sp) = sp_Log sp \<and>
    Suc (remaining order m (mark_instance order m edge sp)) = remaining order m sp \<and>
    (\<forall>page. is_normal m page \<longrightarrow> (page \<in> sp_Visited (mark_instance order m edge sp) \<longleftrightarrow> page \<in> sp_Visited sp))"
proof -
  have target: "sp_CurrentTarget sp \<in> set order" "is_multi m (sp_CurrentTarget sp)"
    "edge_key edge \<in> open_edges order m sp (sp_CurrentTarget sp)"
    using assms by (simp_all add: target_open_def Let_def)
  have "page \<noteq> sp_CurrentTarget sp" if "is_normal m page" for page
    using that target(2) normal_not_multi by blast
  then show ?thesis
    using remaining_mark_edge [OF target] remaining_mark_multi [of m "mark_edge edge sp" order] target(2)
    by (auto simp: mark_instance_def Let_def)
qed

lemma mark_normal_done:
  assumes "target_open order m sp" "sp_CurrentMultiEdge sp = None"
  shows "Suc (remaining order m (mark_page sp)) = remaining order m sp"
  using assms remaining_mark_normal [of sp order m] by (simp add: target_open_def left_pages_def Let_def)

section \<open>Reports\<close>

fun is_report :: "policy_call \<Rightarrow> bool" where
  "is_report (PageReached page content) = True"
| "is_report CrawlComplete = False"

fun is_report_of :: "PageId \<Rightarrow> policy_call \<Rightarrow> bool" where
  "is_report_of page (PageReached p content) \<longleftrightarrow> p = page"
| "is_report_of page CrawlComplete \<longleftrightarrow> False"

definition reports :: "SpiderEngine \<Rightarrow> nat" where
  "reports sp = length (filter is_report (sp_Log sp))"

definition reports_of :: "PageId \<Rightarrow> SpiderEngine \<Rightarrow> nat" where
  "reports_of page sp = length (filter (is_report_of page) (sp_Log sp))"

text \<open>
  The invariant of the reports: with what is left they never exceed the bound, an ordinary page that
  is not visited has not been reported, and one that is visited at most once.
\<close>

definition at_most_once :: "MenuModel \<Rightarrow> SpiderEngine \<Rightarrow> bool" where
  "at_most_once m sp \<longleftrightarrow>
     (\<forall>page. is_normal m page \<longrightarrow> reports_of page sp \<le> (if page \<in> sp_Visited sp then 1 else 0))"

lemma reports_update [simp]:
  "reports (sp \<lparr> sp_State := s \<rparr>) = reports sp" "reports (sp \<lparr> sp_NavigationFailures := n \<rparr>) = reports sp"
  "reports (sp \<lparr> sp_Failed := f \<rparr>) = reports sp" "reports (mark_page sp) = reports sp"
  by (simp_all add: reports_def)

lemma at_most_once_update [simp]:
  "at_most_once m (sp \<lparr> sp_State := s \<rparr>) = at_most_once m sp"
  "at_most_once m (sp \<lparr> sp_NavigationFailures := n \<rparr>) = at_most_once m sp"
  "at_most_once m (sp \<lparr> sp_Failed := f \<rparr>) = at_most_once m sp"
  by (simp_all add: at_most_once_def reports_of_def)

lemma at_most_once_mark: "at_most_once m sp \<Longrightarrow> at_most_once m (mark_page sp)"
  unfolding at_most_once_def by (auto simp: reports_of_def split: if_splits)

definition reports_inv :: "PageId list \<Rightarrow> MenuModel \<Rightarrow> nat \<Rightarrow> SpiderEngine \<Rightarrow> bool" where
  "reports_inv order m bound sp \<longleftrightarrow> crawl_inv order m sp \<and> reports sp + remaining order m sp \<le> bound \<and>
     at_most_once m sp"

lemma NavigateToNextTarget_inv:
  assumes "NavigateToNextTarget order m (sp, nav) = Some (sp', nav')" "sp_CurrentMultiEdge sp = None"
    "reports sp + remaining order m sp \<le> bound"
    "at_most_once m sp"
  shows "reports_inv order m bound sp'"
proof -
  have same: "reports_inv order m bound sp'"
    if "crawl_inv order m sp'" "sp_Visited sp' = sp_Visited sp" "sp_VisitedMultiEdges sp' = sp_VisitedMultiEdges sp"
      "sp_Log sp' = sp_Log sp \<or> sp_Log sp' = sp_Log sp @ [CrawlComplete]"
  proof -
    have "remaining order m sp' = remaining order m sp"
      using that by (simp add: remaining_def left_pages_def left_rows_def open_edges_def visited_keys_def)
    moreover have "reports sp' = reports sp" "reports_of page sp' = reports_of page sp" for page
      using that(4) by (auto simp: reports_def reports_of_def)
    ultimately show ?thesis using that assms(3,4) by (simp add: reports_inv_def at_most_once_def)
  qed
  obtain choice where choice: "ChooseNextTarget order m sp nav = Some choice"
    using assms(1) by (cases "ChooseNextTarget order m sp nav") (simp_all add: NavigateToNextTarget_def)
  show ?thesis
  proof (cases choice)
    case None
    then show ?thesis using assms(1) choice
      by (intro same) (auto simp: NavigateToNextTarget_def crawl_inv_def split: if_splits)
  next
    case (Some page)
    with choice have target: "page \<in> set order" "is_candidate order m sp page"
      using ChooseNextTarget_candidate by blast+
    show ?thesis
    proof (cases "is_multi m page")
      case True
      then have "open_edges order m sp page \<noteq> {}" using target normal_not_multi by (auto simp: is_candidate_iff)
      then obtain edge where edge: "GetNextUnvisitedMultiEdge order m sp page = Some edge"
        using GetNext_None by (cases "GetNextUnvisitedMultiEdge order m sp page") auto
      from GetNext_Some [OF edge] have "target_open order m sp'"
        using assms(1) choice Some True edge target(1)
        by (auto simp: NavigateToNextTarget_def is_multi_def target_open_def open_edges_def visited_keys_def Let_def)
      then show ?thesis using assms(1) choice Some True edge
        by (intro same) (auto simp: NavigateToNextTarget_def is_multi_def crawl_inv_def Let_def)
    next
      case False
      then have "is_normal m page" "page \<notin> sp_Visited sp" using target by (auto simp: is_candidate_iff)
      then have "target_open order m sp'" using assms(1,2) choice Some False target(1)
        by (auto simp: NavigateToNextTarget_def is_multi_def target_open_def Let_def split: if_splits)
      then show ?thesis using assms(1) choice Some False
        by (intro same) (auto simp: NavigateToNextTarget_def is_multi_def crawl_inv_def Let_def split: if_splits)
    qed
  qed
qed


lemma go_on_inv:
  assumes "go_on order m content line otherwise (sp, nav) = Some ((sp', nav'), cmd)" "sp_CurrentMultiEdge sp = None"
    "reports sp + remaining order m sp \<le> bound"
    "at_most_once m sp"
  shows "reports_inv order m bound sp'"
proof -
  obtain nav'' where "NavigateToNextTarget order m (sp, nav) = Some (sp', nav'')"
    using assms(1) by (auto simp: go_on_def split: option.splits prod.splits if_splits)
  then show ?thesis using NavigateToNextTarget_inv assms(2-4) by blast
qed

text \<open>Capturing the target: one more report, one thing less to visit.\<close>

lemma capture_inv:
  assumes "capture_page order m content line (sp, nav) = Some ((sp', nav'), cmd)"
    "reports_inv order m bound sp" "target_open order m sp"
  shows "reports_inv order m bound sp'"
proof -
  let ?t = "sp_CurrentTarget sp"
  define sp1 where "sp1 = (if sp_Policy sp = None then sp
    else sp \<lparr> sp_Log := sp_Log sp @ [PageReached ?t content] \<rparr>)"
  have kept: "sp_CurrentTarget sp1 = ?t" "sp_CurrentMultiEdge sp1 = sp_CurrentMultiEdge sp"
    "sp_Visited sp1 = sp_Visited sp" "remaining order m sp1 = remaining order m sp" "target_open order m sp1"
    using assms(3) by (simp_all add: sp1_def)
  have counts: "reports sp1 \<le> Suc (reports sp)" "reports_of page sp1 \<le> reports_of page sp + (if page = ?t then 1 else 0)"
    for page by (simp_all add: sp1_def reports_def reports_of_def)
  have old: "reports sp + remaining order m sp \<le> bound"
    "\<And>page. is_normal m page \<Longrightarrow> reports_of page sp \<le> (if page \<in> sp_Visited sp then 1 else 0)"
    using assms(2) by (auto simp: reports_inv_def at_most_once_def)
  show ?thesis
  proof (cases "sp_CurrentMultiEdge sp")
    case None
    let ?done = "mark_page sp1"
    have t: "is_normal m ?t" "?t \<notin> sp_Visited sp" using assms(3) None by (simp_all add: target_open_def Let_def)
    have "go_on order m content line None (?done, nav) = Some ((sp', nav'), cmd)"
      using assms(1) None kept(2) by (simp add: capture_page_def sp1_def [symmetric] Let_def)
    moreover have "reports ?done + remaining order m ?done \<le> bound"
      using mark_normal_done [OF kept(5)] kept None counts(1) old(1) by (simp add: reports_def)
    moreover have "at_most_once m ?done"
      unfolding at_most_once_def
    proof (intro allI impI)
      fix page assume "is_normal m page"
      then show "reports_of page ?done \<le> (if page \<in> sp_Visited ?done then 1 else 0)"
        using counts(2) [of page] old(2) [of page] t(2) kept(1,3)
        by (cases "page = ?t") (simp_all add: reports_of_def)
    qed
    ultimately show ?thesis using None kept(2) by (intro go_on_inv) simp_all
  next
    case (Some edge)
    let ?done = "mark_instance order m edge sp1"
    have multi: "is_multi m ?t" using assms(3) Some by (simp add: target_open_def Let_def)
    have marked: "sp_CurrentMultiEdge ?done = None" "sp_Log ?done = sp_Log sp1"
      "Suc (remaining order m ?done) = remaining order m sp1"
      "\<And>page. is_normal m page \<Longrightarrow> (page \<in> sp_Visited ?done \<longleftrightarrow> page \<in> sp_Visited sp1)"
      using mark_instance_done [OF kept(5)] kept(2) Some by auto
    have "go_on order m content line None (?done, nav) = Some ((sp', nav'), cmd)"
      using assms(1) Some kept(1,2) multi by (simp add: capture_page_def sp1_def [symmetric] is_multi_def Let_def)
    moreover have "reports ?done + remaining order m ?done \<le> bound"
      using marked(2,3) kept(4) counts(1) old(1) by (simp add: reports_def)
    moreover have "at_most_once m ?done"
      unfolding at_most_once_def
    proof (intro allI impI)
      fix page assume normal: "is_normal m page"
      then show "reports_of page ?done \<le> (if page \<in> sp_Visited ?done then 1 else 0)"
        using counts(2) [of page] old(2) [of page] marked(2) marked(4) [OF normal] kept(3) normal_not_multi multi
        by (cases "page = ?t") (simp_all add: reports_of_def)
    qed
    ultimately show ?thesis using marked(1) by (intro go_on_inv) simp_all
  qed
qed

text \<open>A failed navigation uses one up without a report, or ends the crawl.\<close>

lemma failed_inv:
  assumes "navigation_failed order m content line (sp, nav) = Some ((sp', nav'), cmd)"
    "reports_inv order m bound sp" "target_open order m sp"
  shows "reports_inv order m bound sp'"
proof -
  have old: "reports sp + remaining order m sp \<le> bound"
    "\<And>page. is_normal m page \<Longrightarrow> reports_of page sp \<le> (if page \<in> sp_Visited sp then 1 else 0)"
    using assms(2) by (auto simp: reports_inv_def at_most_once_def)
  show ?thesis
  proof (cases "sp_CurrentMultiEdge sp")
    case (Some edge)
    let ?done = "mark_instance order m edge sp"
    have "go_on order m content line None (?done, nav) = Some ((sp', nav'), cmd)"
      using assms(1) Some by (simp add: navigation_failed_def)
    then show ?thesis using mark_instance_done [OF assms(3) Some] old
      by (intro go_on_inv [of order m content line None ?done nav]) (auto simp: reports_def reports_of_def at_most_once_def)
  next
    case None
    let ?sp = "sp \<lparr> sp_NavigationFailures := sp_NavigationFailures sp + 1 \<rparr>"
    let ?done = "(mark_page ?sp) \<lparr> sp_Failed := insert (sp_CurrentTarget ?sp) (sp_Failed ?sp) \<rparr>"
    have less: "Suc (remaining order m ?done) = remaining order m sp"
      using mark_normal_done [of order m ?sp] None assms(3) by simp
    show ?thesis
    proof (cases "sp_NavigationFailures ?sp \<ge> MAX_NAVIGATION_FAILURES")
      case True
      then have "sp' = ?sp \<lparr> sp_State := CrawlFailed \<rparr>"
        using assms(1) None by (simp add: navigation_failed_def Let_def)
      then show ?thesis using assms(2) by (simp add: reports_inv_def crawl_inv_def)
    next
      case False
      then have next_target: "go_on order m content line None (?done, nav) = Some ((sp', nav'), cmd)"
        using assms(1) None by (simp add: navigation_failed_def Let_def)
      have "at_most_once m ?done" using assms(2) by (simp add: reports_inv_def at_most_once_mark)
      moreover have "reports ?done + remaining order m ?done \<le> bound" using less old(1) by simp
      ultimately show ?thesis using None by (intro go_on_inv [OF next_target]) simp_all
    qed
  qed
qed

lemma ProcessStep_inv:
  assumes "ProcessStep order m content line (sp, nav) = Some ((sp', nav'), cmd)" "reports_inv order m bound sp"
  shows "reports_inv order m bound sp'"
proof -
  have inv: "crawl_inv order m sp" "reports sp + remaining order m sp \<le> bound" "at_most_once m sp"
    using assms(2) by (simp_all add: reports_inv_def)
  have arrived: "reports_inv order m bound (sp \<lparr> sp_State := CapturingPage, sp_NavigationFailures := 0 \<rparr>)"
    if "target_open order m sp"
    using inv that by (simp add: reports_inv_def crawl_inv_def)
  show ?thesis
  proof (cases "sp_State sp")
    case SpiderSyncing
    obtain nav1 cmd1 where update: "OnPageUpdate order m content line nav = Some (nav1, cmd1)"
      using assms(1) SpiderSyncing by (auto simp: ProcessStep_def split: option.splits)
    show ?thesis
    proof (cases "IsSynced nav1")
      case True
      then have next_target: "go_on order m content line cmd1 (sp \<lparr> sp_State := NavigatingToNext \<rparr>, nav1) = Some ((sp', nav'), cmd)"
        using assms(1) SpiderSyncing update by (simp add: ProcessStep_def)
      show ?thesis using inv SpiderSyncing by (intro go_on_inv [OF next_target]) (simp_all add: crawl_inv_def)
    next
      case False
      then show ?thesis using assms SpiderSyncing update by (simp add: ProcessStep_def)
    qed
  next
    case NavigatingToNext
    then have target: "target_open order m sp" using inv(1) by (simp add: crawl_inv_def)
    obtain nav1 cmd1 where update: "OnPageUpdate order m content line nav = Some (nav1, cmd1)"
      using assms(1) NavigatingToNext by (auto simp: ProcessStep_def split: option.splits)
    consider (on_the_way) "\<not> IsComplete nav1" | (success) "IsSuccess nav1" "IsComplete nav1"
      | (failure) "IsComplete nav1" "\<not> IsSuccess nav1" by blast
    then show ?thesis
    proof cases
      case on_the_way
      then show ?thesis using assms NavigatingToNext update by (simp add: ProcessStep_def)
    next
      case success
      then have "capture_page order m content line (sp \<lparr> sp_State := CapturingPage, sp_NavigationFailures := 0 \<rparr>, nav1)
          = Some ((sp', nav'), cmd)"
        using assms(1) NavigatingToNext update by (simp add: ProcessStep_def)
      then show ?thesis using arrived [OF target] by (rule capture_inv) (simp add: target)
    next
      case failure
      then have "navigation_failed order m content line (sp, nav1) = Some ((sp', nav'), cmd)"
        using assms(1) NavigatingToNext update by (simp add: ProcessStep_def)
      then show ?thesis using assms(2) target by (rule failed_inv)
    qed
  next
    case CapturingPage
    then have "target_open order m sp" using inv(1) by (simp add: crawl_inv_def)
    then show ?thesis using assms CapturingPage capture_inv by (simp add: ProcessStep_def)
  qed (use assms in \<open>auto simp: ProcessStep_def\<close>)
qed

text \<open>A crawl fed with screen updates and status messages, as the device does.\<close>

fun crawl_run ::
    "PageId list \<Rightarrow> MenuModel \<Rightarrow> nav_event list \<Rightarrow> crawl \<Rightarrow> (crawl \<times> NavKeyCommand option list) option"
  where
  "crawl_run order m [] crawl = Some (crawl, [])"
| "crawl_run order m (StatusMessage # events) (sp, nav) = crawl_run order m events (sp, OnStatusMessageReceived nav)"
| "crawl_run order m (Screen content line # events) crawl =
     (case ProcessStep order m content line crawl of
        None \<Rightarrow> None
      | Some (crawl', cmd) \<Rightarrow>
          (case crawl_run order m events crawl' of
             None \<Rightarrow> None | Some (crawl'', cmds) \<Rightarrow> Some (crawl'', cmd # cmds)))"

lemma crawl_run_inv:
  "crawl_run order m events (sp, nav) = Some ((sp', nav'), cmds) \<Longrightarrow> reports_inv order m bound sp \<Longrightarrow>
   reports_inv order m bound sp'"
proof (induction events arbitrary: sp nav cmds)
  case (Cons event events)
  show ?case
  proof (cases event)
    case (Screen content line)
    then obtain sp1 nav1 cmd cmds1 where "ProcessStep order m content line (sp, nav) = Some ((sp1, nav1), cmd)"
      "crawl_run order m events (sp1, nav1) = Some ((sp', nav'), cmds1)"
      using Cons.prems(1) by (auto split: option.splits)
    then show ?thesis using Cons.IH ProcessStep_inv Cons.prems(2) by blast
  qed (use Cons in auto)
qed simp

lemma StartCrawl_inv:
  assumes "StartCrawl order m policy (sp, nav) = Some (sp', nav')" "sp_Log sp = []"
  shows "reports_inv order m (card {page \<in> set order. is_normal m page} +
     card (SIGMA page:{page \<in> set order. is_multi m page}. edge_key ` set (GetIncomingSelectEdges order m page))) sp'"
    (is "reports_inv order m ?bound sp'")
proof -
  let ?sp = "sp \<lparr> sp_Policy := Some policy, sp_Visited := {}, sp_Failed := {},
    sp_VisitedMultiEdges := (\<lambda>_. None), sp_CurrentMultiEdge := None, sp_CurrentTarget := Unknown,
    sp_NavigationFailures := 0 \<rparr>"
  have start: "remaining order m ?sp = ?bound" "reports ?sp = 0" "at_most_once m ?sp"
    using assms(2) by (simp_all add: remaining_def left_pages_def left_rows_def open_edges_def visited_keys_def
        reports_def reports_of_def at_most_once_def)
  show ?thesis
  proof (cases "IsSynced nav")
    case True
    then have first: "NavigateToNextTarget order m (?sp \<lparr> sp_State := NavigatingToNext \<rparr>, nav) = Some (sp', nav')"
      using assms(1) by (simp add: StartCrawl_def Let_def)
    show ?thesis using start by (intro NavigateToNextTarget_inv [OF first]) simp_all
  next
    case False
    then have "sp' = ?sp \<lparr> sp_State := SpiderSyncing \<rparr>" using assms(1) by (simp add: StartCrawl_def Let_def)
    then show ?thesis using start by (simp add: reports_inv_def crawl_inv_def)
  qed
qed


text \<open>When a crawl completes on a known page, whatever it still wants has no way from there.\<close>

lemma CrawlDone_nothing_left:
  assumes "well_linked m" "NavigateToNextTarget order m (sp, nav) = Some (sp', nav')" "sp_State sp' = CrawlDone"
    "nv_CurrentPage nav \<noteq> Unknown" "page \<in> set order" "is_candidate order m sp page"
  shows "\<not> way_to order m sp (nv_CurrentPage nav) page"
proof -
  obtain choice where choice: "ChooseNextTarget order m sp nav = Some choice"
    using ChooseNextTarget_total [OF assms(1), of order sp nav] by auto
  have "choice = None"
    using assms(2,3) choice
    by (cases choice) (auto simp: NavigateToNextTarget_def Let_def split: option.splits if_splits)
  then show ?thesis using ChooseNextTarget_none assms(1,4,5,6) choice by blast
qed

end
