(* ===== verification/OneTouch_Crawl.thy ===== *)
theory OneTouch_Crawl
  imports Spider_Properties
begin

text \<open>
  The navigator and the crawler on the OneTouch menu: the properties of the menu model, of the
  navigator and of a crawl, stated for that menu or for any well-formed one, with sample screens.
\<close>

section \<open>The menu\<close>

lemma onetouch_menu_ok: "menu_ok CreateOneTouchMenuModel"
  by (simp add: menu_ok_def onetouch_well_linked)

definition onetouch_order :: "PageId list" where
  "onetouch_order = map p_id onetouch_pages"

lemma onetouch_enumerates: "enumerates onetouch_order CreateOneTouchMenuModel"
proof -
  have "dom (m_Pages CreateOneTouchMenuModel) = set (map p_id onetouch_pages)"
    by (simp add: onetouch_Pages dom_map_of_conv_image_fst image_image)
  then show ?thesis using distinct_page_ids by (simp add: enumerates_def onetouch_order_def)
qed

lemma order_elements: "enumerates order CreateOneTouchMenuModel \<Longrightarrow> set order = set onetouch_order"
  using onetouch_enumerates by (simp add: enumerates_def)

text \<open>A screen of twelve lines with the given texts.\<close>

definition screen_of :: "(nat \<times> string) list \<Rightarrow> ScreenDataPage" where
  "screen_of rows = fold (\<lambda>(i, s) page. page[i := DEFAULT_ROW_DATA \<lparr> Text := s \<rparr>]) rows (new_page 12)"

definition home_screen :: ScreenDataPage where
  "home_screen = screen_of [(9, ''Equipment ON/OFF''), (10, ''OneTouch  ON/OFF''), (11, ''Menu / Help'')]"

definition equipment_screen :: ScreenDataPage where
  "equipment_screen = screen_of [(0, ''Filter Pump  OFF''), (1, ''Spa          OFF''), (11, ''     System     '')]"

definition list_screen :: ScreenDataPage where
  "list_screen = screen_of [(0, ''   Label Aux    ''), (2, ''Aux1           >''), (3, ''Aux2           >''),
     (4, ''Aux3           >'')]"

definition aux_screen :: ScreenDataPage where
  "aux_screen = screen_of [(0, ''   Label Aux1   ''), (2, ''Current Label   '')]"

definition prompt_screen :: ScreenDataPage where
  "prompt_screen = screen_of [(0, '' Enter Password '')]"

lemma sample_pages:
  "DetectPage onetouch_order CreateOneTouchMenuModel home_screen = System"
  "DetectPage onetouch_order CreateOneTouchMenuModel equipment_screen = EquipmentOnOff"
  "DetectPage onetouch_order CreateOneTouchMenuModel prompt_screen = EnterPassword"
  by code_simp+

section \<open>Menu model properties\<close>

text \<open>
  C17: in a well-formed menu, the path search returns; a non-empty path is a walk of page transitions
  from the current page to the destination that is as short as any, and the path is empty only when
  the two pages are the same or no walk exists.
\<close>

theorem find_path_shortest:
  assumes "well_linked m"
  shows "\<exists>path. FindPath m start dest = Some path \<and>
    (if path = [] then start = dest \<or> (\<forall>es. \<not> walk m start es dest)
     else start \<noteq> dest \<and> walk m start path dest \<and> (\<forall>es. walk m start es dest \<longrightarrow> length path \<le> length es))"
  using assms by (rule FindPath_shortest)

theorem find_path_shortest_witness:
  "\<exists>path. FindPath CreateOneTouchMenuModel System LabelAux = Some path \<and> path \<noteq> [] \<and>
     walk CreateOneTouchMenuModel System path LabelAux"
proof -
  have "reachable CreateOneTouchMenuModel System LabelAux" by (simp add: reachable_from_home from_home_def)
  then show ?thesis
    using find_path_shortest [OF onetouch_well_linked, of System LabelAux]
    by (auto simp: reachable_def split: if_splits)
qed

text \<open>
  C23: whatever the iteration order of the hash map, the recognised page matches the screen and no
  matching page is more specific (more detectors, or as many with longer patterns); it is Unknown
  exactly when no page matches. So two orders can only disagree between equally specific matches.
\<close>

theorem detect_page_best:
  assumes "enumerates order m"
  shows "(DetectPage order m content = Unknown \<and> (\<forall>i page. \<not> is_match m content i page)) \<or>
    (\<exists>page. is_match m content (DetectPage order m content) page \<and>
       (\<forall>i other. is_match m content i other \<longrightarrow> \<not> more_specific (specificity other) (specificity page)))"
  using assms by (rule DetectPage_best)

theorem detect_page_best_witness:
  "\<exists>page. is_match CreateOneTouchMenuModel home_screen (DetectPage onetouch_order CreateOneTouchMenuModel home_screen) page"
  using detect_page_best [OF onetouch_enumerates, of home_screen] sample_pages(1) by auto

section \<open>Navigator properties\<close>

text \<open>
  C5: on the OneTouch menu the navigator answers every screen update - no chain of its nested calls
  is without end - as long as the target can be reached from the home page and either the page on
  the screen leads somewhere or a recovery attempt is left.
\<close>

theorem navigator_answers:
  assumes "nv_TargetPage nav \<in> set from_home"
    and "page_after order CreateOneTouchMenuModel content nav \<notin> set no_way_home \<or>
      nv_RecoveryAttempts nav < MAX_RECOVERY_ATTEMPTS"
  shows "OnPageUpdate order CreateOneTouchMenuModel content line nav \<noteq> None"
proof (rule OnPageUpdate_returns [OF onetouch_menu_ok])
  show home: "reachable CreateOneTouchMenuModel System (nv_TargetPage nav)"
    using assms(1) by (simp add: reachable_from_home)
  show "reachable CreateOneTouchMenuModel (page_after order CreateOneTouchMenuModel content nav) (nv_TargetPage nav) \<or>
    nv_RecoveryAttempts nav < MAX_RECOVERY_ATTEMPTS"
    using assms(2) home home_reachable reachable_trans by blast
qed

theorem navigator_answers_witness:
  "OnPageUpdate onetouch_order CreateOneTouchMenuModel home_screen 9 (NavigateTo Boost new_navigator) \<noteq> None"
  by (rule navigator_answers) (simp_all add: NavigateTo_def from_home_def MAX_RECOVERY_ATTEMPTS_def)

text \<open>
  On the home page the navigator answers a request for a page exactly when the menu leads there.
  For any other page - among them the registered EquipmentStatus, FreezeProtect and SelectSpeed - its
  steps call each other without end: the check of the failed state is missing in ExecuteNextStep.
\<close>

theorem home_request_answered:
  assumes "DetectPage order CreateOneTouchMenuModel content = System"
  shows "OnPageUpdate order CreateOneTouchMenuModel content line (NavigateTo dest nav) \<noteq> None
    \<longleftrightarrow> dest \<in> set from_home"
proof
  assume answered: "OnPageUpdate order CreateOneTouchMenuModel content line (NavigateTo dest nav) \<noteq> None"
  show "dest \<in> set from_home"
  proof (rule ccontr)
    assume "dest \<notin> set from_home"
    then have "\<not> reachable CreateOneTouchMenuModel System dest" by (simp add: reachable_from_home)
    from home_update_diverges [OF onetouch_menu_ok assms this] answered show False by simp
  qed
next
  assume "dest \<in> set from_home"
  then show "OnPageUpdate order CreateOneTouchMenuModel content line (NavigateTo dest nav) \<noteq> None"
    by (intro OnPageUpdate_returns [OF onetouch_menu_ok])
       (simp_all add: reachable_from_home NavigateTo_def MAX_RECOVERY_ATTEMPTS_def)
qed

theorem home_request_answered_witness:
  "OnPageUpdate onetouch_order CreateOneTouchMenuModel home_screen 9 (NavigateTo EquipmentStatus new_navigator) = None"
proof -
  have "EquipmentStatus \<notin> set from_home" by (simp add: from_home_def)
  then show ?thesis using home_request_answered [OF sample_pages(1), of 9 EquipmentStatus new_navigator] by blast
qed

text \<open>
  While status messages are outstanding - a key was sent and its answer has not come - no screen
  makes the navigator send another key, however many updates arrive. The wait limit changes that for
  the worse: it only moves the navigator into a recovery that waits for the same messages.
\<close>

theorem no_key_while_waiting:
  assumes "nv_State nav = WaitingForPage" "nv_Pending nav > 0" "nv_CurrentPage nav \<noteq> EnterPassword"
    and "\<forall>(content, line) \<in> set screens. DetectPage order m content \<noteq> EnterPassword"
  shows "\<exists>nav'. nav_run order m (map (\<lambda>(content, line). Screen content line) screens) nav =
     Some (nav', replicate (length screens) None)"
  using assms by (intro quiet_run) (simp_all add: quiet_def)

definition waiting_navigator :: Navigator where
  "waiting_navigator = new_navigator \<lparr> nv_State := WaitingForPage, nv_Pending := 2 \<rparr>"

theorem no_key_while_waiting_witness:
  "\<exists>nav'. nav_run onetouch_order CreateOneTouchMenuModel (replicate 200 (Screen home_screen 9)) waiting_navigator =
     Some (nav', replicate 200 None)"
  using no_key_while_waiting [of waiting_navigator "replicate 200 (home_screen, 9)" onetouch_order CreateOneTouchMenuModel]
  by (simp add: waiting_navigator_def new_navigator_def sample_pages)

text \<open>
  At a password prompt the navigator presses nothing but Back - in whatever state, except while it
  synchronises - and it presses it for every update that shows the prompt, also while the status
  messages of the previous Back are outstanding.
\<close>

theorem prompt_only_back:
  assumes "nv_State nav \<noteq> Syncing" "nv_State nav \<noteq> EnteringPassword"
    and "\<forall>(content, line) \<in> set screens. DetectPage order m content = EnterPassword"
  shows "\<exists>nav'. nav_run order m (map (\<lambda>(content, line). Screen content line) screens) nav =
     Some (nav', replicate (length screens) (Some Key_Back))"
  using assms by (rule prompt_run)

theorem prompt_only_back_witness:
  "\<exists>nav'. nav_run onetouch_order CreateOneTouchMenuModel (replicate 3 (Screen prompt_screen 0)) new_navigator =
     Some (nav', [Some Key_Back, Some Key_Back, Some Key_Back])"
  using prompt_only_back [of new_navigator "replicate 3 (prompt_screen, 0)" onetouch_order CreateOneTouchMenuModel]
  by (simp add: new_navigator_def sample_pages numeral_3_eq_3)

text \<open>
  Synchronising sends no key, and it takes three equal detections in a row of a page that can be
  navigated from; until then the current page stays unknown.
\<close>

theorem sync_takes_three:
  assumes "syncing seen nav"
  shows "\<exists>nav'. OnPageUpdate order m content line nav = Some (nav', None) \<and>
    (syncing (DetectPage order m content # seen) nav' \<or>
     nv_State nav' = Idle \<and> nv_CurrentPage nav' = DetectPage order m content \<and>
       navigable (DetectPage order m content) \<and>
       (\<exists>older. seen = DetectPage order m content # DetectPage order m content # older))"
  using assms by (rule OnPageUpdate_syncing)

theorem sync_takes_three_witness:
  "\<exists>nav'. OnPageUpdate onetouch_order CreateOneTouchMenuModel home_screen 9 (StartSync new_navigator) = Some (nav', None) \<and>
     syncing [System] nav'"
  using sync_takes_three [OF StartSync_syncing, of onetouch_order CreateOneTouchMenuModel home_screen 9 new_navigator]
  by (simp add: sample_pages)

text \<open>
  A cursor that does not move is given up after five updates, and the navigator then presses Select
  on the line where it is stuck. On the Equipment page, from where Select would toggle the equipment of
  that line, asking for the menu with the cursor on the filter pump does so.
\<close>

theorem stuck_cursor_selects:
  "map_option snd (nav_run onetouch_order CreateOneTouchMenuModel
     (concat (replicate 5 [Screen equipment_screen 0, StatusMessage])) (NavigateTo MenuHelp new_navigator)) =
   Some [Some Key_LineDown, Some Key_LineDown, Some Key_LineDown, Some Key_LineDown, Some Key_Select]"
  by code_simp

text \<open>
  When the Select that should open the page of a row is lost, the navigator takes the first row's
  edge to that page instead: asked for Aux3, it ends with success on the page of Aux1.
\<close>

theorem lost_select_opens_first_row:
  "map_option (\<lambda>(nav, cmds). (IsSuccess nav, nv_CurrentPage nav, cmds))
     (nav_run onetouch_order CreateOneTouchMenuModel
        [Screen list_screen 4, StatusMessage, StatusMessage, Screen list_screen 4, StatusMessage,
         Screen list_screen 3, StatusMessage, Screen list_screen 2, StatusMessage, StatusMessage,
         Screen aux_screen 5]
        (NavigateToItem LabelAuxList 4 ''Aux3'' LabelAux new_navigator)) =
   Some (True, LabelAux, [Some Key_Select, Some Key_LineUp, Some Key_LineUp, Some Key_Select, None])"
  by code_simp

section \<open>Crawls\<close>

lemma onetouch_multi: "is_multi CreateOneTouchMenuModel page \<longleftrightarrow> page = LabelAux"
  by (cases page) (simp_all add: is_multi_def GetPage_def onetouch_page_defs)

lemma onetouch_normal:
  "is_normal CreateOneTouchMenuModel page \<longleftrightarrow> page \<in> set onetouch_order \<and> page \<noteq> LabelAux"
proof -
  have "m_Pages CreateOneTouchMenuModel page \<noteq> None \<longleftrightarrow> page \<in> set onetouch_order"
    using onetouch_enumerates by (auto simp: enumerates_def)
  then show ?thesis using onetouch_multi [of page]
    by (auto simp: is_normal_def is_multi_def GetPage_def split: option.splits)
qed

text \<open>The rows of the aux list: one Select edge per auxiliary, told apart by their lines 2 to 32.\<close>

definition aux_rows :: "MenuEdge list" where
  "aux_rows = filter (\<lambda>e. e_trigger e = Select \<and> e_target e = LabelAux) (p_edges LabelAuxList_page)"

lemma aux_row_keys: "map edge_key aux_rows = map (\<lambda>i. (LabelAuxList, of_nat i)) [2..<33]"
  by code_simp

lemma incoming_aux: 
  assumes "enumerates order CreateOneTouchMenuModel"
  shows "set (GetIncomingSelectEdges order CreateOneTouchMenuModel LabelAux) = set aux_rows"
proof -
  have other: "e \<in> set (page_edges CreateOneTouchMenuModel page) \<Longrightarrow> e_trigger e = Select \<Longrightarrow>
    e_target e = LabelAux \<Longrightarrow> page = LabelAuxList" for e page
    by (cases page) (auto simp: page_edges_def GetPage_def onetouch_page_defs)
  have here: "page_edges CreateOneTouchMenuModel LabelAuxList = p_edges LabelAuxList_page"
    by (simp add: page_edges_def GetPage_def)
  have transition: "IsPageTransition e" if "e \<in> set (p_edges LabelAuxList_page)" "e_target e = LabelAux" for e
    using that well_linked_source [OF onetouch_well_linked, of e LabelAuxList]
    by (simp add: here IsPageTransition_def IsSelfLoop_def)
  have "LabelAuxList \<in> set order"
    using order_elements [OF assms] by (simp add: onetouch_order_def onetouch_pages_def onetouch_page_defs)
  show ?thesis
  proof (intro equalityI subsetI)
    fix e assume "e \<in> set (GetIncomingSelectEdges order CreateOneTouchMenuModel LabelAux)"
    then obtain page where "e \<in> set (page_edges CreateOneTouchMenuModel page)" "e_trigger e = Select" "e_target e = LabelAux"
      by (auto simp: GetIncomingSelectEdges_def)
    with other [OF this] show "e \<in> set aux_rows" by (simp add: aux_rows_def here)
  next
    fix e assume "e \<in> set aux_rows"
    with transition \<open>LabelAuxList \<in> set order\<close> here show "e \<in> set (GetIncomingSelectEdges order CreateOneTouchMenuModel LabelAux)"
      by (auto simp: GetIncomingSelectEdges_def aux_rows_def intro!: bexI [of _ LabelAuxList])
  qed
qed

text \<open>
  C12: a crawl of the OneTouch menu that starts with an empty report log makes at most 66 reports - 35
  ordinary pages and 31 rows of the aux list - whatever the panel shows, in whatever order screen
  updates and status messages arrive and however often navigation fails; and it reports no ordinary
  page twice.
\<close>

theorem crawl_reports_bounded:
  assumes "enumerates order CreateOneTouchMenuModel" "sp_Log sp = []"
    and "StartCrawl order CreateOneTouchMenuModel policy (sp, nav) = Some (sp1, nav1)"
    and "crawl_run order CreateOneTouchMenuModel events (sp1, nav1) = Some ((sp', nav'), cmds)"
  shows "reports sp' \<le> 66 \<and> (page \<noteq> LabelAux \<longrightarrow> page \<in> set order \<longrightarrow> reports_of page sp' \<le> 1)"
proof -
  let ?m = CreateOneTouchMenuModel
  have elements: "set order = set onetouch_order" by (rule order_elements [OF assms(1)])
  have "{page \<in> set order. is_normal ?m page} = set (removeAll LabelAux onetouch_order)"
    by (auto simp: elements onetouch_normal)
  moreover have "card (set (removeAll LabelAux onetouch_order)) = 35"
  proof -
    have "distinct onetouch_order" using onetouch_enumerates by (simp add: enumerates_def)
    then show ?thesis
      by (simp add: distinct_card distinct_removeAll) (simp add: onetouch_order_def onetouch_pages_def onetouch_page_defs)
  qed
  moreover have "{page \<in> set order. is_multi ?m page} = {LabelAux}"
    by (auto simp: elements onetouch_multi onetouch_order_def onetouch_pages_def onetouch_page_defs)
  moreover have "card (edge_key ` set (GetIncomingSelectEdges order ?m LabelAux)) \<le> 31"
  proof -
    have "edge_key ` set (GetIncomingSelectEdges order ?m LabelAux) = set (map edge_key aux_rows)"
      by (simp add: incoming_aux [OF assms(1)])
    also have "card \<dots> \<le> length (map edge_key aux_rows)" by (rule card_length)
    finally show ?thesis by (simp add: aux_row_keys [THEN arg_cong, of length, simplified])
  qed
  ultimately have bound: "card {page \<in> set order. is_normal ?m page} +
      card (SIGMA page:{page \<in> set order. is_multi ?m page}. edge_key ` set (GetIncomingSelectEdges order ?m page)) \<le> 66"
    by simp
  have inv: "reports_inv order ?m (card {page \<in> set order. is_normal ?m page} +
      card (SIGMA page:{page \<in> set order. is_multi ?m page}. edge_key ` set (GetIncomingSelectEdges order ?m page))) sp'"
    using crawl_run_inv [OF assms(4)] StartCrawl_inv [OF assms(3,2)] by blast
  then have "reports sp' \<le> 66" using bound by (simp add: reports_inv_def)
  moreover have "reports_of page sp' \<le> 1" if "page \<noteq> LabelAux" "page \<in> set order"
  proof -
    have "is_normal ?m page" using that by (simp add: onetouch_normal elements)
    then have "reports_of page sp' \<le> (if page \<in> sp_Visited sp' then 1 else 0)"
      using inv by (simp add: reports_inv_def at_most_once_def)
    then show ?thesis by (simp split: if_splits)
  qed
  ultimately show ?thesis by blast
qed

definition home_navigator :: Navigator where
  "home_navigator = new_navigator \<lparr> nv_CurrentPage := System \<rparr>"

definition sample_policy :: VisitPolicy where
  "sample_policy = TargetedVisitPolicy {System}"

lemma sample_candidates:
  assumes "sp_Policy sp = Some sample_policy"
  shows "filter (is_candidate onetouch_order CreateOneTouchMenuModel sp) onetouch_order =
    (if System \<in> sp_Visited sp then [] else [System])"
proof -
  have "System \<in> set onetouch_order" by (simp add: onetouch_order_def onetouch_pages_def onetouch_page_defs)
  then have "is_candidate onetouch_order CreateOneTouchMenuModel sp = (\<lambda>page. page = System \<and> System \<notin> sp_Visited sp)"
    using assms by (auto simp: fun_eq_iff is_candidate_iff wants_def sample_policy_def onetouch_multi onetouch_normal)
  then show ?thesis by (simp add: onetouch_order_def onetouch_pages_def onetouch_page_defs)
qed

lemma sample_choice:
  assumes "sp_Policy sp = Some sample_policy" "nv_CurrentPage nav = System"
  shows "ChooseNextTarget onetouch_order CreateOneTouchMenuModel sp nav =
    Some (if System \<in> sp_Visited sp then None else Some System)"
  using assms sample_candidates [OF assms(1)]
  by (simp add: ChooseNextTarget_def FindPath_def GetPage_def onetouch_page_defs)

lemma sample_crawl:
  "\<exists>sp1 nav1 result. StartCrawl onetouch_order CreateOneTouchMenuModel sample_policy (new_spider, home_navigator) = Some (sp1, nav1) \<and>
     crawl_run onetouch_order CreateOneTouchMenuModel [Screen home_screen 9] (sp1, nav1) = Some result"
  by (simp add: StartCrawl_def NavigateToNextTarget_def sample_choice home_navigator_def new_navigator_def IsSynced_def
      GetPage_def onetouch_page_defs ProcessStep_def capture_page_def go_on_def new_spider_def mark_page_def Let_def)

theorem crawl_reports_bounded_witness:
  "\<exists>sp1 nav1 sp' nav' cmds.
     StartCrawl onetouch_order CreateOneTouchMenuModel sample_policy (new_spider, home_navigator) = Some (sp1, nav1) \<and>
     crawl_run onetouch_order CreateOneTouchMenuModel [Screen home_screen 9] (sp1, nav1) = Some ((sp', nav'), cmds) \<and>
     reports sp' \<le> 66 \<and> reports_of System sp' \<le> 1"
proof -
  obtain sp1 nav1 sp' nav' cmds where
    start: "StartCrawl onetouch_order CreateOneTouchMenuModel sample_policy (new_spider, home_navigator) = Some (sp1, nav1)"
    and run: "crawl_run onetouch_order CreateOneTouchMenuModel [Screen home_screen 9] (sp1, nav1) = Some ((sp', nav'), cmds)"
    using sample_crawl by (metis surj_pair)
  have "System \<in> set onetouch_order" by (simp add: onetouch_order_def onetouch_pages_def onetouch_page_defs)
  then have "reports sp' \<le> 66 \<and> reports_of System sp' \<le> 1"
    using crawl_reports_bounded [OF onetouch_enumerates _ start run, of System] by (simp add: new_spider_def)
  then show ?thesis using start run by blast
qed




lemma sample_done:
  "NavigateToNextTarget onetouch_order CreateOneTouchMenuModel
     (new_spider \<lparr> sp_Policy := Some sample_policy, sp_Visited := {System} \<rparr>, home_navigator) =
   Some (new_spider \<lparr> sp_Policy := Some sample_policy, sp_Visited := {System}, sp_State := CrawlDone,
           sp_Log := [CrawlComplete] \<rparr>, home_navigator)"
  by (simp add: NavigateToNextTarget_def sample_choice home_navigator_def new_navigator_def new_spider_def)


end
