(* ===== verification/Iaq_Page.thy ===== *)
theory Iaq_Page
  imports Screen_Page Controller_Schedule Jandy_Payloads
begin

text \<open>
  The page an AqualinkTouch shows (\<open>iaq_page_model.cpp\<close>), the rows of its schedule list and of its
  spa-switch page as text (\<open>iaq_schedule_parser.cpp\<close>, \<open>spa_switch_assignment.cpp\<close>), and the survey of
  data pages at start-up (\<open>iaq_page_registry.cpp\<close>).
\<close>

section \<open>The page model\<close>

record PageButtonInfo =
  b_name :: string
  b_status :: ButtonStatuses

record PageModel =
  pm_PageId :: u8
  pm_Title :: string
  pm_Buttons :: "(u8 \<times> PageButtonInfo) list"
  pm_ScheduleRows :: "(u8 \<times> string) list"
  pm_DevicePickerRows :: "(u8 \<times> string) list"
  pm_SpaSwitchPickerRows :: "(u8 \<times> string) list"

definition new_page_model :: PageModel where
  "new_page_model =
     \<lparr> pm_PageId = 0x00, pm_Title = [], pm_Buttons = [], pm_ScheduleRows = [],
       pm_DevicePickerRows = [], pm_SpaSwitchPickerRows = [] \<rparr>"

definition SetTitle :: "string \<Rightarrow> PageModel \<Rightarrow> PageModel" where
  "SetTitle title page = page \<lparr> pm_Title := title \<rparr>"

definition UpsertButton :: "u8 \<Rightarrow> string \<Rightarrow> ButtonStatuses \<Rightarrow> PageModel \<Rightarrow> PageModel" where
  "UpsertButton index name status page =
     page \<lparr> pm_Buttons := put index \<lparr> b_name = name, b_status = status \<rparr> (pm_Buttons page) \<rparr>"

definition EraseButton :: "u8 \<Rightarrow> PageModel \<Rightarrow> PageModel" where
  "EraseButton index page = page \<lparr> pm_Buttons := erase index (pm_Buttons page) \<rparr>"

definition FindButtonByLabel :: "PageModel \<Rightarrow> string \<Rightarrow> u8 option" where
  "FindButtonByLabel page label =
     (let wanted = TrimWhitespace label in
      if wanted = [] then None
      else map_option fst
             (find (\<lambda>(index, info). starts_with wanted (TrimWhitespace (b_name info))) (pm_Buttons page)))"

definition SetScheduleRow :: "u8 \<Rightarrow> string \<Rightarrow> PageModel \<Rightarrow> PageModel" where
  "SetScheduleRow attribute row_text page =
     page \<lparr> pm_ScheduleRows := put attribute row_text (pm_ScheduleRows page) \<rparr>"

definition SetDevicePickerRow :: "u8 \<Rightarrow> string \<Rightarrow> PageModel \<Rightarrow> PageModel" where
  "SetDevicePickerRow attribute label page =
     page \<lparr> pm_DevicePickerRows := put attribute label (pm_DevicePickerRows page) \<rparr>"

definition SetSpaSwitchPickerRow :: "u8 \<Rightarrow> string \<Rightarrow> PageModel \<Rightarrow> PageModel" where
  "SetSpaSwitchPickerRow slot picked page =
     page \<lparr> pm_SpaSwitchPickerRows := put slot picked (pm_SpaSwitchPickerRows page) \<rparr>"

definition ClearSpaSwitchPickerRows :: "PageModel \<Rightarrow> PageModel" where
  "ClearSpaSwitchPickerRows page = page \<lparr> pm_SpaSwitchPickerRows := [] \<rparr>"

text \<open>A fresh page forgets the title and the rows that belong to it, but not the buttons.\<close>

definition OnPageStart :: "u8 \<Rightarrow> PageModel \<Rightarrow> PageModel" where
  "OnPageStart i page =
     page \<lparr> pm_PageId := i, pm_Title := [], pm_ScheduleRows := [], pm_DevicePickerRows := [] \<rparr>"

text \<open>The maps of the page stay maps: their keys are in order.\<close>

definition page_ok :: "PageModel \<Rightarrow> bool" where
  "page_ok page \<longleftrightarrow> ordered (pm_Buttons page) \<and> ordered (pm_ScheduleRows page)
     \<and> ordered (pm_DevicePickerRows page) \<and> ordered (pm_SpaSwitchPickerRows page)"

lemmas page_updates =
  SetTitle_def UpsertButton_def EraseButton_def SetScheduleRow_def SetDevicePickerRow_def
  SetSpaSwitchPickerRow_def ClearSpaSwitchPickerRows_def OnPageStart_def

lemma page_ok_updates [simp]:
  assumes "page_ok page"
  shows "page_ok (SetTitle title page)" "page_ok (UpsertButton i name status page)"
    "page_ok (EraseButton i page)" "page_ok (SetScheduleRow a row_text page)"
    "page_ok (SetDevicePickerRow a label page)" "page_ok (SetSpaSwitchPickerRow a picked page)"
    "page_ok (ClearSpaSwitchPickerRows page)" "page_ok (OnPageStart i page)"
  using assms by (simp_all add: page_updates page_ok_def ordered_put ordered_erase)

section \<open>Rows of the schedule list\<close>

text \<open>
  The fields of a row are separated by a tab, which the message layer turns into \<open>?\<close>; empty fields
  are dropped. \<open>DayMask\<close> names the same masks as the promotion rules.
\<close>

definition SplitFields :: "string \<Rightarrow> string list" where
  "SplitFields row = filter (\<lambda>f. f \<noteq> [])
     (map (trim_with blank_or_tab) (split_on (\<lambda>c. c = CHR 0x09 \<or> c = CHR ''?'') row))"

definition Tokenise :: "string \<Rightarrow> string list" where
  "Tokenise s = filter (\<lambda>f. f \<noteq> []) (split_on (\<lambda>c. c = CHR '' '') s)"

definition Parse12HourTime :: "string \<Rightarrow> string \<Rightarrow> (int \<times> int) option" where
  "Parse12HourTime hhmm meridiem =
     (case find_char (CHR '':'') hhmm of
        None \<Rightarrow> None
      | Some colon \<Rightarrow>
          let h = take colon hhmm; m = drop (colon + 1) hhmm in
          if h = [] \<or> m = [] then None
          else case from_chars h of
                 None \<Rightarrow> None
               | Some hour \<Rightarrow>
                   (case from_chars m of
                      None \<Rightarrow> None
                    | Some minute \<Rightarrow>
                        if hour < 1 \<or> hour > 12 \<or> minute < 0 \<or> minute > 59 then None
                        else if meridiem = ''PM'' \<or> meridiem = ''pm''
                        then Some (if hour = 12 then 12 else hour + 12, minute)
                        else if meridiem = ''AM'' \<or> meridiem = ''am''
                        then Some (if hour = 12 then 0 else hour, minute)
                        else None))"

definition ParseTimeField :: "string \<Rightarrow> (int \<times> int) option" where
  "ParseTimeField f =
     (case Tokenise f of [hhmm, meridiem] \<Rightarrow> Parse12HourTime hhmm meridiem | _ \<Rightarrow> None)"

definition Monday :: u8 where "Monday = 0x01"
definition Tuesday :: u8 where "Tuesday = 0x02"
definition Wednesday :: u8 where "Wednesday = 0x04"
definition Thursday :: u8 where "Thursday = 0x08"
definition Friday :: u8 where "Friday = 0x10"
definition Saturday :: u8 where "Saturday = 0x20"
definition Sunday :: u8 where "Sunday = 0x40"
definition Mask_Weekdays :: u8 where
  "Mask_Weekdays = or Monday (or Tuesday (or Wednesday (or Thursday Friday)))"
definition Mask_Weekends :: u8 where "Mask_Weekends = or Saturday Sunday"
definition Mask_AllDays :: u8 where "Mask_AllDays = or Mask_Weekdays Mask_Weekends"

lemmas day_masks = Monday_def Tuesday_def Wednesday_def Thursday_def Friday_def Saturday_def
  Sunday_def Mask_Weekdays_def Mask_Weekends_def Mask_AllDays_def

definition ParseDayToken :: "string \<Rightarrow> u8 option" where
  "ParseDayToken token =
     map_of [(''All'', Mask_AllDays), (''Wkdays'', Mask_Weekdays), (''Wkends'', Mask_Weekends),
             (''Su'', Sunday), (''M'', Monday), (''Tu'', Tuesday), (''W'', Wednesday),
             (''Th'', Thursday), (''F'', Friday), (''Sa'', Saturday)] token"

definition ParseScheduleRow :: "string \<Rightarrow> ControllerSchedule option" where
  "ParseScheduleRow row =
     (case SplitFields row of
        [dest, on_field, off_field, day_field] \<Rightarrow>
          (case ParseTimeField on_field of
             None \<Rightarrow> None
           | Some (on_hour, on_minute) \<Rightarrow>
               (case ParseTimeField off_field of
                  None \<Rightarrow> None
                | Some (off_hour, off_minute) \<Rightarrow>
                    (case ParseDayToken day_field of
                       None \<Rightarrow> None
                     | Some day_mask \<Rightarrow>
                         Some (default_program
                           \<lparr> c_on_hour := on_hour, c_on_minute := on_minute, c_off_hour := off_hour,
                             c_off_minute := off_minute, c_days_of_week := day_mask, c_target := dest,
                             c_enabled := True \<rparr>))))
      | _ \<Rightarrow> None)"

section \<open>Spa-switch assignments\<close>

record SpaSwitchAssignment =
  switch_number :: u8
  button_number :: u8
  assigned_function :: string

definition IsSep :: "char \<Rightarrow> bool" where
  "IsSep c \<longleftrightarrow> c \<in> {CHR '' '', CHR 0x09, CHR 0x0D, CHR 0x0A, CHR ''?''}"

text \<open>\<open>ToNumber<int>\<close> on a run of digits: it fails only when the value does not fit.\<close>

definition number_of_digits :: "string \<Rightarrow> int option" where
  "number_of_digits s = (let v = int (decimal 0 s) in if v \<ge> 2 ^ 31 then None else Some v)"

definition ParseSpaSwitchAssignmentLine :: "string \<Rightarrow> SpaSwitchAssignment option" where
  "ParseSpaSwitchAssignmentLine line =
     (let s = trim_with IsSep line; sw_str = takeWhile digit s; s1 = dropWhile digit s in
      if sw_str = [] \<or> s1 = [] \<or> hd s1 \<noteq> CHR '':'' then None
      else
        let btn_str = takeWhile digit (tl s1); s2 = dropWhile digit (tl s1) in
        if btn_str = [] \<or> s2 = [] \<or> \<not> IsSep (hd s2) then None
        else
          let assigned = trim_with IsSep s2 in
          if assigned = [] then None
          else case (number_of_digits sw_str, number_of_digits btn_str) of
                 (Some sw, Some btn) \<Rightarrow>
                   if sw < 1 \<or> sw > 255 \<or> btn < 1 \<or> btn > 255 then None
                   else Some \<lparr> switch_number = word_of_int sw, button_number = word_of_int btn,
                               assigned_function = assigned \<rparr>
               | _ \<Rightarrow> None)"

definition KnownSpaSwitchFunctions :: "string list" where
  "KnownSpaSwitchFunctions =
     [''All OFF'', ''OneTouch 4h'', ''Clean Mode'', ''Spa Mode'', ''Spillway'', ''Air Blower'',
      ''Pool Light'', ''Swim Jet'', ''Spa Jets'', ''Filter Pump'', ''Spa'', ''Pool Heat'',
      ''Spa Heat'', ''Solar Heat'']"

section \<open>The page survey\<close>

record PageTarget =
  t_label :: string
  t_button_path :: "u8 list"
  t_purpose :: string

type_synonym PageRegistry = "PageTarget list"

definition SURVEY_DWELL :: u8 where "SURVEY_DWELL = 0x00"
definition SURVEY_BACK :: u8 where "SURVEY_BACK = 0x02"
definition SURVEY_BUTTON_BASE :: u8 where "SURVEY_BUTTON_BASE = 0x11"

definition DefaultAqualinkTouchRegistry :: PageRegistry where
  "DefaultAqualinkTouchRegistry =
     [\<lparr> t_label = ''Pool Heat'', t_button_path = [0x02], t_purpose = ''pool heat setpoint'' \<rparr>,
      \<lparr> t_label = ''Spa Heat'', t_button_path = [0x03], t_purpose = ''spa heat setpoint'' \<rparr>]"

text \<open>The second dwell is \<open>dwell_polls / 2 + 1\<close> cast back to a byte.\<close>

definition survey_of :: "u8 \<Rightarrow> PageTarget \<Rightarrow> u8 list" where
  "survey_of dwell_polls dest =
     map (\<lambda>button_index. SURVEY_BUTTON_BASE + button_index) (t_button_path dest)
     @ replicate (unat dwell_polls) SURVEY_DWELL
     @ map (\<lambda>_. SURVEY_BACK) (t_button_path dest)
     @ replicate (unat (dwell_polls div 2 + 1)) SURVEY_DWELL"

definition BuildSurveyCommandSequence :: "PageRegistry \<Rightarrow> u8 \<Rightarrow> u8 list" where
  "BuildSurveyCommandSequence registry dwell_polls = concat (map (survey_of dwell_polls) registry)"

record PageSurvey =
  ps_Enabled :: bool
  ps_Done :: bool
  ps_Registry :: PageRegistry

definition new_survey :: PageSurvey where
  "new_survey = \<lparr> ps_Enabled = False, ps_Done = False, ps_Registry = [] \<rparr>"

definition Survey_Enable :: "PageRegistry \<Rightarrow> PageSurvey \<Rightarrow> PageSurvey" where
  "Survey_Enable registry survey = survey \<lparr> ps_Enabled := True, ps_Registry := registry \<rparr>"

definition IsArmed :: "PageSurvey \<Rightarrow> bool" where
  "IsArmed survey \<longleftrightarrow> ps_Enabled survey \<and> \<not> ps_Done survey"

definition Consume :: "PageSurvey \<Rightarrow> PageSurvey \<times> u8 list" where
  "Consume survey = (survey \<lparr> ps_Done := True \<rparr>, BuildSurveyCommandSequence (ps_Registry survey) 6)"

end
