(* ===== verification/Iaq_Sink.thy ===== *)
theory Iaq_Sink
  imports Iaq_Page
begin

text \<open>
  What the write state machines of the AqualinkTouch share: the command channel they push to
  (\<open>iaq_command_sink.h\<close>), the answer to a request (\<open>actuation_types.h\<close>) and, as a locale, the contract
  of a machine that is serviced once for each poll and walks the pages of the panel.
\<close>

section \<open>Requests and commands\<close>

datatype ActuationAction = Act_On | Act_Off | Act_Toggle

datatype ActuationResult = Accepted | NotSupported | InvalidValue | MappingFailed | Busy

text \<open>
  What a step does to the channel, in order. \<open>ReportGoal\<close> is the line \<open>FinishGoal\<close> writes to the log
  (completed or abandoned), the only report a goal makes.
\<close>

datatype sink_call = IssueCommand u8 | ArmControlValue string | ReportGoal bool

fun command_of :: "sink_call \<Rightarrow> u8 option" where
  "command_of (IssueCommand c) = Some c"
| "command_of _ = None"

definition commands :: "sink_call list \<Rightarrow> u8 list" where
  "commands calls = List.map_filter command_of calls"

lemma commands_simps [simp]:
  "commands [] = []"
  "commands (IssueCommand c # calls) = c # commands calls"
  "commands (ArmControlValue v # calls) = commands calls"
  "commands (ReportGoal ok # calls) = commands calls"
  by (simp_all add: commands_def List.map_filter_simps)

text \<open>One step for each poll, on the page shown at that poll.\<close>

fun steps :: "('p \<Rightarrow> 'w \<Rightarrow> 'w \<times> 'o list) \<Rightarrow> 'p list \<Rightarrow> 'w \<Rightarrow> 'w \<times> 'o list list" where
  "steps step [] w = (w, [])"
| "steps step (p # ps) w =
     (let (w1, out) = step p w; (w2, outs) = steps step ps w1 in (w2, out # outs))"

lemma steps_Cons [simp]:
  "steps step (p # ps) w =
     (fst (steps step ps (fst (step p w))), snd (step p w) # snd (steps step ps (fst (step p w))))"
  by (simp split: prod.split)

declare steps.simps(2) [simp del]

lemma steps_length [simp]: "length (snd (steps step ps w)) = length ps"
  by (induction ps arbitrary: w) simp_all

lemma steps_append:
  "steps step (ps @ qs) w =
     (fst (steps step qs (fst (steps step ps w))),
      snd (steps step ps w) @ snd (steps step qs (fst (steps step ps w))))"
  by (induction ps arbitrary: w) simp_all

text \<open>The pages of a run with what was done on each, and the keys pressed in a part of it.\<close>

definition history :: "('p \<Rightarrow> 'w \<Rightarrow> 'w \<times> 'o list) \<Rightarrow> 'p list \<Rightarrow> 'w \<Rightarrow> ('p \<times> 'o list) list" where
  "history step ps w = zip ps (snd (steps step ps w))"

lemma history_simps [simp]:
  "history step [] w = []"
  "history step (p # ps) w = (p, snd (step p w)) # history step ps (fst (step p w))"
  by (simp_all add: history_def)

lemma history_append:
  "history step (ps @ qs) w = history step ps w @ history step qs (fst (steps step ps w))"
  by (induction ps arbitrary: w) simp_all

lemma history_split:
  "history step ps w = earlier @ (p, out) # later \<Longrightarrow>
   \<exists>ps1 ps2. ps = ps1 @ p # ps2 \<and> earlier = history step ps1 w
     \<and> out = snd (step p (fst (steps step ps1 w)))"
proof (induction earlier arbitrary: ps w)
  case Nil
  then obtain q qs where "ps = q # qs" by (cases ps) auto
  with Nil show ?case by (intro exI [of _ "[]"] exI [of _ qs]) auto
next
  case (Cons e earlier)
  then obtain q qs where ps: "ps = q # qs" by (cases ps) auto
  with Cons.prems have "history step qs (fst (step q w)) = earlier @ (p, out) # later"
    "e = (q, snd (step q w))" by simp_all
  from Cons.IH [OF this(1)] this(2) show ?case unfolding ps
    by (metis append_Cons fst_conv history_simps(2) steps_Cons)
qed

definition no_key :: "('p \<times> sink_call list) list \<Rightarrow> bool" where
  "no_key hist \<longleftrightarrow> list_all (\<lambda>(p, calls). set (commands calls) \<subseteq> {0x00}) hist"

lemma no_key_simps [simp]:
  "no_key []"
  "no_key ((p, calls) # hist) \<longleftrightarrow> set (commands calls) \<subseteq> {0x00} \<and> no_key hist"
  "no_key (hist @ hist') \<longleftrightarrow> no_key hist \<and> no_key hist'"
  by (simp_all add: no_key_def)

text \<open>The counters stay far below the end of their type.\<close>

lemma count_up: "(c :: u32) < 1000 \<Longrightarrow> unat (c + 1) = Suc (unat c)"
  by (simp add: unat_word_ariths word_less_nat_alt)

lemma poll_left: "(c :: u32) \<le> n \<Longrightarrow> n < 999 \<Longrightarrow> c + 1 \<le> n \<longleftrightarrow> c < n"
  using count_up [of c] by (simp add: word_less_nat_alt word_le_nat_alt Suc_le_eq)

lemma count_down: "(c :: u32) > 0 \<Longrightarrow> unat c = Suc n \<Longrightarrow> unat (c - 1) = n"
  by (simp add: unat_minus_one word_gt_0)

lemma count_zero: "(c :: u32) > 0 \<longleftrightarrow> unat c \<noteq> 0"
  by (simp add: word_less_nat_alt)

section \<open>A goal that ends\<close>

text \<open>
  A goal is served by some of the events a machine handles, here the polls of the bus; each of them
  counts, and at a limit the goal is given up. Whatever else happens in between, it ends.
\<close>

locale polled_goal =
  fixes handle :: "'m \<Rightarrow> 'd \<Rightarrow> 'd \<times> 'o list"
    and serves :: "'m \<Rightarrow> bool"
    and pending :: "'d \<Rightarrow> bool"
    and good :: "'d \<Rightarrow> bool"
    and polls :: "'d \<Rightarrow> nat"
    and limit :: nat
  assumes kept: "good d \<Longrightarrow> good (fst (handle m d))"
    and stays_idle: "\<not> pending d \<Longrightarrow> \<not> pending (fst (handle m d))"
    and counted: "good d \<Longrightarrow> pending d \<Longrightarrow> pending (fst (handle m d)) \<Longrightarrow> serves m \<Longrightarrow>
      polls d < limit \<and> polls (fst (handle m d)) = Suc (polls d)"
    and uncounted: "good d \<Longrightarrow> pending d \<Longrightarrow> \<not> serves m \<Longrightarrow> polls (fst (handle m d)) = polls d"
begin

lemma kept_steps: "good d \<Longrightarrow> good (fst (steps handle ms d))"
  by (induction ms arbitrary: d) (simp_all add: kept)

lemma stays_idle_steps: "\<not> pending d \<Longrightarrow> \<not> pending (fst (steps handle ms d))"
  by (induction ms arbitrary: d) (simp_all add: stays_idle)

lemma ends:
  "good d \<Longrightarrow> polls d \<le> limit \<Longrightarrow> limit < polls d + length (filter serves ms) \<Longrightarrow>
   \<not> pending (fst (steps handle ms d))"
proof (induction ms arbitrary: d)
  case Nil
  then show ?case by simp
next
  case (Cons m ms)
  let ?d = "fst (handle m d)"
  show ?case
  proof (cases "pending d \<and> pending ?d")
    case True
    then show ?thesis
      using Cons.IH [of ?d] Cons.prems kept [of d m] counted [of d m] uncounted [of d m]
      by (cases "serves m") simp_all
  next
    case False
    then have "\<not> pending ?d" using stays_idle [of d m] by auto
    then show ?thesis by (simp add: stays_idle_steps)
  qed
qed

end

section \<open>The contract of a page writer\<close>

text \<open>
  A writer without a goal is silent. With a goal it issues at most one command for each poll, counts
  its polls and gives up at a limit; after a key it dwells for four polls, so that the panel can draw
  the next page before the writer looks at it.
\<close>

locale page_writer =
  fixes step :: "'p \<Rightarrow> 'w \<Rightarrow> 'w \<times> sink_call list"
    and pending :: "'w \<Rightarrow> bool"
    and good :: "'w \<Rightarrow> bool"
    and polls :: "'w \<Rightarrow> nat"
    and settle :: "'w \<Rightarrow> nat"
    and limit :: nat
  assumes idle: "\<not> pending w \<Longrightarrow> step p w = (w, [])"
    and good_step: "good w \<Longrightarrow> good (fst (step p w))"
    and one_command: "good w \<Longrightarrow> length (commands (snd (step p w))) \<le> 1"
    and progress: "good w \<Longrightarrow> pending w \<Longrightarrow> pending (fst (step p w)) \<Longrightarrow>
      polls w < limit \<and> polls (fst (step p w)) = Suc (polls w)"
    and settling: "good w \<Longrightarrow> pending w \<Longrightarrow> settle w = Suc n \<Longrightarrow>
      commands (snd (step p w)) = [0x00] \<and> (pending (fst (step p w)) \<longrightarrow> settle (fst (step p w)) = n)"
    and key_settles: "good w \<Longrightarrow> c \<in> set (commands (snd (step p w))) \<Longrightarrow> c \<noteq> 0x00 \<Longrightarrow> settle (fst (step p w)) = 4"
begin

lemma idle_steps: "\<not> pending w \<Longrightarrow> steps step ps w = (w, replicate (length ps) [])"
  by (induction ps) (simp_all add: idle)

lemma dwells: "good w \<Longrightarrow> settle w = n \<Longrightarrow> j < n \<Longrightarrow> j < length ps \<Longrightarrow>
    set (commands (snd (steps step ps w) ! j)) \<subseteq> {0x00}"
proof (induction ps arbitrary: w n j)
  case Nil
  then show ?case by simp
next
  case (Cons p ps)
  then obtain m where m: "settle w = Suc m" by (cases n) auto
  let ?w = "fst (step p w)"
  show ?case
  proof (cases "pending w")
    case False
    then show ?thesis using Cons.prems(4) by (cases j) (simp_all add: idle idle_steps)
  next
    case True
    note step_w = settling [OF Cons.prems(1) True m, of p]
    show ?thesis
    proof (cases j)
      case 0
      then show ?thesis using step_w by simp
    next
      case (Suc i)
      then show ?thesis
        using Cons.IH [of ?w m i] Cons.prems m step_w good_step [of w p]
        by (cases "pending ?w") (simp_all add: idle_steps)
    qed
  qed
qed

text \<open>A key is followed by four polls without one.\<close>

lemma keys_paced:
  assumes "good w" "i < j" "j \<le> i + 4" "j < length ps"
    and "c \<in> set (commands (snd (steps step ps w) ! i))" "c \<noteq> 0x00"
  shows "set (commands (snd (steps step ps w) ! j)) \<subseteq> {0x00}"
  using assms
proof (induction i arbitrary: ps w j)
  case 0
  then obtain p rest where ps: "ps = p # rest" by (cases ps) auto
  obtain k where k: "j = Suc k" using 0 by (cases j) auto
  have "settle (fst (step p w)) = 4" using key_settles [of w c p] 0 by (simp add: ps)
  then show ?case using dwells [of "fst (step p w)" 4 k rest] good_step [of w p] 0 by (simp add: ps k)
next
  case (Suc i)
  then obtain p rest where ps: "ps = p # rest" by (cases ps) auto
  obtain k where "j = Suc k" using Suc.prems by (cases j) auto
  then show ?case using Suc.IH [of "fst (step p w)" k rest] good_step [of w p] Suc.prems by (simp add: ps)
qed

lemma one_each: "good w \<Longrightarrow> list_all (\<lambda>calls. length (commands calls) \<le> 1) (snd (steps step ps w))"
  by (induction ps arbitrary: w) (use one_command good_step in simp_all)

end

sublocale page_writer \<subseteq> goal: polled_goal step "\<lambda>p. True" pending good polls limit
  by unfold_locales (use idle good_step progress in auto)

text \<open>A goal ends: after more polls than the limit leaves, nothing is pending.\<close>

context page_writer begin

lemma goal_ends:
  "good w \<Longrightarrow> polls w \<le> limit \<Longrightarrow> limit < polls w + length ps \<Longrightarrow> \<not> pending (fst (steps step ps w))"
  using goal.ends [of w ps] by simp

lemmas good_steps = goal.kept_steps

end

text \<open>
  The three writers keep it in the same way: two \<open>uint32_t\<close> counters, and each poll with a goal is the
  one that gives up, one that dwells, or one that acts.
\<close>

locale polled_writer =
  fixes step :: "'p \<Rightarrow> 'w \<Rightarrow> 'w \<times> sink_call list"
    and pending :: "'w \<Rightarrow> bool"
    and polled :: "'w \<Rightarrow> u32"
    and settled :: "'w \<Rightarrow> u32"
    and last_poll :: u32
  assumes small: "last_poll < 999"
    and silent: "\<not> pending w \<Longrightarrow> step p w = (w, [])"
    and poll_cases: "pending w \<Longrightarrow> polled w \<le> last_poll \<Longrightarrow>
      (polled w = last_poll \<and> \<not> pending (fst (step p w)) \<and> commands (snd (step p w)) = [0x00]) \<or>
      (polled w < last_poll \<and> settled w > 0 \<and> polled (fst (step p w)) = polled w + 1
         \<and> settled (fst (step p w)) = settled w - 1 \<and> commands (snd (step p w)) = [0x00]) \<or>
      (polled w < last_poll \<and> settled w = 0 \<and> polled (fst (step p w)) = polled w + 1
         \<and> length (commands (snd (step p w))) \<le> 1
         \<and> (\<forall>c \<in> set (commands (snd (step p w))). c \<noteq> 0x00 \<longrightarrow> settled (fst (step p w)) = 4))"
begin

definition in_time :: "'w \<Rightarrow> bool" where
  "in_time w \<longleftrightarrow> (pending w \<longrightarrow> polled w \<le> last_poll)"

lemma next_poll: "polled w < last_poll \<Longrightarrow> unat (polled w + 1) = Suc (unat (polled w)) \<and> polled w + 1 \<le> last_poll"
  using small count_up [of "polled w"] by (simp add: word_less_nat_alt word_le_nat_alt)

lemma in_time_step: "in_time w \<Longrightarrow> in_time (fst (step p w))"
proof (cases "pending w")
  case True
  assume "in_time w"
  with True have "polled w \<le> last_poll" by (simp add: in_time_def)
  from poll_cases [OF True this, of p] show ?thesis
    by (elim disjE conjE) (simp_all add: in_time_def next_poll)
next
  case False
  then show "in_time w \<Longrightarrow> ?thesis" by (simp add: silent)
qed

end

sublocale polled_writer \<subseteq> page_writer step pending in_time
    "\<lambda>w. unat (polled w)" "\<lambda>w. unat (settled w)" "unat last_poll"
proof
  fix p w
  show "step p w = (w, [])" if "\<not> pending w" using that by (rule silent)
  show "in_time w \<Longrightarrow> in_time (fst (step p w))" by (rule in_time_step)
  show "in_time w \<Longrightarrow> length (commands (snd (step p w))) \<le> 1"
    using poll_cases [of w p] by (cases "pending w") (auto simp: in_time_def silent)
  show "unat (polled w) < unat last_poll \<and> unat (polled (fst (step p w))) = Suc (unat (polled w))"
    if "in_time w" "pending w" "pending (fst (step p w))"
    using that poll_cases [of w p] next_poll [of w] by (auto simp: in_time_def word_less_nat_alt)
next
  fix p w n
  assume "in_time w" "pending w" "unat (settled w) = Suc n"
  then show "commands (snd (step p w)) = [0x00] \<and>
      (pending (fst (step p w)) \<longrightarrow> unat (settled (fst (step p w))) = n)"
    using poll_cases [of w p] count_down [of "settled w" n] by (auto simp: in_time_def)
next
  fix w c p
  assume "in_time w" "c \<in> set (commands (snd (step p w)))" "c \<noteq> 0x00"
  then show "unat (settled (fst (step p w))) = 4"
    using poll_cases [of w p] by (cases "pending w") (auto simp: in_time_def silent)
qed

end
