(* ===== verification/Iaq_Aquapure.thy ===== *)
theory Iaq_Aquapure
  imports Iaq_Sink
begin

text \<open>
  The chlorinator writer (\<open>iaq_aquapure_writer.cpp\<close>): it walks from wherever the panel is to the
  AquaPure page, presses the row of the body it was asked for and submits an absolute value.
\<close>

section \<open>Constants\<close>

definition IAQ_CMD_MENU_OR_BACK :: u8 where "IAQ_CMD_MENU_OR_BACK = 0x02"
definition IAQ_CMD_PAGE_BUTTON_BASE :: u8 where "IAQ_CMD_PAGE_BUTTON_BASE = 0x11"
definition IAQ_CMD_SUBMIT_VALUE :: u8 where "IAQ_CMD_SUBMIT_VALUE = 0x80"
definition IAQ_CMD_DWELL :: u8 where "IAQ_CMD_DWELL = 0x00"
definition IAQ_PAGE_HOME :: u8 where "IAQ_PAGE_HOME = 0x01"
definition IAQ_PAGE_MENU :: u8 where "IAQ_PAGE_MENU = 0x0f"
definition IAQ_PAGE_SET_SWG :: u8 where "IAQ_PAGE_SET_SWG = 0x30"
definition IAQ_CONTROL_FIELD_PREFIX :: char where "IAQ_CONTROL_FIELD_PREFIX = CHR ''1''"
definition IAQ_AQUAPURE_SETTLE_POLLS :: u32 where "IAQ_AQUAPURE_SETTLE_POLLS = 4"
definition IAQ_AQUAPURE_MAX_UNWIND :: u32 where "IAQ_AQUAPURE_MAX_UNWIND = 6"
definition IAQ_AQUAPURE_POLL_LIMIT :: u32 where "IAQ_AQUAPURE_POLL_LIMIT = 200"
definition IAQ_CMD_MENU_TO_AQUAPURE :: u8 where "IAQ_CMD_MENU_TO_AQUAPURE = 0x19"
definition IAQ_AQUAPURE_MAX_MENU_ATTEMPTS :: u32 where "IAQ_AQUAPURE_MAX_MENU_ATTEMPTS = 2"

definition AQUAPURE_MENU_LABELS :: "string list" where
  "AQUAPURE_MENU_LABELS = [''AquaPure'', ''Aqua Pure'', ''Chlorinator'']"

lemmas aquapure_constants =
  IAQ_CMD_MENU_OR_BACK_def IAQ_CMD_PAGE_BUTTON_BASE_def IAQ_CMD_SUBMIT_VALUE_def IAQ_CMD_DWELL_def
  IAQ_PAGE_HOME_def IAQ_PAGE_MENU_def IAQ_PAGE_SET_SWG_def IAQ_AQUAPURE_SETTLE_POLLS_def
  IAQ_AQUAPURE_MAX_UNWIND_def IAQ_AQUAPURE_POLL_LIMIT_def IAQ_CMD_MENU_TO_AQUAPURE_def
  IAQ_AQUAPURE_MAX_MENU_ATTEMPTS_def

section \<open>Buttons by name\<close>

definition NameContains :: "string \<Rightarrow> string \<Rightarrow> bool" where
  "NameContains name needle \<longleftrightarrow>
     needle \<noteq> [] \<and> length needle \<le> length name \<and> occurs (map tolower needle) (map tolower name)"

definition FindButtonContaining :: "PageModel \<Rightarrow> string \<Rightarrow> u8 option" where
  "FindButtonContaining page needle =
     map_option fst
       (find (\<lambda>(index, info). NameContains (TrimWhitespace (b_name info)) needle) (pm_Buttons page))"

definition PressCommandFor :: "u8 \<Rightarrow> u8" where
  "PressCommandFor button_index = IAQ_CMD_PAGE_BUTTON_BASE + button_index"

section \<open>State\<close>

datatype AquaPhase = Aqua_Navigate | Aqua_SelectField | Aqua_Submit | Aqua_ReturnHome | Aqua_Done | Aqua_Failed

record AquaGoal =
  ag_is_boost :: bool
  ag_boost_enable :: bool
  ag_percentage :: u8
  ag_body :: BodyOfWaterIds

record AquaPureWriter =
  aw_Pending :: "AquaGoal option"
  aw_Phase :: AquaPhase
  aw_PollCount :: u32
  aw_SettleCount :: u32
  aw_UnwindCount :: u32
  aw_MenuAttempts :: u32
  aw_FieldSelected :: bool
  aw_RouteUnavailable :: bool
  aw_MenuAquaPureIndex :: "u8 option"

definition new_aquapure_writer :: AquaPureWriter where
  "new_aquapure_writer =
     \<lparr> aw_Pending = None, aw_Phase = Aqua_Navigate, aw_PollCount = 0, aw_SettleCount = 0,
       aw_UnwindCount = 0, aw_MenuAttempts = 0, aw_FieldSelected = False,
       aw_RouteUnavailable = False, aw_MenuAquaPureIndex = None \<rparr>"

section \<open>Requests\<close>

definition Aqua_Arm :: "AquaGoal \<Rightarrow> bool \<Rightarrow> bool \<Rightarrow> AquaPureWriter \<Rightarrow> AquaPureWriter \<times> ActuationResult" where
  "Aqua_Arm goal emulation_active channel_busy w =
     (if \<not> emulation_active then (w, NotSupported)
      else if aw_Pending w \<noteq> None \<or> channel_busy then (w, Busy)
      else if aw_RouteUnavailable w then (w, MappingFailed)
      else (w \<lparr> aw_Pending := Some goal, aw_Phase := Aqua_Navigate, aw_PollCount := 0,
                aw_SettleCount := 0, aw_UnwindCount := 0, aw_MenuAttempts := 0,
                aw_FieldSelected := False \<rparr>, Accepted))"

definition QueuePercentage ::
    "u8 \<Rightarrow> BodyOfWaterIds \<Rightarrow> bool \<Rightarrow> bool \<Rightarrow> AquaPureWriter \<Rightarrow> AquaPureWriter \<times> ActuationResult" where
  "QueuePercentage percentage body emulation_active channel_busy w =
     (if percentage > 100 then (w, InvalidValue)
      else if body \<noteq> Body_Pool \<and> body \<noteq> Body_Spa then (w, InvalidValue)
      else Aqua_Arm \<lparr> ag_is_boost = False, ag_boost_enable = False, ag_percentage = percentage,
                      ag_body = body \<rparr> emulation_active channel_busy w)"

definition QueueBoost :: "bool \<Rightarrow> bool \<Rightarrow> bool \<Rightarrow> AquaPureWriter \<Rightarrow> AquaPureWriter \<times> ActuationResult" where
  "QueueBoost enable emulation_active channel_busy w =
     Aqua_Arm \<lparr> ag_is_boost = True, ag_boost_enable = enable, ag_percentage = 0,
                ag_body = Body_Pool \<rparr> emulation_active channel_busy w"

definition Aqua_HasPendingGoal :: "AquaPureWriter \<Rightarrow> bool" where
  "Aqua_HasPendingGoal w \<longleftrightarrow> aw_Pending w \<noteq> None"

definition RouteUnavailable :: "AquaPureWriter \<Rightarrow> bool" where
  "RouteUnavailable w = aw_RouteUnavailable w"

section \<open>Steps\<close>

fun first_label :: "PageModel \<Rightarrow> string list \<Rightarrow> u8 option" where
  "first_label page [] = None"
| "first_label page (label # rest) =
     (case FindButtonContaining page label of Some index \<Rightarrow> Some index | None \<Rightarrow> first_label page rest)"

definition ObserveMenuPage :: "PageModel \<Rightarrow> AquaPureWriter \<Rightarrow> AquaPureWriter" where
  "ObserveMenuPage page w =
     (if pm_PageId page \<noteq> IAQ_PAGE_MENU \<or> pm_Buttons page = [] then w
      else case first_label page AQUAPURE_MENU_LABELS of
             Some index \<Rightarrow> w \<lparr> aw_MenuAquaPureIndex := Some index, aw_RouteUnavailable := False \<rparr>
           | None \<Rightarrow> w \<lparr> aw_MenuAquaPureIndex := None \<rparr>)"

type_synonym aqua_step = "AquaPureWriter \<times> sink_call list"

definition Aqua_IssueAndSettle :: "u8 \<Rightarrow> AquaPureWriter \<Rightarrow> aqua_step" where
  "Aqua_IssueAndSettle cmd w = (w \<lparr> aw_SettleCount := IAQ_AQUAPURE_SETTLE_POLLS \<rparr>, [IssueCommand cmd])"

definition Aqua_FinishGoal :: "bool \<Rightarrow> AquaPureWriter \<Rightarrow> aqua_step" where
  "Aqua_FinishGoal ok w =
     (w \<lparr> aw_Pending := None, aw_Phase := Aqua_Navigate, aw_SettleCount := 0, aw_UnwindCount := 0,
          aw_MenuAttempts := 0, aw_FieldSelected := False \<rparr>,
      [ReportGoal ok, IssueCommand IAQ_CMD_DWELL])"

definition Aqua_StepNavigate :: "PageModel \<Rightarrow> AquaPureWriter \<Rightarrow> aqua_step" where
  "Aqua_StepNavigate page w =
     (if pm_PageId page = IAQ_PAGE_SET_SWG then
        (w \<lparr> aw_Phase := Aqua_SelectField, aw_UnwindCount := 0 \<rparr>, [])
      else if pm_PageId page = IAQ_PAGE_MENU then
        (let w = ObserveMenuPage page w; attempts = aw_MenuAttempts w;
             w = w \<lparr> aw_MenuAttempts := attempts + 1 \<rparr>
         in if attempts \<ge> IAQ_AQUAPURE_MAX_MENU_ATTEMPTS
            then (w \<lparr> aw_RouteUnavailable := True, aw_Phase := Aqua_Failed \<rparr>, [])
            else Aqua_IssueAndSettle
                   (case aw_MenuAquaPureIndex w of
                      Some index \<Rightarrow> PressCommandFor index
                    | None \<Rightarrow> IAQ_CMD_MENU_TO_AQUAPURE) w)
      else
        (let unwound = aw_UnwindCount w; w = w \<lparr> aw_UnwindCount := unwound + 1 \<rparr>
         in if unwound \<ge> IAQ_AQUAPURE_MAX_UNWIND then (w \<lparr> aw_Phase := Aqua_Failed \<rparr>, [])
            else Aqua_IssueAndSettle IAQ_CMD_MENU_OR_BACK w))"

definition field_name :: "AquaGoal \<Rightarrow> string" where
  "field_name goal =
     (if ag_is_boost goal then ''Boost'' else if ag_body goal = Body_Spa then ''Spa'' else ''Pool'')"

definition Aqua_StepSelectField :: "PageModel \<Rightarrow> AquaGoal \<Rightarrow> AquaPureWriter \<Rightarrow> aqua_step" where
  "Aqua_StepSelectField page goal w =
     (if pm_PageId page \<noteq> IAQ_PAGE_SET_SWG then (w \<lparr> aw_Phase := Aqua_Navigate \<rparr>, [])
      else if pm_Buttons page = [] then (w, [IssueCommand IAQ_CMD_DWELL])
      else case FindButtonContaining page (field_name goal) of
             None \<Rightarrow> (w \<lparr> aw_Phase := Aqua_Failed \<rparr>, [])
           | Some index \<Rightarrow>
               (let (w, calls) = Aqua_IssueAndSettle (PressCommandFor index) w
                in (w \<lparr> aw_FieldSelected := True,
                        aw_Phase := (if ag_is_boost goal then Aqua_ReturnHome else Aqua_Submit) \<rparr>, calls)))"

definition Aqua_StepSubmit :: "PageModel \<Rightarrow> AquaGoal \<Rightarrow> AquaPureWriter \<Rightarrow> aqua_step" where
  "Aqua_StepSubmit page goal w =
     (if pm_PageId page \<noteq> IAQ_PAGE_SET_SWG
      then (w \<lparr> aw_Phase := Aqua_Navigate, aw_FieldSelected := False \<rparr>, [])
      else
        let armed = ArmControlValue (IAQ_CONTROL_FIELD_PREFIX # nat_string (unat (ag_percentage goal)));
            (w, calls) = Aqua_IssueAndSettle IAQ_CMD_SUBMIT_VALUE w
        in (w \<lparr> aw_Phase := Aqua_ReturnHome \<rparr>, armed # calls))"

definition Aqua_StepReturnHome :: "PageModel \<Rightarrow> AquaPureWriter \<Rightarrow> aqua_step" where
  "Aqua_StepReturnHome page w =
     (if pm_PageId page = IAQ_PAGE_HOME then
        (let (w, calls) = Aqua_FinishGoal True w in (w \<lparr> aw_Phase := Aqua_Done \<rparr>, calls))
      else
        let unwound = aw_UnwindCount w; w = w \<lparr> aw_UnwindCount := unwound + 1 \<rparr>
        in if unwound \<ge> IAQ_AQUAPURE_MAX_UNWIND
           then (let (w, calls) = Aqua_FinishGoal True w in (w \<lparr> aw_Phase := Aqua_Done \<rparr>, calls))
           else Aqua_IssueAndSettle IAQ_CMD_MENU_OR_BACK w)"

definition Aqua_ProcessStep :: "PageModel \<Rightarrow> AquaPureWriter \<Rightarrow> aqua_step" where
  "Aqua_ProcessStep page w =
     (case aw_Pending w of
        None \<Rightarrow> (w, [])
      | Some goal \<Rightarrow>
          (let polled = aw_PollCount w; w = w \<lparr> aw_PollCount := polled + 1 \<rparr>
           in if polled > IAQ_AQUAPURE_POLL_LIMIT then Aqua_FinishGoal False w
              else if aw_SettleCount w > 0
              then (w \<lparr> aw_SettleCount := aw_SettleCount w - 1 \<rparr>, [IssueCommand IAQ_CMD_DWELL])
              else case aw_Phase w of
                     Aqua_Navigate \<Rightarrow> Aqua_StepNavigate page w
                   | Aqua_SelectField \<Rightarrow> Aqua_StepSelectField page goal w
                   | Aqua_Submit \<Rightarrow> Aqua_StepSubmit page goal w
                   | Aqua_ReturnHome \<Rightarrow> Aqua_StepReturnHome page w
                   | Aqua_Done \<Rightarrow> Aqua_FinishGoal True w
                   | Aqua_Failed \<Rightarrow> Aqua_FinishGoal False w))"


section \<open>The writer keeps the contract\<close>

lemmas aqua_steps =
  Aqua_ProcessStep_def Aqua_StepNavigate_def Aqua_StepSelectField_def Aqua_StepSubmit_def
  Aqua_StepReturnHome_def Aqua_FinishGoal_def Aqua_IssueAndSettle_def

lemma observe_frame [simp]:
  "aw_Pending (ObserveMenuPage page w) = aw_Pending w"
  "aw_Phase (ObserveMenuPage page w) = aw_Phase w"
  "aw_PollCount (ObserveMenuPage page w) = aw_PollCount w"
  "aw_SettleCount (ObserveMenuPage page w) = aw_SettleCount w"
  "aw_UnwindCount (ObserveMenuPage page w) = aw_UnwindCount w"
  "aw_MenuAttempts (ObserveMenuPage page w) = aw_MenuAttempts w"
  by (simp_all add: ObserveMenuPage_def split: option.split)

text \<open>A step either ends the goal or counts one poll; what else it does depends on the phase.\<close>

lemma aqua_step_cases:
  assumes "aw_Pending w = Some goal"
  obtains (limit) "aw_PollCount w > IAQ_AQUAPURE_POLL_LIMIT"
      "aw_Pending (fst (Aqua_ProcessStep page w)) = None"
      "snd (Aqua_ProcessStep page w) = [ReportGoal False, IssueCommand 0x00]"
  | (dwell) "aw_PollCount w \<le> IAQ_AQUAPURE_POLL_LIMIT" "aw_SettleCount w > 0"
      "Aqua_ProcessStep page w =
         (w \<lparr> aw_PollCount := aw_PollCount w + 1, aw_SettleCount := aw_SettleCount w - 1 \<rparr>,
          [IssueCommand 0x00])"
  | (act) "aw_PollCount w \<le> IAQ_AQUAPURE_POLL_LIMIT" "aw_SettleCount w = 0"
      "Aqua_ProcessStep page w =
         (let w = w \<lparr> aw_PollCount := aw_PollCount w + 1 \<rparr> in
          case aw_Phase w of
            Aqua_Navigate \<Rightarrow> Aqua_StepNavigate page w
          | Aqua_SelectField \<Rightarrow> Aqua_StepSelectField page goal w
          | Aqua_Submit \<Rightarrow> Aqua_StepSubmit page goal w
          | Aqua_ReturnHome \<Rightarrow> Aqua_StepReturnHome page w
          | Aqua_Done \<Rightarrow> Aqua_FinishGoal True w
          | Aqua_Failed \<Rightarrow> Aqua_FinishGoal False w)"
proof (cases "aw_PollCount w > IAQ_AQUAPURE_POLL_LIMIT")
  case True
  then show ?thesis using assms
    by (intro limit) (simp_all add: Aqua_ProcessStep_def Aqua_FinishGoal_def IAQ_CMD_DWELL_def)
next
  case below: False
  show ?thesis
  proof (cases "aw_SettleCount w > 0")
    case True
    then show ?thesis using assms below
      by (intro dwell) (simp_all add: Aqua_ProcessStep_def IAQ_CMD_DWELL_def)
  next
    case False
    then show ?thesis using assms below by (intro act) (simp_all add: Aqua_ProcessStep_def word_gt_0)
  qed
qed

text \<open>After a key the writer dwells.\<close>

lemma aqua_keys_settle:
  "c \<in> set (commands (snd (Aqua_StepNavigate page w))) \<Longrightarrow> aw_SettleCount (fst (Aqua_StepNavigate page w)) = 4"
  "c \<in> set (commands (snd (Aqua_StepSelectField page goal w))) \<Longrightarrow> c \<noteq> 0x00 \<Longrightarrow>
   aw_SettleCount (fst (Aqua_StepSelectField page goal w)) = 4"
  "c \<in> set (commands (snd (Aqua_StepSubmit page goal w))) \<Longrightarrow> aw_SettleCount (fst (Aqua_StepSubmit page goal w)) = 4"
  "c \<in> set (commands (snd (Aqua_StepReturnHome page w))) \<Longrightarrow> c \<noteq> 0x00 \<Longrightarrow>
   aw_SettleCount (fst (Aqua_StepReturnHome page w)) = 4"
  by (simp_all add: aqua_steps Let_def IAQ_CMD_DWELL_def IAQ_AQUAPURE_SETTLE_POLLS_def
      split: option.splits if_splits)

lemma aqua_finish_quiet: "set (commands (snd (Aqua_FinishGoal ok w))) = {0x00}"
  by (simp add: Aqua_FinishGoal_def IAQ_CMD_DWELL_def)

lemma aqua_one_command:
  "length (commands (snd (Aqua_StepNavigate page w))) \<le> 1"
  "length (commands (snd (Aqua_StepSelectField page goal w))) \<le> 1"
  "length (commands (snd (Aqua_StepSubmit page goal w))) \<le> 1"
  "length (commands (snd (Aqua_StepReturnHome page w))) \<le> 1"
  "length (commands (snd (Aqua_FinishGoal ok w))) \<le> 1"
  "aw_PollCount (fst (Aqua_StepNavigate page w)) = aw_PollCount w"
  "aw_PollCount (fst (Aqua_StepSelectField page goal w)) = aw_PollCount w"
  "aw_PollCount (fst (Aqua_StepSubmit page goal w)) = aw_PollCount w"
  "aw_PollCount (fst (Aqua_StepReturnHome page w)) = aw_PollCount w"
  "aw_PollCount (fst (Aqua_FinishGoal ok w)) = aw_PollCount w"
  by (simp_all add: aqua_steps Let_def split: option.split)

interpretation aqua: polled_writer Aqua_ProcessStep Aqua_HasPendingGoal aw_PollCount aw_SettleCount 201
proof
  show "(201 :: u32) < 999" by simp
next
  fix p w
  show "\<not> Aqua_HasPendingGoal w \<Longrightarrow> Aqua_ProcessStep p w = (w, [])"
    by (simp add: Aqua_HasPendingGoal_def Aqua_ProcessStep_def)
next
  fix p w
  assume "Aqua_HasPendingGoal w" and bound: "aw_PollCount w \<le> 201"
  then obtain goal where "aw_Pending w = Some goal" by (auto simp: Aqua_HasPendingGoal_def)
  then show "(aw_PollCount w = 201 \<and> \<not> Aqua_HasPendingGoal (fst (Aqua_ProcessStep p w))
         \<and> commands (snd (Aqua_ProcessStep p w)) = [0x00]) \<or>
      (aw_PollCount w < 201 \<and> aw_SettleCount w > 0
         \<and> aw_PollCount (fst (Aqua_ProcessStep p w)) = aw_PollCount w + 1
         \<and> aw_SettleCount (fst (Aqua_ProcessStep p w)) = aw_SettleCount w - 1
         \<and> commands (snd (Aqua_ProcessStep p w)) = [0x00]) \<or>
      (aw_PollCount w < 201 \<and> aw_SettleCount w = 0
         \<and> aw_PollCount (fst (Aqua_ProcessStep p w)) = aw_PollCount w + 1
         \<and> length (commands (snd (Aqua_ProcessStep p w))) \<le> 1
         \<and> (\<forall>c \<in> set (commands (snd (Aqua_ProcessStep p w))). c \<noteq> 0x00 \<longrightarrow>
              aw_SettleCount (fst (Aqua_ProcessStep p w)) = 4))"
  proof (cases rule: aqua_step_cases [where page = p])
    case limit
    then have "aw_PollCount w = 201"
      using bound by (simp add: IAQ_AQUAPURE_POLL_LIMIT_def word_less_nat_alt word_le_nat_alt word_unat_eq_iff)
    then show ?thesis using limit by (simp add: Aqua_HasPendingGoal_def)
  next
    case dwell
    then show ?thesis by (simp add: IAQ_AQUAPURE_POLL_LIMIT_def word_less_nat_alt word_le_nat_alt)
  next
    case act
    let ?w = "w \<lparr> aw_PollCount := aw_PollCount w + 1 \<rparr>"
    have "aw_PollCount (fst (Aqua_ProcessStep p w)) = aw_PollCount ?w
        \<and> length (commands (snd (Aqua_ProcessStep p w))) \<le> 1
        \<and> (\<forall>c \<in> set (commands (snd (Aqua_ProcessStep p w))). c \<noteq> 0x00 \<longrightarrow>
            aw_SettleCount (fst (Aqua_ProcessStep p w)) = 4)"
      using act(3) aqua_one_command(1,4,6,9) [of p ?w] aqua_one_command(2,3,7,8) [of p goal ?w]
        aqua_one_command(5,10) [of _ ?w]
      by (cases "aw_Phase w") (simp_all add: aqua_keys_settle aqua_finish_quiet)
    then show ?thesis using act
      by (simp add: IAQ_AQUAPURE_POLL_LIMIT_def word_less_nat_alt word_le_nat_alt)
  qed
qed

section \<open>The value goes into the right field\<close>

text \<open>The last key of a history was the row of the goal, pressed on the AquaPure page.\<close>

definition row_pressed :: "AquaGoal \<Rightarrow> (PageModel \<times> sink_call list) list \<Rightarrow> bool" where
  "row_pressed goal hist \<longleftrightarrow>
     (\<exists>before page index between.
        hist = before @ (page, [IssueCommand (PressCommandFor index)]) # between
        \<and> pm_PageId page = IAQ_PAGE_SET_SWG \<and> FindButtonContaining page (field_name goal) = Some index
        \<and> no_key between)"

lemma row_pressed_now:
  "pm_PageId page = IAQ_PAGE_SET_SWG \<Longrightarrow> FindButtonContaining page (field_name goal) = Some index \<Longrightarrow>
   row_pressed goal (hist @ [(page, [IssueCommand (PressCommandFor index)])])"
  unfolding row_pressed_def by (rule exI [of _ hist]) auto

lemma row_pressed_later:
  assumes "row_pressed goal hist" "set (commands calls) \<subseteq> {0x00}"
  shows "row_pressed goal (hist @ [(page, calls)])"
proof -
  obtain before q index between where
    "hist = before @ (q, [IssueCommand (PressCommandFor index)]) # between" "no_key between"
    and q: "pm_PageId q = IAQ_PAGE_SET_SWG" "FindButtonContaining q (field_name goal) = Some index"
    using assms(1) unfolding row_pressed_def by blast
  then have "hist @ [(page, calls)]
      = before @ (q, [IssueCommand (PressCommandFor index)]) # (between @ [(page, calls)])"
    "no_key (between @ [(page, calls)])" using assms(2) by simp_all
  with q show ?thesis unfolding row_pressed_def by blast
qed

definition aqua_inv :: "AquaGoal \<Rightarrow> (PageModel \<times> sink_call list) list \<Rightarrow> AquaPureWriter \<Rightarrow> bool" where
  "aqua_inv goal hist w \<longleftrightarrow>
     (aw_Pending w = None \<or> aw_Pending w = Some goal) \<and>
     (aw_Pending w = Some goal \<longrightarrow> aw_Phase w = Aqua_Submit \<longrightarrow> \<not> ag_is_boost goal \<and> row_pressed goal hist)"

lemma aqua_phases:
  "aw_Phase (fst (Aqua_StepNavigate page w)) = Aqua_Submit \<Longrightarrow> aw_Phase w = Aqua_Submit"
  "aw_Pending (fst (Aqua_StepNavigate page w)) = aw_Pending w"
  "aw_Phase (fst (Aqua_StepSubmit page goal w)) \<noteq> Aqua_Submit"
  "aw_Pending (fst (Aqua_StepSubmit page goal w)) = aw_Pending w"
  "aw_Pending (fst (Aqua_StepSelectField page goal w)) = aw_Pending w"
  "aw_Phase (fst (Aqua_StepReturnHome page w)) = Aqua_Submit \<Longrightarrow> aw_Phase w = Aqua_Submit"
  "aw_Pending (fst (Aqua_StepReturnHome page w)) = None \<or>
   aw_Pending (fst (Aqua_StepReturnHome page w)) = aw_Pending w"
  by (simp_all add: aqua_steps Let_def split: option.splits if_splits)

lemma aqua_select_submits:
  "aw_Phase (fst (Aqua_StepSelectField page goal w)) = Aqua_Submit \<Longrightarrow> aw_Phase w \<noteq> Aqua_Submit \<Longrightarrow>
   \<not> ag_is_boost goal \<and> pm_PageId page = IAQ_PAGE_SET_SWG \<and>
   (\<exists>index. FindButtonContaining page (field_name goal) = Some index \<and>
      snd (Aqua_StepSelectField page goal w) = [IssueCommand (PressCommandFor index)])"
  by (simp add: Aqua_StepSelectField_def Aqua_IssueAndSettle_def split: option.splits if_splits)

lemma aqua_inv_step:
  assumes "aqua_inv goal hist w"
  shows "aqua_inv goal (hist @ [(page, snd (Aqua_ProcessStep page w))]) (fst (Aqua_ProcessStep page w))"
proof (cases "aw_Pending w")
  case None
  then show ?thesis by (simp add: Aqua_ProcessStep_def aqua_inv_def)
next
  case (Some goal')
  then have pending: "aw_Pending w = Some goal" using assms by (auto simp: aqua_inv_def)
  then show ?thesis
  proof (cases rule: aqua_step_cases [where page = page])
    case limit
    then show ?thesis by (simp add: aqua_inv_def)
  next
    case dwell
    then show ?thesis using assms pending row_pressed_later [of goal hist]
      by (simp add: aqua_inv_def)
  next
    case act
    let ?w = "w \<lparr> aw_PollCount := aw_PollCount w + 1 \<rparr>"
    have counted: "aw_Pending ?w = Some goal" "aw_Phase ?w = aw_Phase w" using pending by simp_all
    show ?thesis
    proof (cases "aw_Phase w")
      case Aqua_Navigate
      then have step: "Aqua_ProcessStep page w = Aqua_StepNavigate page ?w" using act(3) by simp
      have "aw_Phase (fst (Aqua_StepNavigate page ?w)) \<noteq> Aqua_Submit"
        by (rule notI, drule aqua_phases(1)) (simp add: Aqua_Navigate)
      then show ?thesis unfolding step aqua_inv_def aqua_phases(2) counted(1) by blast
    next
      case Aqua_SelectField
      then have step: "Aqua_ProcessStep page w = Aqua_StepSelectField page goal ?w" using act(3) by simp
      have "\<not> ag_is_boost goal \<and> row_pressed goal (hist @ [(page, snd (Aqua_StepSelectField page goal ?w))])"
        if submit: "aw_Phase (fst (Aqua_StepSelectField page goal ?w)) = Aqua_Submit"
      proof -
        obtain index where "FindButtonContaining page (field_name goal) = Some index"
          "snd (Aqua_StepSelectField page goal ?w) = [IssueCommand (PressCommandFor index)]"
          and "\<not> ag_is_boost goal" "pm_PageId page = IAQ_PAGE_SET_SWG"
          using aqua_select_submits [OF submit] Aqua_SelectField by auto
        then show ?thesis using row_pressed_now [of page goal index hist] by simp
      qed
      then show ?thesis unfolding step aqua_inv_def aqua_phases(5) counted(1) by blast
    next
      case Aqua_Submit
      then have step: "Aqua_ProcessStep page w = Aqua_StepSubmit page goal ?w" using act(3) by simp
      show ?thesis unfolding step aqua_inv_def aqua_phases(4) counted(1) using aqua_phases(3) by blast
    next
      case Aqua_ReturnHome
      then have step: "Aqua_ProcessStep page w = Aqua_StepReturnHome page ?w" using act(3) by simp
      have "aw_Phase (fst (Aqua_StepReturnHome page ?w)) \<noteq> Aqua_Submit"
        by (rule notI, drule aqua_phases(6)) (simp add: Aqua_ReturnHome)
      then show ?thesis unfolding step aqua_inv_def using aqua_phases(7) [of page ?w] counted(1) by auto
    qed (use act(3) in \<open>simp_all add: aqua_inv_def Aqua_FinishGoal_def\<close>)
  qed
qed

lemma aqua_inv_steps:
  "aqua_inv goal [] w \<Longrightarrow> aqua_inv goal (history Aqua_ProcessStep ps w) (fst (steps Aqua_ProcessStep ps w))"
proof (induction ps rule: rev_induct)
  case (snoc p ps)
  then show ?case using aqua_inv_step [of goal _ _ p] by (simp add: history_append steps_append)
qed simp

lemma aqua_submits:
  assumes "ArmControlValue v \<in> set (snd (Aqua_ProcessStep page w))" "aw_Pending w = Some goal"
  shows "aw_Phase w = Aqua_Submit \<and> pm_PageId page = IAQ_PAGE_SET_SWG \<and>
    v = IAQ_CONTROL_FIELD_PREFIX # nat_string (unat (ag_percentage goal))"
  using assms(2)
proof (cases rule: aqua_step_cases [where page = page])
  case act
  then show ?thesis using assms
    by (cases "aw_Phase w") (simp_all add: aqua_steps Let_def split: option.splits if_splits)
qed (use assms in simp_all)

lemma aqua_arms_right_field:
  assumes "aqua_inv goal [] w"
    and "history Aqua_ProcessStep pages w = earlier @ (page, calls) # later" "ArmControlValue v \<in> set calls"
  shows "pm_PageId page = IAQ_PAGE_SET_SWG \<and> \<not> ag_is_boost goal \<and> row_pressed goal earlier \<and>
    v = IAQ_CONTROL_FIELD_PREFIX # nat_string (unat (ag_percentage goal))"
proof -
  obtain ps ps' where "pages = ps @ page # ps'" and earlier: "earlier = history Aqua_ProcessStep ps w"
    and calls: "calls = snd (Aqua_ProcessStep page (fst (steps Aqua_ProcessStep ps w)))"
    using history_split [OF assms(2)] by blast
  let ?w = "fst (steps Aqua_ProcessStep ps w)"
  have inv: "aqua_inv goal earlier ?w" unfolding earlier by (rule aqua_inv_steps [OF assms(1)])
  have pending: "aw_Pending ?w = Some goal"
    using inv assms(3) by (auto simp: calls aqua_inv_def Aqua_ProcessStep_def)
  show ?thesis using aqua_submits [OF assms(3) [unfolded calls] pending] inv pending
    by (simp add: aqua_inv_def)
qed

lemma aqua_inv_armed:
  "QueuePercentage percentage body emulation_active channel_busy w0 = (w, Accepted) \<Longrightarrow>
   aqua_inv \<lparr> ag_is_boost = False, ag_boost_enable = False, ag_percentage = percentage, ag_body = body \<rparr> [] w"
  by (auto simp: QueuePercentage_def Aqua_Arm_def aqua_inv_def split: if_splits)

end
