(* ===== verification/Iaq_Spaswitch.thy ===== *)
theory Iaq_Spaswitch
  imports Iaq_Aquapure
begin

text \<open>
  The spa-switch writer (\<open>iaq_spaswitch_writer.cpp\<close>): it walks to the detail page of the spa switch,
  selects the row of the button, scrolls the picker to the function and commits. The constants that
  the chlorinator writer has as well are those of its theory.
\<close>

section \<open>Constants\<close>

definition IAQ_CMD_BACK :: u8 where "IAQ_CMD_BACK = 0x02"
definition IAQ_PAGE_SETUP :: u8 where "IAQ_PAGE_SETUP = 0x14"
definition IAQ_PAGE_SPA_REMOTES :: u8 where "IAQ_PAGE_SPA_REMOTES = 0x3a"
definition IAQ_PAGE_SPA_SWITCH_DETAIL :: u8 where "IAQ_PAGE_SPA_SWITCH_DETAIL = 0x3b"
definition IAQ_CMD_MENU_TO_SETUP :: u8 where "IAQ_CMD_MENU_TO_SETUP = 0x15"
definition IAQ_CMD_OPEN_SPASWITCH_DETAIL :: u8 where "IAQ_CMD_OPEN_SPASWITCH_DETAIL = 0x16"
definition IAQ_CMD_SCROLL_PICKER :: u8 where "IAQ_CMD_SCROLL_PICKER = 0x15"
definition IAQ_SPASWITCH_ROWSELECT_CMD_BASE :: u8 where "IAQ_SPASWITCH_ROWSELECT_CMD_BASE = 0x15"
definition IAQ_SPASWITCH_COMMIT_CMD_BASE :: u8 where "IAQ_SPASWITCH_COMMIT_CMD_BASE = 0x1c"
definition IAQ_SPASWITCH_MAX_VISIBLE_ROW :: u32 where "IAQ_SPASWITCH_MAX_VISIBLE_ROW = 7"
definition IAQ_SPASWITCH_SETTLE_POLLS :: u32 where "IAQ_SPASWITCH_SETTLE_POLLS = 4"
definition IAQ_SPASWITCH_MAX_SCROLLS :: u32 where "IAQ_SPASWITCH_MAX_SCROLLS = 10"
definition IAQ_SPASWITCH_POLL_LIMIT :: u32 where "IAQ_SPASWITCH_POLL_LIMIT = 400"

lemmas spaswitch_constants =
  IAQ_CMD_BACK_def IAQ_PAGE_SETUP_def IAQ_PAGE_SPA_REMOTES_def IAQ_PAGE_SPA_SWITCH_DETAIL_def
  IAQ_CMD_MENU_TO_SETUP_def IAQ_CMD_OPEN_SPASWITCH_DETAIL_def IAQ_CMD_SCROLL_PICKER_def
  IAQ_SPASWITCH_ROWSELECT_CMD_BASE_def IAQ_SPASWITCH_COMMIT_CMD_BASE_def
  IAQ_SPASWITCH_MAX_VISIBLE_ROW_def IAQ_SPASWITCH_SETTLE_POLLS_def IAQ_SPASWITCH_MAX_SCROLLS_def
  IAQ_SPASWITCH_POLL_LIMIT_def

section \<open>State\<close>

datatype SpaPhase = Spa_Navigate | Spa_SelectRow | Spa_FindFunction | Spa_Verify | Spa_Done | Spa_Failed

record SpaGoal =
  sg_switch_number :: u8
  sg_button_number :: u8
  sg_function :: string

record SpaSwitchWriter =
  sw_Pending :: "SpaGoal option"
  sw_Phase :: SpaPhase
  sw_RowSelected :: bool
  sw_PollCount :: u32
  sw_ScrollCount :: u32
  sw_SettleCount :: u32
  sw_FirstPickerSeen :: "string option"

definition new_spaswitch_writer :: SpaSwitchWriter where
  "new_spaswitch_writer =
     \<lparr> sw_Pending = None, sw_Phase = Spa_Navigate, sw_RowSelected = False, sw_PollCount = 0,
       sw_ScrollCount = 0, sw_SettleCount = 0, sw_FirstPickerSeen = None \<rparr>"

text \<open>The row of a button in the list, counted from 1, as the \<open>uint32_t\<close> the code computes.\<close>

definition row_ordinal :: "u8 \<Rightarrow> u8 \<Rightarrow> u32" where
  "row_ordinal switch button = (ucast switch - 1) * 4 + ucast button"

definition SpaSwitch_Queue ::
    "u8 \<Rightarrow> u8 \<Rightarrow> string \<Rightarrow> bool \<Rightarrow> bool \<Rightarrow> SpaSwitchWriter \<Rightarrow> SpaSwitchWriter \<times> ActuationResult" where
  "SpaSwitch_Queue switch button wanted emulation_active channel_busy w =
     (if \<not> emulation_active then (w, NotSupported)
      else if switch < 1 \<or> button < 1 \<or> button > 4 \<or> wanted = [] then (w, InvalidValue)
      else if row_ordinal switch button > IAQ_SPASWITCH_MAX_VISIBLE_ROW then (w, NotSupported)
      else if sw_Pending w \<noteq> None \<or> channel_busy then (w, Busy)
      else (w \<lparr> sw_Pending := Some \<lparr> sg_switch_number = switch, sg_button_number = button,
                                     sg_function = wanted \<rparr>,
                sw_Phase := Spa_Navigate, sw_RowSelected := False, sw_PollCount := 0,
                sw_ScrollCount := 0, sw_SettleCount := 0, sw_FirstPickerSeen := None \<rparr>, Accepted))"

definition Spa_HasPendingGoal :: "SpaSwitchWriter \<Rightarrow> bool" where
  "Spa_HasPendingGoal w \<longleftrightarrow> sw_Pending w \<noteq> None"

section \<open>Steps\<close>

type_synonym spa_step = "SpaSwitchWriter \<times> sink_call list"
type_synonym assignments = "u8 \<times> u8 \<Rightarrow> string option"

definition Spa_IssueAndSettle :: "u8 \<Rightarrow> SpaSwitchWriter \<Rightarrow> spa_step" where
  "Spa_IssueAndSettle cmd w = (w \<lparr> sw_SettleCount := IAQ_SPASWITCH_SETTLE_POLLS \<rparr>, [IssueCommand cmd])"

definition Spa_FinishGoal :: "bool \<Rightarrow> SpaSwitchWriter \<Rightarrow> spa_step" where
  "Spa_FinishGoal ok w =
     (w \<lparr> sw_Pending := None, sw_Phase := Spa_Navigate, sw_RowSelected := False, sw_ScrollCount := 0,
          sw_SettleCount := 0, sw_FirstPickerSeen := None \<rparr>,
      [ReportGoal ok, IssueCommand 0x00])"

definition Spa_StepNavigate :: "PageModel \<Rightarrow> SpaSwitchWriter \<Rightarrow> spa_step" where
  "Spa_StepNavigate page w =
     (if pm_PageId page = IAQ_PAGE_SPA_SWITCH_DETAIL then (w \<lparr> sw_Phase := Spa_SelectRow \<rparr>, [])
      else if pm_PageId page = IAQ_PAGE_SPA_REMOTES then
        Spa_IssueAndSettle IAQ_CMD_OPEN_SPASWITCH_DETAIL w
      else if pm_PageId page = IAQ_PAGE_SETUP then
        (case FindButtonByLabel page ''Spa Remotes'' of
           Some idx \<Rightarrow> Spa_IssueAndSettle (IAQ_CMD_PAGE_BUTTON_BASE + idx) w
         | None \<Rightarrow> (w, [IssueCommand 0x00]))
      else if pm_PageId page = IAQ_PAGE_MENU then Spa_IssueAndSettle IAQ_CMD_MENU_TO_SETUP w
      else Spa_IssueAndSettle IAQ_CMD_BACK w)"

definition Spa_StepSelectRow :: "PageModel \<Rightarrow> SpaGoal \<Rightarrow> SpaSwitchWriter \<Rightarrow> spa_step" where
  "Spa_StepSelectRow page goal w =
     (if pm_PageId page \<noteq> IAQ_PAGE_SPA_SWITCH_DETAIL then (w \<lparr> sw_Phase := Spa_Navigate \<rparr>, [])
      else
        let (w, calls) =
              (if \<not> sw_RowSelected w then
                 let ordinal = row_ordinal (sg_switch_number goal) (sg_button_number goal);
                     (w, calls) = Spa_IssueAndSettle (IAQ_SPASWITCH_ROWSELECT_CMD_BASE + ucast ordinal) w
                 in (w \<lparr> sw_RowSelected := True \<rparr>, calls)
               else (w, []))
        in (w \<lparr> sw_Phase := Spa_FindFunction, sw_FirstPickerSeen := None \<rparr>, calls))"

definition picker_slot :: "PageModel \<Rightarrow> string \<Rightarrow> u8 option" where
  "picker_slot page wanted =
     map_option fst (find (\<lambda>(slot, offered). EqualsCaseInsensitive offered wanted) (pm_SpaSwitchPickerRows page))"

definition picker_signature :: "PageModel \<Rightarrow> string" where
  "picker_signature page =
     (case pm_SpaSwitchPickerRows page of [] \<Rightarrow> [] | (slot, offered) # rest \<Rightarrow> offered)"

definition scroll_picker :: "SpaSwitchWriter \<Rightarrow> spa_step" where
  "scroll_picker w =
     (let w = w \<lparr> sw_ScrollCount := sw_ScrollCount w + 1 \<rparr>
      in if sw_ScrollCount w > IAQ_SPASWITCH_MAX_SCROLLS then Spa_FinishGoal False w
         else Spa_IssueAndSettle IAQ_CMD_SCROLL_PICKER w)"

definition Spa_StepFindFunction :: "PageModel \<Rightarrow> SpaGoal \<Rightarrow> SpaSwitchWriter \<Rightarrow> spa_step" where
  "Spa_StepFindFunction page goal w =
     (if pm_PageId page \<noteq> IAQ_PAGE_SPA_SWITCH_DETAIL then (w \<lparr> sw_Phase := Spa_Navigate \<rparr>, [])
      else case picker_slot page (sg_function goal) of
             Some slot \<Rightarrow>
               (let (w, calls) = Spa_IssueAndSettle (IAQ_SPASWITCH_COMMIT_CMD_BASE + slot) w
                in (w \<lparr> sw_Phase := Spa_Verify \<rparr>, calls))
           | None \<Rightarrow>
               (let signature = picker_signature page in
                case sw_FirstPickerSeen w of
                  None \<Rightarrow> scroll_picker (w \<lparr> sw_FirstPickerSeen := Some signature \<rparr>)
                | Some first \<Rightarrow>
                    if signature \<noteq> [] \<and> sw_ScrollCount w > 0 \<and> EqualsCaseInsensitive signature first
                    then Spa_FinishGoal False w else scroll_picker w))"

definition Spa_StepVerify :: "assignments option \<Rightarrow> SpaGoal \<Rightarrow> SpaSwitchWriter \<Rightarrow> spa_step" where
  "Spa_StepVerify data_hub goal w =
     (let confirmed = (case data_hub of
            None \<Rightarrow> False
          | Some hub \<Rightarrow>
              (case hub (sg_switch_number goal, sg_button_number goal) of
                 None \<Rightarrow> False
               | Some live \<Rightarrow> EqualsCaseInsensitive live (sg_function goal)))
      in if confirmed then Spa_FinishGoal True w else (w, [IssueCommand 0x00]))"

definition Spa_act :: "PageModel \<times> assignments option \<Rightarrow> SpaGoal \<Rightarrow> SpaSwitchWriter \<Rightarrow> spa_step" where
  "Spa_act seen goal w =
     (let (page, data_hub) = seen in
      case sw_Phase w of
        Spa_Navigate \<Rightarrow> Spa_StepNavigate page w
      | Spa_SelectRow \<Rightarrow> Spa_StepSelectRow page goal w
      | Spa_FindFunction \<Rightarrow> Spa_StepFindFunction page goal w
      | Spa_Verify \<Rightarrow> Spa_StepVerify data_hub goal w
      | Spa_Done \<Rightarrow> Spa_FinishGoal True w
      | Spa_Failed \<Rightarrow> Spa_FinishGoal False w)"

definition Spa_ProcessStep :: "PageModel \<times> assignments option \<Rightarrow> SpaSwitchWriter \<Rightarrow> spa_step" where
  "Spa_ProcessStep seen w =
     (case sw_Pending w of
        None \<Rightarrow> (w, [])
      | Some goal \<Rightarrow>
          (let w = w \<lparr> sw_PollCount := sw_PollCount w + 1 \<rparr>
           in if sw_PollCount w > IAQ_SPASWITCH_POLL_LIMIT then Spa_FinishGoal False w
              else if sw_SettleCount w > 0
              then (w \<lparr> sw_SettleCount := sw_SettleCount w - 1 \<rparr>, [IssueCommand 0x00])
              else Spa_act seen goal w))"

section \<open>The writer keeps the contract\<close>

lemmas spa_steps =
  Spa_StepNavigate_def Spa_StepSelectRow_def Spa_StepFindFunction_def scroll_picker_def
  Spa_StepVerify_def Spa_FinishGoal_def Spa_IssueAndSettle_def

text \<open>What an action never changes, and that its keys are followed by a dwell.\<close>

lemma spa_act_frame:
  "sw_PollCount (fst (Spa_act seen goal w)) = sw_PollCount w"
  "sw_Pending (fst (Spa_act seen goal w)) \<in> {None, sw_Pending w}"
  "length (commands (snd (Spa_act seen goal w))) \<le> Suc 0"
  by (cases "sw_Phase w"; simp add: Spa_act_def spa_steps Let_def split: prod.split option.split)+

lemma spa_keys_settle:
  "c \<in> set (commands (snd (Spa_StepNavigate page w))) \<Longrightarrow> c \<noteq> 0x00 \<Longrightarrow>
   sw_SettleCount (fst (Spa_StepNavigate page w)) = 4"
  "c \<in> set (commands (snd (Spa_StepSelectRow page goal w))) \<Longrightarrow> sw_SettleCount (fst (Spa_StepSelectRow page goal w)) = 4"
  "c \<in> set (commands (snd (scroll_picker w))) \<Longrightarrow> c \<noteq> 0x00 \<Longrightarrow> sw_SettleCount (fst (scroll_picker w)) = 4"
  "c \<in> set (commands (snd (Spa_StepFindFunction page goal w))) \<Longrightarrow> c \<noteq> 0x00 \<Longrightarrow>
   sw_SettleCount (fst (Spa_StepFindFunction page goal w)) = 4"
  "c \<in> set (commands (snd (Spa_StepVerify hub goal w))) \<Longrightarrow> c = 0x00"
  "c \<in> set (commands (snd (Spa_FinishGoal ok w))) \<Longrightarrow> c = 0x00"
  by (simp_all add: spa_steps Let_def aquapure_constants spaswitch_constants split: option.splits if_splits) auto

lemma spa_act_settles:
  "c \<in> set (commands (snd (Spa_act seen goal w))) \<Longrightarrow> c \<noteq> 0x00 \<Longrightarrow> sw_SettleCount (fst (Spa_act seen goal w)) = 4"
  by (cases seen; cases "sw_Phase w") (auto simp: Spa_act_def dest: spa_keys_settle)

lemma spa_step_cases:
  assumes "sw_Pending w = Some goal"
  obtains (limit) "sw_PollCount w + 1 > IAQ_SPASWITCH_POLL_LIMIT"
      "sw_Pending (fst (Spa_ProcessStep seen w)) = None"
      "snd (Spa_ProcessStep seen w) = [ReportGoal False, IssueCommand 0x00]"
  | (dwell) "sw_PollCount w + 1 \<le> IAQ_SPASWITCH_POLL_LIMIT" "sw_SettleCount w > 0"
      "Spa_ProcessStep seen w =
         (w \<lparr> sw_PollCount := sw_PollCount w + 1, sw_SettleCount := sw_SettleCount w - 1 \<rparr>,
          [IssueCommand 0x00])"
  | (act) "sw_PollCount w + 1 \<le> IAQ_SPASWITCH_POLL_LIMIT" "sw_SettleCount w = 0"
      "Spa_ProcessStep seen w = Spa_act seen goal (w \<lparr> sw_PollCount := sw_PollCount w + 1 \<rparr>)"
proof (cases "sw_PollCount w + 1 > IAQ_SPASWITCH_POLL_LIMIT")
  case True
  then show ?thesis using assms
    by (intro limit) (simp_all add: Spa_ProcessStep_def Spa_FinishGoal_def)
next
  case below: False
  show ?thesis
  proof (cases "sw_SettleCount w > 0")
    case True
    then show ?thesis using assms below by (intro dwell) (simp_all add: Spa_ProcessStep_def)
  next
    case False
    then show ?thesis using assms below
      by (intro act) (simp_all add: Spa_ProcessStep_def word_gt_0)
  qed
qed

interpretation spa: polled_writer Spa_ProcessStep Spa_HasPendingGoal sw_PollCount sw_SettleCount 400
proof
  show "(400 :: u32) < 999" by simp
next
  fix p w
  show "\<not> Spa_HasPendingGoal w \<Longrightarrow> Spa_ProcessStep p w = (w, [])"
    by (simp add: Spa_HasPendingGoal_def Spa_ProcessStep_def)
next
  fix p w
  assume "Spa_HasPendingGoal w" and bound: "sw_PollCount w \<le> 400"
  then obtain goal where goal: "sw_Pending w = Some goal" by (auto simp: Spa_HasPendingGoal_def)
  have next_poll: "sw_PollCount w + 1 \<le> 400 \<longleftrightarrow> sw_PollCount w < 400" by (rule poll_left) (use bound in simp_all)
  from goal show "(sw_PollCount w = 400 \<and> \<not> Spa_HasPendingGoal (fst (Spa_ProcessStep p w))
         \<and> commands (snd (Spa_ProcessStep p w)) = [0x00]) \<or>
      (sw_PollCount w < 400 \<and> sw_SettleCount w > 0
         \<and> sw_PollCount (fst (Spa_ProcessStep p w)) = sw_PollCount w + 1
         \<and> sw_SettleCount (fst (Spa_ProcessStep p w)) = sw_SettleCount w - 1
         \<and> commands (snd (Spa_ProcessStep p w)) = [0x00]) \<or>
      (sw_PollCount w < 400 \<and> sw_SettleCount w = 0
         \<and> sw_PollCount (fst (Spa_ProcessStep p w)) = sw_PollCount w + 1
         \<and> length (commands (snd (Spa_ProcessStep p w))) \<le> 1
         \<and> (\<forall>c \<in> set (commands (snd (Spa_ProcessStep p w))). c \<noteq> 0x00 \<longrightarrow>
              sw_SettleCount (fst (Spa_ProcessStep p w)) = 4))"
    by (cases rule: spa_step_cases [where seen = p])
      (use next_poll bound in \<open>auto simp: IAQ_SPASWITCH_POLL_LIMIT_def Spa_HasPendingGoal_def spa_act_frame
        spa_act_settles not_le [symmetric]\<close>)
qed

section \<open>What a goal reports and what it presses\<close>

definition spa_inv :: "SpaGoal \<Rightarrow> SpaSwitchWriter \<Rightarrow> bool" where
  "spa_inv goal w \<longleftrightarrow> (sw_Pending w = None \<or> sw_Pending w = Some goal)
     \<and> sw_Phase w \<noteq> Spa_Done \<and> sw_Phase w \<noteq> Spa_Failed"

lemma spa_act_phases:
  "sw_Phase w \<noteq> Spa_Done \<Longrightarrow> sw_Phase w \<noteq> Spa_Failed \<Longrightarrow>
   sw_Phase (fst (Spa_act seen goal w)) \<noteq> Spa_Done \<and> sw_Phase (fst (Spa_act seen goal w)) \<noteq> Spa_Failed"
  by (cases "sw_Phase w"; simp add: Spa_act_def spa_steps Let_def split: prod.split option.split)

lemma spa_inv_step:
  assumes "spa_inv goal w"
  shows "spa_inv goal (fst (Spa_ProcessStep seen w))"
proof (cases "sw_Pending w")
  case None
  then show ?thesis using assms by (simp add: Spa_ProcessStep_def)
next
  case (Some goal')
  then show ?thesis
  proof (cases rule: spa_step_cases [where seen = seen])
    case limit
    then have "fst (Spa_ProcessStep seen w) = fst (Spa_FinishGoal False (w \<lparr> sw_PollCount := sw_PollCount w + 1 \<rparr>))"
      using Some by (simp add: Spa_ProcessStep_def)
    then show ?thesis by (simp add: spa_inv_def Spa_FinishGoal_def)
  next
    case dwell
    then show ?thesis using assms by (simp add: spa_inv_def)
  next
    case act
    then show ?thesis
      using assms spa_act_phases [of "w \<lparr> sw_PollCount := sw_PollCount w + 1 \<rparr>" seen goal']
        spa_act_frame(2) [of seen goal' "w \<lparr> sw_PollCount := sw_PollCount w + 1 \<rparr>"]
      by (auto simp: spa_inv_def)
  qed
qed

lemma spa_inv_steps: "spa_inv goal w \<Longrightarrow> spa_inv goal (fst (steps Spa_ProcessStep ps w))"
  by (induction ps arbitrary: w) (simp_all add: spa_inv_step)

lemma spa_reports_confirmed:
  assumes "spa_inv goal w" "ReportGoal True \<in> set (snd (Spa_ProcessStep (page, data_hub) w))"
  shows "\<exists>hub live. data_hub = Some hub \<and> hub (sg_switch_number goal, sg_button_number goal) = Some live
    \<and> EqualsCaseInsensitive live (sg_function goal)"
proof -
  have pending: "sw_Pending w = Some goal"
    using assms by (auto simp: spa_inv_def Spa_ProcessStep_def)
  then show ?thesis
  proof (cases rule: spa_step_cases [where seen = "(page, data_hub)"])
    case act
    then show ?thesis using assms
      by (cases "sw_Phase w")
        (simp_all add: spa_inv_def Spa_act_def spa_steps Let_def split: option.splits if_splits)
  qed (use assms in simp_all)
qed

text \<open>A key that moves the writer on to the verification is the one of a slot that shows the function.\<close>

lemma spa_commits_offer:
  assumes "sw_Pending w = Some goal" "sw_Phase w \<noteq> Spa_Verify"
    and "sw_Phase (fst (Spa_ProcessStep (page, data_hub) w)) = Spa_Verify"
  shows "pm_PageId page = IAQ_PAGE_SPA_SWITCH_DETAIL \<and>
    (\<exists>slot. picker_slot page (sg_function goal) = Some slot \<and>
       commands (snd (Spa_ProcessStep (page, data_hub) w)) = [IAQ_SPASWITCH_COMMIT_CMD_BASE + slot])"
  using assms(1)
proof (cases rule: spa_step_cases [where seen = "(page, data_hub)"])
  case limit
  then have "fst (Spa_ProcessStep (page, data_hub) w)
      = fst (Spa_FinishGoal False (w \<lparr> sw_PollCount := sw_PollCount w + 1 \<rparr>))"
    using assms(1) by (simp add: Spa_ProcessStep_def)
  then show ?thesis using assms(3) by (simp add: Spa_FinishGoal_def)
next
  case dwell
  then show ?thesis using assms by simp
next
  case act
  then show ?thesis using assms
    by (cases "sw_Phase w")
      (simp_all add: Spa_act_def spa_steps Let_def split: option.splits if_splits)
qed

end
