(* ===== verification/Iaq_Schedule_Writer.thy ===== *)
theory Iaq_Schedule_Writer
  imports Iaq_Spaswitch
begin

text \<open>
  The writer of the controller's programs (\<open>iaq_schedule_writer.cpp\<close>): it creates, deletes or edits a
  program by walking the Program pages. The constants that the other writers have as well are those of
  their theories.
\<close>

section \<open>Constants\<close>

definition IAQ_SCHEDULE_PAGE_ID :: u8 where "IAQ_SCHEDULE_PAGE_ID = 0x28"
definition IAQ_DEVICE_PICKER_PAGE_ID :: u8 where "IAQ_DEVICE_PICKER_PAGE_ID = 0x38"
definition IAQ_TIME_PICKER_PAGE_ID :: u8 where "IAQ_TIME_PICKER_PAGE_ID = 0x29"
definition IAQ_TIME_PICKER_AMPM_LINE :: nat where "IAQ_TIME_PICKER_AMPM_LINE = 2"
definition IAQ_BUTTON_INDEX_POOL :: char where "IAQ_BUTTON_INDEX_POOL = CHR ''1''"
definition IAQ_CMD_MENU_TO_SCHEDULE :: u8 where "IAQ_CMD_MENU_TO_SCHEDULE = 0x11"
definition IAQ_CMD_ADD_PROGRAM :: u8 where "IAQ_CMD_ADD_PROGRAM = 0x11"
definition IAQ_SCHEDULE_PICK_ROW_BASE :: u8 where "IAQ_SCHEDULE_PICK_ROW_BASE = 0x13"
definition IAQ_CMD_PICKER_SCROLL :: u8 where "IAQ_CMD_PICKER_SCROLL = 0x12"
definition IAQ_CMD_PICKER_OK :: u8 where "IAQ_CMD_PICKER_OK = 0x13"
definition IAQ_CMD_OPEN_ON_FIELD :: u8 where "IAQ_CMD_OPEN_ON_FIELD = 0x21"
definition IAQ_CMD_OPEN_OFF_FIELD :: u8 where "IAQ_CMD_OPEN_OFF_FIELD = 0x22"
definition IAQ_CMD_AMPM_TOGGLE :: u8 where "IAQ_CMD_AMPM_TOGGLE = 0x11"
definition IAQ_SCHEDULE_ROW_BASE :: u8 where "IAQ_SCHEDULE_ROW_BASE = 0x22"
definition IAQ_CMD_EDIT_PROGRAM :: u8 where "IAQ_CMD_EDIT_PROGRAM = 0x12"
definition IAQ_CMD_DELETE_PROGRAM :: u8 where "IAQ_CMD_DELETE_PROGRAM = 0x13"
definition IAQ_CMD_CONFIRM_OK :: u8 where "IAQ_CMD_CONFIRM_OK = 0x01"
definition IAQ_CMD_DAY_ALL :: u8 where "IAQ_CMD_DAY_ALL = 0x17"
definition IAQ_CMD_DAY_MON :: u8 where "IAQ_CMD_DAY_MON = 0x18"
definition IAQ_CMD_DAY_WKDAYS :: u8 where "IAQ_CMD_DAY_WKDAYS = 0x1f"
definition IAQ_CMD_DAY_WKENDS :: u8 where "IAQ_CMD_DAY_WKENDS = 0x20"
definition IAQ_SCHEDULE_SETTLE_POLLS :: u32 where "IAQ_SCHEDULE_SETTLE_POLLS = 4"
definition IAQ_SCHEDULE_MAX_SCROLLS :: u32 where "IAQ_SCHEDULE_MAX_SCROLLS = 12"
definition IAQ_SCHEDULE_POLL_LIMIT :: u32 where "IAQ_SCHEDULE_POLL_LIMIT = 400"

lemmas schedule_constants =
  IAQ_SCHEDULE_PAGE_ID_def IAQ_DEVICE_PICKER_PAGE_ID_def IAQ_TIME_PICKER_PAGE_ID_def
  IAQ_TIME_PICKER_AMPM_LINE_def IAQ_CMD_MENU_TO_SCHEDULE_def IAQ_CMD_ADD_PROGRAM_def
  IAQ_SCHEDULE_PICK_ROW_BASE_def IAQ_CMD_PICKER_SCROLL_def IAQ_CMD_PICKER_OK_def
  IAQ_CMD_OPEN_ON_FIELD_def IAQ_CMD_OPEN_OFF_FIELD_def IAQ_CMD_AMPM_TOGGLE_def
  IAQ_SCHEDULE_ROW_BASE_def IAQ_CMD_EDIT_PROGRAM_def IAQ_CMD_DELETE_PROGRAM_def
  IAQ_CMD_CONFIRM_OK_def IAQ_CMD_DAY_ALL_def IAQ_CMD_DAY_MON_def IAQ_CMD_DAY_WKDAYS_def
  IAQ_CMD_DAY_WKENDS_def IAQ_SCHEDULE_SETTLE_POLLS_def IAQ_SCHEDULE_MAX_SCROLLS_def
  IAQ_SCHEDULE_POLL_LIMIT_def

section \<open>Days and times\<close>

text \<open>\<open>std::countr_zero\<close> of a byte.\<close>

definition countr_zero :: "u8 \<Rightarrow> nat" where
  "countr_zero w = length (takeWhile (\<lambda>n. \<not> bit w n) [0..<8])"

definition DayCommandFor :: "u8 \<Rightarrow> u8" where
  "DayCommandFor days_of_week =
     (let chosen = and days_of_week 0x7f in
      if chosen = 0x7f then IAQ_CMD_DAY_ALL
      else if chosen = 0x1f then IAQ_CMD_DAY_WKDAYS
      else if chosen = 0x60 then IAQ_CMD_DAY_WKENDS
      else if popcount chosen = 1 then IAQ_CMD_DAY_MON + of_nat (countr_zero chosen)
      else IAQ_CMD_DAY_ALL)"

text \<open>The remainder of a negative number is negative in C++.\<close>

definition ScheduleTimeValue :: "int \<Rightarrow> int \<Rightarrow> string" where
  "ScheduleTimeValue hour24 minute =
     (let hour12 = (if hour24 < 0 then - ((- hour24) mod 12) else hour24 mod 12);
          hour12 = (if hour12 = 0 then 12 else hour12)
      in [IAQ_BUTTON_INDEX_POOL] @ format_02d hour12 @ '':'' @ format_02d minute)"

section \<open>State\<close>

datatype ProgramOp = Op_Create | Op_Delete | Op_Edit

datatype ProgramPhase =
    Prog_NavigateToList | Prog_AddProgram | Prog_SelectDevice | Prog_SetOnTime | Prog_SetOffTime
  | Prog_SetDay | Prog_Verify | Prog_SelectRow | Prog_PressDelete | Prog_ConfirmDelete
  | Prog_VerifyGone | Prog_PressEdit | Prog_Done | Prog_Failed

record ProgramGoal =
  pg_op :: ProgramOp
  pg_program :: ControllerSchedule
  pg_match :: ControllerSchedule

record ScheduleWriter =
  pw_Pending :: "ProgramGoal option"
  pw_Phase :: ProgramPhase
  pw_PollCount :: u32
  pw_SettleCount :: u32
  pw_ScrollCount :: u32
  pw_ProgramAdded :: bool
  pw_DeviceClicked :: bool
  pw_TimeFieldOpened :: bool

definition new_schedule_writer :: ScheduleWriter where
  "new_schedule_writer =
     \<lparr> pw_Pending = None, pw_Phase = Prog_NavigateToList, pw_PollCount = 0, pw_SettleCount = 0,
       pw_ScrollCount = 0, pw_ProgramAdded = False, pw_DeviceClicked = False,
       pw_TimeFieldOpened = False \<rparr>"

section \<open>Requests\<close>

definition Prog_Arm :: "ProgramGoal \<Rightarrow> ScheduleWriter \<Rightarrow> ScheduleWriter" where
  "Prog_Arm goal w =
     w \<lparr> pw_Pending := Some goal, pw_Phase := Prog_NavigateToList, pw_PollCount := 0,
         pw_SettleCount := 0, pw_ScrollCount := 0, pw_ProgramAdded := False,
         pw_DeviceClicked := False, pw_TimeFieldOpened := False \<rparr>"

definition QueueCreate ::
    "ControllerSchedule \<Rightarrow> bool \<Rightarrow> bool \<Rightarrow> ScheduleWriter \<Rightarrow> ScheduleWriter \<times> ActuationResult" where
  "QueueCreate program emulated channel_busy w =
     (if \<not> emulated then (w, NotSupported)
      else if pw_Pending w \<noteq> None \<or> channel_busy then (w, Busy)
      else if \<not> promotable (CheckControllerCandidate program) then (w, InvalidValue)
      else (Prog_Arm \<lparr> pg_op = Op_Create, pg_program = program, pg_match = default_program \<rparr> w, Accepted))"

definition QueueDelete ::
    "ControllerSchedule \<Rightarrow> bool \<Rightarrow> bool \<Rightarrow> ScheduleWriter \<Rightarrow> ScheduleWriter \<times> ActuationResult" where
  "QueueDelete program emulated channel_busy w =
     (if \<not> emulated then (w, NotSupported)
      else if pw_Pending w \<noteq> None \<or> channel_busy then (w, Busy)
      else if c_target program = [] then (w, InvalidValue)
      else (Prog_Arm \<lparr> pg_op = Op_Delete, pg_program = program, pg_match = program \<rparr> w, Accepted))"

definition QueueEdit ::
    "ControllerSchedule \<Rightarrow> ControllerSchedule \<Rightarrow> bool \<Rightarrow> bool \<Rightarrow> ScheduleWriter \<Rightarrow>
     ScheduleWriter \<times> ActuationResult" where
  "QueueEdit existing desired emulated channel_busy w =
     (if \<not> emulated then (w, NotSupported)
      else if pw_Pending w \<noteq> None \<or> channel_busy then (w, Busy)
      else if c_target existing = [] then (w, InvalidValue)
      else if \<not> promotable (CheckControllerCandidate desired) then (w, InvalidValue)
      else (Prog_Arm \<lparr> pg_op = Op_Edit, pg_program = desired, pg_match = existing \<rparr> w, Accepted))"

definition Prog_HasPendingGoal :: "ScheduleWriter \<Rightarrow> bool" where
  "Prog_HasPendingGoal w \<longleftrightarrow> pw_Pending w \<noteq> None"

section \<open>Steps\<close>

type_synonym prog_step = "ScheduleWriter \<times> sink_call list"

definition Prog_IssueAndSettle :: "u8 \<Rightarrow> ScheduleWriter \<Rightarrow> prog_step" where
  "Prog_IssueAndSettle cmd w = (w \<lparr> pw_SettleCount := IAQ_SCHEDULE_SETTLE_POLLS \<rparr>, [IssueCommand cmd])"

definition Prog_FinishGoal :: "bool \<Rightarrow> ScheduleWriter \<Rightarrow> prog_step" where
  "Prog_FinishGoal ok w =
     (w \<lparr> pw_Pending := None, pw_Phase := Prog_NavigateToList, pw_ProgramAdded := False,
          pw_DeviceClicked := False, pw_TimeFieldOpened := False, pw_ScrollCount := 0,
          pw_SettleCount := 0 \<rparr>,
      [ReportGoal ok, IssueCommand 0x00])"

definition SetTimeField ::
    "PageModel \<Rightarrow> ScreenDataPage \<Rightarrow> u8 \<Rightarrow> int \<Rightarrow> int \<Rightarrow> ProgramPhase \<Rightarrow> ScheduleWriter \<Rightarrow> prog_step" where
  "SetTimeField page status_page open_cmd hour minute next_phase w =
     (if \<not> pw_TimeFieldOpened w then
        if pm_PageId page = IAQ_SCHEDULE_PAGE_ID
        then (let (w, calls) = Prog_IssueAndSettle open_cmd w in (w \<lparr> pw_TimeFieldOpened := True \<rparr>, calls))
        else (w, [IssueCommand 0x00])
      else if pm_PageId page \<noteq> IAQ_TIME_PICKER_PAGE_ID then (w, [IssueCommand 0x00])
      else
        let meridiem = TrimWhitespace (Text (status_page ! IAQ_TIME_PICKER_AMPM_LINE));
            is_am = EqualsCaseInsensitive meridiem ''AM'';
            is_pm = EqualsCaseInsensitive meridiem ''PM'';
            want_pm = (hour \<ge> 12)
        in if \<not> is_am \<and> \<not> is_pm then (w, [IssueCommand 0x00])
           else if is_pm \<noteq> want_pm then Prog_IssueAndSettle IAQ_CMD_AMPM_TOGGLE w
           else let (w, calls) = Prog_IssueAndSettle IAQ_CMD_SUBMIT_VALUE w
                in (w \<lparr> pw_TimeFieldOpened := False, pw_Phase := next_phase \<rparr>,
                    ArmControlValue (ScheduleTimeValue hour minute) # calls))"

definition same_program :: "ControllerSchedule \<Rightarrow> ControllerSchedule \<Rightarrow> bool" where
  "same_program row wanted \<longleftrightarrow>
     EqualsCaseInsensitive (c_target row) (c_target wanted)
     \<and> c_days_of_week row = c_days_of_week wanted
     \<and> c_on_hour row = c_on_hour wanted \<and> c_on_minute row = c_on_minute wanted
     \<and> c_off_hour row = c_off_hour wanted \<and> c_off_minute row = c_off_minute wanted"

definition MatchesProgram :: "ProgramGoal \<Rightarrow> ControllerSchedule \<Rightarrow> bool" where
  "MatchesProgram goal row \<longleftrightarrow> same_program row (pg_match goal)"

definition listed_row :: "(ControllerSchedule \<Rightarrow> bool) \<Rightarrow> PageModel \<Rightarrow> u8 option" where
  "listed_row matches page =
     map_option fst
       (find (\<lambda>(ordinal, row_text).
                case ParseScheduleRow row_text of None \<Rightarrow> False | Some parsed \<Rightarrow> matches parsed)
          (pm_ScheduleRows page))"

definition StepNavigateToList :: "PageModel \<Rightarrow> ProgramGoal \<Rightarrow> ScheduleWriter \<Rightarrow> prog_step" where
  "StepNavigateToList page goal w =
     (if pm_PageId page = IAQ_SCHEDULE_PAGE_ID then
        (w \<lparr> pw_Phase := (if pg_op goal = Op_Create then Prog_AddProgram else Prog_SelectRow) \<rparr>, [])
      else if pm_PageId page = IAQ_PAGE_MENU then Prog_IssueAndSettle IAQ_CMD_MENU_TO_SCHEDULE w
      else Prog_IssueAndSettle IAQ_CMD_BACK w)"

definition StepAddProgram :: "PageModel \<Rightarrow> ScheduleWriter \<Rightarrow> prog_step" where
  "StepAddProgram page w =
     (if pm_PageId page \<noteq> IAQ_SCHEDULE_PAGE_ID then (w \<lparr> pw_Phase := Prog_NavigateToList \<rparr>, [])
      else
        let (w, calls) =
              (if \<not> pw_ProgramAdded w
               then (let (w, calls) = Prog_IssueAndSettle IAQ_CMD_ADD_PROGRAM w
                     in (w \<lparr> pw_ProgramAdded := True \<rparr>, calls))
               else (w, []))
        in (w \<lparr> pw_Phase := Prog_SelectDevice \<rparr>, calls))"

definition device_row :: "PageModel \<Rightarrow> string \<Rightarrow> u8 option" where
  "device_row page wanted =
     map_option fst (find (\<lambda>(row, label). EqualsCaseInsensitive label wanted) (pm_DevicePickerRows page))"

definition StepSelectDevice :: "PageModel \<Rightarrow> ProgramGoal \<Rightarrow> ScheduleWriter \<Rightarrow> prog_step" where
  "StepSelectDevice page goal w =
     (if pm_PageId page \<noteq> IAQ_DEVICE_PICKER_PAGE_ID then (w, [IssueCommand 0x00])
      else if pw_DeviceClicked w then
        (let (w, calls) = Prog_IssueAndSettle IAQ_CMD_PICKER_OK w
         in (w \<lparr> pw_Phase := Prog_SetOnTime \<rparr>, calls))
      else case device_row page (c_target (pg_program goal)) of
             Some row \<Rightarrow>
               (let (w, calls) = Prog_IssueAndSettle (IAQ_SCHEDULE_PICK_ROW_BASE + row) w
                in (w \<lparr> pw_DeviceClicked := True \<rparr>, calls))
           | None \<Rightarrow>
               (let w = w \<lparr> pw_ScrollCount := pw_ScrollCount w + 1 \<rparr>
                in if pw_ScrollCount w > IAQ_SCHEDULE_MAX_SCROLLS then Prog_FinishGoal False w
                   else Prog_IssueAndSettle IAQ_CMD_PICKER_SCROLL w))"

definition StepSetDay :: "PageModel \<Rightarrow> ProgramGoal \<Rightarrow> ScheduleWriter \<Rightarrow> prog_step" where
  "StepSetDay page goal w =
     (if pm_PageId page \<noteq> IAQ_SCHEDULE_PAGE_ID then (w, [IssueCommand 0x00])
      else let (w, calls) = Prog_IssueAndSettle (DayCommandFor (c_days_of_week (pg_program goal))) w
           in (w \<lparr> pw_Phase := Prog_Verify \<rparr>, calls))"

definition StepVerify :: "PageModel \<Rightarrow> ProgramGoal \<Rightarrow> ScheduleWriter \<Rightarrow> prog_step" where
  "StepVerify page goal w =
     (if listed_row (\<lambda>parsed. same_program parsed (pg_program goal)) page \<noteq> None
      then Prog_FinishGoal True w else (w, [IssueCommand 0x00]))"

definition StepSelectRow :: "PageModel \<Rightarrow> ProgramGoal \<Rightarrow> ScheduleWriter \<Rightarrow> prog_step" where
  "StepSelectRow page goal w =
     (if pm_PageId page \<noteq> IAQ_SCHEDULE_PAGE_ID then (w, [IssueCommand 0x00])
      else if pm_ScheduleRows page = [] then (w, [IssueCommand 0x00])
      else case listed_row (MatchesProgram goal) page of
             Some ordinal \<Rightarrow>
               (let (w, calls) = Prog_IssueAndSettle (IAQ_SCHEDULE_ROW_BASE + ordinal) w
                in (w \<lparr> pw_Phase := (if pg_op goal = Op_Edit then Prog_PressEdit else Prog_PressDelete) \<rparr>,
                    calls))
           | None \<Rightarrow> Prog_FinishGoal False w)"

definition StepPressEdit :: "PageModel \<Rightarrow> ScheduleWriter \<Rightarrow> prog_step" where
  "StepPressEdit page w =
     (if pm_PageId page \<noteq> IAQ_SCHEDULE_PAGE_ID then (w, [IssueCommand 0x00])
      else let (w, calls) = Prog_IssueAndSettle IAQ_CMD_EDIT_PROGRAM w
           in (w \<lparr> pw_Phase := Prog_SetOnTime \<rparr>, calls))"

definition StepPressDelete :: "PageModel \<Rightarrow> ScheduleWriter \<Rightarrow> prog_step" where
  "StepPressDelete page w =
     (if pm_PageId page \<noteq> IAQ_SCHEDULE_PAGE_ID then (w, [IssueCommand 0x00])
      else let (w, calls) = Prog_IssueAndSettle IAQ_CMD_DELETE_PROGRAM w
           in (w \<lparr> pw_Phase := Prog_ConfirmDelete \<rparr>, calls))"

definition StepConfirmDelete :: "ScheduleWriter \<Rightarrow> prog_step" where
  "StepConfirmDelete w =
     (let (w, calls) = Prog_IssueAndSettle IAQ_CMD_CONFIRM_OK w
      in (w \<lparr> pw_Phase := Prog_VerifyGone \<rparr>, calls))"

definition StepVerifyGone :: "PageModel \<Rightarrow> ProgramGoal \<Rightarrow> ScheduleWriter \<Rightarrow> prog_step" where
  "StepVerifyGone page goal w =
     (if listed_row (MatchesProgram goal) page \<noteq> None then (w, [IssueCommand 0x00])
      else Prog_FinishGoal True w)"

definition Prog_act :: "PageModel \<times> ScreenDataPage \<Rightarrow> ProgramGoal \<Rightarrow> ScheduleWriter \<Rightarrow> prog_step" where
  "Prog_act seen goal w =
     (let (page, status_page) = seen; program = pg_program goal in
      case pw_Phase w of
        Prog_NavigateToList \<Rightarrow> StepNavigateToList page goal w
      | Prog_AddProgram \<Rightarrow> StepAddProgram page w
      | Prog_SelectDevice \<Rightarrow> StepSelectDevice page goal w
      | Prog_SetOnTime \<Rightarrow>
          SetTimeField page status_page IAQ_CMD_OPEN_ON_FIELD (c_on_hour program) (c_on_minute program)
            Prog_SetOffTime w
      | Prog_SetOffTime \<Rightarrow>
          SetTimeField page status_page IAQ_CMD_OPEN_OFF_FIELD (c_off_hour program) (c_off_minute program)
            Prog_SetDay w
      | Prog_SetDay \<Rightarrow> StepSetDay page goal w
      | Prog_Verify \<Rightarrow> StepVerify page goal w
      | Prog_SelectRow \<Rightarrow> StepSelectRow page goal w
      | Prog_PressEdit \<Rightarrow> StepPressEdit page w
      | Prog_PressDelete \<Rightarrow> StepPressDelete page w
      | Prog_ConfirmDelete \<Rightarrow> StepConfirmDelete w
      | Prog_VerifyGone \<Rightarrow> StepVerifyGone page goal w
      | Prog_Done \<Rightarrow> Prog_FinishGoal True w
      | Prog_Failed \<Rightarrow> Prog_FinishGoal False w)"

definition Prog_ProcessStep :: "PageModel \<times> ScreenDataPage \<Rightarrow> ScheduleWriter \<Rightarrow> prog_step" where
  "Prog_ProcessStep seen w =
     (case pw_Pending w of
        None \<Rightarrow> (w, [])
      | Some goal \<Rightarrow>
          (let w = w \<lparr> pw_PollCount := pw_PollCount w + 1 \<rparr>
           in if pw_PollCount w > IAQ_SCHEDULE_POLL_LIMIT then Prog_FinishGoal False w
              else if pw_SettleCount w > 0
              then (w \<lparr> pw_SettleCount := pw_SettleCount w - 1 \<rparr>, [IssueCommand 0x00])
              else Prog_act seen goal w))"


section \<open>The writer keeps the contract\<close>

lemmas prog_steps =
  StepNavigateToList_def StepAddProgram_def StepSelectDevice_def SetTimeField_def StepSetDay_def
  StepVerify_def StepSelectRow_def StepPressEdit_def StepPressDelete_def StepConfirmDelete_def
  StepVerifyGone_def Prog_FinishGoal_def Prog_IssueAndSettle_def

lemma prog_act_frame:
  "pw_PollCount (fst (Prog_act seen goal w)) = pw_PollCount w"
  "pw_Pending (fst (Prog_act seen goal w)) \<in> {None, pw_Pending w}"
  "length (commands (snd (Prog_act seen goal w))) \<le> Suc 0"
  by (cases "pw_Phase w"; simp add: Prog_act_def prog_steps Let_def split: prod.split option.split)+

lemma prog_keys_settle:
  "c \<in> set (commands (snd (StepNavigateToList page goal w))) \<Longrightarrow> pw_SettleCount (fst (StepNavigateToList page goal w)) = 4"
  "c \<in> set (commands (snd (StepAddProgram page w))) \<Longrightarrow> pw_SettleCount (fst (StepAddProgram page w)) = 4"
  "c \<in> set (commands (snd (StepSelectDevice page goal w))) \<Longrightarrow> c \<noteq> 0x00 \<Longrightarrow>
   pw_SettleCount (fst (StepSelectDevice page goal w)) = 4"
  "c \<in> set (commands (snd (SetTimeField page status_page cmd hour minute next_phase w))) \<Longrightarrow> c \<noteq> 0x00 \<Longrightarrow>
   pw_SettleCount (fst (SetTimeField page status_page cmd hour minute next_phase w)) = 4"
  "c \<in> set (commands (snd (StepSetDay page goal w))) \<Longrightarrow> c \<noteq> 0x00 \<Longrightarrow> pw_SettleCount (fst (StepSetDay page goal w)) = 4"
  "c \<in> set (commands (snd (StepVerify page goal w))) \<Longrightarrow> c = 0x00"
  "c \<in> set (commands (snd (StepSelectRow page goal w))) \<Longrightarrow> c \<noteq> 0x00 \<Longrightarrow>
   pw_SettleCount (fst (StepSelectRow page goal w)) = 4"
  "c \<in> set (commands (snd (StepPressEdit page w))) \<Longrightarrow> c \<noteq> 0x00 \<Longrightarrow> pw_SettleCount (fst (StepPressEdit page w)) = 4"
  "c \<in> set (commands (snd (StepPressDelete page w))) \<Longrightarrow> c \<noteq> 0x00 \<Longrightarrow> pw_SettleCount (fst (StepPressDelete page w)) = 4"
  "c \<in> set (commands (snd (StepConfirmDelete w))) \<Longrightarrow> pw_SettleCount (fst (StepConfirmDelete w)) = 4"
  "c \<in> set (commands (snd (StepVerifyGone page goal w))) \<Longrightarrow> c = 0x00"
  "c \<in> set (commands (snd (Prog_FinishGoal ok w))) \<Longrightarrow> c = 0x00"
  by (simp_all add: prog_steps Let_def aquapure_constants schedule_constants split: option.splits if_splits)
    (auto split: if_splits)

lemma prog_act_settles:
  "c \<in> set (commands (snd (Prog_act seen goal w))) \<Longrightarrow> c \<noteq> 0x00 \<Longrightarrow> pw_SettleCount (fst (Prog_act seen goal w)) = 4"
  by (cases seen; cases "pw_Phase w") (auto simp: Prog_act_def Let_def dest: prog_keys_settle)

lemma prog_step_cases:
  assumes "pw_Pending w = Some goal"
  obtains (limit) "pw_PollCount w + 1 > IAQ_SCHEDULE_POLL_LIMIT"
      "Prog_ProcessStep seen w = Prog_FinishGoal False (w \<lparr> pw_PollCount := pw_PollCount w + 1 \<rparr>)"
  | (dwell) "pw_PollCount w + 1 \<le> IAQ_SCHEDULE_POLL_LIMIT" "pw_SettleCount w > 0"
      "Prog_ProcessStep seen w =
         (w \<lparr> pw_PollCount := pw_PollCount w + 1, pw_SettleCount := pw_SettleCount w - 1 \<rparr>,
          [IssueCommand 0x00])"
  | (act) "pw_PollCount w + 1 \<le> IAQ_SCHEDULE_POLL_LIMIT" "pw_SettleCount w = 0"
      "Prog_ProcessStep seen w = Prog_act seen goal (w \<lparr> pw_PollCount := pw_PollCount w + 1 \<rparr>)"
proof (cases "pw_PollCount w + 1 > IAQ_SCHEDULE_POLL_LIMIT")
  case True
  then show ?thesis using assms by (intro limit) (simp_all add: Prog_ProcessStep_def)
next
  case below: False
  show ?thesis
  proof (cases "pw_SettleCount w > 0")
    case True
    then show ?thesis using assms below by (intro dwell) (simp_all add: Prog_ProcessStep_def)
  next
    case False
    then show ?thesis using assms below by (intro act) (simp_all add: Prog_ProcessStep_def word_gt_0)
  qed
qed

interpretation prog: polled_writer Prog_ProcessStep Prog_HasPendingGoal pw_PollCount pw_SettleCount 400
proof
  show "(400 :: u32) < 999" by simp
next
  fix p w
  show "\<not> Prog_HasPendingGoal w \<Longrightarrow> Prog_ProcessStep p w = (w, [])"
    by (simp add: Prog_HasPendingGoal_def Prog_ProcessStep_def)
next
  fix p w
  assume "Prog_HasPendingGoal w" and bound: "pw_PollCount w \<le> 400"
  then obtain goal where goal: "pw_Pending w = Some goal" by (auto simp: Prog_HasPendingGoal_def)
  have next_poll: "pw_PollCount w + 1 \<le> 400 \<longleftrightarrow> pw_PollCount w < 400" by (rule poll_left) (use bound in simp_all)
  from goal show "(pw_PollCount w = 400 \<and> \<not> Prog_HasPendingGoal (fst (Prog_ProcessStep p w))
         \<and> commands (snd (Prog_ProcessStep p w)) = [0x00]) \<or>
      (pw_PollCount w < 400 \<and> pw_SettleCount w > 0
         \<and> pw_PollCount (fst (Prog_ProcessStep p w)) = pw_PollCount w + 1
         \<and> pw_SettleCount (fst (Prog_ProcessStep p w)) = pw_SettleCount w - 1
         \<and> commands (snd (Prog_ProcessStep p w)) = [0x00]) \<or>
      (pw_PollCount w < 400 \<and> pw_SettleCount w = 0
         \<and> pw_PollCount (fst (Prog_ProcessStep p w)) = pw_PollCount w + 1
         \<and> length (commands (snd (Prog_ProcessStep p w))) \<le> 1
         \<and> (\<forall>c \<in> set (commands (snd (Prog_ProcessStep p w))). c \<noteq> 0x00 \<longrightarrow>
              pw_SettleCount (fst (Prog_ProcessStep p w)) = 4))"
    by (cases rule: prog_step_cases [where seen = p])
      (use next_poll bound in \<open>auto simp: IAQ_SCHEDULE_POLL_LIMIT_def Prog_HasPendingGoal_def prog_act_frame
        prog_act_settles Prog_FinishGoal_def not_le [symmetric]\<close>)
qed

section \<open>What is submitted, and what is reported\<close>

text \<open>A time is submitted only on the time picker, and only once its half of the day is shown.\<close>

lemma time_field_submits:
  assumes "ArmControlValue v \<in> set (snd (SetTimeField page status_page cmd hour minute next_phase w))"
  shows "v = ScheduleTimeValue hour minute \<and> pm_PageId page = IAQ_TIME_PICKER_PAGE_ID
    \<and> EqualsCaseInsensitive (TrimWhitespace (Text (status_page ! IAQ_TIME_PICKER_AMPM_LINE)))
        (if hour \<ge> 12 then ''PM'' else ''AM'')"
  using assms by (auto simp: SetTimeField_def Prog_IssueAndSettle_def Let_def split: if_splits)

lemma prog_submits:
  assumes "ArmControlValue v \<in> set (snd (Prog_ProcessStep (page, status_page) w))" "pw_Pending w = Some goal"
  shows "\<exists>hour minute. (hour, minute) \<in> {(c_on_hour (pg_program goal), c_on_minute (pg_program goal)),
           (c_off_hour (pg_program goal), c_off_minute (pg_program goal))}
       \<and> v = ScheduleTimeValue hour minute \<and> pm_PageId page = IAQ_TIME_PICKER_PAGE_ID
       \<and> EqualsCaseInsensitive (TrimWhitespace (Text (status_page ! IAQ_TIME_PICKER_AMPM_LINE)))
           (if hour \<ge> 12 then ''PM'' else ''AM'')"
  using assms(2)
proof (cases rule: prog_step_cases [where seen = "(page, status_page)"])
  case limit
  then show ?thesis using assms(1) by (simp add: Prog_FinishGoal_def)
next
  case dwell
  then show ?thesis using assms(1) by simp
next
  case act
  let ?w = "w \<lparr> pw_PollCount := pw_PollCount w + 1 \<rparr>"
  have other: "pw_Phase w = Prog_SetOnTime \<or> pw_Phase w = Prog_SetOffTime"
  proof (rule ccontr)
    assume "\<not> ?thesis"
    then have "ArmControlValue v \<notin> set (snd (Prog_act (page, status_page) goal ?w))"
      by (cases "pw_Phase w") (simp_all add: Prog_act_def prog_steps Let_def split: option.split)
    then show False using assms(1) act(3) by simp
  qed
  show ?thesis
  proof (cases "pw_Phase w = Prog_SetOnTime")
    case True
    then have "ArmControlValue v \<in> set (snd (SetTimeField page status_page IAQ_CMD_OPEN_ON_FIELD
        (c_on_hour (pg_program goal)) (c_on_minute (pg_program goal)) Prog_SetOffTime ?w))"
      using assms(1) act(3) by (simp add: Prog_act_def Let_def)
    from time_field_submits [OF this] show ?thesis by blast
  next
    case False
    with other have "ArmControlValue v \<in> set (snd (SetTimeField page status_page IAQ_CMD_OPEN_OFF_FIELD
        (c_off_hour (pg_program goal)) (c_off_minute (pg_program goal)) Prog_SetDay ?w))"
      using assms(1) act(3) by (simp add: Prog_act_def Let_def)
    from time_field_submits [OF this] show ?thesis by blast
  qed
qed

text \<open>The value submitted is the time asked for, in the notation the schedule list is read with.\<close>

lemma time_value_reads_back:
  assumes "0 \<le> hour" "hour < 24" "0 \<le> minute" "minute < 60"
  shows "hd (ScheduleTimeValue hour minute) = IAQ_BUTTON_INDEX_POOL"
    "Parse12HourTime (tl (ScheduleTimeValue hour minute)) (if hour \<ge> 12 then ''PM'' else ''AM'') = Some (hour, minute)"
proof -
  define h where "h = (if hour mod 12 = 0 then 12 else hour mod 12)"
  have h: "1 \<le> h" "h \<le> 12" using assms by (auto simp: h_def)
  have v: "ScheduleTimeValue hour minute = IAQ_BUTTON_INDEX_POOL # format_02d h @ CHR '':'' # format_02d minute"
    using assms by (simp add: ScheduleTimeValue_def Let_def h_def)
  show "hd (ScheduleTimeValue hour minute) = IAQ_BUTTON_INDEX_POOL" by (simp add: v)
  have pm_hour: "(if h = 12 then 12 else h + 12) = hour" if "hour \<ge> 12"
    using that assms by (auto simp: h_def) presburger+
  have am_hour: "(if h = 12 then 0 else h) = hour" if "\<not> hour \<ge> 12"
    using that assms by (auto simp: h_def)
  show "Parse12HourTime (tl (ScheduleTimeValue hour minute)) (if hour \<ge> 12 then ''PM'' else ''AM'') = Some (hour, minute)"
    using h assms two_digits [of h] two_digits [of minute] find_char_at [of "CHR '':''" "format_02d h"] pm_hour am_hour
    by (auto simp: v Parse12HourTime_def Let_def)
qed

text \<open>The phases a goal goes through depend on its operation.\<close>

definition prog_inv :: "ProgramGoal \<Rightarrow> ScheduleWriter \<Rightarrow> bool" where
  "prog_inv goal w \<longleftrightarrow> (pw_Pending w = None \<or> pw_Pending w = Some goal)
     \<and> pw_Phase w \<notin> {Prog_Done, Prog_Failed}
     \<and> (pg_op goal = Op_Delete \<longrightarrow>
          pw_Phase w \<in> {Prog_NavigateToList, Prog_SelectRow, Prog_PressDelete, Prog_ConfirmDelete, Prog_VerifyGone})
     \<and> (pg_op goal \<noteq> Op_Delete \<longrightarrow>
          pw_Phase w \<notin> {Prog_PressDelete, Prog_ConfirmDelete, Prog_VerifyGone})
     \<and> (pg_op goal = Op_Create \<longrightarrow> pw_Phase w \<noteq> Prog_SelectRow)"

lemma prog_act_inv:
  "prog_inv goal w \<Longrightarrow> prog_inv goal (fst (Prog_act seen goal w))"
  by (cases "pw_Phase w")
    (auto simp: prog_inv_def Prog_act_def prog_steps Let_def split: prod.split option.split ProgramOp.split
      intro: ProgramOp.exhaust [of "pg_op goal"])

lemma prog_inv_step:
  assumes "prog_inv goal w"
  shows "prog_inv goal (fst (Prog_ProcessStep seen w))"
proof (cases "pw_Pending w")
  case None
  then show ?thesis using assms by (simp add: Prog_ProcessStep_def)
next
  case (Some goal')
  then have goal: "goal' = goal" using assms by (simp add: prog_inv_def)
  from Some show ?thesis
  proof (cases rule: prog_step_cases [where seen = seen])
    case limit
    then show ?thesis by (simp add: prog_inv_def Prog_FinishGoal_def)
  next
    case dwell
    then show ?thesis using assms by (simp add: prog_inv_def)
  next
    case act
    then show ?thesis using prog_act_inv [of goal "w \<lparr> pw_PollCount := pw_PollCount w + 1 \<rparr>" seen] assms
      by (simp add: goal prog_inv_def)
  qed
qed

lemma prog_inv_steps: "prog_inv goal w \<Longrightarrow> prog_inv goal (fst (steps Prog_ProcessStep ps w))"
  by (induction ps arbitrary: w) (simp_all add: prog_inv_step)

lemma prog_reports:
  assumes "prog_inv goal w" "ReportGoal True \<in> set (snd (Prog_ProcessStep (page, status_page) w))"
  shows "if pg_op goal = Op_Delete then listed_row (MatchesProgram goal) page = None
         else listed_row (\<lambda>row. same_program row (pg_program goal)) page \<noteq> None"
proof -
  have pending: "pw_Pending w = Some goal"
    using assms by (auto simp: prog_inv_def Prog_ProcessStep_def)
  then show ?thesis
  proof (cases rule: prog_step_cases [where seen = "(page, status_page)"])
    case limit
    then show ?thesis using assms(2) by (simp add: Prog_FinishGoal_def)
  next
    case dwell
    then show ?thesis using assms(2) by simp
  next
    case act
    then show ?thesis using assms
      by (cases "pw_Phase w")
        (simp_all add: prog_inv_def Prog_act_def prog_steps Let_def split: option.splits if_splits)
  qed
qed

lemma listed_row_iff: "listed_row matches page \<noteq> None \<longleftrightarrow>
    (\<exists>row parsed. row \<in> set (pm_ScheduleRows page) \<and> ParseScheduleRow (snd row) = Some parsed \<and> matches parsed)"
proof -
  let ?shows = "\<lambda>(ordinal :: u8, row_text). case ParseScheduleRow row_text of None \<Rightarrow> False | Some parsed \<Rightarrow> matches parsed"
  have "listed_row matches page \<noteq> None \<longleftrightarrow> (\<exists>row \<in> set (pm_ScheduleRows page). ?shows row)"
    using find_None_iff [of ?shows "pm_ScheduleRows page"] by (auto simp: listed_row_def)
  then show ?thesis by (force simp: case_prod_beta split: option.splits)
qed

text \<open>A program that names a day key of the panel is entered with that key.\<close>

lemma day_command_candidates:
  "DayCommandFor Mask_AllDays = IAQ_CMD_DAY_ALL" "DayCommandFor Mask_Weekdays = IAQ_CMD_DAY_WKDAYS"
  "DayCommandFor Mask_Weekends = IAQ_CMD_DAY_WKENDS"
  "map DayCommandFor [Monday, Tuesday, Wednesday, Thursday, Friday, Saturday, Sunday]
     = [0x18, 0x19, 0x1a, 0x1b, 0x1c, 0x1d, 0x1e]"
  by code_simp+

end
