(* ===== verification/Device_Capabilities.thy ===== *)
theory Device_Capabilities
  imports Prelude
begin

text \<open>
  What every device of the bus mixes in: the permission to transmit (\<open>jandy/devices/capabilities/emulated.h\<close>
  and \<open>.cpp\<close>), the watchdog (\<open>core/devices/capabilities/restartable.cpp\<close>), the published status
  (\<open>core/interfaces/istatuspublisher.h\<close>) and the log of recent commands
  (\<open>core/devices/capabilities/command_history.cpp\<close>).
\<close>

section \<open>Emulation\<close>

record Emulated =
  em_IsEmulated :: bool
  em_EmulationSuppressed :: bool

definition new_emulated :: "bool \<Rightarrow> Emulated" where
  "new_emulated is_emulated = \<lparr> em_IsEmulated = is_emulated, em_EmulationSuppressed = False \<rparr>"

definition IsEmulated :: "Emulated \<Rightarrow> bool" where
  "IsEmulated e = em_IsEmulated e"

definition SuppressEmulation :: "Emulated \<Rightarrow> Emulated" where
  "SuppressEmulation e = e \<lparr> em_EmulationSuppressed := True \<rparr>"

definition IsEmulationSuppressed :: "Emulated \<Rightarrow> bool" where
  "IsEmulationSuppressed e = em_EmulationSuppressed e"

definition IsEmulationActive :: "Emulated \<Rightarrow> bool" where
  "IsEmulationActive e \<longleftrightarrow> em_IsEmulated e \<and> \<not> em_EmulationSuppressed e"

text \<open>
  The collision handler is the address manager's, it acts on a state of its own and answers whether it
  moved the emulation; a device that was given none has \<open>None\<close>.
\<close>

definition HandleEmulationCollision :: "('w \<Rightarrow> 'w \<times> bool) option \<Rightarrow> 'w \<Rightarrow> Emulated \<Rightarrow> 'w \<times> Emulated" where
  "HandleEmulationCollision handler manager e =
     (if \<not> em_IsEmulated e \<or> em_EmulationSuppressed e then (manager, e)
      else let manager = (case handler of None \<Rightarrow> manager | Some relocate \<Rightarrow> fst (relocate manager))
           in (manager, SuppressEmulation e))"

definition Signal_AckMessage :: "u8 \<Rightarrow> u8 \<Rightarrow> Emulated \<Rightarrow> (u8 \<times> u8) list" where
  "Signal_AckMessage ack_value data_value_to_send e =
     (if \<not> em_IsEmulated e \<or> em_EmulationSuppressed e then [] else [(ack_value, data_value_to_send)])"

lemmas emulation_defs =
  IsEmulated_def SuppressEmulation_def IsEmulationSuppressed_def IsEmulationActive_def
  HandleEmulationCollision_def Signal_AckMessage_def

lemma ack_iff_active: "Signal_AckMessage a d e = (if IsEmulationActive e then [(a, d)] else [])"
  by (simp add: emulation_defs)

lemma collision_silences: "\<not> IsEmulationActive (snd (HandleEmulationCollision handler manager e))"
  by (simp add: emulation_defs Let_def)

lemma collision_idempotent:
  "HandleEmulationCollision handler m (snd (HandleEmulationCollision handler manager e))
     = (m, snd (HandleEmulationCollision handler manager e))"
  by (auto simp: emulation_defs Let_def)

section \<open>The watchdog\<close>

text \<open>Time is the steady clock in nanoseconds, the timeout is a number of seconds.\<close>

record Restartable =
  wd_TimeoutDuration :: int
  wd_IsRunning :: bool
  wd_LastKick :: int

definition new_watchdog :: "int \<Rightarrow> bool \<Rightarrow> int \<Rightarrow> Restartable" where
  "new_watchdog timeout_in_seconds delayed_start now =
     (if \<not> delayed_start
      then \<lparr> wd_TimeoutDuration = timeout_in_seconds, wd_IsRunning = True, wd_LastKick = now \<rparr>
      else \<lparr> wd_TimeoutDuration = timeout_in_seconds, wd_IsRunning = False, wd_LastKick = 0 \<rparr>)"

definition Kick :: "int \<Rightarrow> Restartable \<Rightarrow> Restartable" where
  "Kick now w = (if wd_IsRunning w then w \<lparr> wd_LastKick := now \<rparr> else w)"

definition Watchdog_Start :: "int \<Rightarrow> Restartable \<Rightarrow> Restartable" where
  "Watchdog_Start now w = (if wd_IsRunning w then w else Kick now (w \<lparr> wd_IsRunning := True \<rparr>))"

definition Watchdog_Stop :: "Restartable \<Rightarrow> Restartable" where
  "Watchdog_Stop w = w \<lparr> wd_IsRunning := False \<rparr>"

text \<open>The flag says whether \<open>WatchdogTimeoutOccurred\<close> is called.\<close>

definition CheckWatchdog :: "int \<Rightarrow> Restartable \<Rightarrow> Restartable \<times> bool" where
  "CheckWatchdog now w =
     (if wd_IsRunning w \<and> now - wd_LastKick w > wd_TimeoutDuration w * 1000000000
      then (w \<lparr> wd_IsRunning := False \<rparr>, True) else (w, False))"

definition GetTimeout :: "Restartable \<Rightarrow> int" where
  "GetTimeout w = wd_TimeoutDuration w"

definition IsRunning :: "Restartable \<Rightarrow> bool" where
  "IsRunning w = wd_IsRunning w"

text \<open>\<open>PollAll\<close> reads the clock once and checks the instances in the order they were made.\<close>

definition PollAll :: "int \<Rightarrow> Restartable list \<Rightarrow> (Restartable \<times> bool) list" where
  "PollAll now instances = map (CheckWatchdog now) instances"

lemmas watchdog_defs =
  new_watchdog_def Kick_def Watchdog_Start_def Watchdog_Stop_def CheckWatchdog_def GetTimeout_def
  IsRunning_def

text \<open>A stopped watchdog neither fires nor is revived by a kick, until it is started again.\<close>

lemma stopped_is_quiet:
  "\<not> wd_IsRunning w \<Longrightarrow> Kick now w = w"
  "\<not> wd_IsRunning w \<Longrightarrow> CheckWatchdog now w = (w, False)"
  by (simp_all add: watchdog_defs)

fun watch :: "int list \<Rightarrow> Restartable \<Rightarrow> Restartable \<times> bool list" where
  "watch [] w = (w, [])"
| "watch (now # rest) w =
     (let (w1, fired) = CheckWatchdog now w; (w2, fires) = watch rest w1 in (w2, fired # fires))"

lemma watch_stopped: "\<not> wd_IsRunning w \<Longrightarrow> watch sweeps w = (w, replicate (length sweeps) False)"
  by (induction sweeps) (simp_all add: stopped_is_quiet)

lemma fires_once: "length (filter id (snd (watch sweeps w))) \<le> 1"
proof (induction sweeps arbitrary: w)
  case (Cons now rest)
  obtain w1 fired where check: "CheckWatchdog now w = (w1, fired)" by (cases "CheckWatchdog now w")
  have "fired \<Longrightarrow> \<not> wd_IsRunning w1" using check by (auto simp: CheckWatchdog_def split: if_splits)
  then show ?case using Cons.IH [of w1] by (cases fired) (simp_all add: check watch_stopped case_prod_beta)
qed simp

section \<open>Status\<close>

datatype DeviceStatus =
    DeviceStatus_Initializing | DeviceStatus_Normal | DeviceStatus_LostComms
  | DeviceStatus_FaultOccurred | DeviceStatus_Unknown

text \<open>The status and the signals sent: one only when the status differs from the one published last.\<close>

definition PublishStatus :: "DeviceStatus \<Rightarrow> DeviceStatus \<Rightarrow> DeviceStatus \<times> DeviceStatus list" where
  "PublishStatus status published = (status, if status = published then [] else [status])"

section \<open>Recent commands\<close>

record CommandEntry =
  ce_timestamp :: int
  ce_description :: string
  ce_outcome :: string

definition MAX_ENTRIES :: nat where "MAX_ENTRIES = 16"

definition RecordCommand :: "int \<Rightarrow> string \<Rightarrow> string \<Rightarrow> CommandEntry list \<Rightarrow> CommandEntry list" where
  "RecordCommand now description outcome entries =
     (let entries = entries @ [\<lparr> ce_timestamp = now, ce_description = description, ce_outcome = outcome \<rparr>]
      in drop (length entries - MAX_ENTRIES) entries)"

text \<open>\<open>duration_cast\<close> to seconds truncates towards zero.\<close>

definition seconds_of :: "int \<Rightarrow> int" where
  "seconds_of ns = (if ns < 0 then - ((- ns) div 1000000000) else ns div 1000000000)"

definition DescribeRecentCommands :: "int \<Rightarrow> CommandEntry list \<Rightarrow> (int \<times> int \<times> string \<times> string) list" where
  "DescribeRecentCommands now entries =
     map (\<lambda>e. (seconds_of (ce_timestamp e),
               (let age_seconds = seconds_of (now - ce_timestamp e) in if age_seconds < 0 then 0 else age_seconds),
               ce_description e, ce_outcome e)) entries"

fun record_all :: "(int \<times> string \<times> string) list \<Rightarrow> CommandEntry list \<Rightarrow> CommandEntry list" where
  "record_all [] entries = entries"
| "record_all ((now, description, outcome) # rest) entries =
     record_all rest (RecordCommand now description outcome entries)"

fun entry_of :: "int \<times> string \<times> string \<Rightarrow> CommandEntry" where
  "entry_of (now, description, outcome) =
     \<lparr> ce_timestamp = now, ce_description = description, ce_outcome = outcome \<rparr>"

lemma drop_window: "drop (length (drop (length xs - n) xs @ ys) - n) (drop (length xs - n) xs @ ys)
    = drop (length (xs @ ys) - n) (xs @ ys)"
  by (cases "length xs \<le> n") (simp_all add: min_def add.commute)

text \<open>The log is a window of sixteen over the commands recorded.\<close>

lemma record_window:
  "record_all events (drop (length entries - MAX_ENTRIES) entries) =
     (let all_entries = entries @ map entry_of events
      in drop (length all_entries - MAX_ENTRIES) all_entries)"
proof (induction events arbitrary: entries)
  case (Cons event events)
  obtain now description outcome where event: "event = (now, description, outcome)" by (cases event)
  have "RecordCommand now description outcome (drop (length entries - MAX_ENTRIES) entries)
      = drop (length (entries @ [entry_of event]) - MAX_ENTRIES) (entries @ [entry_of event])"
    by (simp only: RecordCommand_def Let_def event entry_of.simps drop_window)
  then show ?case using Cons.IH [of "entries @ [entry_of event]"] by (simp add: event)
qed simp

end
