(* ===== verification/Iaq_Device.thy ===== *)
theory Iaq_Device
  imports Iaq_Schedule_Writer Device_Capabilities
begin

text \<open>
  The AqualinkTouch device (\<open>jandy/devices/iaq_device.h\<close> and \<open>.cpp\<close>, \<open>iaq/iaq_messageprocessors.cpp\<close>):
  its message slots, the one command channel its poll answers form, the requests that use it and the
  three writers behind it. A handler maps the device to the device and what it sends or signals.

  Of the data hub only the spa-switch assignments are modelled; the equipment that a main or auxillary
  status updates is not, and the lines that \<open>RenderStatusScreen\<close> shows come with the message.
\<close>

section \<open>State\<close>

datatype IaqOperatingStates = Iaq_StartUp | Iaq_NormalOperation | Iaq_FaultHasOccurred | Iaq_NotPresent

definition IAQ_STATUS_PAGE_LINES :: u8 where "IAQ_STATUS_PAGE_LINES = 18"
definition IAQ_MESSAGE_TABLE_LINES :: u8 where "IAQ_MESSAGE_TABLE_LINES = 18"
definition IAQ_TIMEOUT_DURATION :: int where "IAQ_TIMEOUT_DURATION = 30"
definition IAQ_CMD_OPEN_SETTEMP_PAGE :: u8 where "IAQ_CMD_OPEN_SETTEMP_PAGE = 0x14"
definition IAQ_CMD_SELECT_POOL_HEAT :: u8 where "IAQ_CMD_SELECT_POOL_HEAT = 0x11"
definition IAQ_CMD_SELECT_SPA_HEAT :: u8 where "IAQ_CMD_SELECT_SPA_HEAT = 0x13"

record IAQDevice =
  iq_Emulated :: Emulated
  iq_Watchdog :: Restartable
  iq_Status :: DeviceStatus
  iq_OpState :: IaqOperatingStates
  iq_HasReceivedData :: bool
  iq_HasReceivedMainStatus :: bool
  iq_PendingCommand :: u8
  iq_CommandQueue :: "u8 list"
  iq_AwaitingControlReady :: bool
  iq_ControlDataValue :: string
  iq_PageModel :: PageModel
  iq_StatusPage :: ScreenDataPage
  iq_TableInfo :: ScreenDataPage
  iq_Screen :: "unit Screen"
  iq_AquaPureWriter :: AquaPureWriter
  iq_SpaSwitchWriter :: SpaSwitchWriter
  iq_ScheduleWriter :: ScheduleWriter
  iq_PageSurvey :: PageSurvey
  iq_Assignments :: assignments
  iq_Store :: "ControllerScheduleStore option"

definition new_iaq_device ::
    "bool \<Rightarrow> int \<Rightarrow> assignments \<Rightarrow> ControllerScheduleStore option \<Rightarrow> IAQDevice" where
  "new_iaq_device is_emulated now known_assignments program_store =
     \<lparr> iq_Emulated = new_emulated is_emulated,
       iq_Watchdog = new_watchdog IAQ_TIMEOUT_DURATION False now,
       iq_Status = DeviceStatus_Unknown, iq_OpState = Iaq_StartUp, iq_HasReceivedData = False,
       iq_HasReceivedMainStatus = False, iq_PendingCommand = 0x00, iq_CommandQueue = [],
       iq_AwaitingControlReady = False, iq_ControlDataValue = [], iq_PageModel = new_page_model,
       iq_StatusPage = new_page (unat IAQ_STATUS_PAGE_LINES),
       iq_TableInfo = new_page (unat IAQ_MESSAGE_TABLE_LINES),
       iq_Screen = new_screen IAQ_STATUS_PAGE_LINES, iq_AquaPureWriter = new_aquapure_writer,
       iq_SpaSwitchWriter = new_spaswitch_writer, iq_ScheduleWriter = new_schedule_writer,
       iq_PageSurvey = new_survey, iq_Assignments = known_assignments, iq_Store = program_store \<rparr>"

text \<open>What leaves the device: an acknowledgement, a control value, a status signal, a goal's log line and
  the answer to a request.\<close>

datatype iaq_output = Out_Ack u8 u8 | Out_ControlData string | Out_Status DeviceStatus | Out_Goal bool
  | Out_Answer ActuationResult

type_synonym iaq_action = "IAQDevice \<Rightarrow> IAQDevice \<times> iaq_output list"

text \<open>Actions run in order, their output is joined.\<close>

fun in_order :: "('s \<Rightarrow> 's \<times> 'o list) list \<Rightarrow> 's \<Rightarrow> 's \<times> 'o list" where
  "in_order [] s = (s, [])"
| "in_order (f # fs) s = (let (s1, out1) = f s; (s2, out2) = in_order fs s1 in (s2, out1 @ out2))"

definition silently :: "('s \<Rightarrow> 's) \<Rightarrow> 's \<Rightarrow> 's \<times> 'o list" where
  "silently f s = (f s, [])"

definition Iaq_Status :: "DeviceStatus \<Rightarrow> iaq_action" where
  "Iaq_Status status d =
     (let (published, signals) = PublishStatus status (iq_Status d)
      in (d \<lparr> iq_Status := published \<rparr>, map Out_Status signals))"

definition Iaq_Ack :: "u8 \<Rightarrow> u8 \<Rightarrow> iaq_action" where
  "Iaq_Ack ack_value data_value d =
     (d, map (\<lambda>(a, c). Out_Ack a c) (Signal_AckMessage ack_value data_value (iq_Emulated d)))"

definition Iaq_Kick :: "int \<Rightarrow> iaq_action" where
  "Iaq_Kick now = silently (\<lambda>d. d \<lparr> iq_Watchdog := Kick now (iq_Watchdog d) \<rparr>)"

section \<open>The command channel\<close>

definition QueueCommand :: "u8 \<Rightarrow> IAQDevice \<Rightarrow> IAQDevice" where
  "QueueCommand cmd d = d \<lparr> iq_PendingCommand := cmd \<rparr>"

definition SelectPageButton :: "u8 \<Rightarrow> IAQDevice \<Rightarrow> IAQDevice" where
  "SelectPageButton button_index d = QueueCommand (IAQ_CMD_PAGE_BUTTON_BASE + button_index) d"

definition EnablePageSurvey :: "PageRegistry \<Rightarrow> IAQDevice \<Rightarrow> IAQDevice" where
  "EnablePageSurvey registry d = d \<lparr> iq_PageSurvey := Survey_Enable registry (iq_PageSurvey d) \<rparr>"

definition MaybeStartPageSurvey :: "IAQDevice \<Rightarrow> IAQDevice" where
  "MaybeStartPageSurvey d =
     (if \<not> IsEmulated (iq_Emulated d) \<or> \<not> IsArmed (iq_PageSurvey d) then d
      else let (survey, cmds) = Consume (iq_PageSurvey d)
           in d \<lparr> iq_PageSurvey := survey, iq_CommandQueue := cmds \<rparr>)"

definition Iaq_IsBusy :: "IAQDevice \<Rightarrow> bool" where
  "Iaq_IsBusy d \<longleftrightarrow> iq_CommandQueue d \<noteq> [] \<or> iq_AwaitingControlReady d"

definition ChannelBusy :: "IAQDevice \<Rightarrow> bool" where
  "ChannelBusy d \<longleftrightarrow>
     Aqua_HasPendingGoal (iq_AquaPureWriter d) \<or> Spa_HasPendingGoal (iq_SpaSwitchWriter d)
     \<or> Prog_HasPendingGoal (iq_ScheduleWriter d) \<or> Iaq_IsBusy d"

fun sink_effect :: "sink_call \<Rightarrow> iaq_action" where
  "sink_effect (IssueCommand cmd) d = (d \<lparr> iq_PendingCommand := cmd \<rparr>, [])"
| "sink_effect (ArmControlValue v) d = (d \<lparr> iq_ControlDataValue := v, iq_AwaitingControlReady := True \<rparr>, [])"
| "sink_effect (ReportGoal ok) d = (d, [Out_Goal ok])"

definition sink_effects :: "sink_call list \<Rightarrow> iaq_action" where
  "sink_effects calls = in_order (map sink_effect calls)"

section \<open>Requests\<close>

definition SetChlorinatorPercentage :: "u8 \<Rightarrow> BodyOfWaterIds \<Rightarrow> IAQDevice \<Rightarrow> IAQDevice \<times> ActuationResult" where
  "SetChlorinatorPercentage percentage body d =
     (let (w, result) = QueuePercentage percentage body (IsEmulationActive (iq_Emulated d)) (ChannelBusy d)
                          (iq_AquaPureWriter d)
      in (d \<lparr> iq_AquaPureWriter := w \<rparr>, result))"

definition SetChlorinatorBoost :: "bool \<Rightarrow> IAQDevice \<Rightarrow> IAQDevice \<times> ActuationResult" where
  "SetChlorinatorBoost enable d =
     (let (w, result) = QueueBoost enable (IsEmulationActive (iq_Emulated d)) (ChannelBusy d)
                          (iq_AquaPureWriter d)
      in (d \<lparr> iq_AquaPureWriter := w \<rparr>, result))"

definition ActuatePageButton :: "u8 \<Rightarrow> IAQDevice \<Rightarrow> IAQDevice \<times> ActuationResult" where
  "ActuatePageButton button_index d = (SelectPageButton button_index d, Accepted)"

text \<open>The device is the label of the auxillary, if it has one; \<open>None\<close> is the null pointer.\<close>

definition ActuateDevice :: "string option option \<Rightarrow> ActuationAction \<Rightarrow> IAQDevice \<Rightarrow> IAQDevice \<times> ActuationResult" where
  "ActuateDevice device action d =
     (case device of
        None \<Rightarrow> (d, MappingFailed)
      | Some label \<Rightarrow>
          if \<not> IsEmulationActive (iq_Emulated d) then (d, NotSupported)
          else if (case label of None \<Rightarrow> True | Some l \<Rightarrow> TrimWhitespace l = []) then (d, MappingFailed)
          else case FindButtonByLabel (iq_PageModel d) (TrimWhitespace (the label)) of
                 None \<Rightarrow> (d, MappingFailed)
               | Some button_index \<Rightarrow>
                   if action \<noteq> Act_On \<and> action \<noteq> Act_Off then (SelectPageButton button_index d, Accepted)
                   else
                     let want_on = (action = Act_On);
                         status = b_status (the (map_of (pm_Buttons (iq_PageModel d)) button_index));
                         is_on = (status = Button_On \<or> status = Button_Enabled
                                  \<or> status = Button_EnabledStandby)
                     in if status \<noteq> Button_Unknown \<and> is_on = want_on then (d, Accepted)
                        else (SelectPageButton button_index d, Accepted))"

definition QueueSetpoint :: "u8 \<Rightarrow> u8 \<Rightarrow> IAQDevice \<Rightarrow> IAQDevice \<times> ActuationResult" where
  "QueueSetpoint select_field_command temperature d =
     (if \<not> IsEmulationActive (iq_Emulated d) then (d, NotSupported)
      else (d \<lparr> iq_CommandQueue := [IAQ_CMD_BACK, IAQ_CMD_OPEN_SETTEMP_PAGE, select_field_command,
                                     IAQ_CMD_SUBMIT_VALUE],
                iq_AwaitingControlReady := True,
                iq_ControlDataValue := IAQ_BUTTON_INDEX_POOL # nat_string (unat temperature) \<rparr>, Accepted))"

definition Iaq_SetPoolSetpoint :: "u8 \<Rightarrow> IAQDevice \<Rightarrow> IAQDevice \<times> ActuationResult" where
  "Iaq_SetPoolSetpoint temperature = QueueSetpoint IAQ_CMD_SELECT_POOL_HEAT temperature"

definition Iaq_SetSpaSetpoint :: "u8 \<Rightarrow> IAQDevice \<Rightarrow> IAQDevice \<times> ActuationResult" where
  "Iaq_SetSpaSetpoint temperature = QueueSetpoint IAQ_CMD_SELECT_SPA_HEAT temperature"

definition Iaq_SetSpaSwitchAssignment :: "u8 \<Rightarrow> u8 \<Rightarrow> string \<Rightarrow> IAQDevice \<Rightarrow> IAQDevice \<times> ActuationResult" where
  "Iaq_SetSpaSwitchAssignment switch button wanted d =
     (let (w, result) = SpaSwitch_Queue switch button wanted (IsEmulationActive (iq_Emulated d)) (ChannelBusy d)
                          (iq_SpaSwitchWriter d)
      in (d \<lparr> iq_SpaSwitchWriter := w \<rparr>, result))"

definition Iaq_AvailableFunctions :: "string list" where
  "Iaq_AvailableFunctions = KnownSpaSwitchFunctions"

definition CreateControllerProgram :: "ControllerSchedule \<Rightarrow> IAQDevice \<Rightarrow> IAQDevice \<times> ActuationResult" where
  "CreateControllerProgram program d =
     (let (w, result) = QueueCreate program (IsEmulated (iq_Emulated d)) (ChannelBusy d) (iq_ScheduleWriter d)
      in (d \<lparr> iq_ScheduleWriter := w \<rparr>, result))"

definition DeleteControllerProgram :: "ControllerSchedule \<Rightarrow> IAQDevice \<Rightarrow> IAQDevice \<times> ActuationResult" where
  "DeleteControllerProgram program d =
     (let (w, result) = QueueDelete program (IsEmulated (iq_Emulated d)) (ChannelBusy d) (iq_ScheduleWriter d)
      in (d \<lparr> iq_ScheduleWriter := w \<rparr>, result))"

definition EditControllerProgram ::
    "ControllerSchedule \<Rightarrow> ControllerSchedule \<Rightarrow> IAQDevice \<Rightarrow> IAQDevice \<times> ActuationResult" where
  "EditControllerProgram existing desired d =
     (let (w, result) = QueueEdit existing desired (IsEmulated (iq_Emulated d)) (ChannelBusy d) (iq_ScheduleWriter d)
      in (d \<lparr> iq_ScheduleWriter := w \<rparr>, result))"

section \<open>Messages\<close>

text \<open>
  The messages addressed to the device with the fields its slots read. A main status carries the lines
  that show it, an auxillary status only updates equipment.
\<close>

datatype iaq_message =
    Msg_Poll
  | Msg_Probe
  | Msg_MainStatus "string list"
  | Msg_AuxStatus
  | Msg_PageStart u8
  | Msg_PageMessage u8 string
  | Msg_PageEnd
  | Msg_PageContinue
  | Msg_PageButton u8 string ButtonStatuses
  | Msg_TitleMessage string
  | Msg_TableMessage u8 u8 string
  | Msg_MessageLong
  | Msg_StartUp
  | Msg_ControlReady
  | Msg_CommandReady
  | Msg_OneTouchStatus
  | Msg_Heartbeat

definition service_spaswitch :: "bool \<Rightarrow> iaq_action" where
  "service_spaswitch is_poll_message d =
     (if is_poll_message \<and> Spa_HasPendingGoal (iq_SpaSwitchWriter d) then
        let (w, calls) = Spa_ProcessStep (iq_PageModel d, Some (iq_Assignments d)) (iq_SpaSwitchWriter d)
        in sink_effects calls (d \<lparr> iq_SpaSwitchWriter := w \<rparr>)
      else (d, []))"

definition observe_menu :: "IAQDevice \<Rightarrow> IAQDevice" where
  "observe_menu d = d \<lparr> iq_AquaPureWriter := ObserveMenuPage (iq_PageModel d) (iq_AquaPureWriter d) \<rparr>"

definition service_aquapure :: "bool \<Rightarrow> iaq_action" where
  "service_aquapure is_poll_message d =
     (if is_poll_message \<and> Aqua_HasPendingGoal (iq_AquaPureWriter d) then
        let (w, calls) = Aqua_ProcessStep (iq_PageModel d) (iq_AquaPureWriter d)
        in sink_effects calls (d \<lparr> iq_AquaPureWriter := w \<rparr>)
      else (d, []))"

definition service_schedule :: "bool \<Rightarrow> iaq_action" where
  "service_schedule is_poll_message d =
     (if is_poll_message \<and> Prog_HasPendingGoal (iq_ScheduleWriter d) then
        let (w, calls) = Prog_ProcessStep (iq_PageModel d, iq_StatusPage d) (iq_ScheduleWriter d)
        in sink_effects calls (d \<lparr> iq_ScheduleWriter := w \<rparr>)
      else (d, []))"

definition send_ack :: "bool \<Rightarrow> iaq_action" where
  "send_ack is_poll_message d =
     (if is_poll_message \<and> iq_CommandQueue d \<noteq> [] then
        Iaq_Ack 0x00 (hd (iq_CommandQueue d)) (d \<lparr> iq_CommandQueue := tl (iq_CommandQueue d) \<rparr>)
      else if is_poll_message \<and> iq_PendingCommand d \<noteq> 0x00 then
        in_order [Iaq_Ack 0x00 (iq_PendingCommand d), silently (\<lambda>d. d \<lparr> iq_PendingCommand := 0x00 \<rparr>)] d
      else Iaq_Ack 0x00 0x00 d)"

definition enter_normal_operation :: iaq_action where
  "enter_normal_operation d = Iaq_Status DeviceStatus_Normal (d \<lparr> iq_OpState := Iaq_NormalOperation \<rparr>)"

definition starting_up :: "iaq_action \<Rightarrow> iaq_action" where
  "starting_up action d = (if iq_OpState d = Iaq_StartUp then action d else (d, []))"

definition update_op_state :: iaq_action where
  "update_op_state = in_order
     [silently (\<lambda>d. d \<lparr> iq_HasReceivedData := True \<rparr>),
      starting_up (\<lambda>d. if \<not> IsEmulated (iq_Emulated d) then enter_normal_operation d else (d, [])),
      starting_up (Iaq_Status DeviceStatus_Initializing)]"

definition ProcessControllerUpdates :: "bool \<Rightarrow> iaq_action" where
  "ProcessControllerUpdates is_poll_message = in_order
     [update_op_state,
      service_spaswitch is_poll_message,
      silently observe_menu,
      service_aquapure is_poll_message,
      service_schedule is_poll_message,
      send_ack is_poll_message]"

text \<open>A screen that shows fixed lines is rebuilt from scratch.\<close>

definition show_lines :: "ScreenDataPageTypes \<Rightarrow> string list \<Rightarrow> unit Screen \<Rightarrow> unit Screen" where
  "show_lines page_type shown screen =
     (let screen = ProcessScreenEvent (screen \<lparr> m_ScreenMode := Updating \<rparr>) evClear;
          line_count = min (unat IAQ_STATUS_PAGE_LINES) (length shown);
          screen = fold (\<lambda>i screen. ProcessScreenEvent screen (evUpdate (of_nat i) (shown ! i))) [0..<line_count] screen
      in screen \<lparr> m_DisplayedPageType := page_type, m_ScreenMode := ModeNormal \<rparr>)"

definition RenderStatusScreen :: "string list \<Rightarrow> IAQDevice \<Rightarrow> IAQDevice" where
  "RenderStatusScreen status_lines d =
     d \<lparr> iq_Screen := show_lines Page_SystemStatus status_lines (iq_Screen d) \<rparr>"

definition cloud_link_lines :: "Restartable \<Rightarrow> string list" where
  "cloud_link_lines watchdog =
     [''iAqualink2 Cloud Link'',
      ''Heartbeat: '' @ (if IsRunning watchdog then ''active'' else ''stale''),
      ''Timeout: '' @ nat_string (nat (GetTimeout watchdog)) @ ''s'',
      ''ACK: 0x1f/0x00 (idle)'']"

definition RenderCloudLinkScreen :: "IAQDevice \<Rightarrow> IAQDevice" where
  "RenderCloudLinkScreen d =
     d \<lparr> iq_Screen := show_lines Page_CloudLink (cloud_link_lines (iq_Watchdog d)) (iq_Screen d) \<rparr>"

definition ProcessMainStatus :: "string list \<Rightarrow> IAQDevice \<Rightarrow> IAQDevice" where
  "ProcessMainStatus status_lines d =
     RenderStatusScreen status_lines (MaybeStartPageSurvey (d \<lparr> iq_HasReceivedMainStatus := True \<rparr>))"

definition program_group :: "string \<Rightarrow> string" where
  "program_group title =
     (let title = TrimWhitespace title in
      if starts_with ''Schedule Group '' title then drop (length ''Schedule Group '') title
      else if starts_with ''Schedule '' title then drop (length ''Schedule '') title
      else title)"

definition published_program :: "string \<Rightarrow> u8 \<times> string \<Rightarrow> ControllerSchedule option" where
  "published_program group_name row =
     (let (ordinal, row_text) = row in
      map_option
        (\<lambda>parsed. parsed \<lparr> c_group := group_name,
                           c_id := ''iaq-'' @ (if group_name = [] then ''?'' else group_name) @ ''-'' @ nat_string (unat ordinal),
                           c_name := c_target parsed \<rparr>)
        (ParseScheduleRow row_text))"

definition PublishSchedulePage :: "IAQDevice \<Rightarrow> IAQDevice" where
  "PublishSchedulePage d =
     (case iq_Store d of
        None \<Rightarrow> d
      | Some program_store \<Rightarrow>
          let group_name = program_group (pm_Title (iq_PageModel d));
              schedules = List.map_filter (published_program group_name) (pm_ScheduleRows (iq_PageModel d))
          in d \<lparr> iq_Store := Some (Store_Replace Available schedules group_name program_store) \<rparr>)"

definition update_page :: "(PageModel \<Rightarrow> PageModel) \<Rightarrow> IAQDevice \<Rightarrow> IAQDevice" where
  "update_page f d = d \<lparr> iq_PageModel := f (iq_PageModel d) \<rparr>"

definition update_status_page :: "screen_event \<Rightarrow> IAQDevice \<Rightarrow> IAQDevice" where
  "update_status_page event d = d \<lparr> iq_StatusPage := react event (iq_StatusPage d) \<rparr>"

definition Signal_ControlDataResponse :: "string \<Rightarrow> iaq_action" where
  "Signal_ControlDataResponse ascii_data d =
     (d, if IsEmulated (iq_Emulated d) then [Out_ControlData ascii_data] else [])"

section \<open>Slots\<close>

text \<open>Every slot but that of the heartbeat ends with the poll work and a kick of the watchdog.\<close>

definition Slot_IAQ_Poll :: "int \<Rightarrow> iaq_action" where
  "Slot_IAQ_Poll now = in_order [ProcessControllerUpdates True, Iaq_Kick now]"

definition Slot_IAQ_Probe :: "int \<Rightarrow> iaq_action" where
  "Slot_IAQ_Probe now d =
     (if \<not> IsEmulated (iq_Emulated d) then (d, [])
      else in_order [ProcessControllerUpdates False, Iaq_Kick now] d)"

definition Slot_IAQ_MainStatus :: "int \<Rightarrow> string list \<Rightarrow> iaq_action" where
  "Slot_IAQ_MainStatus now status_lines = in_order
     [silently (ProcessMainStatus status_lines),
      starting_up enter_normal_operation,
      ProcessControllerUpdates False, Iaq_Kick now]"

definition Slot_IAQ_AuxStatus :: "int \<Rightarrow> iaq_action" where
  "Slot_IAQ_AuxStatus now = in_order
     [starting_up enter_normal_operation,
      ProcessControllerUpdates False, Iaq_Kick now]"

definition Slot_IAQ_PageStart :: "int \<Rightarrow> u8 \<Rightarrow> iaq_action" where
  "Slot_IAQ_PageStart now page_id = in_order
     [silently (update_page (OnPageStart page_id)),
      silently (update_status_page evSequenceStart), silently (update_status_page evClear),
      ProcessControllerUpdates False, Iaq_Kick now]"

definition Slot_IAQ_PageMessage :: "int \<Rightarrow> u8 \<Rightarrow> string \<Rightarrow> iaq_action" where
  "Slot_IAQ_PageMessage now line_id line = in_order
     [silently (\<lambda>d. if IAQ_STATUS_PAGE_LINES \<le> line_id then d else update_status_page (evUpdate line_id line) d),
      ProcessControllerUpdates False, Iaq_Kick now]"

definition Slot_IAQ_PageEnd :: "int \<Rightarrow> iaq_action" where
  "Slot_IAQ_PageEnd now = in_order
     [silently (update_status_page evSequenceEnd),
      silently (\<lambda>d. if pm_PageId (iq_PageModel d) = IAQ_SCHEDULE_PAGE_ID then PublishSchedulePage d else d),
      ProcessControllerUpdates False, Iaq_Kick now]"

definition Slot_IAQ_PageButton :: "int \<Rightarrow> u8 \<Rightarrow> string \<Rightarrow> ButtonStatuses \<Rightarrow> iaq_action" where
  "Slot_IAQ_PageButton now button_index name status = in_order
     [silently (update_page (if TrimWhitespace name = [] then EraseButton button_index
                             else UpsertButton button_index name status)),
      ProcessControllerUpdates False, Iaq_Kick now]"

definition Slot_IAQ_TitleMessage :: "int \<Rightarrow> string \<Rightarrow> iaq_action" where
  "Slot_IAQ_TitleMessage now title = in_order
     [silently (update_page (SetTitle title)), ProcessControllerUpdates False, Iaq_Kick now]"

definition table_row :: "u8 \<Rightarrow> u8 \<Rightarrow> string \<Rightarrow> IAQDevice \<Rightarrow> IAQDevice" where
  "table_row line_id attribute line d =
     (let d = (if IAQ_MESSAGE_TABLE_LINES \<le> line_id then d
               else d \<lparr> iq_TableInfo := (iq_TableInfo d)[unat line_id :=
                          ((iq_TableInfo d) ! unat line_id) \<lparr> Text := line \<rparr>] \<rparr>);
          page_id = pm_PageId (iq_PageModel d);
          d = (if page_id = IAQ_SCHEDULE_PAGE_ID then update_page (SetScheduleRow attribute line) d else d);
          d = (if page_id = IAQ_DEVICE_PICKER_PAGE_ID \<and> line_id = 0x00 \<and> attribute \<noteq> 0x00
               then update_page (SetDevicePickerRow attribute line) d else d);
          d = (if line_id = 0x00 then
                 (case ParseSpaSwitchAssignmentLine line of
                    None \<Rightarrow> d
                  | Some a \<Rightarrow> d \<lparr> iq_Assignments :=
                      (iq_Assignments d)((switch_number a, button_number a) \<mapsto> assigned_function a) \<rparr>)
               else d)
      in if line_id = 0x01 then
           (if attribute = 0x00 then update_page ClearSpaSwitchPickerRows d
            else update_page (SetSpaSwitchPickerRow attribute
                   (TrimWhitespace (takeWhile (\<lambda>c. c \<noteq> CHR ''?'') line))) d)
         else d)"

definition Slot_IAQ_TableMessage :: "int \<Rightarrow> u8 \<Rightarrow> u8 \<Rightarrow> string \<Rightarrow> iaq_action" where
  "Slot_IAQ_TableMessage now line_id attribute line = in_order
     [silently (table_row line_id attribute line), ProcessControllerUpdates False, Iaq_Kick now]"

definition Slot_IAQ_ControlReady :: "int \<Rightarrow> iaq_action" where
  "Slot_IAQ_ControlReady now = in_order
     [(\<lambda>d. if iq_AwaitingControlReady d \<and> iq_ControlDataValue d \<noteq> [] then
            in_order [Signal_ControlDataResponse (iq_ControlDataValue d),
                      silently (\<lambda>d. d \<lparr> iq_AwaitingControlReady := False, iq_ControlDataValue := [] \<rparr>)] d
          else ProcessControllerUpdates False d),
      Iaq_Kick now]"

text \<open>The slots that only report activity: page continue, long message, start-up, command ready and status.\<close>

definition Slot_IAQ_Activity :: "int \<Rightarrow> iaq_action" where
  "Slot_IAQ_Activity now = in_order [ProcessControllerUpdates False, Iaq_Kick now]"

definition Slot_IAQ_Heartbeat :: "int \<Rightarrow> iaq_action" where
  "Slot_IAQ_Heartbeat now = in_order
     [Iaq_Ack 0x1f 0x00,
      starting_up (\<lambda>d. if \<not> IsEmulated (iq_Emulated d) then enter_normal_operation d else (d, [])),
      Iaq_Kick now,
      silently (\<lambda>d. if iq_HasReceivedMainStatus d then d else RenderCloudLinkScreen d)]"

fun iaq_slot :: "int \<Rightarrow> iaq_message \<Rightarrow> iaq_action" where
  "iaq_slot now Msg_Poll = Slot_IAQ_Poll now"
| "iaq_slot now Msg_Probe = Slot_IAQ_Probe now"
| "iaq_slot now (Msg_MainStatus status_lines) = Slot_IAQ_MainStatus now status_lines"
| "iaq_slot now Msg_AuxStatus = Slot_IAQ_AuxStatus now"
| "iaq_slot now (Msg_PageStart page_id) = Slot_IAQ_PageStart now page_id"
| "iaq_slot now (Msg_PageMessage line_id line) = Slot_IAQ_PageMessage now line_id line"
| "iaq_slot now Msg_PageEnd = Slot_IAQ_PageEnd now"
| "iaq_slot now Msg_PageContinue = Slot_IAQ_Activity now"
| "iaq_slot now (Msg_PageButton i name status) = Slot_IAQ_PageButton now i name status"
| "iaq_slot now (Msg_TitleMessage title) = Slot_IAQ_TitleMessage now title"
| "iaq_slot now (Msg_TableMessage line_id attribute line) = Slot_IAQ_TableMessage now line_id attribute line"
| "iaq_slot now Msg_MessageLong = Slot_IAQ_Activity now"
| "iaq_slot now Msg_StartUp = Slot_IAQ_Activity now"
| "iaq_slot now Msg_ControlReady = Slot_IAQ_ControlReady now"
| "iaq_slot now Msg_CommandReady = Slot_IAQ_Activity now"
| "iaq_slot now Msg_OneTouchStatus = Slot_IAQ_Activity now"
| "iaq_slot now Msg_Heartbeat = Slot_IAQ_Heartbeat now"

section \<open>The watchdog\<close>

definition WatchdogTimeoutOccurred :: iaq_action where
  "WatchdogTimeoutOccurred d =
     (if iq_OpState d = Iaq_NotPresent then (d, [])
      else if iq_OpState d = Iaq_StartUp then
        (if iq_HasReceivedData d
         then Iaq_Status DeviceStatus_FaultOccurred (d \<lparr> iq_OpState := Iaq_FaultHasOccurred \<rparr>)
         else Iaq_Status DeviceStatus_Initializing (d \<lparr> iq_OpState := Iaq_NotPresent \<rparr>))
      else (d, []))"

definition Iaq_CheckWatchdog :: "int \<Rightarrow> iaq_action" where
  "Iaq_CheckWatchdog now d =
     (let (watchdog, fired) = CheckWatchdog now (iq_Watchdog d); d = d \<lparr> iq_Watchdog := watchdog \<rparr>
      in if fired then WatchdogTimeoutOccurred d else (d, []))"


section \<open>Everything that happens to a device\<close>

datatype iaq_request =
    Req_Percentage u8 BodyOfWaterIds
  | Req_Boost bool
  | Req_PageButton u8
  | Req_Actuate "string option option" ActuationAction
  | Req_PoolSetpoint u8
  | Req_SpaSetpoint u8
  | Req_SpaSwitch u8 u8 string
  | Req_CreateProgram ControllerSchedule
  | Req_DeleteProgram ControllerSchedule
  | Req_EditProgram ControllerSchedule ControllerSchedule

fun iaq_answer :: "iaq_request \<Rightarrow> IAQDevice \<Rightarrow> IAQDevice \<times> ActuationResult" where
  "iaq_answer (Req_Percentage percentage body) = SetChlorinatorPercentage percentage body"
| "iaq_answer (Req_Boost enable) = SetChlorinatorBoost enable"
| "iaq_answer (Req_PageButton button_index) = ActuatePageButton button_index"
| "iaq_answer (Req_Actuate device action) = ActuateDevice device action"
| "iaq_answer (Req_PoolSetpoint temperature) = Iaq_SetPoolSetpoint temperature"
| "iaq_answer (Req_SpaSetpoint temperature) = Iaq_SetSpaSetpoint temperature"
| "iaq_answer (Req_SpaSwitch switch button wanted) = Iaq_SetSpaSwitchAssignment switch button wanted"
| "iaq_answer (Req_CreateProgram program) = CreateControllerProgram program"
| "iaq_answer (Req_DeleteProgram program) = DeleteControllerProgram program"
| "iaq_answer (Req_EditProgram existing desired) = EditControllerProgram existing desired"

datatype iaq_event =
    Ev_Message int iaq_message
  | Ev_Watchdog int
  | Ev_Request iaq_request
  | Ev_EnableSurvey PageRegistry
  | Ev_Suppress

fun iaq_step :: "iaq_event \<Rightarrow> iaq_action" where
  "iaq_step (Ev_Message now m) d = iaq_slot now m d"
| "iaq_step (Ev_Watchdog now) d = Iaq_CheckWatchdog now d"
| "iaq_step (Ev_Request r) d = (let (d, result) = iaq_answer r d in (d, [Out_Answer result]))"
| "iaq_step (Ev_EnableSurvey registry) d = (EnablePageSurvey registry d, [])"
| "iaq_step Ev_Suppress d = (d \<lparr> iq_Emulated := SuppressEmulation (iq_Emulated d) \<rparr>, [])"

section \<open>Frames\<close>

lemma in_order_Cons [simp]:
  "in_order (f # fs) s = (fst (in_order fs (fst (f s))), snd (f s) @ snd (in_order fs (fst (f s))))"
  by (simp add: case_prod_beta)

declare in_order.simps(2) [simp del]

lemma silently_simps [simp]: "fst (silently f s) = f s" "snd (silently f s) = []"
  by (simp_all add: silently_def)

text \<open>A sink changes the pending command and the control value, a status what is published.\<close>

lemma sink_effect_frame [simp]:
  "iq_Emulated (fst (sink_effect call d)) = iq_Emulated d"
  "iq_Watchdog (fst (sink_effect call d)) = iq_Watchdog d"
  "iq_Status (fst (sink_effect call d)) = iq_Status d"
  "iq_OpState (fst (sink_effect call d)) = iq_OpState d"
  "iq_HasReceivedData (fst (sink_effect call d)) = iq_HasReceivedData d"
  "iq_HasReceivedMainStatus (fst (sink_effect call d)) = iq_HasReceivedMainStatus d"
  "iq_CommandQueue (fst (sink_effect call d)) = iq_CommandQueue d"
  "iq_PageModel (fst (sink_effect call d)) = iq_PageModel d"
  "iq_StatusPage (fst (sink_effect call d)) = iq_StatusPage d"
  "iq_Screen (fst (sink_effect call d)) = iq_Screen d"
  "iq_AquaPureWriter (fst (sink_effect call d)) = iq_AquaPureWriter d"
  "iq_SpaSwitchWriter (fst (sink_effect call d)) = iq_SpaSwitchWriter d"
  "iq_ScheduleWriter (fst (sink_effect call d)) = iq_ScheduleWriter d"
  "iq_PageSurvey (fst (sink_effect call d)) = iq_PageSurvey d"
  "iq_Assignments (fst (sink_effect call d)) = iq_Assignments d"
  "iq_Store (fst (sink_effect call d)) = iq_Store d"
  by (cases call; simp)+

lemma sink_effects_simps [simp]:
  "sink_effects [] d = (d, [])"
  "sink_effects (call # calls) d =
     (fst (sink_effects calls (fst (sink_effect call d))),
      snd (sink_effect call d) @ snd (sink_effects calls (fst (sink_effect call d))))"
  by (simp_all add: sink_effects_def)

lemma sink_effects_frame [simp]:
  "iq_Emulated (fst (sink_effects calls d)) = iq_Emulated d"
  "iq_Watchdog (fst (sink_effects calls d)) = iq_Watchdog d"
  "iq_Status (fst (sink_effects calls d)) = iq_Status d"
  "iq_OpState (fst (sink_effects calls d)) = iq_OpState d"
  "iq_HasReceivedData (fst (sink_effects calls d)) = iq_HasReceivedData d"
  "iq_HasReceivedMainStatus (fst (sink_effects calls d)) = iq_HasReceivedMainStatus d"
  "iq_CommandQueue (fst (sink_effects calls d)) = iq_CommandQueue d"
  "iq_PageModel (fst (sink_effects calls d)) = iq_PageModel d"
  "iq_StatusPage (fst (sink_effects calls d)) = iq_StatusPage d"
  "iq_Screen (fst (sink_effects calls d)) = iq_Screen d"
  "iq_AquaPureWriter (fst (sink_effects calls d)) = iq_AquaPureWriter d"
  "iq_SpaSwitchWriter (fst (sink_effects calls d)) = iq_SpaSwitchWriter d"
  "iq_ScheduleWriter (fst (sink_effects calls d)) = iq_ScheduleWriter d"
  "iq_PageSurvey (fst (sink_effects calls d)) = iq_PageSurvey d"
  "iq_Assignments (fst (sink_effects calls d)) = iq_Assignments d"
  "iq_Store (fst (sink_effects calls d)) = iq_Store d"
  by (induction calls arbitrary: d) simp_all

lemma Iaq_Status_frame [simp]:
  "iq_Emulated (fst (Iaq_Status status d)) = iq_Emulated d"
  "iq_Watchdog (fst (Iaq_Status status d)) = iq_Watchdog d"
  "iq_OpState (fst (Iaq_Status status d)) = iq_OpState d"
  "iq_HasReceivedData (fst (Iaq_Status status d)) = iq_HasReceivedData d"
  "iq_HasReceivedMainStatus (fst (Iaq_Status status d)) = iq_HasReceivedMainStatus d"
  "iq_CommandQueue (fst (Iaq_Status status d)) = iq_CommandQueue d"
  "iq_PageModel (fst (Iaq_Status status d)) = iq_PageModel d"
  "iq_StatusPage (fst (Iaq_Status status d)) = iq_StatusPage d"
  "iq_Screen (fst (Iaq_Status status d)) = iq_Screen d"
  "iq_AquaPureWriter (fst (Iaq_Status status d)) = iq_AquaPureWriter d"
  "iq_SpaSwitchWriter (fst (Iaq_Status status d)) = iq_SpaSwitchWriter d"
  "iq_ScheduleWriter (fst (Iaq_Status status d)) = iq_ScheduleWriter d"
  "iq_PageSurvey (fst (Iaq_Status status d)) = iq_PageSurvey d"
  "iq_Assignments (fst (Iaq_Status status d)) = iq_Assignments d"
  "iq_Store (fst (Iaq_Status status d)) = iq_Store d"
  "iq_AwaitingControlReady (fst (Iaq_Status status d)) = iq_AwaitingControlReady d"
  "iq_ControlDataValue (fst (Iaq_Status status d)) = iq_ControlDataValue d"
  "iq_PendingCommand (fst (Iaq_Status status d)) = iq_PendingCommand d"
  by (simp_all add: Iaq_Status_def PublishStatus_def)

lemma Iaq_Ack_fst [simp]: "fst (Iaq_Ack a c d) = d"
  by (simp add: Iaq_Ack_def)

lemma update_op_state_frame [simp]:
  "iq_Emulated (fst (update_op_state d)) = iq_Emulated d"
  "iq_Watchdog (fst (update_op_state d)) = iq_Watchdog d"
  "iq_HasReceivedMainStatus (fst (update_op_state d)) = iq_HasReceivedMainStatus d"
  "iq_CommandQueue (fst (update_op_state d)) = iq_CommandQueue d"
  "iq_PageModel (fst (update_op_state d)) = iq_PageModel d"
  "iq_StatusPage (fst (update_op_state d)) = iq_StatusPage d"
  "iq_Screen (fst (update_op_state d)) = iq_Screen d"
  "iq_AquaPureWriter (fst (update_op_state d)) = iq_AquaPureWriter d"
  "iq_SpaSwitchWriter (fst (update_op_state d)) = iq_SpaSwitchWriter d"
  "iq_ScheduleWriter (fst (update_op_state d)) = iq_ScheduleWriter d"
  "iq_PageSurvey (fst (update_op_state d)) = iq_PageSurvey d"
  "iq_Assignments (fst (update_op_state d)) = iq_Assignments d"
  "iq_Store (fst (update_op_state d)) = iq_Store d"
  "iq_AwaitingControlReady (fst (update_op_state d)) = iq_AwaitingControlReady d"
  "iq_ControlDataValue (fst (update_op_state d)) = iq_ControlDataValue d"
  "iq_PendingCommand (fst (update_op_state d)) = iq_PendingCommand d"
  by (simp_all add: update_op_state_def starting_up_def enter_normal_operation_def)

lemma service_frames [simp]:
  "iq_Emulated (fst (service_spaswitch polled d)) = iq_Emulated d"
  "iq_Watchdog (fst (service_spaswitch polled d)) = iq_Watchdog d"
  "iq_Status (fst (service_spaswitch polled d)) = iq_Status d"
  "iq_OpState (fst (service_spaswitch polled d)) = iq_OpState d"
  "iq_HasReceivedData (fst (service_spaswitch polled d)) = iq_HasReceivedData d"
  "iq_HasReceivedMainStatus (fst (service_spaswitch polled d)) = iq_HasReceivedMainStatus d"
  "iq_CommandQueue (fst (service_spaswitch polled d)) = iq_CommandQueue d"
  "iq_PageModel (fst (service_spaswitch polled d)) = iq_PageModel d"
  "iq_StatusPage (fst (service_spaswitch polled d)) = iq_StatusPage d"
  "iq_Screen (fst (service_spaswitch polled d)) = iq_Screen d"
  "iq_AquaPureWriter (fst (service_spaswitch polled d)) = iq_AquaPureWriter d"
  "iq_ScheduleWriter (fst (service_spaswitch polled d)) = iq_ScheduleWriter d"
  "iq_PageSurvey (fst (service_spaswitch polled d)) = iq_PageSurvey d"
  "iq_Assignments (fst (service_spaswitch polled d)) = iq_Assignments d"
  "iq_Store (fst (service_spaswitch polled d)) = iq_Store d"
  "iq_Emulated (fst (service_aquapure polled d)) = iq_Emulated d"
  "iq_Watchdog (fst (service_aquapure polled d)) = iq_Watchdog d"
  "iq_Status (fst (service_aquapure polled d)) = iq_Status d"
  "iq_OpState (fst (service_aquapure polled d)) = iq_OpState d"
  "iq_HasReceivedData (fst (service_aquapure polled d)) = iq_HasReceivedData d"
  "iq_HasReceivedMainStatus (fst (service_aquapure polled d)) = iq_HasReceivedMainStatus d"
  "iq_CommandQueue (fst (service_aquapure polled d)) = iq_CommandQueue d"
  "iq_PageModel (fst (service_aquapure polled d)) = iq_PageModel d"
  "iq_StatusPage (fst (service_aquapure polled d)) = iq_StatusPage d"
  "iq_Screen (fst (service_aquapure polled d)) = iq_Screen d"
  "iq_SpaSwitchWriter (fst (service_aquapure polled d)) = iq_SpaSwitchWriter d"
  "iq_ScheduleWriter (fst (service_aquapure polled d)) = iq_ScheduleWriter d"
  "iq_PageSurvey (fst (service_aquapure polled d)) = iq_PageSurvey d"
  "iq_Assignments (fst (service_aquapure polled d)) = iq_Assignments d"
  "iq_Store (fst (service_aquapure polled d)) = iq_Store d"
  "iq_Emulated (fst (service_schedule polled d)) = iq_Emulated d"
  "iq_Watchdog (fst (service_schedule polled d)) = iq_Watchdog d"
  "iq_Status (fst (service_schedule polled d)) = iq_Status d"
  "iq_OpState (fst (service_schedule polled d)) = iq_OpState d"
  "iq_HasReceivedData (fst (service_schedule polled d)) = iq_HasReceivedData d"
  "iq_HasReceivedMainStatus (fst (service_schedule polled d)) = iq_HasReceivedMainStatus d"
  "iq_CommandQueue (fst (service_schedule polled d)) = iq_CommandQueue d"
  "iq_PageModel (fst (service_schedule polled d)) = iq_PageModel d"
  "iq_StatusPage (fst (service_schedule polled d)) = iq_StatusPage d"
  "iq_Screen (fst (service_schedule polled d)) = iq_Screen d"
  "iq_AquaPureWriter (fst (service_schedule polled d)) = iq_AquaPureWriter d"
  "iq_SpaSwitchWriter (fst (service_schedule polled d)) = iq_SpaSwitchWriter d"
  "iq_PageSurvey (fst (service_schedule polled d)) = iq_PageSurvey d"
  "iq_Assignments (fst (service_schedule polled d)) = iq_Assignments d"
  "iq_Store (fst (service_schedule polled d)) = iq_Store d"
  by (simp_all add: service_spaswitch_def service_aquapure_def service_schedule_def case_prod_beta)

text \<open>A writer without a goal does nothing when it is serviced, so the test is only a short cut.\<close>

lemma serviced [simp]:
  "iq_SpaSwitchWriter (fst (service_spaswitch polled d)) =
     (if polled then fst (Spa_ProcessStep (iq_PageModel d, Some (iq_Assignments d)) (iq_SpaSwitchWriter d))
      else iq_SpaSwitchWriter d)"
  "iq_AquaPureWriter (fst (service_aquapure polled d)) =
     (if polled then fst (Aqua_ProcessStep (iq_PageModel d) (iq_AquaPureWriter d)) else iq_AquaPureWriter d)"
  "iq_ScheduleWriter (fst (service_schedule polled d)) =
     (if polled then fst (Prog_ProcessStep (iq_PageModel d, iq_StatusPage d) (iq_ScheduleWriter d))
      else iq_ScheduleWriter d)"
  by (simp_all add: service_spaswitch_def service_aquapure_def service_schedule_def case_prod_beta
      spa.silent aqua.silent prog.silent)

lemma send_ack_frame [simp]:
  "iq_Emulated (fst (send_ack polled d)) = iq_Emulated d"
  "iq_Watchdog (fst (send_ack polled d)) = iq_Watchdog d"
  "iq_Status (fst (send_ack polled d)) = iq_Status d"
  "iq_OpState (fst (send_ack polled d)) = iq_OpState d"
  "iq_HasReceivedData (fst (send_ack polled d)) = iq_HasReceivedData d"
  "iq_HasReceivedMainStatus (fst (send_ack polled d)) = iq_HasReceivedMainStatus d"
  "iq_PageModel (fst (send_ack polled d)) = iq_PageModel d"
  "iq_StatusPage (fst (send_ack polled d)) = iq_StatusPage d"
  "iq_Screen (fst (send_ack polled d)) = iq_Screen d"
  "iq_AquaPureWriter (fst (send_ack polled d)) = iq_AquaPureWriter d"
  "iq_SpaSwitchWriter (fst (send_ack polled d)) = iq_SpaSwitchWriter d"
  "iq_ScheduleWriter (fst (send_ack polled d)) = iq_ScheduleWriter d"
  "iq_PageSurvey (fst (send_ack polled d)) = iq_PageSurvey d"
  "iq_Assignments (fst (send_ack polled d)) = iq_Assignments d"
  "iq_Store (fst (send_ack polled d)) = iq_Store d"
  "iq_AwaitingControlReady (fst (send_ack polled d)) = iq_AwaitingControlReady d"
  "iq_ControlDataValue (fst (send_ack polled d)) = iq_ControlDataValue d"
  by (simp_all add: send_ack_def)

lemma ProcessControllerUpdates_frame [simp]:
  "iq_Emulated (fst (ProcessControllerUpdates polled d)) = iq_Emulated d"
  "iq_Watchdog (fst (ProcessControllerUpdates polled d)) = iq_Watchdog d"
  "iq_HasReceivedMainStatus (fst (ProcessControllerUpdates polled d)) = iq_HasReceivedMainStatus d"
  "iq_PageModel (fst (ProcessControllerUpdates polled d)) = iq_PageModel d"
  "iq_StatusPage (fst (ProcessControllerUpdates polled d)) = iq_StatusPage d"
  "iq_Screen (fst (ProcessControllerUpdates polled d)) = iq_Screen d"
  "iq_PageSurvey (fst (ProcessControllerUpdates polled d)) = iq_PageSurvey d"
  "iq_Assignments (fst (ProcessControllerUpdates polled d)) = iq_Assignments d"
  "iq_Store (fst (ProcessControllerUpdates polled d)) = iq_Store d"
  by (simp_all add: ProcessControllerUpdates_def observe_menu_def)

lemma ProcessControllerUpdates_writers [simp]:
  "iq_SpaSwitchWriter (fst (ProcessControllerUpdates polled d)) =
     (if polled then fst (Spa_ProcessStep (iq_PageModel d, Some (iq_Assignments d)) (iq_SpaSwitchWriter d))
      else iq_SpaSwitchWriter d)"
  "iq_AquaPureWriter (fst (ProcessControllerUpdates polled d)) =
     (let w = ObserveMenuPage (iq_PageModel d) (iq_AquaPureWriter d)
      in if polled then fst (Aqua_ProcessStep (iq_PageModel d) w) else w)"
  "iq_ScheduleWriter (fst (ProcessControllerUpdates polled d)) =
     (if polled then fst (Prog_ProcessStep (iq_PageModel d, iq_StatusPage d) (iq_ScheduleWriter d))
      else iq_ScheduleWriter d)"
  by (simp_all add: ProcessControllerUpdates_def observe_menu_def Let_def)

section \<open>Goals end\<close>

lemma starting_up_frame [simp]:
  "iq_SpaSwitchWriter (fst (starting_up enter_normal_operation d)) = iq_SpaSwitchWriter d"
  "iq_AquaPureWriter (fst (starting_up enter_normal_operation d)) = iq_AquaPureWriter d"
  "iq_ScheduleWriter (fst (starting_up enter_normal_operation d)) = iq_ScheduleWriter d"
  by (simp_all add: starting_up_def enter_normal_operation_def)

lemma page_update_frame [simp]:
  "iq_SpaSwitchWriter (update_page f d) = iq_SpaSwitchWriter d"
  "iq_AquaPureWriter (update_page f d) = iq_AquaPureWriter d"
  "iq_ScheduleWriter (update_page f d) = iq_ScheduleWriter d"
  "iq_SpaSwitchWriter (update_status_page event d) = iq_SpaSwitchWriter d"
  "iq_AquaPureWriter (update_status_page event d) = iq_AquaPureWriter d"
  "iq_ScheduleWriter (update_status_page event d) = iq_ScheduleWriter d"
  "iq_SpaSwitchWriter (PublishSchedulePage d) = iq_SpaSwitchWriter d"
  "iq_AquaPureWriter (PublishSchedulePage d) = iq_AquaPureWriter d"
  "iq_ScheduleWriter (PublishSchedulePage d) = iq_ScheduleWriter d"
  "iq_SpaSwitchWriter (ProcessMainStatus status_lines d) = iq_SpaSwitchWriter d"
  "iq_AquaPureWriter (ProcessMainStatus status_lines d) = iq_AquaPureWriter d"
  "iq_ScheduleWriter (ProcessMainStatus status_lines d) = iq_ScheduleWriter d"
  "iq_SpaSwitchWriter (table_row line_id attribute line d) = iq_SpaSwitchWriter d"
  "iq_AquaPureWriter (table_row line_id attribute line d) = iq_AquaPureWriter d"
  "iq_ScheduleWriter (table_row line_id attribute line d) = iq_ScheduleWriter d"
  "iq_SpaSwitchWriter (RenderCloudLinkScreen d) = iq_SpaSwitchWriter d"
  "iq_AquaPureWriter (RenderCloudLinkScreen d) = iq_AquaPureWriter d"
  "iq_ScheduleWriter (RenderCloudLinkScreen d) = iq_ScheduleWriter d"
  by (simp_all add: update_page_def update_status_page_def PublishSchedulePage_def ProcessMainStatus_def
      RenderStatusScreen_def RenderCloudLinkScreen_def MaybeStartPageSurvey_def table_row_def Let_def
      case_prod_beta split: option.split)

declare iaq_slot.simps [simp del]

lemmas iaq_slots = iaq_slot.simps
  Slot_IAQ_Poll_def Slot_IAQ_Probe_def Slot_IAQ_MainStatus_def Slot_IAQ_AuxStatus_def
  Slot_IAQ_PageStart_def Slot_IAQ_PageMessage_def Slot_IAQ_PageEnd_def Slot_IAQ_PageButton_def
  Slot_IAQ_TitleMessage_def Slot_IAQ_TableMessage_def Slot_IAQ_ControlReady_def Slot_IAQ_Activity_def
  Slot_IAQ_Heartbeat_def

text \<open>What a message does to the writers: a poll serves them, any other message leaves their goals alone.\<close>

lemma slot_spa:
  "iq_SpaSwitchWriter (fst (iaq_slot now m d)) =
     (if m = Msg_Poll then fst (Spa_ProcessStep (iq_PageModel d, Some (iq_Assignments d)) (iq_SpaSwitchWriter d))
      else iq_SpaSwitchWriter d)"
  by (cases m) (simp_all add: iaq_slots Iaq_Kick_def starting_up_def enter_normal_operation_def Signal_ControlDataResponse_def)

lemma slot_schedule:
  "iq_ScheduleWriter (fst (iaq_slot now m d)) =
     (if m = Msg_Poll then fst (Prog_ProcessStep (iq_PageModel d, iq_StatusPage d) (iq_ScheduleWriter d))
      else iq_ScheduleWriter d)"
  by (cases m) (simp_all add: iaq_slots Iaq_Kick_def starting_up_def enter_normal_operation_def Signal_ControlDataResponse_def)

lemma slot_aqua_poll:
  "iq_AquaPureWriter (fst (iaq_slot now Msg_Poll d)) =
     fst (Aqua_ProcessStep (iq_PageModel d) (ObserveMenuPage (iq_PageModel d) (iq_AquaPureWriter d)))"
  by (simp add: iaq_slots Iaq_Kick_def)

lemma slot_aqua_other:
  assumes "m \<noteq> Msg_Poll"
  shows "\<exists>page. iq_AquaPureWriter (fst (iaq_slot now m d)) = ObserveMenuPage page (iq_AquaPureWriter d)"
proof -
  have unseen: "w = ObserveMenuPage new_page_model w" for w
    by (simp add: ObserveMenuPage_def new_page_model_def IAQ_PAGE_MENU_def)
  show ?thesis using assms unseen [of "iq_AquaPureWriter d"]
    by (cases m) (auto simp: iaq_slots Iaq_Kick_def starting_up_def enter_normal_operation_def
        Signal_ControlDataResponse_def)
qed

lemma observed_goal [simp]: "Aqua_HasPendingGoal (ObserveMenuPage page w) = Aqua_HasPendingGoal w"
  by (simp add: Aqua_HasPendingGoal_def)

lemma observed_in_time [simp]: "aqua.in_time (ObserveMenuPage page w) = aqua.in_time w"
  by (simp add: aqua.in_time_def)

text \<open>So each of the three goals is served by the polls among all the messages.\<close>

definition iaq_handle :: "int \<times> iaq_message \<Rightarrow> iaq_action" where
  "iaq_handle m d = iaq_slot (fst m) (snd m) d"

definition polled :: "int \<times> iaq_message \<Rightarrow> bool" where
  "polled m \<longleftrightarrow> snd m = Msg_Poll"

interpretation spa_goal: polled_goal iaq_handle polled "\<lambda>d. Spa_HasPendingGoal (iq_SpaSwitchWriter d)"
    "\<lambda>d. spa.in_time (iq_SpaSwitchWriter d)" "\<lambda>d. unat (sw_PollCount (iq_SpaSwitchWriter d))" "unat (400 :: u32)"
  by unfold_locales
    (use spa.in_time_step spa.silent spa.progress in \<open>auto simp: iaq_handle_def polled_def slot_spa\<close>)

interpretation program_goal: polled_goal iaq_handle polled "\<lambda>d. Prog_HasPendingGoal (iq_ScheduleWriter d)"
    "\<lambda>d. prog.in_time (iq_ScheduleWriter d)" "\<lambda>d. unat (pw_PollCount (iq_ScheduleWriter d))" "unat (400 :: u32)"
  by unfold_locales
    (use prog.in_time_step prog.silent prog.progress in \<open>auto simp: iaq_handle_def polled_def slot_schedule\<close>)

interpretation aqua_goal: polled_goal iaq_handle polled "\<lambda>d. Aqua_HasPendingGoal (iq_AquaPureWriter d)"
    "\<lambda>d. aqua.in_time (iq_AquaPureWriter d)" "\<lambda>d. unat (aw_PollCount (iq_AquaPureWriter d))" "unat (201 :: u32)"
proof
  fix d :: IAQDevice and m :: "int \<times> iaq_message"
  obtain now msg where m: "m = (now, msg)" by (cases m)
  let ?w = "iq_AquaPureWriter d" and ?w' = "iq_AquaPureWriter (fst (iaq_handle m d))"
  have other: "\<exists>page. ?w' = ObserveMenuPage page ?w" if "\<not> polled m"
    using slot_aqua_other [of msg now d] that by (simp add: m iaq_handle_def polled_def)
  have poll: "?w' = fst (Aqua_ProcessStep (iq_PageModel d) (ObserveMenuPage (iq_PageModel d) ?w))" if "polled m"
    using that by (simp add: m iaq_handle_def polled_def slot_aqua_poll)
  show "aqua.in_time ?w \<Longrightarrow> aqua.in_time ?w'"
    using poll other aqua.in_time_step by (cases "polled m") auto
  show "\<not> Aqua_HasPendingGoal ?w \<Longrightarrow> \<not> Aqua_HasPendingGoal ?w'"
    using poll other aqua.silent by (cases "polled m") auto
  show "unat (aw_PollCount ?w) < unat (201 :: u32) \<and> unat (aw_PollCount ?w') = Suc (unat (aw_PollCount ?w))"
    if "aqua.in_time ?w" "Aqua_HasPendingGoal ?w" "Aqua_HasPendingGoal ?w'" "polled m"
    using that poll aqua.progress [of "ObserveMenuPage (iq_PageModel d) ?w" "iq_PageModel d"] by simp
  show "unat (aw_PollCount ?w') = unat (aw_PollCount ?w)" if "\<not> polled m"
    using other [OF that] by auto
qed

section \<open>One goal at a time\<close>

definition pending_goals :: "IAQDevice \<Rightarrow> bool list" where
  "pending_goals d =
     [Aqua_HasPendingGoal (iq_AquaPureWriter d), Spa_HasPendingGoal (iq_SpaSwitchWriter d),
      Prog_HasPendingGoal (iq_ScheduleWriter d)]"

definition iaq_inv :: "IAQDevice \<Rightarrow> bool" where
  "iaq_inv d \<longleftrightarrow> length (filter id (pending_goals d)) \<le> 1 \<and> aqua.in_time (iq_AquaPureWriter d)
     \<and> spa.in_time (iq_SpaSwitchWriter d) \<and> prog.in_time (iq_ScheduleWriter d)"

definition fewer_goals :: "IAQDevice \<Rightarrow> IAQDevice \<Rightarrow> bool" where
  "fewer_goals d d' \<longleftrightarrow> list_all2 (\<longrightarrow>) (pending_goals d') (pending_goals d)"

lemma fewer_goals_count:
  "fewer_goals d d' \<Longrightarrow> length (filter id (pending_goals d)) \<le> 1 \<Longrightarrow> length (filter id (pending_goals d')) \<le> 1"
  by (auto simp: fewer_goals_def pending_goals_def split: if_splits)

lemma slot_inv: "iaq_inv d \<Longrightarrow> iaq_inv (fst (iaq_slot now m d))"
proof -
  assume inv: "iaq_inv d"
  let ?d = "fst (iaq_slot now m d)"
  have "fewer_goals d ?d"
    using spa_goal.stays_idle [of d "(now, m)"] program_goal.stays_idle [of d "(now, m)"]
      aqua_goal.stays_idle [of d "(now, m)"]
    by (auto simp: fewer_goals_def pending_goals_def iaq_handle_def)
  then show ?thesis
    using inv spa_goal.kept [of d "(now, m)"] program_goal.kept [of d "(now, m)"]
      aqua_goal.kept [of d "(now, m)"] fewer_goals_count [of d ?d]
    by (simp add: iaq_inv_def iaq_handle_def)
qed

text \<open>A request either leaves the writers alone or arms one, and then no goal was pending.\<close>

lemma request_cases:
  "pending_goals (fst (iaq_answer r d)) = pending_goals d \<or>
   \<not> ChannelBusy d \<and> length (filter id (pending_goals (fst (iaq_answer r d)))) \<le> 1"
  by (cases r) (auto simp: pending_goals_def SetChlorinatorPercentage_def SetChlorinatorBoost_def
      ActuatePageButton_def ActuateDevice_def Iaq_SetPoolSetpoint_def Iaq_SetSpaSetpoint_def QueueSetpoint_def
      Iaq_SetSpaSwitchAssignment_def CreateControllerProgram_def DeleteControllerProgram_def
      EditControllerProgram_def SelectPageButton_def QueueCommand_def ChannelBusy_def QueuePercentage_def
      QueueBoost_def Aqua_Arm_def SpaSwitch_Queue_def QueueCreate_def QueueDelete_def QueueEdit_def
      Prog_Arm_def Aqua_HasPendingGoal_def Spa_HasPendingGoal_def Prog_HasPendingGoal_def Let_def
      split: option.split if_splits)

lemma idle_channel: "\<not> ChannelBusy d \<Longrightarrow> filter id (pending_goals d) = []"
  by (simp add: ChannelBusy_def pending_goals_def)

lemma request_in_time:
  assumes "iaq_inv d"
  shows "aqua.in_time (iq_AquaPureWriter (fst (iaq_answer r d)))"
    "spa.in_time (iq_SpaSwitchWriter (fst (iaq_answer r d)))"
    "prog.in_time (iq_ScheduleWriter (fst (iaq_answer r d)))"
  using assms
  by (cases r; auto simp: iaq_inv_def SetChlorinatorPercentage_def SetChlorinatorBoost_def
      ActuatePageButton_def ActuateDevice_def Iaq_SetPoolSetpoint_def Iaq_SetSpaSetpoint_def QueueSetpoint_def
      Iaq_SetSpaSwitchAssignment_def CreateControllerProgram_def DeleteControllerProgram_def
      EditControllerProgram_def SelectPageButton_def QueueCommand_def QueuePercentage_def
      QueueBoost_def Aqua_Arm_def SpaSwitch_Queue_def QueueCreate_def QueueDelete_def QueueEdit_def
      Prog_Arm_def aqua.in_time_def spa.in_time_def prog.in_time_def Let_def
      split: option.split if_splits)+

lemma watchdog_frame [simp]:
  "iq_AquaPureWriter (fst (Iaq_CheckWatchdog now d)) = iq_AquaPureWriter d"
  "iq_SpaSwitchWriter (fst (Iaq_CheckWatchdog now d)) = iq_SpaSwitchWriter d"
  "iq_ScheduleWriter (fst (Iaq_CheckWatchdog now d)) = iq_ScheduleWriter d"
  by (simp_all add: Iaq_CheckWatchdog_def WatchdogTimeoutOccurred_def case_prod_beta Let_def)

lemma step_inv: "iaq_inv d \<Longrightarrow> iaq_inv (fst (iaq_step e d))"
proof (cases e)
  case (Ev_Message now m)
  then show "iaq_inv d \<Longrightarrow> ?thesis" by (simp add: slot_inv)
next
  case (Ev_Request r)
  assume inv: "iaq_inv d"
  then show ?thesis
    using request_cases [of r d] request_in_time [of d r] idle_channel [of d]
    by (auto simp: Ev_Request iaq_inv_def case_prod_beta)
qed (simp_all add: iaq_inv_def pending_goals_def EnablePageSurvey_def)

lemma new_device_inv: "iaq_inv (new_iaq_device is_emulated now known_assignments program_store)"
  by (simp add: iaq_inv_def pending_goals_def new_iaq_device_def Aqua_HasPendingGoal_def Spa_HasPendingGoal_def
      Prog_HasPendingGoal_def aqua.in_time_def spa.in_time_def prog.in_time_def new_aquapure_writer_def
      new_spaswitch_writer_def new_schedule_writer_def)

lemma steps_inv: "iaq_inv d \<Longrightarrow> iaq_inv (fst (steps iaq_step es d))"
  by (induction es arbitrary: d) (simp_all add: step_inv)

section \<open>What is transmitted\<close>

fun on_the_bus :: "iaq_output \<Rightarrow> bool" where
  "on_the_bus (Out_Ack a c) = True"
| "on_the_bus (Out_ControlData v) = True"
| "on_the_bus _ = False"

definition transmitted :: "iaq_output list \<Rightarrow> iaq_output list" where
  "transmitted out = filter on_the_bus out"

lemma transmitted_simps [simp]:
  "transmitted [] = []"
  "transmitted (x # xs) = (if on_the_bus x then x # transmitted xs else transmitted xs)"
  "transmitted (xs @ ys) = transmitted xs @ transmitted ys"
  by (simp_all add: transmitted_def)

lemma sink_effects_silent [simp]: "transmitted (snd (sink_effects calls d)) = []"
proof (induction calls arbitrary: d)
  case (Cons call calls)
  then show ?case by (cases call) simp_all
qed simp

lemma silent_parts [simp]:
  "transmitted (snd (Iaq_Status status d)) = []"
  "transmitted (snd (service_spaswitch p d)) = []"
  "transmitted (snd (service_aquapure p d)) = []"
  "transmitted (snd (service_schedule p d)) = []"
  "transmitted (snd (update_op_state d)) = []"
  by (simp_all add: Iaq_Status_def PublishStatus_def service_spaswitch_def service_aquapure_def
      service_schedule_def update_op_state_def starting_up_def enter_normal_operation_def case_prod_beta)

text \<open>What a poll answers with: the next queued command, else the one pending when all were serviced.\<close>

definition after_service :: "IAQDevice \<Rightarrow> IAQDevice" where
  "after_service d = fst (in_order [update_op_state, service_spaswitch True, silently observe_menu,
     service_aquapure True, service_schedule True] d)"

definition answer_key :: "IAQDevice \<Rightarrow> u8" where
  "answer_key d = (case iq_CommandQueue d of [] \<Rightarrow> iq_PendingCommand (after_service d) | cmd # rest \<Rightarrow> cmd)"

lemma updates_transmit:
  "transmitted (snd (ProcessControllerUpdates p d)) =
     (if IsEmulationActive (iq_Emulated d)
      then [Out_Ack 0x00 (if p then answer_key d else 0x00)] else [])"
proof -
  have key: "iq_CommandQueue (after_service d) = iq_CommandQueue d"
    by (simp add: after_service_def observe_menu_def)
  show ?thesis
    by (cases p; cases "iq_CommandQueue d")
      (simp_all add: ProcessControllerUpdates_def observe_menu_def send_ack_def Iaq_Ack_def ack_iff_active
        answer_key_def after_service_def)
qed

end
