(* ===== verification/Iaq_Properties.thy ===== *)
theory Iaq_Properties
  imports Iaq_Device
begin

text \<open>
  What holds of the AqualinkTouch device as a whole: its goals end and exclude each other, it answers
  each message once and only while it may transmit, a value is submitted where it belongs, success is
  reported when it was seen, and what the schedule page shows is published.
\<close>

section \<open>Goals\<close>

text \<open>
  C6: Every accepted goal ends. Whatever happened to the device before, once 401 polls have been
  received, with any other messages among them, none of the three writers has a goal pending.
\<close>

theorem goals_end:
  assumes "length (filter polled messages) > 400"
  shows "let d = fst (steps iaq_step events (new_iaq_device is_emulated now known_assignments program_store));
             d' = fst (steps iaq_handle messages d)
         in \<not> Aqua_HasPendingGoal (iq_AquaPureWriter d') \<and> \<not> Spa_HasPendingGoal (iq_SpaSwitchWriter d')
            \<and> \<not> Prog_HasPendingGoal (iq_ScheduleWriter d')"
proof -
  define d where "d = fst (steps iaq_step events (new_iaq_device is_emulated now known_assignments program_store))"
  have inv: "iaq_inv d" unfolding d_def by (rule steps_inv [OF new_device_inv])
  have a: "\<not> Aqua_HasPendingGoal (iq_AquaPureWriter (fst (steps iaq_handle messages d)))"
    if "Aqua_HasPendingGoal (iq_AquaPureWriter d)"
    using aqua_goal.ends [of d messages] inv that assms
    by (simp add: iaq_inv_def aqua.in_time_def word_le_nat_alt)
  have s: "\<not> Spa_HasPendingGoal (iq_SpaSwitchWriter (fst (steps iaq_handle messages d)))"
    if "Spa_HasPendingGoal (iq_SpaSwitchWriter d)"
    using spa_goal.ends [of d messages] inv that assms
    by (simp add: iaq_inv_def spa.in_time_def word_le_nat_alt)
  have p: "\<not> Prog_HasPendingGoal (iq_ScheduleWriter (fst (steps iaq_handle messages d)))"
    if "Prog_HasPendingGoal (iq_ScheduleWriter d)"
    using program_goal.ends [of d messages] inv that assms
    by (simp add: iaq_inv_def prog.in_time_def word_le_nat_alt)
  show ?thesis
    using a s p aqua_goal.stays_idle_steps [of d messages] spa_goal.stays_idle_steps [of d messages]
      program_goal.stays_idle_steps [of d messages]
    unfolding d_def [symmetric] Let_def by blast
qed

theorem goals_end_witness:
  "let d = fst (steps iaq_step [Ev_Request (Req_Percentage 40 Body_Pool)] (new_iaq_device True 0 (\<lambda>_. None) None));
       d' = fst (steps iaq_handle (replicate 401 (0, Msg_Poll)) d)
   in \<not> Aqua_HasPendingGoal (iq_AquaPureWriter d') \<and> \<not> Spa_HasPendingGoal (iq_SpaSwitchWriter d')
      \<and> \<not> Prog_HasPendingGoal (iq_ScheduleWriter d')"
  by (rule goals_end) (simp add: filter_replicate polled_def)

text \<open>
  C19: One goal at a time. In every state a device can be brought into by messages, requests, the
  watchdog, a survey or the suppression of its emulation, at most one of its three writers has a goal.
\<close>

theorem one_goal_at_a_time:
  "length (filter id (pending_goals
     (fst (steps iaq_step events (new_iaq_device is_emulated now known_assignments program_store))))) \<le> 1"
  using steps_inv [OF new_device_inv] by (simp add: iaq_inv_def)


section \<open>Values and reports\<close>


definition aquapure_page :: PageModel where
  "aquapure_page = UpsertButton 3 ''Set Spa to:'' Button_Off (OnPageStart 0x30 new_page_model)"



definition pump_program :: ControllerSchedule where
  "pump_program = default_program \<lparr> c_target := ''Pump'', c_days_of_week := 0x7f, c_on_hour := 13,
     c_on_minute := 5, c_off_hour := 15, c_off_minute := 30 \<rparr>"

definition accepted_creation :: ScheduleWriter where
  "accepted_creation = fst (QueueCreate pump_program True False new_schedule_writer)"

text \<open>The pages a panel shows while the program is entered, one for each poll.\<close>

definition list_shown :: "PageModel \<times> ScreenDataPage" where
  "list_shown = (SetScheduleRow 1 ''Pump?01:05 PM?03:30 PM?All'' (OnPageStart 0x28 new_page_model), [])"

definition picker_shown :: "PageModel \<times> ScreenDataPage" where
  "picker_shown = (SetDevicePickerRow 1 ''Pump'' (OnPageStart 0x38 new_page_model), [])"

definition time_shown :: "PageModel \<times> ScreenDataPage" where
  "time_shown = (OnPageStart 0x29 new_page_model, react (evUpdate 2 ''PM'') (new_page (unat IAQ_STATUS_PAGE_LINES)))"

definition pages_to_time :: "(PageModel \<times> ScreenDataPage) list" where
  "pages_to_time = replicate 6 list_shown @ replicate 10 picker_shown @ replicate 5 list_shown"

definition pages_to_end :: "(PageModel \<times> ScreenDataPage) list" where
  "pages_to_end = pages_to_time @ replicate 5 time_shown @ replicate 5 list_shown @ replicate 5 time_shown
     @ replicate 5 list_shown"


text \<open>
  C31: A spa-switch goal is reported as completed only when the data hub holds the assignment that was
  asked for.
\<close>

theorem spa_success_confirmed:
  assumes "SpaSwitch_Queue switch button wanted emulation_active channel_busy w0 = (w, Accepted)"
    and "history Spa_ProcessStep seen w = earlier @ ((page, data_hub), calls) # later"
    and "ReportGoal True \<in> set calls"
  shows "\<exists>hub live. data_hub = Some hub \<and> hub (switch, button) = Some live \<and> EqualsCaseInsensitive live wanted"
proof -
  let ?goal = "\<lparr> sg_switch_number = switch, sg_button_number = button, sg_function = wanted \<rparr>"
  have "spa_inv ?goal w" using assms(1) by (auto simp: SpaSwitch_Queue_def spa_inv_def split: if_splits)
  moreover obtain ps where "calls = snd (Spa_ProcessStep (page, data_hub) (fst (steps Spa_ProcessStep ps w)))"
    using history_split [OF assms(2)] by blast
  ultimately show ?thesis
    using spa_reports_confirmed [OF spa_inv_steps [of ?goal w ps]] assms(3) by simp
qed

text \<open>
  C30: A program to be created or edited is reported as completed only when a row of the schedule list
  shows it, with its equipment, days and times.
\<close>

theorem program_success_listed:
  assumes "QueueCreate program emulated channel_busy w0 = (w, Accepted)
      \<or> QueueEdit existing program emulated channel_busy w0 = (w, Accepted)"
    and "history Prog_ProcessStep pages w = earlier @ ((page, status_page), calls) # later"
    and "ReportGoal True \<in> set calls"
  shows "\<exists>row parsed. row \<in> set (pm_ScheduleRows page) \<and> ParseScheduleRow (snd row) = Some parsed
    \<and> same_program parsed program"
proof -
  define goal where "goal = the (pw_Pending w)"
  have goal: "pg_program goal = program" "prog_inv goal w" "pg_op goal \<noteq> Op_Delete"
    using assms(1) by (auto simp: goal_def QueueCreate_def QueueEdit_def Prog_Arm_def prog_inv_def split: if_splits)
  moreover obtain ps where "calls = snd (Prog_ProcessStep (page, status_page) (fst (steps Prog_ProcessStep ps w)))"
    using history_split [OF assms(2)] by blast
  ultimately have "listed_row (\<lambda>row. same_program row program) page \<noteq> None"
    using prog_reports [OF prog_inv_steps [OF goal(2), of ps], of page status_page] assms(3) by simp
  then show ?thesis unfolding listed_row_iff .
qed

theorem program_success_listed_witness:
  "\<exists>row parsed. row \<in> set (pm_ScheduleRows (fst list_shown)) \<and> ParseScheduleRow (snd row) = Some parsed
    \<and> same_program parsed pump_program"
proof (rule program_success_listed [where pages = "pages_to_end @ [list_shown]"])
  show "QueueCreate pump_program True False new_schedule_writer = (accepted_creation, Accepted)
      \<or> QueueEdit default_program pump_program True False new_schedule_writer = (accepted_creation, Accepted)"
    by (rule disjI1) code_simp
  show "history Prog_ProcessStep (pages_to_end @ [list_shown]) accepted_creation
      = history Prog_ProcessStep pages_to_end accepted_creation
        @ ((fst list_shown, snd list_shown), [ReportGoal True, IssueCommand 0x00]) # []"
    by code_simp
qed simp

definition detail_shown :: "PageModel \<times> assignments option" where
  "detail_shown = (SetSpaSwitchPickerRow 2 ''Spa Jets'' (OnPageStart 0x3b new_page_model),
     Some [(1, 3) \<mapsto> ''spa jets''])"

theorem spa_success_confirmed_witness:
  "\<exists>hub live. snd detail_shown = Some hub \<and> hub (1, 3) = Some live \<and> EqualsCaseInsensitive live ''Spa Jets''"
proof (rule spa_success_confirmed [where seen = "replicate 11 detail_shown @ [detail_shown]"])
  let ?w = "fst (SpaSwitch_Queue 1 3 ''Spa Jets'' True False new_spaswitch_writer)"
  show "SpaSwitch_Queue 1 3 ''Spa Jets'' True False new_spaswitch_writer = (?w, Accepted)" by code_simp
  have "snd (Spa_ProcessStep detail_shown (fst (steps Spa_ProcessStep (replicate 11 detail_shown) ?w)))
      = [ReportGoal True, IssueCommand 0x00]"
    by code_simp
  then show "history Spa_ProcessStep (replicate 11 detail_shown @ [detail_shown]) ?w
      = history Spa_ProcessStep (replicate 11 detail_shown) ?w
        @ ((fst detail_shown, snd detail_shown), [ReportGoal True, IssueCommand 0x00]) # []"
    by (simp only: history_append history_simps prod.collapse)
qed simp

section \<open>The schedule page\<close>

lemma slot_store [simp]:
  "iq_Store (fst (iaq_slot now (Msg_PageStart i) d)) = iq_Store d"
  "iq_Store (fst (iaq_slot now (Msg_TitleMessage title) d)) = iq_Store d"
  "iq_Store (fst (iaq_slot now (Msg_TableMessage line_id attribute line) d)) = iq_Store d"
  by (simp_all add: iaq_slots Iaq_Kick_def update_page_def update_status_page_def table_row_def Let_def
      split: option.split)

lemma slot_page [simp]:
  "iq_PageModel (fst (iaq_slot now (Msg_PageStart i) d)) = OnPageStart i (iq_PageModel d)"
  "iq_PageModel (fst (iaq_slot now (Msg_TitleMessage title) d)) = SetTitle title (iq_PageModel d)"
  "pm_PageId (iq_PageModel d) = IAQ_SCHEDULE_PAGE_ID \<Longrightarrow>
   iq_PageModel (fst (iaq_slot now (Msg_TableMessage 0x00 attribute line) d)) = SetScheduleRow attribute line (iq_PageModel d)"
  by (simp_all add: iaq_slots Iaq_Kick_def update_page_def update_status_page_def table_row_def Let_def
      IAQ_SCHEDULE_PAGE_ID_def IAQ_DEVICE_PICKER_PAGE_ID_def split: option.split)

lemma slot_end:
  "pm_PageId (iq_PageModel d) = IAQ_SCHEDULE_PAGE_ID \<Longrightarrow>
   iq_Store (fst (iaq_slot now Msg_PageEnd d)) = iq_Store (PublishSchedulePage d)"
  by (simp add: iaq_slots Iaq_Kick_def update_status_page_def PublishSchedulePage_def Let_def split: option.split)

lemma handle_pair: "iaq_handle (now, m) d = iaq_slot now m d"
  by (simp add: iaq_handle_def)

lemma rows_shown:
  "pm_PageId (iq_PageModel d) = IAQ_SCHEDULE_PAGE_ID \<Longrightarrow>
   let d' = fst (steps iaq_handle (map (\<lambda>(t, attribute, line). (t, Msg_TableMessage 0x00 attribute line)) rows) d)
   in iq_Store d' = iq_Store d \<and> iq_PageModel d' = (iq_PageModel d)
        \<lparr> pm_ScheduleRows := fold (\<lambda>(t, attribute, line). put attribute line) rows (pm_ScheduleRows (iq_PageModel d)) \<rparr>"
proof (induction rows arbitrary: d)
  case (Cons row rows)
  obtain t attribute line where row: "row = (t, attribute, line)" by (cases row)
  show ?case
    using Cons.IH [of "fst (iaq_slot t (Msg_TableMessage 0x00 attribute line) d)"] Cons.prems
    by (simp add: row iaq_handle_def Let_def SetScheduleRow_def)
qed (simp add: Let_def)



section \<open>Where the channel and the watchdog fall short\<close>

lemma acks_of_poll:
  "IsEmulationActive (iq_Emulated d) \<Longrightarrow> iq_CommandQueue d = cmd # rest \<Longrightarrow>
   transmitted (snd (iaq_slot now Msg_Poll d)) = [Out_Ack 0x00 cmd] \<and>
   iq_CommandQueue (fst (iaq_slot now Msg_Poll d)) = rest"
  by (simp add: iaq_slots updates_transmit answer_key_def Iaq_Kick_def)
    (simp add: ProcessControllerUpdates_def observe_menu_def send_ack_def)

lemma poll_keeps_key:
  assumes "iq_CommandQueue d = cmd # rest" "\<not> Aqua_HasPendingGoal (iq_AquaPureWriter d)"
    "\<not> Prog_HasPendingGoal (iq_ScheduleWriter d)"
    and "Spa_ProcessStep (iq_PageModel d, Some (iq_Assignments d)) (iq_SpaSwitchWriter d) = (w, [IssueCommand key])"
  shows "iq_PendingCommand (fst (iaq_slot now Msg_Poll d)) = key"
proof -
  have "Spa_HasPendingGoal (iq_SpaSwitchWriter d)"
    using assms(4) spa.silent [of "iq_SpaSwitchWriter d"] by (metis Pair_inject list.distinct(1))
  then show ?thesis
    using assms by (simp add: iaq_slots Iaq_Kick_def ProcessControllerUpdates_def observe_menu_def
        service_spaswitch_def service_aquapure_def service_schedule_def send_ack_def)
qed

lemma setpoint_frame [simp]:
  "iq_SpaSwitchWriter (fst (QueueSetpoint cmd temperature d)) = iq_SpaSwitchWriter d"
  "iq_AquaPureWriter (fst (QueueSetpoint cmd temperature d)) = iq_AquaPureWriter d"
  "iq_ScheduleWriter (fst (QueueSetpoint cmd temperature d)) = iq_ScheduleWriter d"
  "iq_PageModel (fst (QueueSetpoint cmd temperature d)) = iq_PageModel d"
  "iq_Assignments (fst (QueueSetpoint cmd temperature d)) = iq_Assignments d"
  "iq_Emulated (fst (QueueSetpoint cmd temperature d)) = iq_Emulated d"
  by (simp_all add: QueueSetpoint_def)

lemma poll_frame [simp]:
  "iq_PageModel (fst (iaq_slot now Msg_Poll d)) = iq_PageModel d"
  "iq_Assignments (fst (iaq_slot now Msg_Poll d)) = iq_Assignments d"
  "iq_Emulated (fst (iaq_slot now Msg_Poll d)) = iq_Emulated d"
  by (simp_all add: iaq_slots Iaq_Kick_def)

text \<open>
  C39: A key of a writer is lost behind queued commands. A setpoint request is accepted while a
  spa-switch goal is under way; at the next two polls its first commands are sent in place of the key
  the writer issues, the writer counts the key as pressed, and its dwell then overwrites it.
\<close>

theorem setpoint_swallows_key:
  assumes "IsEmulationActive (iq_Emulated d)" "\<not> Aqua_HasPendingGoal (iq_AquaPureWriter d)"
    "\<not> Prog_HasPendingGoal (iq_ScheduleWriter d)"
    and "Spa_ProcessStep (iq_PageModel d, Some (iq_Assignments d)) (iq_SpaSwitchWriter d) = (w, [IssueCommand key])"
    and "sw_PollCount w < 400" "sw_SettleCount w > 0" "Spa_HasPendingGoal w"
  shows "let d1 = fst (Iaq_SetPoolSetpoint temperature d);
             d2 = fst (iaq_slot t1 Msg_Poll d1); d3 = fst (iaq_slot t2 Msg_Poll d2)
         in snd (Iaq_SetPoolSetpoint temperature d) = Accepted
            \<and> transmitted (snd (iaq_slot t1 Msg_Poll d1)) = [Out_Ack 0x00 IAQ_CMD_BACK]
            \<and> transmitted (snd (iaq_slot t2 Msg_Poll d2)) = [Out_Ack 0x00 IAQ_CMD_OPEN_SETTEMP_PAGE]
            \<and> iq_PendingCommand d2 = key \<and> iq_PendingCommand d3 = 0x00
            \<and> iq_SpaSwitchWriter d2 = w \<and> sw_SettleCount (iq_SpaSwitchWriter d3) = sw_SettleCount w - 1"
proof -
  let ?d1 = "fst (Iaq_SetPoolSetpoint temperature d)"
  let ?d2 = "fst (iaq_slot t1 Msg_Poll ?d1)"
  let ?d3 = "fst (iaq_slot t2 Msg_Poll ?d2)"
  have q: "iq_CommandQueue ?d1 = IAQ_CMD_BACK # [IAQ_CMD_OPEN_SETTEMP_PAGE, IAQ_CMD_SELECT_POOL_HEAT, IAQ_CMD_SUBMIT_VALUE]"
    and accepted: "snd (Iaq_SetPoolSetpoint temperature d) = Accepted"
    using assms(1) by (simp_all add: Iaq_SetPoolSetpoint_def QueueSetpoint_def)
  have same: "iq_Emulated ?d1 = iq_Emulated d" "iq_AquaPureWriter ?d1 = iq_AquaPureWriter d"
    "iq_ScheduleWriter ?d1 = iq_ScheduleWriter d" "iq_PageModel ?d1 = iq_PageModel d"
    "iq_Assignments ?d1 = iq_Assignments d" "iq_SpaSwitchWriter ?d1 = iq_SpaSwitchWriter d"
    by (simp_all add: Iaq_SetPoolSetpoint_def)
  have first: "transmitted (snd (iaq_slot t1 Msg_Poll ?d1)) = [Out_Ack 0x00 IAQ_CMD_BACK]"
    "iq_CommandQueue ?d2 = IAQ_CMD_OPEN_SETTEMP_PAGE # [IAQ_CMD_SELECT_POOL_HEAT, IAQ_CMD_SUBMIT_VALUE]"
    using acks_of_poll [OF _ q, of t1] assms(1) by (simp_all add: same)
  have key: "iq_PendingCommand ?d2 = key"
    by (rule poll_keeps_key [OF q]) (use assms in \<open>simp_all add: same\<close>)
  have w: "iq_SpaSwitchWriter ?d2 = w" by (simp add: slot_spa same assms(4))
  have idle: "\<not> Aqua_HasPendingGoal (iq_AquaPureWriter ?d2)" "\<not> Prog_HasPendingGoal (iq_ScheduleWriter ?d2)"
    using aqua_goal.stays_idle [of ?d1 "(t1, Msg_Poll)"] program_goal.stays_idle [of ?d1 "(t1, Msg_Poll)"] assms(2,3)
    by (simp_all add: handle_pair same)
  obtain goal where goal: "sw_Pending w = Some goal" using assms(7) by (auto simp: Spa_HasPendingGoal_def)
  have "\<not> 400 < sw_PollCount w + 1" using assms(5) poll_left [of "sw_PollCount w" 400] by (simp add: not_less)
  then have dwell: "Spa_ProcessStep (iq_PageModel ?d2, Some (iq_Assignments ?d2)) (iq_SpaSwitchWriter ?d2) =
      (w \<lparr> sw_PollCount := sw_PollCount w + 1, sw_SettleCount := sw_SettleCount w - 1 \<rparr>, [IssueCommand 0x00])"
    using goal assms(6) by (simp add: w Spa_ProcessStep_def IAQ_SPASWITCH_POLL_LIMIT_def Let_def)
  have second: "transmitted (snd (iaq_slot t2 Msg_Poll ?d2)) = [Out_Ack 0x00 IAQ_CMD_OPEN_SETTEMP_PAGE]"
    using acks_of_poll [OF _ first(2), of t2] assms(1) by (simp add: same)
  have "iq_PendingCommand ?d3 = 0x00"
    by (rule poll_keeps_key [OF first(2) idle dwell])
  moreover have "sw_SettleCount (iq_SpaSwitchWriter ?d3) = sw_SettleCount w - 1"
    using slot_spa [of t2 Msg_Poll ?d2] unfolding dwell by simp
  ultimately show ?thesis using accepted first(1) second key w by (simp add: Let_def)
qed

definition device_on_menu :: IAQDevice where
  "device_on_menu = fst (steps iaq_step
     [Ev_Message 0 (Msg_MainStatus []), Ev_Message 1 (Msg_PageStart 0x0f), Ev_Request (Req_SpaSwitch 1 1 ''Spa'')]
     (new_iaq_device True 0 (\<lambda>_. None) None))"

theorem setpoint_swallows_key_witness:
  "let d1 = fst (Iaq_SetPoolSetpoint 30 device_on_menu);
       d2 = fst (iaq_slot 2 Msg_Poll d1); d3 = fst (iaq_slot 3 Msg_Poll d2)
   in snd (Iaq_SetPoolSetpoint 30 device_on_menu) = Accepted
      \<and> transmitted (snd (iaq_slot 2 Msg_Poll d1)) = [Out_Ack 0x00 IAQ_CMD_BACK]
      \<and> transmitted (snd (iaq_slot 3 Msg_Poll d2)) = [Out_Ack 0x00 IAQ_CMD_OPEN_SETTEMP_PAGE]
      \<and> iq_PendingCommand d2 = IAQ_CMD_MENU_TO_SETUP \<and> iq_PendingCommand d3 = 0x00
      \<and> iq_SpaSwitchWriter d2 = (iq_SpaSwitchWriter device_on_menu) \<lparr> sw_PollCount := 1, sw_SettleCount := 4 \<rparr>
      \<and> sw_SettleCount (iq_SpaSwitchWriter d3) = sw_SettleCount
           ((iq_SpaSwitchWriter device_on_menu) \<lparr> sw_PollCount := 1, sw_SettleCount := 4 \<rparr>) - 1"
  by (rule setpoint_swallows_key; code_simp)

lemma stopped_stays:
  "\<not> wd_IsRunning (iq_Watchdog d) \<Longrightarrow> \<not> iq_HasReceivedMainStatus d \<Longrightarrow>
   let d' = fst (iaq_slot now Msg_Heartbeat d)
   in \<not> wd_IsRunning (iq_Watchdog d') \<and> \<not> iq_HasReceivedMainStatus d' \<and> iq_OpState d' = (if iq_OpState d = Iaq_StartUp
        \<and> \<not> IsEmulated (iq_Emulated d) then Iaq_NormalOperation else iq_OpState d)
      \<and> iq_Screen d' = show_lines Page_CloudLink (cloud_link_lines (iq_Watchdog d)) (iq_Screen d)"
  by (simp add: iaq_slots Iaq_Kick_def stopped_is_quiet RenderCloudLinkScreen_def starting_up_def
      enter_normal_operation_def Let_def)

lemma lines_shown:
  assumes "n \<le> length shown" "n \<le> length (m_DisplayedPage screen)" "n \<le> 256"
  shows "let page = m_DisplayedPage (fold (\<lambda>i screen. ProcessScreenEvent screen (evUpdate (of_nat i) (shown ! i))) [0..<n] screen)
         in length page = length (m_DisplayedPage screen) \<and> (\<forall>i < n. Text (page ! i) = shown ! i)"
  using assms
proof (induction n)
  case (Suc n)
  then have "unat (of_nat n :: u8) = n" by (simp add: unat_of_nat)
  then show ?case using Suc by (auto simp: Let_def ProcessScreenEvent_def less_Suc_eq)
qed (simp add: Let_def)

lemma shown_stale:
  assumes "\<not> wd_IsRunning w" "length (m_DisplayedPage screen) = 18"
  shows "Text (m_DisplayedPage (show_lines Page_CloudLink (cloud_link_lines w) screen) ! 1) = ''Heartbeat: stale''
    \<and> length (m_DisplayedPage (show_lines Page_CloudLink (cloud_link_lines w) screen)) = 18"
proof -
  let ?screen = "ProcessScreenEvent (screen \<lparr> m_ScreenMode := Updating \<rparr>) evClear"
  have "length (m_DisplayedPage ?screen) = 18" "length (cloud_link_lines w) = 4"
    "cloud_link_lines w ! 1 = ''Heartbeat: stale''"
    using assms by (simp_all add: ProcessScreenEvent_def cloud_link_lines_def IsRunning_def)
  then show ?thesis using lines_shown [of 4 "cloud_link_lines w" ?screen]
    by (simp add: show_lines_def IAQ_STATUS_PAGE_LINES_def Let_def)
qed

text \<open>
  A beacon that paused never counts again. Once an interface that only hears heartbeats has been
  silent for more than thirty seconds, every later heartbeat, however regular, is shown as stale, and a
  device that had not been addressed before stays marked as not present.
\<close>

theorem heartbeat_stays_stale:
  assumes "gap_end > start + 30000000000" "beats \<noteq> []"
  shows "let d = fst (steps iaq_step (Ev_Watchdog gap_end # map (\<lambda>t. Ev_Message t Msg_Heartbeat) beats)
                   (new_iaq_device is_emulated start known_assignments program_store))
         in Text (m_DisplayedPage (iq_Screen d) ! 1) = ''Heartbeat: stale'' \<and> iq_OpState d = Iaq_NotPresent"
proof -
  define d0 where "d0 = fst (Iaq_CheckWatchdog gap_end (new_iaq_device is_emulated start known_assignments program_store))"
  have d0: "\<not> wd_IsRunning (iq_Watchdog d0)" "\<not> iq_HasReceivedMainStatus d0" "iq_OpState d0 = Iaq_NotPresent"
    "length (m_DisplayedPage (iq_Screen d0)) = 18"
    using assms(1) by (simp_all add: d0_def Iaq_CheckWatchdog_def CheckWatchdog_def new_iaq_device_def
        new_watchdog_def IAQ_TIMEOUT_DURATION_def WatchdogTimeoutOccurred_def new_screen_def new_page_def
        IAQ_STATUS_PAGE_LINES_def Iaq_Status_def PublishStatus_def)
  have "iq_OpState (fst (steps iaq_step (map (\<lambda>t. Ev_Message t Msg_Heartbeat) beats) d)) = Iaq_NotPresent
      \<and> Text (m_DisplayedPage (iq_Screen (fst (steps iaq_step (map (\<lambda>t. Ev_Message t Msg_Heartbeat) beats) d))) ! 1) = ''Heartbeat: stale''"
    if "\<not> wd_IsRunning (iq_Watchdog d)" "\<not> iq_HasReceivedMainStatus d" "iq_OpState d = Iaq_NotPresent"
      "length (m_DisplayedPage (iq_Screen d)) = 18" for d
    using assms(2) that
  proof (induction beats arbitrary: d)
    case (Cons beat beats)
    let ?d = "fst (iaq_slot beat Msg_Heartbeat d)"
    have d: "\<not> wd_IsRunning (iq_Watchdog ?d)" "\<not> iq_HasReceivedMainStatus ?d" "iq_OpState ?d = Iaq_NotPresent"
      "length (m_DisplayedPage (iq_Screen ?d)) = 18" "Text (m_DisplayedPage (iq_Screen ?d) ! 1) = ''Heartbeat: stale''"
      using stopped_stays [of d beat] shown_stale [of "iq_Watchdog d" "iq_Screen d"] Cons.prems
      by (simp_all add: Let_def)
    then show ?case using Cons.IH [of ?d] by (cases "beats = []") simp_all
  qed simp
  from this [OF d0] show ?thesis by (simp add: d0_def Let_def)
qed

theorem heartbeat_stays_stale_witness:
  "let d = fst (steps iaq_step (Ev_Watchdog 31000000000 # map (\<lambda>t. Ev_Message t Msg_Heartbeat)
                   [32000000000, 33000000000, 34000000000]) (new_iaq_device False 0 (\<lambda>_. None) None))
   in Text (m_DisplayedPage (iq_Screen d) ! 1) = ''Heartbeat: stale'' \<and> iq_OpState d = Iaq_NotPresent"
  by (rule heartbeat_stays_stale) simp_all

end
