(* ===== verification/Equipment_Hub.thy ===== *)
theory Equipment_Hub
  imports Jandy_Ids Iaq_Page Device_Capabilities
begin

text \<open>
  The equipment hub (\<open>core/kernel/equipment_hub.cpp\<close>), which holds the devices by their identifiers, the
  devices of a Jandy bus as the hub sees them, and the equipment that registers a listening device for
  every address messages are sent to (\<open>jandy/equipment/jandy_equipment.cpp\<close>).
\<close>

section \<open>The hub\<close>

text \<open>
  Equipment is registered by the runtime type \<open>'k\<close> of the object, a device by its identifier. Two
  identifiers are equal when their runtime types and their values are, which is the equality of \<open>'i\<close>; the
  function \<open>ident\<close> reads the identifier of a device. A null pointer is \<open>None\<close>.
\<close>

record ('k, 'd) EquipmentHub =
  eh_ActiveEquipment :: "'k list"
  eh_ActiveDevices :: "'d list"

definition new_hub :: "('k, 'd) EquipmentHub" where
  "new_hub = \<lparr> eh_ActiveEquipment = [], eh_ActiveDevices = [] \<rparr>"

definition EquipmentExists :: "'k option \<Rightarrow> ('k, 'd) EquipmentHub \<Rightarrow> bool" where
  "EquipmentExists equipment hub =
     (case equipment of None \<Rightarrow> False | Some k \<Rightarrow> k \<in> set (eh_ActiveEquipment hub))"

definition AddEquipment :: "'k option \<Rightarrow> ('k, 'd) EquipmentHub \<Rightarrow> ('k, 'd) EquipmentHub \<times> bool" where
  "AddEquipment equipment hub =
     (case equipment of
        None \<Rightarrow> (hub, False)
      | Some k \<Rightarrow>
          if EquipmentExists equipment hub then (hub, False)
          else (hub \<lparr> eh_ActiveEquipment := eh_ActiveEquipment hub @ [k] \<rparr>, True))"

definition DeviceExists :: "('d \<Rightarrow> 'i) \<Rightarrow> 'i \<Rightarrow> ('k, 'd) EquipmentHub \<Rightarrow> bool" where
  "DeviceExists ident i hub \<longleftrightarrow> list_ex (\<lambda>d. i = ident d) (eh_ActiveDevices hub)"

definition AddDevice :: "('d \<Rightarrow> 'i) \<Rightarrow> 'd option \<Rightarrow> ('k, 'd) EquipmentHub \<Rightarrow> ('k, 'd) EquipmentHub \<times> bool" where
  "AddDevice ident device hub =
     (case device of
        None \<Rightarrow> (hub, False)
      | Some d \<Rightarrow>
          if DeviceExists ident (ident d) hub then (hub, False)
          else (hub \<lparr> eh_ActiveDevices := eh_ActiveDevices hub @ [d] \<rparr>, True))"

definition FindDevice :: "('d \<Rightarrow> bool) \<Rightarrow> ('k, 'd) EquipmentHub \<Rightarrow> 'd option" where
  "FindDevice predicate hub = find predicate (eh_ActiveDevices hub)"

lemma DeviceExists_iff [simp]: "DeviceExists ident i hub \<longleftrightarrow> i \<in> ident ` set (eh_ActiveDevices hub)"
  by (auto simp: DeviceExists_def list_ex_iff)

lemma AddDevice_devices:
  "eh_ActiveDevices (fst (AddDevice ident (Some d) hub)) =
     (if ident d \<in> ident ` set (eh_ActiveDevices hub) then eh_ActiveDevices hub else eh_ActiveDevices hub @ [d])"
  by (simp add: AddDevice_def)

lemma AddDevice_distinct:
  assumes "distinct (map ident (eh_ActiveDevices hub))"
  shows "distinct (map ident (eh_ActiveDevices (fst (AddDevice ident device hub))))"
  using assms by (auto simp: AddDevice_def split: option.splits)

section \<open>Devices of the Jandy bus\<close>

datatype JandyEmulatedDeviceTypes =
    Emu_RS_Keypad | Emu_OneTouch | Emu_IAQ | Emu_PDA | Emu_SerialAdapter | Emu_SpasideRemote | Emu_Unknown

datatype DeviceKind =
    IAQDevice | OneTouchDevice | PDADevice | KeypadDevice | SpasideRemoteDevice | SerialAdapterDevice
  | HeaterDevice | AquariteDevice | EPumpDevice | ChemlinkDevice | LightsDevice

text \<open>
  A device as the hub and start-up see it: its class and address, whether it emulates, the type and the
  address its collision handler was given, the pages it will survey and the interval at which it refreshes
  the chlorinator setpoint.
\<close>

record HubDevice =
  hd_kind :: DeviceKind
  hd_id :: u8
  hd_Emulated :: Emulated
  hd_handler :: "(JandyEmulatedDeviceTypes \<times> u8) option"
  hd_survey :: "PageRegistry option"
  hd_refresh :: "int option"

definition make_device :: "DeviceKind \<Rightarrow> u8 \<Rightarrow> bool \<Rightarrow> HubDevice" where
  "make_device kind i is_emulated =
     \<lparr> hd_kind = kind, hd_id = i, hd_Emulated = new_emulated is_emulated, hd_handler = None,
       hd_survey = None, hd_refresh = None \<rparr>"

definition MakeEmulatedDevice :: "JandyEmulatedDeviceTypes \<Rightarrow> u8 \<Rightarrow> HubDevice option" where
  "MakeEmulatedDevice type i =
     (case type of
        Emu_OneTouch \<Rightarrow> Some (make_device OneTouchDevice i True)
      | Emu_RS_Keypad \<Rightarrow> Some (make_device KeypadDevice i True)
      | Emu_IAQ \<Rightarrow> Some (make_device IAQDevice i True)
      | Emu_PDA \<Rightarrow> Some (make_device PDADevice i True)
      | Emu_SerialAdapter \<Rightarrow> Some (make_device SerialAdapterDevice i True)
      | Emu_SpasideRemote \<Rightarrow> Some (make_device SpasideRemoteDevice i True)
      | Emu_Unknown \<Rightarrow> None)"

section \<open>The equipment\<close>

text \<open>The message classes it connects to, by the type of their messages.\<close>

definition identified_messages :: "JandyMessageIds list" where
  "identified_messages =
     [Ack, Message, MessageLong, Probe, Status, Unknown, Chemlink_Response, EPUMP_Status, EPUMP_RPM, EPUMP_Watts,
      Heater_Request, Heater_Status, Light_Status, AQUARITE_GetId, AQUARITE_Percent, AQUARITE_PPM,
      IAQ_AuxStatus, IAQ_CommandReady, IAQ_ControlReady, IAQ_Heartbeat, IAQ_MainStatus, IAQ_MessageLong,
      IAQ_OneTouchStatus, IAQ_PageButton, IAQ_PageContinue, IAQ_PageEnd, IAQ_PageMessage, IAQ_PageStart,
      IAQ_Poll, IAQ_StartUp, IAQ_TableMessage, IAQ_TitleMessage, PDA_Clear, PDA_Highlight,
      PDA_HighlightChars, PDA_ShiftLines, RSSA_DevReady, RSSA_DevStatus]"

record JandyEquipment =
  je_ReportedUnsupportedClasses :: "DeviceClasses set"
  je_MessageCounts :: "JandyMessageIds \<Rightarrow> 64 word"
  je_DecodeToMaster :: bool

definition new_equipment :: "bool \<Rightarrow> JandyEquipment" where
  "new_equipment decode_to_master =
     \<lparr> je_ReportedUnsupportedClasses = {}, je_MessageCounts = (\<lambda>_. 0), je_DecodeToMaster = decode_to_master \<rparr>"

fun device_of_class :: "DeviceClasses \<Rightarrow> DeviceKind option" where
  "device_of_class IAQ = Some IAQDevice"
| "device_of_class AqualinkTouch = Some IAQDevice"
| "device_of_class OneTouch = Some OneTouchDevice"
| "device_of_class PDA = Some PDADevice"
| "device_of_class RS_Keypad = Some KeypadDevice"
| "device_of_class DualSpaSwitch = Some SpasideRemoteDevice"
| "device_of_class SpaRemote = Some SpasideRemoteDevice"
| "device_of_class SerialAdapter = Some SerialAdapterDevice"
| "device_of_class LX_Heater = Some HeaterDevice"
| "device_of_class JXi_Heater = Some HeaterDevice"
| "device_of_class HeatPump = Some HeaterDevice"
| "device_of_class SWG_Aquarite = Some AquariteDevice"
| "device_of_class Jandy_ePump = Some EPumpDevice"
| "device_of_class Jandy_ePump_Ext = Some EPumpDevice"
| "device_of_class Chemlink = Some ChemlinkDevice"
| "device_of_class Jandy_Light = Some LightsDevice"
| "device_of_class _ = None"

definition IdentifyAndAddDevice ::
    "JandyMessageIds \<Rightarrow> u8 \<Rightarrow> JandyEquipment \<Rightarrow> (string, HubDevice) EquipmentHub
     \<Rightarrow> JandyEquipment \<times> (string, HubDevice) EquipmentHub" where
  "IdentifyAndAddDevice message_id dest equipment hub =
     (let device_class = JandyDeviceType_Class dest;
          (equipment, hub) =
            (if message_id = Probe \<or> DeviceExists hd_id dest hub then (equipment, hub)
             else case device_of_class device_class of
               Some kind \<Rightarrow> (equipment, fst (AddDevice hd_id (Some (make_device kind dest False)) hub))
             | None \<Rightarrow>
                 if je_DecodeToMaster equipment \<and> device_class = AqualinkMaster then (equipment, hub)
                 else (equipment \<lparr> je_ReportedUnsupportedClasses :=
                         insert device_class (je_ReportedUnsupportedClasses equipment) \<rparr>, hub))
      in (equipment \<lparr> je_MessageCounts := (je_MessageCounts equipment)
            (message_id := je_MessageCounts equipment message_id + 1) \<rparr>, hub))"

lemma IdentifyAndAddDevice_hub:
  "snd (IdentifyAndAddDevice message_id dest equipment hub) =
     (case device_of_class (JandyDeviceType_Class dest) of
        Some kind \<Rightarrow> if message_id = Probe then hub else fst (AddDevice hd_id (Some (make_device kind dest False)) hub)
      | None \<Rightarrow> hub)"
  by (auto simp: IdentifyAndAddDevice_def AddDevice_def make_device_def Let_def split: option.splits)

lemma IdentifyAndAddDevice_unknown:
  "device_of_class (JandyDeviceType_Class dest) = None \<Longrightarrow>
     snd (IdentifyAndAddDevice message_id dest equipment hub) = hub"
  by (simp add: IdentifyAndAddDevice_hub)

end
