(* ===== verification/Startup.thy ===== *)
theory Startup
  imports Equipment_Hub
begin

text \<open>
  How emulation starts (\<open>jandy/startup/\<close>): the capabilities a software revision implies, the plan made from
  what the master probes, the coordinator that stands the devices up in phases, the environment that
  watches the bus and moves an emulation off a real device, and the service that ticks.
\<close>

section \<open>Revisions\<close>

record RevisionCapabilities =
  revision_letter :: char
  is_known :: bool
  serial_adapter_support :: bool
  onetouch_support :: bool
  cpu_board :: bool
  variable_speed_pumps :: bool
  chemlink_chlorinators :: bool
  aqualink_touch :: bool
  iaqualink_cloud :: bool
  addressed_vs_pumps :: bool
  infinite_watercolors :: bool

definition no_capabilities :: RevisionCapabilities where
  "no_capabilities =
     \<lparr> revision_letter = CHR 0x00, is_known = False, serial_adapter_support = False,
       onetouch_support = False, cpu_board = False, variable_speed_pumps = False,
       chemlink_chlorinators = False, aqualink_touch = False, iaqualink_cloud = False,
       addressed_vs_pumps = False, infinite_watercolors = False \<rparr>"

definition letter :: "char \<Rightarrow> bool" where
  "letter c \<longleftrightarrow> (65 \<le> (of_char c :: nat) \<and> (of_char c :: nat) \<le> 90)
     \<or> (97 \<le> (of_char c :: nat) \<and> (of_char c :: nat) \<le> 122)"

definition ParseRevisionLetter :: "string \<Rightarrow> char option" where
  "ParseRevisionLetter revision =
     (let upper = dropWhile isspace (map toupper revision);
          upper = (if take 3 upper = ''REV'' then drop 3 upper else upper)
      in case dropWhile (\<lambda>c. \<not> letter c) upper of [] \<Rightarrow> None | c # rest \<Rightarrow> Some c)"

definition ordinal_of :: "char \<Rightarrow> int" where
  "ordinal_of c = of_char c - of_char (CHR ''A'') + 1"

definition DeriveRevisionCapabilities :: "string \<Rightarrow> RevisionCapabilities" where
  "DeriveRevisionCapabilities revision =
     (case ParseRevisionLetter revision of
        None \<Rightarrow> no_capabilities
      | Some c \<Rightarrow>
          let at_least = (\<lambda>gate. ordinal_of c \<ge> ordinal_of gate)
          in \<lparr> revision_letter = c, is_known = True,
               serial_adapter_support = at_least (CHR ''I''), onetouch_support = at_least (CHR ''I''),
               cpu_board = at_least (CHR ''N''), variable_speed_pumps = at_least (CHR ''O''),
               chemlink_chlorinators = at_least (CHR ''P''), aqualink_touch = at_least (CHR ''Q''),
               iaqualink_cloud = at_least (CHR ''R''), addressed_vs_pumps = at_least (CHR ''W''),
               infinite_watercolors = at_least (CHR ''Y'') \<rparr>)"

section \<open>Plans\<close>

datatype DataGatheringMethod = Method_Unknown | PagePush | MenuSpider | PdaGraph | ObserveOnly

record PanelProfile =
  p_model :: string
  p_revision :: string
  probes_aqualinktouch :: bool
  probes_onetouch :: bool
  probes_pda :: bool
  has_iaqualink2_slot :: bool
  p_revision_caps :: RevisionCapabilities

record PlannedDevice =
  pd_type :: JandyEmulatedDeviceTypes
  candidate_ids :: "u8 list"
  selected_id :: u8
  pd_resolved :: bool
  pd_role :: string

record StartupPlan =
  pl_method :: DataGatheringMethod
  pl_devices :: "PlannedDevice list"
  pl_rationale :: string
  pl_revision_caps :: RevisionCapabilities
  pl_revision_consistent :: bool

definition AQUALINKTOUCH_IDS :: "u8 list" where "AQUALINKTOUCH_IDS = [0x33, 0x32, 0x31, 0x30]"
definition ONETOUCH_IDS :: "u8 list" where "ONETOUCH_IDS = [0x41, 0x40, 0x42]"
definition PDA_IDS :: "u8 list" where "PDA_IDS = [0x60, 0x61, 0x62, 0x63]"
definition SERIALADAPTER_IDS :: "u8 list" where "SERIALADAPTER_IDS = [0x48, 0x49]"

definition AnyInRange :: "u8 set \<Rightarrow> u8 \<Rightarrow> u8 \<Rightarrow> bool" where
  "AnyInRange s lo hi \<longleftrightarrow> list_ex (\<lambda>a. of_nat a \<in> s) [unat lo..<Suc (unat hi)]"

definition RevisionFeatureSummary :: "RevisionCapabilities \<Rightarrow> string" where
  "RevisionFeatureSummary caps =
     (let features = (if variable_speed_pumps caps then [''VS pumps''] else [])
            @ (if chemlink_chlorinators caps then [''ChemLink/AutoClear''] else [])
            @ (if aqualink_touch caps then [''AqualinkTouch''] else [])
            @ (if iaqualink_cloud caps then [''iAquaLink''] else [])
            @ (if addressed_vs_pumps caps then [''16 addressed VS pumps''] else [])
            @ (if infinite_watercolors caps then [''Infinite WaterColors''] else [])
      in if features = [] then ''no CPU-era peripherals''
         else hd features @ concat (map (\<lambda>f. '', '' @ f) (tl features)))"

fun MinRevisionForEmulatedType :: "JandyEmulatedDeviceTypes \<Rightarrow> char option" where
  "MinRevisionForEmulatedType Emu_SerialAdapter = Some (CHR ''I'')"
| "MinRevisionForEmulatedType Emu_OneTouch = Some (CHR ''I'')"
| "MinRevisionForEmulatedType Emu_IAQ = Some (CHR ''Q'')"
| "MinRevisionForEmulatedType Emu_SpasideRemote = Some (CHR ''G'')"
| "MinRevisionForEmulatedType Emu_RS_Keypad = Some (CHR ''C'')"
| "MinRevisionForEmulatedType Emu_PDA = None"
| "MinRevisionForEmulatedType Emu_Unknown = None"

definition RevisionGatesOutEmulation :: "RevisionCapabilities \<Rightarrow> JandyEmulatedDeviceTypes \<Rightarrow> bool" where
  "RevisionGatesOutEmulation caps type =
     (if \<not> is_known caps then False
      else case MinRevisionForEmulatedType type of
             None \<Rightarrow> False
           | Some m \<Rightarrow> (of_char (revision_letter caps) :: nat) < of_char m)"

definition planned :: "JandyEmulatedDeviceTypes \<Rightarrow> u8 list \<Rightarrow> string \<Rightarrow> PlannedDevice" where
  "planned type ids role =
     \<lparr> pd_type = type, candidate_ids = ids, selected_id = 0x00, pd_resolved = False, pd_role = role \<rparr>"

definition add_planned :: "DataGatheringMethod \<Rightarrow> PlannedDevice list \<Rightarrow> string \<Rightarrow> StartupPlan \<Rightarrow> StartupPlan" where
  "add_planned method devices reason plan =
     plan \<lparr> pl_method := method, pl_devices := pl_devices plan @ devices,
            pl_rationale := pl_rationale plan @ reason \<rparr>"

definition SelectControllerEmulation :: "PanelProfile \<Rightarrow> StartupPlan \<Rightarrow> StartupPlan" where
  "SelectControllerEmulation profile plan =
     (let caps = p_revision_caps profile;
          no_controller_probed = (\<not> probes_aqualinktouch profile \<and> \<not> probes_onetouch profile
                                  \<and> \<not> probes_pda profile)
      in if probes_aqualinktouch profile \<or> (no_controller_probed \<and> aqualink_touch caps) then
           (if \<not> RevisionGatesOutEmulation caps Emu_IAQ then
              add_planned PagePush
                [planned Emu_IAQ AQUALINKTOUCH_IDS ''live status via AqualinkTouch page-push (no menu crawl)'']
                (if probes_aqualinktouch profile
                 then ''master probes the AqualinkTouch range (0x30-0x33): source status from pushed pages, navigating to specific pages on demand''
                 else ''no controller probed yet, but revision is Touch-capable (Rev Q+): provisionally use AqualinkTouch page-push, to be confirmed once the touch range is probed'') plan
            else
              add_planned ObserveOnly []
                (''AqualinkTouch emulation skipped (needs Rev Q+, panel is Rev '' @ [revision_letter caps]
                 @ ''): passive decode only'') plan)
         else if probes_onetouch profile then
           (if \<not> RevisionGatesOutEmulation caps Emu_OneTouch then
              add_planned MenuSpider
                [planned Emu_OneTouch ONETOUCH_IDS ''live status via OneTouch menu scrape'']
                ''master probes the OneTouch range (0x40-0x43) but not AqualinkTouch: fall back to autonomous menu spidering'' plan
            else
              add_planned ObserveOnly []
                (''OneTouch emulation skipped (needs Rev I+, panel is Rev '' @ [revision_letter caps]
                 @ ''): passive decode only'') plan)
         else if probes_pda profile then
           add_planned PdaGraph [planned Emu_PDA PDA_IDS ''live status via PDA page-graph scrape'']
             ''master probes the PDA range (0x60-0x63): use the PDA page-graph scraper'' plan
         else
           add_planned ObserveOnly []
             ''no emulatable controller slot probed and revision not Touch-capable: passive decode only'' plan)"

definition DeriveProfile :: "u8 set \<Rightarrow> string \<Rightarrow> string \<Rightarrow> PanelProfile" where
  "DeriveProfile probed model revision =
     \<lparr> p_model = model, p_revision = revision,
       probes_aqualinktouch = AnyInRange probed 0x30 0x33, probes_onetouch = AnyInRange probed 0x40 0x43,
       probes_pda = AnyInRange probed 0x60 0x63, has_iaqualink2_slot = (0xA3 \<in> probed),
       p_revision_caps = DeriveRevisionCapabilities revision \<rparr>"

definition revision_consistent :: "PanelProfile \<Rightarrow> bool" where
  "revision_consistent profile \<longleftrightarrow>
     (let caps = p_revision_caps profile in
      is_known caps \<longrightarrow>
        \<not> (probes_aqualinktouch profile \<and> \<not> aqualink_touch caps
            \<or> probes_onetouch profile \<and> \<not> onetouch_support caps))"

definition Plan :: "PanelProfile \<Rightarrow> StartupPlan" where
  "Plan profile =
     (let caps = p_revision_caps profile;
          plan = \<lparr> pl_method = Method_Unknown, pl_devices = [], pl_rationale = [],
                   pl_revision_caps = caps, pl_revision_consistent = revision_consistent profile \<rparr>;
          plan = (if \<not> RevisionGatesOutEmulation caps Emu_SerialAdapter
                  then plan \<lparr> pl_devices := [planned Emu_SerialAdapter SERIALADAPTER_IDS ''panel model + command channel''] \<rparr>
                  else plan \<lparr> pl_rationale := ''SerialAdapter emulation skipped (needs Rev I+, panel is Rev ''
                                @ [revision_letter caps] @ ''); '' \<rparr>);
          plan = SelectControllerEmulation profile plan
      in if is_known caps then
           plan \<lparr> pl_rationale := pl_rationale plan @ '' [Rev '' @ [revision_letter caps] @ '' (''
             @ (if cpu_board caps then ''CPU'' else ''PPD'') @ ''): '' @ RevisionFeatureSummary caps @ '']''
             @ (if \<not> pl_revision_consistent plan
                then '' -- WARNING: a probed controller range is unsupported by this revision (AqualinkTouch needs Rev Q+, OneTouch needs Rev I+)''
                else []) \<rparr>
         else plan)"

definition SelectFreeAddress :: "u8 list \<Rightarrow> u8 set \<Rightarrow> u8 option" where
  "SelectFreeAddress candidates occupied = find (\<lambda>i. i \<notin> occupied) candidates"

fun resolve_devices :: "PlannedDevice list \<Rightarrow> u8 set \<Rightarrow> PlannedDevice list" where
  "resolve_devices [] taken = []"
| "resolve_devices (device # rest) taken =
     (case SelectFreeAddress (candidate_ids device) taken of
        Some i \<Rightarrow> device \<lparr> selected_id := i, pd_resolved := True \<rparr> # resolve_devices rest (insert i taken)
      | None \<Rightarrow> device \<lparr> selected_id := 0x00, pd_resolved := False \<rparr> # resolve_devices rest taken)"

definition ResolveAddresses :: "StartupPlan \<Rightarrow> u8 set \<Rightarrow> StartupPlan" where
  "ResolveAddresses plan occupied = plan \<lparr> pl_devices := resolve_devices (pl_devices plan) occupied \<rparr>"

section \<open>The environment\<close>

text \<open>
  The environment, with what it shares with the rest of the process: the equipment hub and the equipment
  that listens to the bus.
\<close>

record StartupEnvironment =
  se_Hub :: "(string, HubDevice) EquipmentHub"
  se_Equipment :: JandyEquipment
  se_Refresh :: int
  se_Model :: string
  se_Revision :: string
  se_ProbedIds :: "u8 set"
  se_RespondedIds :: "u8 set"
  se_EmulatedIds :: "u8 set"
  se_LastProbedId :: u8

abbreviation se_Devices :: "StartupEnvironment \<Rightarrow> HubDevice list" where
  "se_Devices env \<equiv> eh_ActiveDevices (se_Hub env)"

definition new_environment :: "int \<Rightarrow> StartupEnvironment" where
  "new_environment refresh_interval =
     \<lparr> se_Hub = fst (AddEquipment (Some ''JandyEquipment'') new_hub), se_Equipment = new_equipment False,
       se_Refresh = refresh_interval, se_Model = [], se_Revision = [], se_ProbedIds = {},
       se_RespondedIds = {}, se_EmulatedIds = {}, se_LastProbedId = 0x00 \<rparr>"

text \<open>
  A message is seen by the slot of the environment for its type and, when it is of a type the equipment
  connects to, by the equipment.
\<close>

datatype bus_event = Saw JandyMessageIds u8 | Sourced_Identity string string

fun slot :: "JandyMessageIds \<Rightarrow> u8 \<Rightarrow> StartupEnvironment \<Rightarrow> StartupEnvironment" where
  "slot Probe dest env = env \<lparr> se_ProbedIds := insert dest (se_ProbedIds env), se_LastProbedId := dest \<rparr>"
| "slot IAQ_Poll dest env = env \<lparr> se_ProbedIds := insert dest (se_ProbedIds env) \<rparr>"
| "slot Status dest env = env \<lparr> se_ProbedIds := insert dest (se_ProbedIds env) \<rparr>"
| "slot Ack dest env =
     (if dest = 0x00 \<and> se_LastProbedId env \<noteq> 0x00
      then env \<lparr> se_RespondedIds := insert (se_LastProbedId env) (se_RespondedIds env) \<rparr> else env)"
| "slot _ dest env = env"

definition identify :: "JandyMessageIds \<Rightarrow> u8 \<Rightarrow> StartupEnvironment \<Rightarrow> StartupEnvironment" where
  "identify message_id dest env =
     (if message_id \<notin> set identified_messages then env
      else let (equipment, hub) = IdentifyAndAddDevice message_id dest (se_Equipment env) (se_Hub env)
           in env \<lparr> se_Equipment := equipment, se_Hub := hub \<rparr>)"

fun observe :: "bus_event \<Rightarrow> StartupEnvironment \<Rightarrow> StartupEnvironment" where
  "observe (Saw message_id dest) env = slot message_id dest (identify message_id dest env)"
| "observe (Sourced_Identity model revision) env = env \<lparr> se_Model := model, se_Revision := revision \<rparr>"

definition OccupiedAddresses :: "StartupEnvironment \<Rightarrow> u8 set" where
  "OccupiedAddresses env = se_RespondedIds env - se_EmulatedIds env"

text \<open>The device is handed to the hub, whatever the hub answers the address counts as emulated.\<close>

definition EmulateDevice :: "JandyEmulatedDeviceTypes \<Rightarrow> u8 \<Rightarrow> StartupEnvironment \<Rightarrow> StartupEnvironment" where
  "EmulateDevice type i env =
     (case MakeEmulatedDevice type i of
        None \<Rightarrow> env
      | Some device \<Rightarrow>
          let device = (if type = Emu_IAQ then device \<lparr> hd_survey := Some DefaultAqualinkTouchRegistry \<rparr> else device);
              device = (if type = Emu_OneTouch then device \<lparr> hd_refresh := Some (se_Refresh env) \<rparr> else device);
              device = device \<lparr> hd_handler := Some (type, i) \<rparr>
          in env \<lparr> se_Hub := fst (AddDevice hd_id (Some device) (se_Hub env)),
                   se_EmulatedIds := insert i (se_EmulatedIds env) \<rparr>)"

definition RelocateEmulation :: "JandyEmulatedDeviceTypes \<Rightarrow> u8 \<Rightarrow> StartupEnvironment \<Rightarrow> StartupEnvironment \<times> bool" where
  "RelocateEmulation type colliding_id env =
     (let candidates = InstanceAddressesForClass (JandyDeviceType_Class colliding_id);
          taken = se_EmulatedIds env \<union> {colliding_id} \<union> OccupiedAddresses env
      in case find (\<lambda>candidate. candidate \<notin> taken) candidates of
           Some candidate \<Rightarrow> (EmulateDevice type candidate env, True)
         | None \<Rightarrow> (env, False))"

text \<open>
  The device at position \<open>n\<close> of the hub calls \<open>HandleEmulationCollision\<close>, because a real one answers at its
  address, with the handler the environment gave it.
\<close>

definition collide :: "nat \<Rightarrow> StartupEnvironment \<Rightarrow> StartupEnvironment" where
  "collide n env =
     (if n < length (se_Devices env) then
        let device = se_Devices env ! n;
            handler = map_option (\<lambda>(type, i). RelocateEmulation type i) (hd_handler device);
            (env', emulated) = HandleEmulationCollision handler env (hd_Emulated device)
        in env' \<lparr> se_Hub := (se_Hub env')
             \<lparr> eh_ActiveDevices := (se_Devices env')[n := device \<lparr> hd_Emulated := emulated \<rparr>] \<rparr> \<rparr>
      else env)"

section \<open>The coordinator and its service\<close>

datatype StartupPhase = Phase_Idle | Phase_Detecting | Phase_Engaging | Phase_Running

record StartupCoordinator =
  co_Phase :: StartupPhase
  co_Plan :: StartupPlan

definition no_plan :: StartupPlan where
  "no_plan = \<lparr> pl_method = Method_Unknown, pl_devices = [], pl_rationale = [],
     pl_revision_caps = no_capabilities, pl_revision_consistent = True \<rparr>"

definition new_coordinator :: StartupCoordinator where
  "new_coordinator = \<lparr> co_Phase = Phase_Idle, co_Plan = no_plan \<rparr>"

definition Coordinator_Begin :: "StartupCoordinator \<Rightarrow> StartupEnvironment \<Rightarrow> StartupCoordinator \<times> StartupEnvironment" where
  "Coordinator_Begin c env =
     (c \<lparr> co_Phase := Phase_Detecting \<rparr>, EmulateDevice Emu_SerialAdapter (hd SERIALADAPTER_IDS) env)"

definition env_profile :: "StartupEnvironment \<Rightarrow> PanelProfile" where
  "env_profile env = DeriveProfile (se_ProbedIds env) (se_Model env) (se_Revision env)"

definition HaveControllerSignal :: "StartupEnvironment \<Rightarrow> bool" where
  "HaveControllerSignal env \<longleftrightarrow>
     (let profile = env_profile env in
      probes_aqualinktouch profile \<or> probes_onetouch profile \<or> probes_pda profile
      \<or> is_known (p_revision_caps profile) \<and> aqualink_touch (p_revision_caps profile))"

definition engage :: "PlannedDevice list \<Rightarrow> StartupEnvironment \<Rightarrow> StartupEnvironment" where
  "engage devices env =
     fold (\<lambda>device env. if pd_type device = Emu_SerialAdapter \<or> \<not> pd_resolved device then env
                        else EmulateDevice (pd_type device) (selected_id device) env) devices env"

definition Advance :: "bool \<Rightarrow> StartupCoordinator \<Rightarrow> StartupEnvironment \<Rightarrow> StartupCoordinator \<times> StartupEnvironment" where
  "Advance detection_window_elapsed c env =
     (case co_Phase c of
        Phase_Idle \<Rightarrow> (c, env)
      | Phase_Running \<Rightarrow> (c, env)
      | Phase_Engaging \<Rightarrow> (c \<lparr> co_Phase := Phase_Running \<rparr>, engage (pl_devices (co_Plan c)) env)
      | Phase_Detecting \<Rightarrow>
          if \<not> HaveControllerSignal env \<and> \<not> detection_window_elapsed then (c, env)
          else
            let plan = ResolveAddresses (Plan (env_profile env)) (OccupiedAddresses env)
            in (c \<lparr> co_Plan := plan, co_Phase := Phase_Running \<rparr>, engage (pl_devices plan) env))"

definition DETECTION_WINDOW_TICKS :: u32 where "DETECTION_WINDOW_TICKS = 5"

record StartupService =
  sv_Environment :: StartupEnvironment
  sv_Coordinator :: StartupCoordinator
  sv_TicksElapsed :: u32
  sv_Stopped :: bool
  sv_TimerArmed :: bool

definition new_startup_service :: "int \<Rightarrow> StartupService" where
  "new_startup_service refresh_interval =
     \<lparr> sv_Environment = new_environment refresh_interval, sv_Coordinator = new_coordinator,
       sv_TicksElapsed = 0, sv_Stopped = False, sv_TimerArmed = False \<rparr>"

definition Startup_Tick :: "StartupService \<Rightarrow> StartupService" where
  "Startup_Tick sv =
     (if sv_Stopped sv then sv
      else
        let ticks = sv_TicksElapsed sv + 1;
            (c, env) = Advance (ticks \<ge> DETECTION_WINDOW_TICKS) (sv_Coordinator sv) (sv_Environment sv)
        in sv \<lparr> sv_TicksElapsed := ticks, sv_Coordinator := c, sv_Environment := env,
                sv_TimerArmed := (co_Phase c \<noteq> Phase_Running) \<rparr>)"

definition Startup_Start :: "StartupService \<Rightarrow> StartupService" where
  "Startup_Start sv =
     (let (c, env) = Coordinator_Begin (sv_Coordinator sv) (sv_Environment sv)
      in Startup_Tick (sv \<lparr> sv_Coordinator := c, sv_Environment := env \<rparr>))"

definition Startup_Stop :: "StartupService \<Rightarrow> StartupService" where
  "Startup_Stop sv = sv \<lparr> sv_Stopped := True, sv_TimerArmed := False \<rparr>"

text \<open>The timer is consumed when it fires; an unarmed timer does not.\<close>

datatype startup_event = Su_Bus bus_event | Su_Timer | Su_Collision nat | Su_Stop

fun startup_step :: "startup_event \<Rightarrow> StartupService \<Rightarrow> StartupService" where
  "startup_step (Su_Bus e) sv = sv \<lparr> sv_Environment := observe e (sv_Environment sv) \<rparr>"
| "startup_step Su_Timer sv =
     (if sv_TimerArmed sv then Startup_Tick (sv \<lparr> sv_TimerArmed := False \<rparr>) else sv)"
| "startup_step (Su_Collision n) sv = sv \<lparr> sv_Environment := collide n (sv_Environment sv) \<rparr>"
| "startup_step Su_Stop sv = Startup_Stop sv"

text \<open>Everything after \<open>Start\<close>.\<close>

definition startup_run :: "int \<Rightarrow> startup_event list \<Rightarrow> StartupService" where
  "startup_run refresh_interval es =
     fold startup_step es (Startup_Start (new_startup_service refresh_interval))"

section \<open>Lemmas\<close>

lemmas startup_defs = planned_def add_planned_def engage_def Let_def

subsection \<open>Addresses\<close>

lemma find_in: "find P xs = Some x \<Longrightarrow> x \<in> set xs \<and> P x"
  by (auto simp: find_Some_iff)

lemma SelectFreeAddress_free:
  "SelectFreeAddress cs occupied = Some i \<Longrightarrow> i \<in> set cs \<and> i \<notin> occupied"
  unfolding SelectFreeAddress_def by (rule find_in)

lemma resolve_devices_addresses:
  assumes "d \<in> set (resolve_devices ds taken)" "pd_resolved d"
  shows "selected_id d \<in> set (candidate_ids d) \<and> selected_id d \<notin> taken"
  using assms
  by (induction ds taken rule: resolve_devices.induct)
     (auto split: option.splits dest: SelectFreeAddress_free)

lemma resolve_devices_types [simp]:
  "map pd_type (resolve_devices ds taken) = map pd_type ds"
  "map candidate_ids (resolve_devices ds taken) = map candidate_ids ds"
  by (induction ds taken rule: resolve_devices.induct) (auto split: option.splits)

lemma resolve_devices_distinct:
  "distinct (map selected_id (filter pd_resolved (resolve_devices ds taken)))"
proof (induction ds taken rule: resolve_devices.induct)
  case (2 d rest taken)
  have "i \<notin> set (map selected_id (filter pd_resolved (resolve_devices rest (insert i taken))))" for i
    using resolve_devices_addresses [of _ rest "insert i taken"] by auto
  with 2 show ?case by (auto split: option.splits)
qed simp

lemma resolve_devices_unresolved:
  assumes "d \<in> set (resolve_devices ds taken)" "\<not> pd_resolved d"
  shows "\<exists>taken'. taken \<subseteq> taken' \<and> taken' \<subseteq> taken \<union> selected_id ` set (filter pd_resolved (resolve_devices ds taken))
    \<and> set (candidate_ids d) \<subseteq> taken'"
  using assms
proof (induction ds taken rule: resolve_devices.induct)
  case (2 e rest taken)
  show ?case
  proof (cases "SelectFreeAddress (candidate_ids e) taken")
    case None
    then have all: "set (candidate_ids e) \<subseteq> taken"
      by (auto simp: SelectFreeAddress_def find_None_iff)
    show ?thesis
    proof (cases "d \<in> set (resolve_devices rest taken)")
      case True
      then show ?thesis using "2.IH"(1) [OF None True "2.prems"(2)] None by auto
    next
      case False
      then show ?thesis using "2.prems" None all by (auto intro!: exI [of _ taken])
    qed
  next
    case (Some i)
    then have "d \<in> set (resolve_devices rest (insert i taken))" using "2.prems" by auto
    from "2.IH"(2) [OF Some this "2.prems"(2)] show ?thesis using Some by auto
  qed
qed simp

subsection \<open>The plan\<close>

lemma Plan_devices:
  "map (\<lambda>d. (pd_type d, candidate_ids d)) (pl_devices (Plan profile)) =
     (if RevisionGatesOutEmulation (p_revision_caps profile) Emu_SerialAdapter then []
      else [(Emu_SerialAdapter, SERIALADAPTER_IDS)]) @
     (case pl_method (Plan profile) of
        PagePush \<Rightarrow> [(Emu_IAQ, AQUALINKTOUCH_IDS)] | MenuSpider \<Rightarrow> [(Emu_OneTouch, ONETOUCH_IDS)]
      | PdaGraph \<Rightarrow> [(Emu_PDA, PDA_IDS)] | Method_Unknown \<Rightarrow> [] | ObserveOnly \<Rightarrow> [])"
  by (simp add: Plan_def SelectControllerEmulation_def startup_defs)

lemma Plan_method:
  "pl_method (Plan profile) =
     (let caps = p_revision_caps profile in
      if probes_aqualinktouch profile \<or>
         (\<not> probes_onetouch profile \<and> \<not> probes_pda profile \<and> aqualink_touch caps)
      then (if RevisionGatesOutEmulation caps Emu_IAQ then ObserveOnly else PagePush)
      else if probes_onetouch profile
      then (if RevisionGatesOutEmulation caps Emu_OneTouch then ObserveOnly else MenuSpider)
      else if probes_pda profile then PdaGraph else ObserveOnly)"
  by (simp add: Plan_def SelectControllerEmulation_def startup_defs)

lemma dropWhile_head:
  assumes "dropWhile P xs = x # rest"
  shows "x \<in> set xs" "\<not> P x"
proof -
  have "x \<in> set (dropWhile P xs)" by (simp add: assms)
  then show "x \<in> set xs" by (rule set_dropWhileD)
  show "\<not> P x" using hd_dropWhile [of P xs] assms by auto
qed

lemma ParseRevisionLetter_upper:
  assumes "ParseRevisionLetter revision = Some c"
  shows "65 \<le> (of_char c :: nat) \<and> (of_char c :: nat) \<le> 90"
proof -
  define trimmed where "trimmed = dropWhile isspace (map toupper revision)"
  obtain rest where rest: "dropWhile (\<lambda>c. \<not> letter c)
      (if take 3 trimmed = ''REV'' then drop 3 trimmed else trimmed) = c # rest"
    using assms by (simp add: ParseRevisionLetter_def Let_def split: list.splits flip: trimmed_def)
  then have "c \<in> set trimmed"
    using dropWhile_head(1) [OF rest] by (auto dest: in_set_dropD split: if_splits)
  then have "c \<in> set (map toupper revision)"
    unfolding trimmed_def by (rule set_dropWhileD)
  moreover have "letter c" using dropWhile_head(2) [OF rest] by simp
  ultimately show ?thesis by (auto simp: letter_def toupper_def Let_def split: if_splits)
qed

lemma ordinal_of_le [simp]: "ordinal_of c \<le> ordinal_of d \<longleftrightarrow> (of_char c :: nat) \<le> of_char d"
proof -
  have "(of_char x :: int) = int (of_char x)" for x :: char by (rule of_nat_of_char [symmetric])
  then show ?thesis by (simp only: ordinal_of_def) simp
qed

lemma derived_capabilities:
  "is_known (DeriveRevisionCapabilities revision) \<longleftrightarrow> ParseRevisionLetter revision \<noteq> None"
  "RevisionGatesOutEmulation (DeriveRevisionCapabilities revision) Emu_IAQ \<longleftrightarrow>
     (\<exists>c. ParseRevisionLetter revision = Some c \<and> (of_char c :: nat) < of_char (CHR ''Q''))"
  "RevisionGatesOutEmulation (DeriveRevisionCapabilities revision) Emu_OneTouch \<longleftrightarrow>
     (\<exists>c. ParseRevisionLetter revision = Some c \<and> (of_char c :: nat) < of_char (CHR ''I''))"
  "aqualink_touch (DeriveRevisionCapabilities revision) \<longleftrightarrow>
     (\<exists>c. ParseRevisionLetter revision = Some c \<and> of_char (CHR ''Q'') \<le> (of_char c :: nat))"
  by (auto simp: DeriveRevisionCapabilities_def no_capabilities_def RevisionGatesOutEmulation_def
      split: option.splits)

lemma AnyInRange_iff [simp]:
  "AnyInRange s lo hi \<longleftrightarrow> (\<exists>a \<in> s. lo \<le> a \<and> a \<le> hi)"
proof
  assume "AnyInRange s lo hi"
  then obtain n where n: "unat lo \<le> n" "n \<le> unat hi" "(of_nat n :: u8) \<in> s"
    by (auto simp: AnyInRange_def list_ex_iff)
  moreover have "unat hi < 2 ^ LENGTH(8)" by (rule unsigned_less)
  ultimately have "unat (of_nat n :: u8) = n" by (simp add: unat_of_nat)
  with n show "\<exists>a \<in> s. lo \<le> a \<and> a \<le> hi" by (auto simp: word_le_nat_alt intro!: bexI [of _ "of_nat n"])
next
  assume "\<exists>a \<in> s. lo \<le> a \<and> a \<le> hi"
  then obtain a where "a \<in> s" "lo \<le> a" "a \<le> hi" by auto
  then show "AnyInRange s lo hi"
    unfolding AnyInRange_def list_ex_iff
    by (intro bexI [of _ "unat a"]) (simp_all add: word_le_nat_alt less_Suc_eq_le del: upt_Suc)
qed

subsection \<open>The environment\<close>

definition emulated_device :: "JandyEmulatedDeviceTypes \<Rightarrow> u8 \<Rightarrow> int \<Rightarrow> HubDevice option" where
  "emulated_device type i refresh =
     map_option (\<lambda>device. device \<lparr> hd_handler := Some (type, i),
         hd_survey := (if type = Emu_IAQ then Some DefaultAqualinkTouchRegistry else None),
         hd_refresh := (if type = Emu_OneTouch then Some refresh else None) \<rparr>) (MakeEmulatedDevice type i)"

lemma emulated_device_Some:
  assumes "emulated_device type i refresh = Some d"
  shows "hd_id d = i" "hd_handler d = Some (type, i)" "hd_Emulated d = new_emulated True"
    "hd_kind d = SerialAdapterDevice \<longleftrightarrow> type = Emu_SerialAdapter"
  using assms by (auto simp: emulated_device_def MakeEmulatedDevice_def make_device_def
      split: JandyEmulatedDeviceTypes.splits)

lemma EmulateDevice_alt:
  "EmulateDevice type i env =
     (case emulated_device type i (se_Refresh env) of
        None \<Rightarrow> env
      | Some d \<Rightarrow> env \<lparr> se_Hub := fst (AddDevice hd_id (Some d) (se_Hub env)),
                         se_EmulatedIds := insert i (se_EmulatedIds env) \<rparr>)"
  by (simp add: EmulateDevice_def emulated_device_def MakeEmulatedDevice_def make_device_def Let_def
      split: JandyEmulatedDeviceTypes.splits)

lemma EmulateDevice_cases:
  obtains "EmulateDevice type i env = env"
  | "se_Devices (EmulateDevice type i env) = se_Devices env" "i \<in> hd_id ` set (se_Devices env)"
    "se_EmulatedIds (EmulateDevice type i env) = insert i (se_EmulatedIds env)"
  | d where "emulated_device type i (se_Refresh env) = Some d" "i \<notin> hd_id ` set (se_Devices env)"
    "se_Devices (EmulateDevice type i env) = se_Devices env @ [d]"
    "se_EmulatedIds (EmulateDevice type i env) = insert i (se_EmulatedIds env)"
proof (cases "emulated_device type i (se_Refresh env)")
  case None
  then show ?thesis using that(1) by (simp add: EmulateDevice_alt)
next
  case (Some d)
  note id = emulated_device_Some(1) [OF Some]
  show ?thesis
  proof (cases "i \<in> hd_id ` set (se_Devices env)")
    case True
    then show ?thesis by (intro that(2)) (simp_all add: EmulateDevice_alt Some AddDevice_devices id)
  next
    case False
    then show ?thesis by (intro that(3) [OF Some]) (simp_all add: EmulateDevice_alt Some AddDevice_devices id)
  qed
qed

lemma slot_frame [simp]:
  "se_Hub (slot message_id dest env) = se_Hub env"
  "se_EmulatedIds (slot message_id dest env) = se_EmulatedIds env"
  by (cases message_id; simp)+

lemma identify_frame [simp]:
  "se_EmulatedIds (identify message_id dest env) = se_EmulatedIds env"
  "se_ProbedIds (identify message_id dest env) = se_ProbedIds env"
  "se_RespondedIds (identify message_id dest env) = se_RespondedIds env"
  "se_LastProbedId (identify message_id dest env) = se_LastProbedId env"
  by (simp_all add: identify_def split: prod.split)

lemma identify_devices:
  obtains "se_Hub (identify message_id dest env) = se_Hub env"
  | kind where "se_Devices (identify message_id dest env) = se_Devices env @ [make_device kind dest False]"
    "dest \<notin> hd_id ` set (se_Devices env)"
proof (cases "message_id \<in> set identified_messages")
  case False
  with that(1) show ?thesis by (simp add: identify_def)
next
  case True
  obtain equipment hub where hub: "IdentifyAndAddDevice message_id dest (se_Equipment env) (se_Hub env) = (equipment, hub)"
    by (cases "IdentifyAndAddDevice message_id dest (se_Equipment env) (se_Hub env)")
  then have "hub = snd (IdentifyAndAddDevice message_id dest (se_Equipment env) (se_Hub env))" by simp
  then have "hub = se_Hub env \<or> (\<exists>kind. eh_ActiveDevices hub = se_Devices env @ [make_device kind dest False]
      \<and> dest \<notin> hd_id ` set (se_Devices env))"
    unfolding IdentifyAndAddDevice_hub
    by (auto simp: AddDevice_def make_device_def split: option.splits if_splits)
  with that hub True show ?thesis by (auto simp: identify_def)
qed

lemma observe_ids [simp]: "se_EmulatedIds (observe e env) = se_EmulatedIds env"
  by (cases e) simp_all

lemma RelocateEmulation_cases:
  assumes "RelocateEmulation type i env = (env', relocated)"
  shows "if relocated
         then \<exists>free. env' = EmulateDevice type free env
                \<and> free \<in> set (InstanceAddressesForClass (JandyDeviceType_Class i)) \<and> free \<noteq> i
                \<and> free \<notin> se_EmulatedIds env \<and> free \<notin> OccupiedAddresses env
         else env' = env \<and> set (InstanceAddressesForClass (JandyDeviceType_Class i))
                \<subseteq> insert i (se_EmulatedIds env \<union> OccupiedAddresses env)"
  using assms
  by (auto simp: RelocateEmulation_def Let_def find_None_iff split: option.splits dest!: find_in)

lemma map_update_same:
  "n < length xs \<Longrightarrow> f y = f (xs ! n) \<Longrightarrow> map f (xs[n := y]) = map f xs"
  by (simp add: map_update list_update_same_conv)

definition active :: "(DeviceKind \<Rightarrow> bool) \<Rightarrow> HubDevice list \<Rightarrow> nat" where
  "active P devices = length (filter (\<lambda>d. P (hd_kind d) \<and> IsEmulationActive (hd_Emulated d)) devices)"

lemma new_emulated_active [simp]: "IsEmulationActive (new_emulated b) = b"
  by (simp add: IsEmulationActive_def new_emulated_def)

lemma collision_active:
  "IsEmulationActive e \<Longrightarrow>
     HandleEmulationCollision (Some relocate) env e = (fst (relocate env), SuppressEmulation e)"
  by (simp add: HandleEmulationCollision_def IsEmulationActive_def)

lemma collide_inactive:
  "\<not> (n < length (se_Devices env) \<and> IsEmulationActive (hd_Emulated (se_Devices env ! n))) \<Longrightarrow> collide n env = env"
  by (auto simp: collide_def HandleEmulationCollision_def IsEmulationActive_def Let_def)

lemma active_append [simp]: "active P (xs @ ys) = active P xs + active P ys"
  by (simp add: active_def)

lemma active_single [simp]: "active P [d] = (if P (hd_kind d) \<and> IsEmulationActive (hd_Emulated d) then 1 else 0)"
  by (simp add: active_def)

lemma active_suppress:
  assumes "n < length xs" "IsEmulationActive (hd_Emulated (xs ! n))"
  shows "active P xs = active P (xs[n := (xs ! n) \<lparr> hd_Emulated := SuppressEmulation e \<rparr>])
           + (if P (hd_kind (xs ! n)) then 1 else 0)"
proof -
  have "active P xs = active P (take n xs @ xs ! n # drop (Suc n) xs)"
    using assms(1) by (simp flip: id_take_nth_drop)
  with assms show ?thesis
    by (simp add: upd_conv_take_nth_drop active_def IsEmulationActive_def SuppressEmulation_def)
qed

fun emulation_addresses :: "JandyEmulatedDeviceTypes \<Rightarrow> u8 list" where
  "emulation_addresses Emu_SerialAdapter = InstanceAddressesForClass SerialAdapter"
| "emulation_addresses Emu_OneTouch = InstanceAddressesForClass OneTouch"
| "emulation_addresses Emu_IAQ = InstanceAddressesForClass AqualinkTouch"
| "emulation_addresses Emu_PDA = InstanceAddressesForClass PDA"
| "emulation_addresses _ = []"

text \<open>A device that may emulate was given its handler, stands at an address of its class and is accounted for.\<close>

definition placed :: "u8 set \<Rightarrow> HubDevice \<Rightarrow> bool" where
  "placed emulated d \<longleftrightarrow> em_IsEmulated (hd_Emulated d) \<longrightarrow>
     (case hd_handler d of
        None \<Rightarrow> False
      | Some (type, i) \<Rightarrow> i = hd_id d \<and> i \<in> set (emulation_addresses type) \<and> i \<in> emulated
          \<and> (hd_kind d = SerialAdapterDevice \<longleftrightarrow> type = Emu_SerialAdapter))"

lemma emulation_addresses_class:
  "i \<in> set (emulation_addresses type) \<Longrightarrow>
     InstanceAddressesForClass (JandyDeviceType_Class i) = emulation_addresses type"
proof -
  have "list_all (\<lambda>type. list_all (\<lambda>i. InstanceAddressesForClass (JandyDeviceType_Class i) = emulation_addresses type)
      (emulation_addresses type))
      [Emu_RS_Keypad, Emu_OneTouch, Emu_IAQ, Emu_PDA, Emu_SerialAdapter, Emu_SpasideRemote, Emu_Unknown]"
    by code_simp
  moreover assume "i \<in> set (emulation_addresses type)"
  ultimately show ?thesis by (cases type) (simp_all add: list_all_iff)
qed

definition environment_ok :: "StartupEnvironment \<Rightarrow> bool" where
  "environment_ok env \<longleftrightarrow>
     distinct (map hd_id (se_Devices env)) \<and> (\<forall>d \<in> set (se_Devices env). placed (se_EmulatedIds env) d)
     \<and> active (\<lambda>kind. kind = SerialAdapterDevice) (se_Devices env) \<le> 1
     \<and> active (\<lambda>kind. kind \<noteq> SerialAdapterDevice) (se_Devices env) \<le> 1"

definition no_controller :: "StartupEnvironment \<Rightarrow> bool" where
  "no_controller env \<longleftrightarrow>
     (\<forall>d \<in> set (se_Devices env). em_IsEmulated (hd_Emulated d) \<longrightarrow> hd_kind d = SerialAdapterDevice)"

definition only_adapters :: "StartupEnvironment \<Rightarrow> bool" where
  "only_adapters env \<longleftrightarrow> se_EmulatedIds env \<subseteq> set SERIALADAPTER_IDS \<and> no_controller env"

lemma placed_mono: "placed emulated d \<Longrightarrow> placed (insert i emulated) d"
  by (auto simp: placed_def split: option.splits)

lemma observed_not_emulated [simp]: "em_IsEmulated (new_emulated b) = b"
  by (simp add: new_emulated_def)

lemma observe_devices:
  "se_Hub (observe e env) = se_Hub env \<or> (\<exists>kind dest. dest \<notin> hd_id ` set (se_Devices env) \<and>
      se_Devices (observe e env) = se_Devices env @ [make_device kind dest False])"
proof (cases e)
  case (Saw message_id dest)
  then show ?thesis by (cases rule: identify_devices [of message_id dest env]) auto
qed simp

lemma observe_ok:
  "environment_ok env \<Longrightarrow> environment_ok (observe e env)"
  "no_controller env \<Longrightarrow> no_controller (observe e env)"
  "only_adapters env \<Longrightarrow> only_adapters (observe e env)"
  using observe_devices [of e env]
  by (auto simp: environment_ok_def placed_def make_device_def no_controller_def only_adapters_def)

lemma ball_update_same:
  assumes "n < length xs" "Q y = Q (xs ! n)"
  shows "(\<forall>d \<in> set (xs[n := y]). Q d) \<longleftrightarrow> (\<forall>d \<in> set xs. Q d)"
proof -
  have ball: "(\<forall>d \<in> set ys. Q d) \<longleftrightarrow> list_all id (map Q ys)" for ys by (simp add: list_all_iff)
  show ?thesis unfolding ball map_update_same [of n xs Q, OF assms] ..
qed

lemma SuppressEmulation_emulated [simp]: "em_IsEmulated (SuppressEmulation e) = em_IsEmulated e"
  by (simp add: SuppressEmulation_def)

lemma placed_suppress [simp]:
  "placed emulated (d \<lparr> hd_Emulated := SuppressEmulation (hd_Emulated d) \<rparr>) = placed emulated d"
  by (simp add: placed_def split: option.split)

text \<open>An emulation of a given type that is stood up at an address of its class nothing else emulates.\<close>

lemma EmulateDevice_ok:
  assumes "environment_ok env" "i \<in> set (emulation_addresses type)" "i \<notin> se_EmulatedIds env"
    and "active (\<lambda>kind. (kind = SerialAdapterDevice) = (type = Emu_SerialAdapter)) (se_Devices env) = 0"
  shows "environment_ok (EmulateDevice type i env)"
proof (cases rule: EmulateDevice_cases [of type i env])
  case (3 d)
  note d = emulated_device_Some [OF 3(1)]
  have "placed (insert i (se_EmulatedIds env)) d" using d assms(2) by (simp add: placed_def)
  moreover have "active (\<lambda>kind. kind = SerialAdapterDevice) (se_Devices env @ [d]) \<le> 1"
    "active (\<lambda>kind. kind \<noteq> SerialAdapterDevice) (se_Devices env @ [d]) \<le> 1"
    using assms(1,4) d by (cases "type = Emu_SerialAdapter"; simp add: environment_ok_def)+
  ultimately show ?thesis
    using assms(1) 3(2-) d by (auto simp: environment_ok_def intro: placed_mono)
qed (use assms in \<open>auto simp: environment_ok_def intro: placed_mono\<close>)

subsection \<open>The coordinator\<close>

lemma engage_simps [simp]:
  "engage [] env = env"
  "engage (d # ds) env =
     engage ds (if pd_type d = Emu_SerialAdapter \<or> \<not> pd_resolved d then env
                else EmulateDevice (pd_type d) (selected_id d) env)"
  by (simp_all add: engage_def)

text \<open>The controller to emulate, as the documentation has it: by what is probed and by the revision.\<close>

definition too_old_for :: "string \<Rightarrow> char \<Rightarrow> bool" where
  "too_old_for revision m \<longleftrightarrow> (\<exists>c. ParseRevisionLetter revision = Some c \<and> (of_char c :: nat) < of_char m)"

definition controller_for :: "u8 set \<Rightarrow> string \<Rightarrow> (JandyEmulatedDeviceTypes \<times> u8 list) option" where
  "controller_for probed revision =
     (let touch = (\<exists>a \<in> probed. 0x30 \<le> a \<and> a \<le> 0x33);
          onetouch = (\<exists>a \<in> probed. 0x40 \<le> a \<and> a \<le> 0x43);
          pda = (\<exists>a \<in> probed. 0x60 \<le> a \<and> a \<le> 0x63);
          touch_revision = (ParseRevisionLetter revision \<noteq> None \<and> \<not> too_old_for revision (CHR ''Q''))
      in if touch \<or> (\<not> onetouch \<and> \<not> pda \<and> touch_revision)
         then (if too_old_for revision (CHR ''Q'') then None else Some (Emu_IAQ, AQUALINKTOUCH_IDS))
         else if onetouch
         then (if too_old_for revision (CHR ''I'') then None else Some (Emu_OneTouch, ONETOUCH_IDS))
         else if pda then Some (Emu_PDA, PDA_IDS) else None)"

definition method_controller :: "DataGatheringMethod \<Rightarrow> (JandyEmulatedDeviceTypes \<times> u8 list) option" where
  "method_controller method =
     (case method of PagePush \<Rightarrow> Some (Emu_IAQ, AQUALINKTOUCH_IDS) | MenuSpider \<Rightarrow> Some (Emu_OneTouch, ONETOUCH_IDS)
      | PdaGraph \<Rightarrow> Some (Emu_PDA, PDA_IDS) | Method_Unknown \<Rightarrow> None | ObserveOnly \<Rightarrow> None)"

lemma Plan_controller:
  "method_controller (pl_method (Plan (DeriveProfile probed model revision))) = controller_for probed revision"
proof -
  let ?profile = "DeriveProfile probed model revision"
  have profile [simp]: "probes_aqualinktouch ?profile = (\<exists>a \<in> probed. 0x30 \<le> a \<and> a \<le> 0x33)"
    "probes_onetouch ?profile = (\<exists>a \<in> probed. 0x40 \<le> a \<and> a \<le> 0x43)"
    "probes_pda ?profile = (\<exists>a \<in> probed. 0x60 \<le> a \<and> a \<le> 0x63)"
    "p_revision_caps ?profile = DeriveRevisionCapabilities revision"
    by (simp_all add: DeriveProfile_def)
  have gates [simp]: "RevisionGatesOutEmulation (DeriveRevisionCapabilities revision) Emu_IAQ = too_old_for revision (CHR ''Q'')"
    "RevisionGatesOutEmulation (DeriveRevisionCapabilities revision) Emu_OneTouch = too_old_for revision (CHR ''I'')"
    "aqualink_touch (DeriveRevisionCapabilities revision) =
       (ParseRevisionLetter revision \<noteq> None \<and> \<not> too_old_for revision (CHR ''Q''))"
    unfolding derived_capabilities too_old_for_def by auto
  show ?thesis
    unfolding Plan_method controller_for_def Let_def profile gates
    by (simp only: method_controller_def split: if_splits) auto
qed

definition stand_up :: "(JandyEmulatedDeviceTypes \<times> u8 list) option \<Rightarrow> StartupEnvironment \<Rightarrow> StartupEnvironment" where
  "stand_up controller env =
     (case controller of None \<Rightarrow> env
      | Some (type, ids) \<Rightarrow>
          (case SelectFreeAddress ids (OccupiedAddresses env) of None \<Rightarrow> env | Some i \<Rightarrow> EmulateDevice type i env))"

lemma SelectFreeAddress_other:
  "i \<notin> set ids \<Longrightarrow> SelectFreeAddress ids (insert i taken) = SelectFreeAddress ids taken"
  unfolding SelectFreeAddress_def by (rule find_cong) auto

lemma engage_one:
  assumes "map (\<lambda>d. (pd_type d, candidate_ids d)) ds = [(type, ids)]" "type \<noteq> Emu_SerialAdapter"
  shows "engage (resolve_devices ds taken) env =
     (case SelectFreeAddress ids taken of None \<Rightarrow> env | Some i \<Rightarrow> EmulateDevice type i env)"
  using assms by (auto simp: map_eq_Cons_conv split: option.splits)

lemma engage_controller:
  assumes "map (\<lambda>d. (pd_type d, candidate_ids d)) ds =
      (case method_controller how of None \<Rightarrow> [] | Some entry \<Rightarrow> [entry])"
    and "taken = OccupiedAddresses env \<or> (\<exists>i \<in> set SERIALADAPTER_IDS. taken = insert i (OccupiedAddresses env))"
  shows "engage (resolve_devices ds taken) env = stand_up (method_controller how) env"
proof (cases "method_controller how")
  case None
  then show ?thesis using assms(1) by (simp add: stand_up_def)
next
  case (Some entry)
  obtain type ids where entry: "entry = (type, ids)" by (cases entry)
  have controller: "type \<noteq> Emu_SerialAdapter" "set SERIALADAPTER_IDS \<inter> set ids = {}"
    using Some entry by (cases how; auto simp: method_controller_def AQUALINKTOUCH_IDS_def
        ONETOUCH_IDS_def PDA_IDS_def SERIALADAPTER_IDS_def)+
  have "SelectFreeAddress ids taken = SelectFreeAddress ids (OccupiedAddresses env)"
    using assms(2) controller(2) SelectFreeAddress_other by blast
  moreover have "map (\<lambda>d. (pd_type d, candidate_ids d)) ds = [(type, ids)]"
    using assms(1) Some entry by simp
  ultimately show ?thesis using engage_one [OF _ controller(1)] Some entry
    by (simp add: stand_up_def)
qed

lemma engage_adapter:
  assumes "pd_type d = Emu_SerialAdapter" "candidate_ids d = SERIALADAPTER_IDS"
  shows "\<exists>taken'. engage (resolve_devices (d # ds) taken) env = engage (resolve_devices ds taken') env
    \<and> (taken' = taken \<or> (\<exists>i \<in> set SERIALADAPTER_IDS. taken' = insert i taken))"
  using assms by (cases "SelectFreeAddress SERIALADAPTER_IDS taken") (auto dest: SelectFreeAddress_free)

lemma Plan_devices_split:
  fixes profile :: PanelProfile
  obtains adapter controller where "pl_devices (Plan profile) = adapter @ controller"
    "adapter = [] \<or> (\<exists>d. adapter = [d] \<and> pd_type d = Emu_SerialAdapter \<and> candidate_ids d = SERIALADAPTER_IDS)"
    "map (\<lambda>d. (pd_type d, candidate_ids d)) controller =
      (case method_controller (pl_method (Plan profile)) of None \<Rightarrow> [] | Some entry \<Rightarrow> [entry])"
proof -
  have tail: "(case pl_method (Plan profile) of
        PagePush \<Rightarrow> [(Emu_IAQ, AQUALINKTOUCH_IDS)] | MenuSpider \<Rightarrow> [(Emu_OneTouch, ONETOUCH_IDS)]
      | PdaGraph \<Rightarrow> [(Emu_PDA, PDA_IDS)] | Method_Unknown \<Rightarrow> [] | ObserveOnly \<Rightarrow> []) =
      (case method_controller (pl_method (Plan profile)) of None \<Rightarrow> [] | Some entry \<Rightarrow> [entry])"
    by (simp add: method_controller_def split: DataGatheringMethod.splits)
  show ?thesis
  proof (cases "RevisionGatesOutEmulation (p_revision_caps profile) Emu_SerialAdapter")
    case True
    show ?thesis using Plan_devices [of profile] True tail that [of "[]"] by simp
  next
    case False
    then obtain d ds where "pl_devices (Plan profile) = d # ds"
      "pd_type d = Emu_SerialAdapter" "candidate_ids d = SERIALADAPTER_IDS"
      "map (\<lambda>d. (pd_type d, candidate_ids d)) ds =
        (case method_controller (pl_method (Plan profile)) of None \<Rightarrow> [] | Some entry \<Rightarrow> [entry])"
      using Plan_devices [of profile] tail by (auto simp: map_eq_Cons_conv)
    then show ?thesis using that [of "[d]" ds] by simp
  qed
qed

lemma engage_plan:
  "engage (pl_devices (ResolveAddresses (Plan profile) (OccupiedAddresses env))) env =
     stand_up (method_controller (pl_method (Plan profile))) env"
proof (rule Plan_devices_split [of profile])
  fix adapter controller
  assume split: "pl_devices (Plan profile) = adapter @ controller"
    "adapter = [] \<or> (\<exists>d. adapter = [d] \<and> pd_type d = Emu_SerialAdapter \<and> candidate_ids d = SERIALADAPTER_IDS)"
    and controller: "map (\<lambda>d. (pd_type d, candidate_ids d)) controller =
      (case method_controller (pl_method (Plan profile)) of None \<Rightarrow> [] | Some entry \<Rightarrow> [entry])"
  obtain taken where "engage (resolve_devices (adapter @ controller) (OccupiedAddresses env)) env =
      engage (resolve_devices controller taken) env"
    "taken = OccupiedAddresses env \<or> (\<exists>i \<in> set SERIALADAPTER_IDS. taken = insert i (OccupiedAddresses env))"
    using split(2) engage_adapter by fastforce
  with engage_controller [OF controller] split(1) show ?thesis by (simp add: ResolveAddresses_def)
qed

lemma Advance_detecting:
  assumes "co_Phase c = Phase_Detecting"
  shows "Advance elapsed c env =
     (if \<not> HaveControllerSignal env \<and> \<not> elapsed then (c, env)
      else (c \<lparr> co_Phase := Phase_Running,
              co_Plan := ResolveAddresses (Plan (env_profile env)) (OccupiedAddresses env) \<rparr>,
            stand_up (controller_for (se_ProbedIds env) (se_Revision env)) env))"
  using assms by (simp add: Advance_def Let_def engage_plan env_profile_def Plan_controller)

lemma controller_for_cases:
  assumes "controller_for probed revision = Some (type, ids)"
  shows "(type, ids) \<in> {(Emu_IAQ, AQUALINKTOUCH_IDS), (Emu_OneTouch, ONETOUCH_IDS), (Emu_PDA, PDA_IDS)}"
  using assms by (auto simp: controller_for_def Let_def split: if_splits)

lemma controller_addresses:
  assumes "controller_for probed revision = Some (type, ids)" "i \<in> set ids"
  shows "type \<noteq> Emu_Unknown" "type \<noteq> Emu_SerialAdapter" "i \<in> set (emulation_addresses type)"
    "i \<notin> set SERIALADAPTER_IDS" "i \<noteq> 0x43"
  using controller_for_cases [OF assms(1)] assms(2)
  by (auto simp: AQUALINKTOUCH_IDS_def ONETOUCH_IDS_def PDA_IDS_def SERIALADAPTER_IDS_def
      InstanceAddressesForClass_def KnownDeviceIdsList_def)

lemma stand_up_cases:
  obtains "stand_up (controller_for probed revision) env = env"
  | type ids i where "controller_for probed revision = Some (type, ids)" "i \<in> set ids"
    "find (\<lambda>i. i \<notin> OccupiedAddresses env) ids = Some i"
    "stand_up (controller_for probed revision) env = EmulateDevice type i env"
proof (cases "controller_for probed revision")
  case None
  then show ?thesis using that(1) by (simp add: stand_up_def)
next
  case (Some entry)
  obtain type ids where entry: "entry = (type, ids)" by (cases entry)
  show ?thesis
  proof (cases "SelectFreeAddress ids (OccupiedAddresses env)")
    case None
    then show ?thesis using that(1) Some entry by (simp add: stand_up_def)
  next
    case (Some i)
    then show ?thesis
      using that(2) [of type ids i] SelectFreeAddress_free [OF Some] \<open>controller_for probed revision = Some entry\<close> entry
      by (simp add: stand_up_def SelectFreeAddress_def)
  qed
qed

subsection \<open>Collisions\<close>

definition suppress :: "nat \<Rightarrow> StartupEnvironment \<Rightarrow> StartupEnvironment" where
  "suppress n env = env \<lparr> se_Hub := (se_Hub env)
     \<lparr> eh_ActiveDevices := (se_Devices env)[n := (se_Devices env ! n)
          \<lparr> hd_Emulated := SuppressEmulation (hd_Emulated (se_Devices env ! n)) \<rparr>] \<rparr> \<rparr>"

lemma suppress_frame [simp]:
  "se_EmulatedIds (suppress n env) = se_EmulatedIds env" "se_RespondedIds (suppress n env) = se_RespondedIds env"
  "se_Refresh (suppress n env) = se_Refresh env"
  by (simp_all add: suppress_def)

lemma suppress_ids: "n < length (se_Devices env) \<Longrightarrow> map hd_id (se_Devices (suppress n env)) = map hd_id (se_Devices env)"
  by (simp add: suppress_def map_update_same)

lemma EmulateDevice_suppress:
  assumes "n < length (se_Devices env)"
  shows "EmulateDevice type i (suppress n env) =
     (let env' = EmulateDevice type i env
      in env' \<lparr> se_Hub := (se_Hub env') \<lparr> eh_ActiveDevices := (se_Devices env')[n := (se_Devices env ! n)
          \<lparr> hd_Emulated := SuppressEmulation (hd_Emulated (se_Devices env ! n)) \<rparr>] \<rparr> \<rparr>)"
proof -
  have "hd_id ` set (se_Devices (suppress n env)) = hd_id ` set (se_Devices env)"
    using suppress_ids [OF assms] by (metis set_map)
  then show ?thesis using assms
    by (auto simp: EmulateDevice_alt AddDevice_def suppress_def Let_def list_update_append split: option.splits)
qed

lemma collide_suppress:
  assumes "n < length (se_Devices env)" "IsEmulationActive (hd_Emulated (se_Devices env ! n))"
    "hd_handler (se_Devices env ! n) = Some (type, i)"
  shows "collide n env = fst (RelocateEmulation type i (suppress n env))"
proof -
  have "OccupiedAddresses (suppress n env) = OccupiedAddresses env" by (simp add: OccupiedAddresses_def)
  with assms show ?thesis
    by (simp add: collide_def collision_active RelocateEmulation_def EmulateDevice_suppress Let_def
        split: option.splits) (simp add: suppress_def)
qed

lemma suppress_ok:
  assumes "environment_ok env" "n < length (se_Devices env)"
  shows "environment_ok (suppress n env)"
proof -
  have "active P (se_Devices (suppress n env)) \<le> active P (se_Devices env)" for P
  proof (cases "IsEmulationActive (hd_Emulated (se_Devices env ! n))")
    case True
    from active_suppress [OF assms(2) this, of P "hd_Emulated (se_Devices env ! n)"] show ?thesis
      by (simp add: suppress_def)
  next
    case False
    then have "map (\<lambda>d. P (hd_kind d) \<and> IsEmulationActive (hd_Emulated d)) (se_Devices (suppress n env)) =
        map (\<lambda>d. P (hd_kind d) \<and> IsEmulationActive (hd_Emulated d)) (se_Devices env)"
      using assms(2) by (auto simp: suppress_def IsEmulationActive_def SuppressEmulation_def intro!: map_update_same)
    then have "length (filter id (map (\<lambda>d. P (hd_kind d) \<and> IsEmulationActive (hd_Emulated d)) (se_Devices (suppress n env))))
        = length (filter id (map (\<lambda>d. P (hd_kind d) \<and> IsEmulationActive (hd_Emulated d)) (se_Devices env)))"
      by (rule arg_cong)
    then show ?thesis by (simp add: active_def filter_map comp_def)
  qed
  then have "active (\<lambda>kind. kind = SerialAdapterDevice) (se_Devices (suppress n env)) \<le> 1"
    "active (\<lambda>kind. kind \<noteq> SerialAdapterDevice) (se_Devices (suppress n env)) \<le> 1"
    using assms(1) unfolding environment_ok_def by (blast intro: order_trans)+
  moreover have "(\<forall>d \<in> set (se_Devices (suppress n env)). placed (se_EmulatedIds env) d)"
    using assms unfolding suppress_def environment_ok_def by (simp add: ball_update_same)
  ultimately show ?thesis
    using assms suppress_ids [OF assms(2)] by (simp add: environment_ok_def)
qed

lemma collide_ok:
  assumes ok: "environment_ok env"
  shows "environment_ok (collide n env)"
proof (cases "n < length (se_Devices env) \<and> IsEmulationActive (hd_Emulated (se_Devices env ! n))")
  case False
  then show ?thesis using ok collide_inactive by metis
next
  case True
  then have n: "n < length (se_Devices env)" "IsEmulationActive (hd_Emulated (se_Devices env ! n))" by simp_all
  define d where "d = se_Devices env ! n"
  have "placed (se_EmulatedIds env) d" using ok n(1) by (simp add: environment_ok_def d_def)
  moreover have "em_IsEmulated (hd_Emulated d)" using n(2) by (simp add: d_def IsEmulationActive_def)
  ultimately obtain type i where d: "hd_handler d = Some (type, i)" "i \<in> set (emulation_addresses type)"
    "hd_kind d = SerialAdapterDevice \<longleftrightarrow> type = Emu_SerialAdapter"
    by (auto simp: placed_def split: option.splits)
  let ?P = "\<lambda>kind. (kind = SerialAdapterDevice) = (type = Emu_SerialAdapter)"
  have "active ?P (se_Devices env) = active ?P (se_Devices (suppress n env)) + 1"
    using active_suppress [OF n, of ?P "hd_Emulated (se_Devices env ! n)"] d(3)
    by (simp add: suppress_def flip: d_def)
  moreover have "active ?P (se_Devices env) \<le> 1"
    using ok by (cases "type = Emu_SerialAdapter") (simp_all add: environment_ok_def)
  ultimately have none: "active ?P (se_Devices (suppress n env)) = 0" by simp
  obtain env' relocated where relocate: "RelocateEmulation type i (suppress n env) = (env', relocated)"
    by (cases "RelocateEmulation type i (suppress n env)")
  have env': "collide n env = env'" using collide_suppress [OF n] d(1) relocate by (simp add: d_def)
  show ?thesis
  proof (cases relocated)
    case False
    then show ?thesis using RelocateEmulation_cases [OF relocate] env' suppress_ok [OF ok n(1)] by simp
  next
    case True
    then obtain free where free: "env' = EmulateDevice type free (suppress n env)"
      "free \<in> set (emulation_addresses type)" "free \<notin> se_EmulatedIds (suppress n env)"
      using RelocateEmulation_cases [OF relocate] emulation_addresses_class [OF d(2)] by auto
    show ?thesis unfolding env' free(1)
      by (rule EmulateDevice_ok [OF suppress_ok [OF ok n(1)] free(2,3) none])
  qed
qed

lemma collide_adapter:
  assumes "environment_ok env" "no_controller env"
  shows "collide n env = env
    \<or> (n < length (se_Devices env) \<and> (collide n env = suppress n env
      \<or> (\<exists>free \<in> set SERIALADAPTER_IDS. collide n env = EmulateDevice Emu_SerialAdapter free (suppress n env))))"
proof (cases "n < length (se_Devices env) \<and> IsEmulationActive (hd_Emulated (se_Devices env ! n))")
  case False
  then show ?thesis using collide_inactive by metis
next
  case True
  then have n: "n < length (se_Devices env)" "IsEmulationActive (hd_Emulated (se_Devices env ! n))" by simp_all
  define d where "d = se_Devices env ! n"
  have "placed (se_EmulatedIds env) d" "em_IsEmulated (hd_Emulated d)" "hd_kind d = SerialAdapterDevice"
    using assms n by (auto simp: environment_ok_def no_controller_def d_def IsEmulationActive_def)
  then obtain i where d: "hd_handler d = Some (Emu_SerialAdapter, i)" "i \<in> set (emulation_addresses Emu_SerialAdapter)"
    by (auto simp: placed_def split: option.splits)
  have addresses: "set (emulation_addresses Emu_SerialAdapter) = set SERIALADAPTER_IDS" by code_simp
  obtain env' relocated where relocate: "RelocateEmulation Emu_SerialAdapter i (suppress n env) = (env', relocated)"
    by (cases "RelocateEmulation Emu_SerialAdapter i (suppress n env)")
  have "collide n env = env'" using collide_suppress [OF n] d(1) relocate by (simp add: d_def)
  with n(1) show ?thesis
    using RelocateEmulation_cases [OF relocate] emulation_addresses_class [OF d(2)] addresses
    by (cases relocated) auto
qed

lemma no_controller_suppress:
  assumes "no_controller env" "n < length (se_Devices env)"
  shows "no_controller (suppress n env)"
  using assms by (simp add: no_controller_def suppress_def ball_update_same)

lemma EmulateDevice_adapter:
  "no_controller env \<Longrightarrow> no_controller (EmulateDevice Emu_SerialAdapter i env)"
  by (cases rule: EmulateDevice_cases [of Emu_SerialAdapter i env])
     (auto simp: no_controller_def emulated_device_Some)

lemma EmulateDevice_ids: "se_EmulatedIds (EmulateDevice type i env) \<subseteq> insert i (se_EmulatedIds env)"
  by (cases rule: EmulateDevice_cases [of type i env]) auto

lemma collide_types:
  assumes "environment_ok env"
  shows "no_controller env \<Longrightarrow> no_controller (collide n env)"
    "only_adapters env \<Longrightarrow> only_adapters (collide n env)"
proof -
  show controller: "no_controller (collide n env)" if "no_controller env"
    using collide_adapter [OF assms that, of n]
    by (auto simp: that intro: no_controller_suppress [OF that] EmulateDevice_adapter [OF no_controller_suppress [OF that]])
  assume only: "only_adapters env"
  then have no: "no_controller env" by (simp add: only_adapters_def)
  have "se_EmulatedIds (collide n env) \<subseteq> set SERIALADAPTER_IDS"
    using collide_adapter [OF assms no, of n] only EmulateDevice_ids [of Emu_SerialAdapter _ "suppress n env"]
    by (fastforce simp: only_adapters_def)
  with controller [OF no] show "only_adapters (collide n env)" by (simp add: only_adapters_def)
qed

subsection \<open>The service\<close>

definition startup_ok :: "StartupService \<Rightarrow> bool" where
  "startup_ok sv \<longleftrightarrow>
     environment_ok (sv_Environment sv)
     \<and> (sv_TimerArmed sv \<longleftrightarrow> co_Phase (sv_Coordinator sv) = Phase_Detecting \<and> \<not> sv_Stopped sv)
     \<and> (case co_Phase (sv_Coordinator sv) of
          Phase_Detecting \<Rightarrow> only_adapters (sv_Environment sv) \<and> sv_TicksElapsed sv < DETECTION_WINDOW_TICKS
        | Phase_Running \<Rightarrow> True | _ \<Rightarrow> False)"

lemma Startup_Tick_detecting:
  assumes "co_Phase (sv_Coordinator sv) = Phase_Detecting" "\<not> sv_Stopped sv"
  shows "Startup_Tick sv =
     (let ticks = sv_TicksElapsed sv + 1; env = sv_Environment sv
      in if \<not> HaveControllerSignal env \<and> ticks < DETECTION_WINDOW_TICKS
         then sv \<lparr> sv_TicksElapsed := ticks, sv_TimerArmed := True \<rparr>
         else sv \<lparr> sv_TicksElapsed := ticks,
                   sv_Coordinator := (sv_Coordinator sv)
                     \<lparr> co_Phase := Phase_Running,
                       co_Plan := ResolveAddresses (Plan (env_profile env)) (OccupiedAddresses env) \<rparr>,
                   sv_Environment := stand_up (controller_for (se_ProbedIds env) (se_Revision env)) env,
                   sv_TimerArmed := False \<rparr>)"
  using assms by (simp add: Startup_Tick_def Advance_detecting Let_def not_le)

lemma stand_up_ok:
  assumes "environment_ok env" "only_adapters env"
  shows "environment_ok (stand_up (controller_for probed revision) env)"
proof (rule stand_up_cases [of probed revision env])
  fix type ids i
  assume up: "controller_for probed revision = Some (type, ids)" "i \<in> set ids"
    "stand_up (controller_for probed revision) env = EmulateDevice type i env"
  note i = controller_addresses [OF up(1,2)]
  have "i \<notin> se_EmulatedIds env" using assms(2) i(4) by (auto simp: only_adapters_def)
  moreover have "active (\<lambda>kind. (kind = SerialAdapterDevice) = (type = Emu_SerialAdapter)) (se_Devices env) = 0"
    using assms(2) i(2) by (auto simp: active_def only_adapters_def no_controller_def filter_empty_conv IsEmulationActive_def)
  ultimately show ?thesis unfolding up(3) by (intro EmulateDevice_ok assms(1) i(3))
qed (use assms in simp)

lemma Startup_Tick_ok:
  assumes "environment_ok (sv_Environment sv)" "only_adapters (sv_Environment sv)"
    "co_Phase (sv_Coordinator sv) = Phase_Detecting" "\<not> sv_Stopped sv"
  shows "startup_ok (Startup_Tick sv)"
  using assms stand_up_ok by (simp add: Startup_Tick_detecting Let_def startup_ok_def)

lemma startup_step_ok: "startup_ok sv \<Longrightarrow> startup_ok (startup_step e sv)"
proof (cases e)
  case Su_Timer
  assume "startup_ok sv"
  then show ?thesis using Su_Timer Startup_Tick_ok [of "sv \<lparr> sv_TimerArmed := False \<rparr>"]
    by (auto simp: startup_ok_def)
qed (auto simp: startup_ok_def Startup_Stop_def collide_types collide_ok observe_ok split: StartupPhase.splits)

lemma new_environment_ok: "environment_ok (new_environment r) \<and> only_adapters (new_environment r)"
  by (simp add: new_environment_def environment_ok_def only_adapters_def no_controller_def AddEquipment_def
      EquipmentExists_def new_hub_def active_def)

lemma new_service_ok: "startup_ok (Startup_Start (new_startup_service r))"
proof -
  have adapter: "(0x48 :: u8) \<in> set (emulation_addresses Emu_SerialAdapter)" "(0x48 :: u8) \<in> set SERIALADAPTER_IDS"
    by code_simp+
  have "environment_ok (EmulateDevice Emu_SerialAdapter 0x48 (new_environment r))"
    by (rule EmulateDevice_ok)
       (use new_environment_ok adapter in \<open>auto simp: new_environment_def active_def AddEquipment_def EquipmentExists_def new_hub_def\<close>)
  moreover have "only_adapters (EmulateDevice Emu_SerialAdapter 0x48 (new_environment r))"
    using new_environment_ok adapter(2) EmulateDevice_adapter EmulateDevice_ids [of Emu_SerialAdapter "0x48" "new_environment r"]
    unfolding only_adapters_def by blast
  ultimately show ?thesis unfolding Startup_Start_def
    by (simp add: Let_def Coordinator_Begin_def, intro Startup_Tick_ok)
       (simp_all add: new_startup_service_def new_coordinator_def SERIALADAPTER_IDS_def)
qed

lemma startup_run_ok: "startup_ok (startup_run r es)"
  by (induction es rule: rev_induct) (simp_all add: startup_run_def new_service_ok startup_step_ok)

text \<open>A panel that polls an AqualinkTouch, no acknowledgement seen.\<close>

definition polled :: "StartupEnvironment \<Rightarrow> bool" where
  "polled env \<longleftrightarrow> no_controller env \<and> 0x33 \<in> se_ProbedIds env \<and> se_RespondedIds env = {}
     \<and> 0x33 \<in> hd_id ` set (se_Devices env)"

lemma stand_up_polled:
  assumes "polled env"
  shows "polled (stand_up (controller_for (se_ProbedIds env) revision) env)"
proof -
  have touch: "\<exists>a \<in> se_ProbedIds env. 0x30 \<le> a \<and> a \<le> 0x33"
    using assms by (intro bexI [of _ "0x33"]) (simp_all add: polled_def)
  have free: "OccupiedAddresses env = {}" using assms by (simp add: polled_def OccupiedAddresses_def)
  have "polled (EmulateDevice Emu_IAQ 0x33 env)"
    using assms by (auto simp: polled_def no_controller_def EmulateDevice_alt AddDevice_devices emulated_device_Some
        split: option.splits)
  then show ?thesis using assms touch free
    by (auto simp: stand_up_def controller_for_def SelectFreeAddress_def AQUALINKTOUCH_IDS_def Let_def)
qed

lemma observe_polled:
  assumes "polled env" "\<forall>dest. e \<noteq> Saw Ack dest"
  shows "polled (observe e env)"
proof -
  have "0x33 \<in> se_ProbedIds (observe e env) \<and> se_RespondedIds (observe e env) = {}"
  proof (cases e)
    case (Saw message_id dest)
    with assms show ?thesis by (cases message_id) (auto simp: polled_def)
  qed (use assms in \<open>simp add: polled_def\<close>)
  moreover have "set (se_Devices env) \<subseteq> set (se_Devices (observe e env))" using observe_devices [of e env] by auto
  ultimately show ?thesis using assms observe_ok(2) by (auto simp: polled_def)
qed

lemma collide_polled:
  assumes "polled env" "environment_ok env"
  shows "polled (collide n env)"
proof -
  have no: "no_controller env" using assms by (simp add: polled_def)
  have frame: "se_ProbedIds (EmulateDevice type i env') = se_ProbedIds env'"
    "se_RespondedIds (EmulateDevice type i env') = se_RespondedIds env'" for type i env'
    by (simp_all add: EmulateDevice_alt split: option.splits)
  have ids: "hd_id ` set (se_Devices (suppress n env)) = hd_id ` set (se_Devices env)"
    if "n < length (se_Devices env)" using suppress_ids [OF that] by (metis set_map)
  have more: "set (se_Devices env') \<subseteq> set (se_Devices (EmulateDevice type i env'))" for type i env'
    by (cases rule: EmulateDevice_cases [of type i env']) auto
  have probed: "se_ProbedIds (suppress n env) = se_ProbedIds env" by (simp add: suppress_def)
  define seen where "seen env' \<longleftrightarrow> 0x33 \<in> se_ProbedIds env' \<and> se_RespondedIds env' = {}
      \<and> 0x33 \<in> hd_id ` set (se_Devices env')" for env'
  have env: "seen env" using assms(1) by (simp add: polled_def seen_def)
  have suppressed: "seen (suppress n env)" if "n < length (se_Devices env)"
    using env ids [OF that] probed by (simp add: seen_def)
  have emulated: "seen (EmulateDevice type i env')" if "seen env'" for type i env'
    using that image_mono [OF more, of hd_id env' type i] unfolding seen_def frame by blast
  have "seen (collide n env)"
    using collide_adapter [OF assms(2) no, of n] env suppressed emulated by metis
  with collide_types(1) [OF assms(2) no] show ?thesis by (simp add: polled_def seen_def)
qed

lemma startup_step_polled:
  assumes "startup_ok sv" "polled (sv_Environment sv)" "\<forall>dest. e \<noteq> Su_Bus (Saw Ack dest)"
  shows "polled (sv_Environment (startup_step e sv))"
proof (cases e)
  case (Su_Bus b)
  then show ?thesis using assms observe_polled by auto
next
  case Su_Timer
  show ?thesis
  proof (cases "sv_TimerArmed sv")
    case True
    then have "co_Phase (sv_Coordinator sv) = Phase_Detecting" "\<not> sv_Stopped sv"
      using assms(1) by (simp_all add: startup_ok_def)
    with Su_Timer True assms(2) stand_up_polled show ?thesis
      by (simp add: Startup_Tick_detecting [of "sv \<lparr> sv_TimerArmed := False \<rparr>"] Let_def)
  qed (use Su_Timer assms(2) in simp)
next
  case (Su_Collision n)
  then show ?thesis using assms collide_polled by (simp add: startup_ok_def)
next
  case Su_Stop
  then show ?thesis using assms by (simp add: Startup_Stop_def)
qed

section \<open>Properties\<close>

lemma startup_ticks:
  assumes "Su_Stop \<notin> set es"
  shows "let sv = startup_run r es; timers = length (filter (\<lambda>e. e = Su_Timer) es) in
     \<not> sv_Stopped sv \<and>
     (co_Phase (sv_Coordinator sv) \<noteq> Phase_Running \<longrightarrow> unat (sv_TicksElapsed sv) = Suc timers)"
  using assms
proof (induction es rule: rev_induct)
  case Nil
  then show ?case
    by (simp add: startup_run_def Startup_Start_def Coordinator_Begin_def Startup_Tick_detecting Let_def
        new_startup_service_def new_coordinator_def)
next
  case (snoc e es)
  define sv where "sv = startup_run r es"
  have step: "startup_run r (es @ [x]) = startup_step x sv" for x by (simp add: startup_run_def sv_def)
  have IH: "\<not> sv_Stopped sv" "co_Phase (sv_Coordinator sv) \<noteq> Phase_Running \<Longrightarrow>
      unat (sv_TicksElapsed sv) = Suc (length (filter (\<lambda>e. e = Su_Timer) es))"
    using snoc by (simp_all add: Let_def sv_def)
  have ok: "startup_ok sv" by (simp add: sv_def startup_run_ok)
  show ?case
  proof (cases e)
    case Su_Timer
    show ?thesis
    proof (cases "co_Phase (sv_Coordinator sv) = Phase_Detecting")
      case True
      then have "sv_TicksElapsed sv < 5" using ok by (simp add: startup_ok_def DETECTION_WINDOW_TICKS_def)
      then have "unat (sv_TicksElapsed sv + 1) = Suc (unat (sv_TicksElapsed sv))"
        by (intro unat_plus_simple [THEN iffD1, THEN trans]) (simp_all add: word_le_nat_alt word_less_nat_alt unat_word_ariths)
      with True IH ok Su_Timer show ?thesis unfolding step
        by (simp add: Startup_Tick_detecting Let_def startup_ok_def)
    next
      case False
      then have "co_Phase (sv_Coordinator sv) = Phase_Running" "\<not> sv_TimerArmed sv"
        using ok by (auto simp: startup_ok_def split: StartupPhase.splits)
      with IH Su_Timer show ?thesis unfolding step by (simp add: Let_def)
    qed
  qed (use IH snoc.prems in \<open>simp_all add: step Let_def\<close>)
qed

text \<open>
  C13: whatever is seen on the bus, however the timer fires and whichever emulations a real device
  collides with, the devices of the hub all have different addresses, every device that emulates or ever did
  stands at an address of its own class, and at most one serial adapter and at most one other device still
  transmits.
\<close>

theorem emulations_do_not_clash:
  "let env = sv_Environment (startup_run r es); devices = se_Devices env
   in distinct (map hd_id devices)
      \<and> length (filter (\<lambda>d. hd_kind d = SerialAdapterDevice \<and> IsEmulationActive (hd_Emulated d)) devices) \<le> 1
      \<and> length (filter (\<lambda>d. hd_kind d \<noteq> SerialAdapterDevice \<and> IsEmulationActive (hd_Emulated d)) devices) \<le> 1
      \<and> list_all (\<lambda>d. \<exists>type. hd_handler d = Some (type, hd_id d) \<and> hd_id d \<in> set (emulation_addresses type))
           (filter (\<lambda>d. em_IsEmulated (hd_Emulated d)) devices)"
  using startup_run_ok [of r es]
  by (fastforce simp: startup_ok_def environment_ok_def active_def placed_def list_all_iff Let_def
      split: option.splits)



text \<open>
  C25: the service does not detect for ever: once the timer has fired four times after \<open>Start\<close>, whatever was
  seen in between, start-up is complete and no further tick is scheduled.
\<close>

theorem startup_reaches_running:
  assumes "Su_Stop \<notin> set es" "length (filter (\<lambda>e. e = Su_Timer) es) \<ge> 4"
  shows "co_Phase (sv_Coordinator (startup_run r es)) = Phase_Running \<and> \<not> sv_TimerArmed (startup_run r es)"
proof -
  define sv where "sv = startup_run r es"
  have ok: "startup_ok sv" by (simp add: sv_def startup_run_ok)
  have "co_Phase (sv_Coordinator sv) = Phase_Running"
  proof (rule ccontr)
    assume not: "co_Phase (sv_Coordinator sv) \<noteq> Phase_Running"
    then have "unat (sv_TicksElapsed sv) \<ge> 5"
      using startup_ticks [OF assms(1), of r] assms(2) by (simp add: Let_def sv_def)
    moreover have "sv_TicksElapsed sv < 5"
      using ok not by (auto simp: startup_ok_def DETECTION_WINDOW_TICKS_def split: StartupPhase.splits)
    ultimately show False by (simp add: word_less_nat_alt)
  qed
  with ok show ?thesis by (simp add: startup_ok_def sv_def)
qed

theorem startup_reaches_running_witness:
  "co_Phase (sv_Coordinator (startup_run 60 [Su_Timer, Su_Timer, Su_Timer, Su_Timer])) = Phase_Running"
  using startup_reaches_running [of "[Su_Timer, Su_Timer, Su_Timer, Su_Timer]" 60] by simp





text \<open>Relocation reaches the address at which no emulation is started.\<close>

lemma relocation_takes_reserved_slot:
  "map hd_id (se_Devices (sv_Environment (startup_run 60
     [Su_Bus (Saw Probe 0x40), Su_Bus (Saw Ack 0x00), Su_Bus (Saw Probe 0x42), Su_Bus (Saw Ack 0x00),
      Su_Bus (Saw Probe 0x41), Su_Timer, Su_Collision 1]))) = [0x48, 0x41, 0x43]"
  by code_simp

text \<open>The provisional choice that a revision made is not revised when another controller is probed.\<close>

lemma running_not_revised:
  assumes "co_Phase (sv_Coordinator (startup_run r es)) = Phase_Running"
  shows "sv_Coordinator (startup_run r (es @ es')) = sv_Coordinator (startup_run r es)"
proof (induction es' rule: rev_induct)
  case (snoc e es')
  then show ?case using assms startup_run_ok [of r "es @ es'"]
    by (cases e) (auto simp: startup_run_def startup_ok_def Startup_Stop_def)
qed simp

end
