(* ===== verification/Spec2Isabelle.thy ===== *)
theory Spec2Isabelle
  imports Protocol_Properties Network_Port Controller_Schedule Subject_Resolver OneTouch_Crawl
    Iaq_Properties Startup
begin

text \<open>
  A verification library for Aqualink Automate, a server that listens to and drives a Jandy/Zodiac pool
  controller over its RS-485 bus, locally or through an RFC 2217 gateway, and offers schedules and an
  authenticated HTTP interface. All paths are under \<open>src/src/\<close>.

  PARTS AND HOW THEY INTERACT. Bytes arrive through a serial port; \<open>protocol/protocol_task.cpp\<close>
  polls it, appends them to its buffer and lets the registered message generators cut messages out of
  the buffer; each message is dispatched to the handlers, and what those queue is written back in the
  same poll. The generators know the wire formats of the two protocols on the bus. A network port puts
  the RFC 2217 filter between the socket and the task. The scheduler issues commands when the minute of
  a schedule is entered; the access layer decides for every HTTP request who asks and whether it may.
  An AqualinkTouch panel, emulated or only listened to, decodes the pages the controller draws and carries
  keys on its answers to polls; three writers walk its pages to set a chlorinator value, a spa switch or a
  program of the controller. An emulated OneTouch keypad is how settings are read and equipment is operated: it keeps the page the
  controller draws, a navigator finds its way through the menu by pressing keys, and the spider engine
  drives the navigator over every page a visit policy wants.

  THEORIES.
  \<^item> Prelude: checked reads of a span, first occurrences of a pattern, widths of words.
  \<^item> Jandy_Wire, Jandy_Ids, Jandy_Payloads, Jandy_Contents, Jandy_Message: checksum and stuffing, the
    identifier types, the payload types and the decoder and encoder of every message class, the envelope
    and the factory (\<open>jandy/messages/\<close>, \<open>jandy/utility/\<close>, \<open>jandy/types/\<close>).
  \<^item> Generator_Interface states as locales what the task may assume of a generator; Jandy_Generator,
    Pentair (\<open>pentair/\<close>) and Protocol_Registry interpret them; Jandy_Properties proves the
    round trip, the bounds of the decoders and the strength of the checksum.
  \<^item> Protocol_Task and Protocol_Properties: the poll with its three loops, and what it guarantees.
  \<^item> Rfc2217, Endpoint, Network_Port: the protocol filter and the negotiation (\<open>core/serial/rfc2217/\<close>),
    the address parser (\<open>core/utility/endpoint_parser.cpp\<close>), the network port
    (\<open>core/serial/port_types/\<close>).
  \<^item> Schedule, Scheduler, Controller_Schedule: schedules and their JSON form, the service that fires and
    stores them, the programs of the controller and the promotion of schedules to them
    (\<open>core/scheduling/\<close>).
  \<^item> Entitlement, User_Store, Session_Store, Token_Codec, Session_Service, Subject_Resolver: the
    entitlements and the decision, groups, accounts, refresh sessions, signing keys and access tokens,
    login with its lockout, the kiosk PIN, API keys, the subject of a request (\<open>core/auth/\<close> and
    the routes and checks that use it). Credential_Store is the contract the session store and the API key
    store give to whoever relies on a revocation; both interpret it.
  \<^item> Screen_Page: the rows of a screen, their highlighting and shifting, the page processors and the
    screen of a device (\<open>jandy/utility/screen_data_page*\<close>, \<open>jandy/devices/capabilities/screen\<close>).
  \<^item> Menu_Model, OneTouch_Menu, Navigator, Navigation_Properties, Spider, Spider_Properties,
    OneTouch_Crawl: recognition of pages and the path search, the menu of the OneTouch with one
    definition for each registered page, the navigator with one definition for each of its operations,
    the visit policies and the crawl (\<open>jandy/navigation/\<close>). The hash map of pages is iterated in an
    order the library does not fix, so the order is an argument and the theorems hold for every one.
  \<^item> Device_Capabilities: the permission to transmit, the watchdog, the published status and the command
    log of a device (\<open>jandy/devices/capabilities/emulated\<close>, \<open>core/devices/capabilities/\<close>).
  \<^item> Iaq_Page, Iaq_Sink, Iaq_Aquapure, Iaq_Spaswitch, Iaq_Schedule_Writer, Iaq_Device, Iaq_Properties: the
    AqualinkTouch (\<open>jandy/devices/iaq_device.cpp\<close>, \<open>jandy/devices/iaq/\<close>): the page it shows with its
    rows and buttons, the three page writers, the device with one definition for each message slot and
    request. Iaq_Sink states as locales what a writer keeps (one command for each poll, a dwell after each
    key, an end) and when a goal served by some of a machine's events ends; each writer interprets the
    first, each goal of the device the second.
  \<^item> Equipment_Hub: the hub that holds the devices, the emulated devices that can be made, the equipment that
    registers a listening device for every address in use (\<open>core/kernel/equipment_hub.cpp\<close>,
    \<open>jandy/equipment/jandy_equipment.cpp\<close>).
  \<^item> Startup: what a software revision implies, the plan of what to emulate, the coordinator, the environment
    that watches the bus, and the ticks of the service (\<open>jandy/startup/\<close>).
  \<^item> This theory composes the network port with the task.

  HOW THE STATE CORRESPONDS. A class is a record with its members' names, sometimes behind a prefix that
  keeps the fields of different records apart; an operation takes its arguments, the answers of the
  outside world and the state, and returns the state and its result. Integers that are compared, masked
  or wrapped are words of their width. Errors are branches: sums, options, \<open>outcome\<close> for store
  operations, \<open>attempt\<close> for calls that may throw. Where a call is finished on another thread
  (a login), it is two definitions, so that other operations can come between.

  WHAT THE LEMMAS SHOW. Round trips for both wire formats, schedules, addresses, entitlements, group
  stores, keys and tokens; that decoders stay inside their packet; that polls terminate, keep the buffer
  bounded, lose no queued write and dispatch batches in order; that a schedule fires once in each minute
  it names, survives restarts and commands only in range; that stores implement maps; that a request is
  decided on exactly what the stores grant, that revocation is immediate and refresh secrets work once;
  that a path is a shortest one, the recognised page a most specific one, that the navigator always
  answers, presses nothing while it waits and only Back at a prompt, and that a crawl reports each page
  once (the page with an instance for each auxillary once for each) and misses only what it could not
  reach; that every goal of the AqualinkTouch ends and excludes the others, that a message is answered once
  and only when the device may transmit, that values are submitted on the page and row they belong to,
  that success is reported when it was seen, and that the schedule page is published as it was shown; that
  emulations never share an address, that start-up ends and which controller it stands up.
  Some theorems state behaviour that contradicts a comment or plainly is not meant: a packet lost when it
  is split, a full buffer that stalls, the reach of a group edit, logins in parallel, kiosk sessions that
  cannot be refreshed, an administrators group that can be emptied, a stuck cursor whose line is
  selected nevertheless, a key lost on the bus after which the wrong row is opened, a setpoint that swallows
  the key of a goal under way, a heartbeat that stays stale after one pause, an address marked as occupied by
  an acknowledgement meant for something else, a controller that is not emulated because its polls made the
  process listen at its address.

  BOUNDS AND FUEL. The model runs on no fuel: the counter of \<open>run_within\<close> only occurs in proofs. The parse loop of the task is a \<open>partial_function\<close>
  into options, and \<open>poll_terminates\<close> proves it defined on the registered generators; the other
  loops recurse on their data or carry a termination proof. The steps of the navigator call each other;
  \<open>run_calls\<close> is a \<open>partial_function\<close> too, and \<open>navigator_answers\<close> proves it defined after
  at most six calls on every well linked menu. The path search ends because each page enters its queue
  once. A crawl of the OneTouch makes at most 66 reports, 35 pages and 31 rows of auxillaries. A goal of the AqualinkTouch ends within 401 polls, the limits its writers
  count to. Buffer capacities, retry limits, lockouts and
  lifetimes are the constants of the source.

  PARAMETERS. The answers of sockets and files, the handlers behind the dispatch, the JSON library
  (\<open>json_laws\<close>), the token library (\<open>jwt_laws\<close>), SHA-256, argon2, random bytes, fresh ids
  and the clock. Each law has an instance in a witness.

  NOT MODELLED. Of the AqualinkTouch what a main or auxillary status writes into the data hub. The other
  devices that handle messages and the hubs of equipment data. Alerts, history, preferences and the MQTT and HTTP services are for the
  most part input and output through libraries. Logging, profiling, options and platform code carry no
  state the modelled parts depend on.
\<close>

section \<open>From the remote bus to the handlers\<close>

lemma drain_all_reads:
  "list_all (\<lambda>c. c \<noteq> [] \<and> length c \<le> SERIAL_READ_CHUNK_SIZE) reads \<Longrightarrow>
   length buffer + length (concat reads) \<le> SERIAL_CIRCULAR_BUFFER_SIZE \<Longrightarrow>
   drain_reads_loop False (map ReadBytes reads) buffer dropped = (buffer @ concat reads, dropped, [])"
proof (induction reads arbitrary: buffer)
  case Nil
  then show ?case by simp
next
  case (Cons c reads)
  then have "take SERIAL_READ_CHUNK_SIZE c = c" "insert_chunk buffer c = (buffer @ c, 0)"
    by (simp_all add: insert_chunk_def Let_def)
  with Cons show ?case by simp
qed

lemma handled_world:
  "m_World (fold (\<lambda>r. HandleParsedMessage dispatch (JandyMsg r)) rs t)
     = fold (\<lambda>r w. fst (dispatch (JandyMsg r) w)) rs (m_World t)"
  "m_SerialBuffer (fold (\<lambda>r. HandleParsedMessage dispatch (JandyMsg r)) rs t) = m_SerialBuffer t"
  by (induction rs arbitrary: t) (simp_all add: parsed_world)

lemma drain_writes_frame [simp]:
  "m_World (fst (DrainWrites w t)) = m_World t"
  "m_SerialBuffer (fst (DrainWrites w t)) = m_SerialBuffer t"
  by (auto simp: DrainWrites_def split: prod.split)

lemma poll_result:
  assumes "DrainWrites w_answers t = (t1, wire1, w1)" "DrainReads r_answers t1 = (t2, r1)"
    and "ProcessMessages gen dispatch t2 0 = Some (t3, n)" "DrainWrites w1 t3 = (t4, wire2, w2)"
  shows "\<exists>busy t' wire. Poll gen dispatch w_answers r_answers t = Some (busy, t', wire)
     \<and> m_World t' = m_World t4 \<and> m_SerialBuffer t' = m_SerialBuffer t4"
proof (cases "m_SerialBuffer t2 = []")
  case True
  then have "ProcessMessages gen dispatch t2 0 = Some (t2, 0)"
    by (subst ProcessMessages.simps) simp
  with assms(3) have "t3 = t2" by simp
  with assms(4) drain_writes_frame [of w1 t2] have "m_World t4 = m_World t2"
    "m_SerialBuffer t4 = m_SerialBuffer t2" by simp_all
  then show ?thesis using True by (simp add: Poll_def assms(1,2) Let_def)
next
  case False
  then show ?thesis by (simp add: Poll_def assms Let_def)
qed

text \<open>
  One poll of a task with an empty buffer whose port answers the given reads: a batch of
  serialised messages among them is dispatched.
\<close>

lemma poll_dispatches:
  assumes "m_SerialBuffer t = []" "\<not> m_SingleReadPerPoll t"
    and "list_all (\<lambda>c. c \<noteq> [] \<and> length c \<le> SERIAL_READ_CHUNK_SIZE) reads"
    and "concat reads = concat (map on_wire ms)"
    and "length (concat (map on_wire ms)) \<le> SERIAL_CIRCULAR_BUFFER_SIZE"
    and "list_all sendable ms" "no_preamble (concat (map on_wire ms))"
  shows "\<exists>rs busy t' wire. list_all2 received_as ms rs
     \<and> Poll bus_generator dispatch w_answers (map ReadBytes reads) t = Some (busy, t', wire)
     \<and> m_SerialBuffer t' = []
     \<and> m_World t' = fold (\<lambda>r w. fst (dispatch (JandyMsg r) w)) rs (m_World t)"
proof -
  obtain t1 wire1 w1 where w: "DrainWrites w_answers t = (t1, wire1, w1)" by (metis prod_cases3)
  then have t1: "m_SerialBuffer t1 = []" "m_World t1 = m_World t" "\<not> m_SingleReadPerPoll t1"
    using assms(1,2) drain_writes_frame [of w_answers t]
    by (auto simp: DrainWrites_def split: prod.splits)
  let ?t2 = "fst (DrainReads (map ReadBytes reads) t1)"
  have reads: "drain_reads_loop False (map ReadBytes reads) [] 0 = (concat (map on_wire ms), 0, [])"
    using drain_all_reads [OF assms(3), of "[]" 0] assms(4,5) by simp
  then have t2: "m_World ?t2 = m_World t" "m_SerialBuffer ?t2 = concat (map on_wire ms)"
    using t1 by (simp_all add: DrainReads_def)
  then have eq: "?t2 \<lparr> m_SerialBuffer := concat (map on_wire ms) \<rparr> = ?t2" by simp
  obtain rs where rs: "list_all2 received_as ms rs"
    "ProcessMessages bus_generator dispatch ?t2 0
       = Some (fold (\<lambda>r. HandleParsedMessage dispatch (JandyMsg r)) rs (?t2 \<lparr> m_SerialBuffer := [] \<rparr>),
               length ms)"
    using batch_dispatched [OF assms(6,7), of dispatch ?t2 0] eq by auto
  let ?t3 = "fold (\<lambda>r. HandleParsedMessage dispatch (JandyMsg r)) rs (?t2 \<lparr> m_SerialBuffer := [] \<rparr>)"
  obtain t4 wire2 w2 where w2: "DrainWrites w1 ?t3 = (t4, wire2, w2)" by (metis prod_cases3)
  have t3: "m_SerialBuffer ?t3 = []" "m_World ?t3 = fold (\<lambda>r w. fst (dispatch (JandyMsg r) w)) rs (m_World t)"
    by (simp_all add: handled_world t2(1))
  with w2 drain_writes_frame [of w1 ?t3] have t4: "m_SerialBuffer t4 = []"
    "m_World t4 = fold (\<lambda>r w. fst (dispatch (JandyMsg r) w)) rs (m_World t)" by simp_all
  obtain answers' where r: "DrainReads (map ReadBytes reads) t1 = (?t2, answers')" by (metis prod.collapse)
  obtain busy t' wire where "Poll bus_generator dispatch w_answers (map ReadBytes reads) t
      = Some (busy, t', wire)" "m_World t' = m_World t4" "m_SerialBuffer t' = m_SerialBuffer t4"
    using poll_result [OF w r rs(2) w2] by blast
  with rs(1) t4 show ?thesis by metis
qed


definition remote_items :: "telnet_item list" where
  "remote_items = map Data (on_wire probe_message) @ [Option WILL COM_PORT_OPTION] @
     map Data (on_wire probe_message)"

definition remote_chunks :: "bytes list" where
  "remote_chunks = (let bs = concat (map encode_item remote_items) in [take 3 bs, drop 3 bs])"


end
